(* ===== verification/Prelude.thy ===== *)
theory Prelude
  imports Main "HOL-Library.Word" "HOL-Library.Char_ord" "HOL-Library.List_Lexorder"
begin

text \<open>
  The shared base of the development: the outcome of a Rust call (a returned value, a
  returned error, or a panic), the checked machine arithmetic the contracts use, and the
  generic list lemmas the component theories rely on.

  \<^item> \<open>result\<close> is Rust's \<open>Result\<close> with one more constructor for a panic, because a panic is
    not an error value: \<open>.ok()\<close> or a \<open>match\<close> on \<open>Err(_)\<close> swallows an \<open>Err\<close> but never a panic.
  \<^item> \<open>and_then\<close> is the \<open>?\<close> operator: the rest of the function runs on the value, an error or
    a panic ends it.
  \<^item> the release profile sets \<open>overflow-checks = true\<close> and \<open>panic = 'abort'\<close> (Cargo.toml), so
    \<open>+\<close>, \<open>-\<close>, \<open>*\<close> on machine integers panic on overflow instead of wrapping.
\<close>

section \<open>Collections of facts\<close>

named_theorems result_simps \<open>inversion of successful, failing and panicking computations\<close>
named_theorems arith_simps \<open>checked machine arithmetic read in the natural numbers\<close>

section \<open>Outcomes of a call\<close>

datatype ('a, 'e) result = Ok 'a | Err 'e | Panic

primrec and_then :: "('a, 'e) result \<Rightarrow> ('a \<Rightarrow> ('b, 'e) result) \<Rightarrow> ('b, 'e) result" where
  "and_then (Ok x) f = f x"
| "and_then (Err e) f = Err e"
| "and_then Panic f = Panic"

primrec map_err :: "('e \<Rightarrow> 'f) \<Rightarrow> ('a, 'e) result \<Rightarrow> ('a, 'f) result" where
  "map_err g (Ok x) = Ok x"
| "map_err g (Err e) = Err (g e)"
| "map_err g Panic = Panic"

definition ensure :: "bool \<Rightarrow> 'e \<Rightarrow> (unit, 'e) result" where
  "ensure b e = (if b then Ok () else Err e)"

definition ok_or :: "'e \<Rightarrow> 'a option \<Rightarrow> ('a, 'e) result" where
  "ok_or e x = (case x of Some v \<Rightarrow> Ok v | None \<Rightarrow> Err e)"

primrec is_ok :: "('a, 'e) result \<Rightarrow> bool" where
  "is_ok (Ok x) = True"
| "is_ok (Err e) = False"
| "is_ok Panic = False"

text \<open>A \<open>for\<close> loop whose body may fail, over a state that the body updates.\<close>

fun try_fold :: "('s \<Rightarrow> 'x \<Rightarrow> ('s, 'e) result) \<Rightarrow> 's \<Rightarrow> 'x list \<Rightarrow> ('s, 'e) result" where
  "try_fold f s [] = Ok s"
| "try_fold f s (x # xs) = and_then (f s x) (\<lambda>s'. try_fold f s' xs)"

text \<open>\<open>iter().map(f).collect::<Result<Vec<_>, _>>()\<close>: the first failure ends the loop.\<close>

fun try_map :: "('x \<Rightarrow> ('y, 'e) result) \<Rightarrow> 'x list \<Rightarrow> ('y list, 'e) result" where
  "try_map f [] = Ok []"
| "try_map f (x # xs) = and_then (f x) (\<lambda>y. and_then (try_map f xs) (\<lambda>ys. Ok (y # ys)))"

text \<open>
  A contract call that returns an error or panics leaves the storage as it was: the host
  rolls the transaction back.
\<close>

definition commit :: "'s \<Rightarrow> ('r \<times> 's, 'e) result \<Rightarrow> 's" where
  "commit s r = (case r of Ok (_, s') \<Rightarrow> s' | _ \<Rightarrow> s)"

text \<open>One optional field of an update message: an absent field leaves the state alone.\<close>

definition upd_field :: "('v \<Rightarrow> 's \<Rightarrow> ('s, 'e) result) \<Rightarrow> 'v option \<Rightarrow> 's \<Rightarrow> ('s, 'e) result" where
  "upd_field f v st = (case v of None \<Rightarrow> Ok st | Some x \<Rightarrow> f x st)"

subsection \<open>Inversion\<close>

lemma upd_field_simps [simp]: "upd_field f None st = Ok st" "upd_field f (Some x) st = f x st"
  by (simp_all add: upd_field_def)

text \<open>A sequence of field updates keeps every reflexive and transitive relation its steps keep.\<close>

lemma upd_field_chain:
  assumes "and_then (upd_field f v st) k = Ok (r, st')"
    and "\<And>s. k s = Ok (r, st') \<Longrightarrow> R s st'"
    and "\<And>x s. v = Some x \<Longrightarrow> f x st = Ok s \<Longrightarrow> R st s"
    and "\<And>s. R s s" and "\<And>a b c. R a b \<Longrightarrow> R b c \<Longrightarrow> R a c"
  shows "R st st'"
proof (cases v)
  case None
  with assms(1,2) show ?thesis by (simp add: upd_field_def)
next
  case (Some x)
  with assms(1) obtain s where "f x st = Ok s" "k s = Ok (r, st')"
    by (cases "f x st") (auto simp: upd_field_def)
  with Some assms(2,3,5) show ?thesis by blast
qed

lemma and_then_eq_Ok [result_simps]:
  "and_then m f = Ok y \<longleftrightarrow> (\<exists>x. m = Ok x \<and> f x = Ok y)"
  by (cases m) auto

lemma and_then_eq_Err [result_simps]:
  "and_then m f = Err e \<longleftrightarrow> m = Err e \<or> (\<exists>x. m = Ok x \<and> f x = Err e)"
  by (cases m) auto

lemma and_then_eq_Panic [result_simps]:
  "and_then m f = Panic \<longleftrightarrow> m = Panic \<or> (\<exists>x. m = Ok x \<and> f x = Panic)"
  by (cases m) auto

lemma map_err_eq [result_simps]:
  "map_err g m = Ok x \<longleftrightarrow> m = Ok x"
  "map_err g m = Err e \<longleftrightarrow> (\<exists>e'. m = Err e' \<and> e = g e')"
  "map_err g m = Panic \<longleftrightarrow> m = Panic"
  by (cases m; auto)+

lemma ensure_eq [result_simps]:
  "ensure b e = Ok u \<longleftrightarrow> b"
  "ensure b e = Err e' \<longleftrightarrow> \<not> b \<and> e' = e"
  "ensure b e \<noteq> Panic"
  by (auto simp: ensure_def)

lemma ensure_simps [simp]: "ensure True e = Ok ()" "ensure False e = Err e"
  by (simp_all add: ensure_def)

lemma ok_or_eq [result_simps]:
  "ok_or e x = Ok v \<longleftrightarrow> x = Some v"
  "ok_or e x = Err e' \<longleftrightarrow> x = None \<and> e' = e"
  "ok_or e x \<noteq> Panic"
  by (cases x; auto simp: ok_or_def)+

lemma ok_or_simps [simp]: "ok_or e (Some v) = Ok v" "ok_or e None = Err e"
  by (simp_all add: ok_or_def)

lemma is_ok_iff: "is_ok r \<longleftrightarrow> (\<exists>x. r = Ok x)"
  by (cases r) auto

lemma and_then_assoc: "and_then (and_then m f) g = and_then m (\<lambda>x. and_then (f x) g)"
  by (cases m) auto

lemma and_then_cong [fundef_cong]:
  assumes "m = m'" and "\<And>x. m' = Ok x \<Longrightarrow> f x = f' x"
  shows "and_then m f = and_then m' f'"
  using assms by (cases m') auto

lemma and_then_Ok_right [simp]: "and_then m Ok = m"
  by (cases m) auto

lemma commit_simps [simp]:
  "commit s (Ok (r, s')) = s'" "commit s (Err e) = s" "commit s Panic = s"
  by (simp_all add: commit_def)

lemma commit_cases:
  assumes "\<And>r s'. m = Ok (r, s') \<Longrightarrow> P s'" and "P s"
  shows "P (commit s m)"
  using assms by (auto simp: commit_def split: result.splits)

lemma try_fold_append:
  "try_fold f s (xs @ ys) = and_then (try_fold f s xs) (\<lambda>s'. try_fold f s' ys)"
  by (induction xs arbitrary: s) (auto simp: and_then_assoc)

lemma try_fold_invariant:
  assumes "try_fold f s xs = Ok s'" and "P s"
    and "\<And>s x s'. x \<in> set xs \<Longrightarrow> P s \<Longrightarrow> f s x = Ok s' \<Longrightarrow> P s'"
  shows "P s'"
  using assms
proof (induction xs arbitrary: s)
  case Nil
  then show ?case by simp
next
  case (Cons x xs)
  then obtain s1 where s1: "f s x = Ok s1" "try_fold f s1 xs = Ok s'"
    by (auto simp: result_simps)
  moreover from s1(1) Cons.prems(2,3) have "P s1"
    by (metis list.set_intros(1))
  ultimately show ?case using Cons.prems(3) by (metis Cons.IH list.set_intros(2))
qed

lemma try_map_Ok_iff: "try_map f xs = Ok ys \<longleftrightarrow> list_all2 (\<lambda>x y. f x = Ok y) xs ys"
proof (induction xs arbitrary: ys)
  case Nil
  then show ?case by auto
next
  case (Cons x xs)
  then show ?case by (cases ys) (auto simp: result_simps)
qed

lemma try_map_append:
  "try_map f (xs @ ys) = and_then (try_map f xs) (\<lambda>as. and_then (try_map f ys) (\<lambda>bs. Ok (as @ bs)))"
  by (induction xs) (auto simp: and_then_assoc)

section \<open>Machine integers\<close>

type_synonym u8 = "8 word"
type_synonym u32 = "32 word"
type_synonym u64 = "64 word"
type_synonym u128 = "128 word"

text \<open>\<open>+\<close>, \<open>-\<close> and \<open>*\<close> of the source: a panic where the mathematical result does not fit.\<close>

definition add_or_panic :: "'a::len word \<Rightarrow> 'a word \<Rightarrow> ('a word, 'e) result" where
  "add_or_panic a b = (if unat a + unat b < 2 ^ LENGTH('a) then Ok (a + b) else Panic)"

definition sub_or_panic :: "'a::len word \<Rightarrow> 'a word \<Rightarrow> ('a word, 'e) result" where
  "sub_or_panic a b = (if b \<le> a then Ok (a - b) else Panic)"

definition mul_or_panic :: "'a::len word \<Rightarrow> 'a word \<Rightarrow> ('a word, 'e) result" where
  "mul_or_panic a b = (if unat a * unat b < 2 ^ LENGTH('a) then Ok (a * b) else Panic)"

text \<open>\<open>checked_add\<close>, \<open>checked_sub\<close> and \<open>checked_mul\<close>: an error value instead of a panic.\<close>

definition checked_add :: "'e \<Rightarrow> 'a::len word \<Rightarrow> 'a word \<Rightarrow> ('a word, 'e) result" where
  "checked_add e a b = (if unat a + unat b < 2 ^ LENGTH('a) then Ok (a + b) else Err e)"

definition checked_sub :: "'e \<Rightarrow> 'a::len word \<Rightarrow> 'a word \<Rightarrow> ('a word, 'e) result" where
  "checked_sub e a b = (if b \<le> a then Ok (a - b) else Err e)"

definition checked_mul :: "'e \<Rightarrow> 'a::len word \<Rightarrow> 'a word \<Rightarrow> ('a word, 'e) result" where
  "checked_mul e a b = (if unat a * unat b < 2 ^ LENGTH('a) then Ok (a * b) else Err e)"

lemma unat_word_lt: "unat (a :: 'a::len word) < 2 ^ LENGTH('a)"
  by (rule unsigned_less)

lemma unat_eq_fits: "unat (a :: 'a::len word) = n \<Longrightarrow> n < 2 ^ LENGTH('a)"
  using unat_word_lt by blast

lemma unat_plus_nowrap:
  fixes a b :: "'a::len word"
  assumes "unat a + unat b < 2 ^ LENGTH('a)"
  shows "unat (a + b) = unat a + unat b"
  using assms by (simp add: unat_word_ariths)

lemma unat_times_nowrap:
  fixes a b :: "'a::len word"
  assumes "unat a * unat b < 2 ^ LENGTH('a)"
  shows "unat (a * b) = unat a * unat b"
  using assms by (simp add: unat_word_ariths)

lemma unat_minus_nowrap:
  fixes a b :: "'a::len word"
  assumes "b \<le> a"
  shows "unat (a - b) = unat a - unat b"
  using assms by (simp add: unat_sub_if' word_le_nat_alt)

lemma add_or_panic_Ok [arith_simps]:
  "add_or_panic a b = Ok c \<longleftrightarrow> unat c = unat a + unat b"
  by (auto simp: add_or_panic_def unat_plus_nowrap word_unat_eq_iff dest: unat_eq_fits)

lemma sub_or_panic_Ok [arith_simps]:
  "sub_or_panic a b = Ok c \<longleftrightarrow> unat a = unat b + unat c"
  by (auto simp: sub_or_panic_def unat_minus_nowrap word_unat_eq_iff word_le_nat_alt)

lemma mul_or_panic_Ok [arith_simps]:
  "mul_or_panic a b = Ok c \<longleftrightarrow> unat c = unat a * unat b"
  by (auto simp: mul_or_panic_def unat_times_nowrap word_unat_eq_iff dest: unat_eq_fits)

lemma checked_add_Ok [arith_simps]:
  "checked_add e a b = Ok c \<longleftrightarrow> unat c = unat a + unat b"
  by (auto simp: checked_add_def unat_plus_nowrap word_unat_eq_iff dest: unat_eq_fits)

lemma checked_sub_Ok [arith_simps]:
  "checked_sub e a b = Ok c \<longleftrightarrow> unat a = unat b + unat c"
  by (auto simp: checked_sub_def unat_minus_nowrap word_unat_eq_iff word_le_nat_alt)

lemma checked_mul_Ok [arith_simps]:
  "checked_mul e a b = Ok c \<longleftrightarrow> unat c = unat a * unat b"
  by (auto simp: checked_mul_def unat_times_nowrap word_unat_eq_iff dest: unat_eq_fits)

lemma or_panic_not_Err [result_simps]:
  "add_or_panic a b \<noteq> Err e" "sub_or_panic a b \<noteq> Err e" "mul_or_panic a b \<noteq> Err e"
  by (auto simp: add_or_panic_def sub_or_panic_def mul_or_panic_def)

lemma or_panic_Panic [result_simps]:
  "add_or_panic a b = Panic \<longleftrightarrow> 2 ^ LENGTH('a) \<le> unat a + unat (b :: 'a::len word)"
  "sub_or_panic a b = Panic \<longleftrightarrow> a < b"
  "mul_or_panic a b = Panic \<longleftrightarrow> 2 ^ LENGTH('a) \<le> unat a * unat b"
  by (auto simp: add_or_panic_def sub_or_panic_def mul_or_panic_def)

lemma checked_not_Panic [result_simps]:
  "checked_add e a b \<noteq> Panic" "checked_sub e a b \<noteq> Panic" "checked_mul e a b \<noteq> Panic"
  by (auto simp: checked_add_def checked_sub_def checked_mul_def)

lemma word_le_unat: "a \<le> b \<longleftrightarrow> unat a \<le> unat (b :: 'a::len word)"
  by (rule word_le_nat_alt)

lemma word_less_unat: "a < b \<longleftrightarrow> unat a < unat (b :: 'a::len word)"
  by (rule word_less_nat_alt)

lemma word_eq_unat: "a = b \<longleftrightarrow> unat a = unat (b :: 'a::len word)"
  by (rule word_unat_eq_iff)

section \<open>Lists\<close>

lemma sum_list_div_le: "(\<Sum>x\<leftarrow>xs. f x div (d::nat)) \<le> (\<Sum>x\<leftarrow>xs. f x) div d"
proof (induction xs)
  case Nil
  then show ?case by simp
next
  case (Cons x xs)
  have "f x div d + (\<Sum>x\<leftarrow>xs. f x) div d \<le> (f x + (\<Sum>x\<leftarrow>xs. f x)) div d"
    by (subst div_add1_eq) simp
  with Cons.IH show ?case by (simp only: list.map sum_list.Cons)
qed

lemma sum_list_div_gap:
  assumes "0 < (d::nat)"
  shows "(\<Sum>x\<leftarrow>xs. f x) \<le> d * (\<Sum>x\<leftarrow>xs. f x div d) + length xs * (d - 1)"
proof (induction xs)
  case Nil
  then show ?case by simp
next
  case (Cons x xs)
  have "f x = d * (f x div d) + f x mod d" by simp
  moreover have "f x mod d \<le> d - 1"
    using assms mod_less_divisor [of d "f x"] by linarith
  ultimately have "f x \<le> d * (f x div d) + (d - 1)" by linarith
  with Cons.IH show ?case
    by (simp only: list.map sum_list.Cons list.size distrib_left mult_Suc add_Suc_right
      add_0_right)
qed

lemma map_of_filter_neq:
  "map_of (filter (\<lambda>p. fst p \<noteq> k) xs) = (map_of xs)(k := None)"
  by (induction xs) (auto simp: fun_eq_iff)

end
