(* ===== verification/Ordered_Map.thy ===== *)
theory Ordered_Map
  imports Prelude
begin

text \<open>
  Maps that are iterated in key order: Rust's \<open>BTreeMap\<close> (messages and configurations) and
  the key-value storage behind a contract's \<open>Map\<close> (ranged in ascending order). Both are
  modelled by an association list with strictly ascending keys.

  The locale \<open>ordered_map\<close> is the interface the components use: what a lookup returns after
  an insertion or a removal, and that the entries come out in ascending order, once each.
  Its lemmas (the first entry is the least, inserting above all keys appends, removing the
  least key drops the head) are proved once from those laws and interpreted on the
  association lists.
\<close>

type_synonym ('k, 'v) omap = "('k \<times> 'v) list"

definition om_wf :: "('k::linorder, 'v) omap \<Rightarrow> bool" where
  "om_wf m \<longleftrightarrow> sorted_wrt (<) (map fst m)"

definition om_get :: "('k::linorder, 'v) omap \<Rightarrow> 'k \<Rightarrow> 'v option" where
  "om_get m k = map_of m k"

definition om_contains :: "('k::linorder, 'v) omap \<Rightarrow> 'k \<Rightarrow> bool" where
  "om_contains m k = (om_get m k \<noteq> None)"

fun om_insert :: "('k::linorder, 'v) omap \<Rightarrow> 'k \<Rightarrow> 'v \<Rightarrow> ('k, 'v) omap" where
  "om_insert [] k v = [(k, v)]"
| "om_insert ((a, b) # m) k v =
     (if k < a then (k, v) # (a, b) # m
      else if k = a then (k, v) # m
      else (a, b) # om_insert m k v)"

definition om_remove :: "('k::linorder, 'v) omap \<Rightarrow> 'k \<Rightarrow> ('k, 'v) omap" where
  "om_remove m k = filter (\<lambda>p. fst p \<noteq> k) m"

definition om_entries :: "('k::linorder, 'v) omap \<Rightarrow> ('k \<times> 'v) list" where
  "om_entries m = m"

section \<open>Strictly ascending association lists\<close>

lemma om_wf_simps [simp]:
  "om_wf []"
  "om_wf ((a, b) # m) \<longleftrightarrow> (\<forall>k\<in>fst ` set m. a < k) \<and> om_wf m"
  by (auto simp: om_wf_def)

lemma om_wf_filter: "om_wf m \<Longrightarrow> om_wf (filter P m)"
  by (induction m) (auto simp: om_wf_def)

lemma set_om_insert: "fst ` set (om_insert m k v) = insert k (fst ` set m)"
  by (induction m k v rule: om_insert.induct) auto

lemma om_wf_insert: "om_wf m \<Longrightarrow> om_wf (om_insert m k v)"
  by (induction m k v rule: om_insert.induct) (auto simp: set_om_insert)

lemma map_of_om_insert:
  "om_wf m \<Longrightarrow> map_of (om_insert m k v) = (map_of m)(k \<mapsto> v)"
  by (induction m k v rule: om_insert.induct) (auto simp: fun_eq_iff)

lemma om_wf_distinct: "om_wf m \<Longrightarrow> distinct (map fst m)"
  by (simp add: om_wf_def strict_sorted_iff)

lemma sorted_alist_unique:
  assumes "om_wf xs" and "om_wf ys" and "map_of xs = map_of ys"
  shows "xs = ys"
proof -
  have d: "distinct (map fst xs)" "distinct (map fst ys)"
    using assms by (auto intro: om_wf_distinct)
  then have "set xs = set ys"
    using map_of_inject_set [OF d] assms(3) by blast
  moreover have "sorted (map fst xs)" "sorted (map fst ys)"
    using assms(1,2) by (auto simp: om_wf_def strict_sorted_iff)
  ultimately show ?thesis
    using d by (metis map_sorted_distinct_set_unique distinct_map inj_on_Un inf_sup_aci(5)
        sup.idem)
qed

section \<open>The interface\<close>

locale ordered_map =
  fixes get :: "'m \<Rightarrow> 'k::linorder \<Rightarrow> 'v option"
    and ins :: "'m \<Rightarrow> 'k \<Rightarrow> 'v \<Rightarrow> 'm"
    and rem :: "'m \<Rightarrow> 'k \<Rightarrow> 'm"
    and entries :: "'m \<Rightarrow> ('k \<times> 'v) list"
    and wf :: "'m \<Rightarrow> bool"
  assumes get_ins: "wf m \<Longrightarrow> get (ins m k v) = (get m)(k \<mapsto> v)"
    and get_rem: "wf m \<Longrightarrow> get (rem m k) = (get m)(k := None)"
    and map_of_entries: "wf m \<Longrightarrow> map_of (entries m) = get m"
    and sorted_entries: "wf m \<Longrightarrow> om_wf (entries m)"
    and wf_ins: "wf m \<Longrightarrow> wf (ins m k v)"
    and wf_rem: "wf m \<Longrightarrow> wf (rem m k)"
begin

lemma entries_eqI:
  assumes "wf m" and "om_wf xs" and "map_of xs = get m"
  shows "entries m = xs"
  using assms by (auto intro: sorted_alist_unique simp: sorted_entries map_of_entries)

lemma distinct_entries: "wf m \<Longrightarrow> distinct (map fst (entries m))"
  by (simp add: om_wf_distinct sorted_entries)

lemma mem_entries_iff: "wf m \<Longrightarrow> (k, v) \<in> set (entries m) \<longleftrightarrow> get m k = Some v"
  by (metis distinct_entries map_of_entries map_of_eq_Some_iff)

lemma entries_Nil_iff: "wf m \<Longrightarrow> entries m = [] \<longleftrightarrow> get m = Map.empty"
  by (metis map_of_entries map_of_eq_empty_iff)

lemma first_entry_least:
  assumes "wf m" and "entries m = (k, v) # rest"
  shows "get m k = Some v" and "get m k' = Some v' \<Longrightarrow> k \<le> k'"
proof -
  show "get m k = Some v"
    using assms mem_entries_iff [of m k v] by simp
  assume "get m k' = Some v'"
  then have "(k', v') \<in> set ((k, v) # rest)"
    using assms mem_entries_iff [of m k' v'] by simp
  moreover have "om_wf ((k, v) # rest)"
    using assms sorted_entries by metis
  ultimately show "k \<le> k'" by force
qed

lemma entries_rem:
  assumes "wf m"
  shows "entries (rem m k) = filter (\<lambda>p. fst p \<noteq> k) (entries m)"
  using assms
  by (intro entries_eqI)
    (auto simp: wf_rem om_wf_filter sorted_entries map_of_filter_neq map_of_entries get_rem)

lemma entries_rem_first:
  assumes "wf m" and "entries m = (k, v) # rest"
  shows "entries (rem m k) = rest"
proof -
  have "k \<notin> fst ` set rest"
    using assms distinct_entries [of m] by auto
  then have "filter (\<lambda>p. fst p \<noteq> k) rest = rest"
    by (auto simp: filter_id_conv)
  then show ?thesis using assms by (simp add: entries_rem)
qed

lemma entries_ins_last:
  assumes "wf m" and above: "\<And>k' v'. get m k' = Some v' \<Longrightarrow> k' < k"
  shows "entries (ins m k v) = entries m @ [(k, v)]"
proof (rule entries_eqI)
  show "wf (ins m k v)" using assms(1) by (rule wf_ins)
  have keys: "\<forall>p\<in>set (entries m). fst p < k"
    using assms by (auto simp: mem_entries_iff)
  then show "om_wf (entries m @ [(k, v)])"
    using sorted_entries [OF assms(1)] by (auto simp: om_wf_def sorted_wrt_append)
  have "map_of (entries m) k = None"
    using above assms(1) by (cases "get m k") (auto simp: map_of_entries)
  then show "map_of (entries m @ [(k, v)]) = get (ins m k v)"
    using assms(1) map_of_entries [OF assms(1)]
    by (auto simp: map_add_def fun_eq_iff get_ins split: option.splits)
qed

end

interpretation om: ordered_map om_get om_insert om_remove om_entries om_wf
proof unfold_locales
  fix m :: "('a::linorder, 'b) omap" and k v
  assume wf: "om_wf m"
  show "om_get (om_insert m k v) = (om_get m)(k \<mapsto> v)"
    using wf by (simp add: om_get_def fun_eq_iff map_of_om_insert)
  show "om_get (om_remove m k) = (om_get m)(k := None)"
    by (simp add: om_get_def om_remove_def fun_eq_iff map_of_filter_neq)
  show "map_of (om_entries m) = om_get m"
    by (simp add: om_entries_def om_get_def fun_eq_iff)
  show "om_wf (om_entries m)" using wf by (simp add: om_entries_def)
  show "om_wf (om_insert m k v)" using wf by (rule om_wf_insert)
  show "om_wf (om_remove m k)" using wf by (simp add: om_remove_def om_wf_filter)
qed

lemmas om_laws [simp] = om.get_ins om.get_rem om.wf_ins om.wf_rem

lemma om_get_Nil [simp]: "om_get [] k = None"
  by (simp add: om_get_def)

lemma om_contains_iff: "om_contains m k \<longleftrightarrow> (\<exists>v. om_get m k = Some v)"
  by (simp add: om_contains_def)

section \<open>Totals over a map\<close>

text \<open>Replacing a value under an existing key shifts the total of the values by the difference.\<close>

lemma sum_om_insert:
  fixes f :: "'v \<Rightarrow> nat"
  assumes "om_wf m"
  shows "(\<Sum>p\<leftarrow>om_insert m k v. f (snd p)) + (case om_get m k of None \<Rightarrow> 0 | Some w \<Rightarrow> f w)
         = (\<Sum>p\<leftarrow>m. f (snd p)) + f v"
  using assms
proof (induction m k v rule: om_insert.induct)
  case (1 k v)
  then show ?case by (simp add: om_get_def)
next
  case (2 a b m k v)
  have no: "om_get ((a, b) # m) k = None" if "k < a"
  proof -
    have "\<forall>q\<in>fst ` set m. a < q" using "2.prems" by simp
    with that have "k \<notin> fst ` set ((a, b) # m)" by fastforce
    then show ?thesis unfolding om_get_def by (metis map_of_eq_None_iff)
  qed
  show ?case
  proof (cases "k < a \<or> k = a")
    case True
    then show ?thesis using no by (auto simp: om_get_def)
  next
    case False
    with 2 show ?thesis by (simp add: om_get_def split: option.splits)
  qed
qed

end
