(* ===== verification/Cosmwasm.thy ===== *)
theory Cosmwasm
  imports Ordered_Map
begin

text \<open>
  What the contracts see of their platform.

  \<^item> \<open>coin\<close>, \<open>decimal\<close>, \<open>cosmos_msg\<close>, \<open>submsg\<close>, \<open>response\<close>, \<open>env\<close>, \<open>message_info\<close>: the data a
    handler takes and returns. A wasm message carries the message value itself; the JSON
    encoding the code puts around it (\<open>to_json_binary\<close>) is not modelled, and neither are the
    log attributes of a response (\<open>add_attribute\<close>), which no handler reads.
  \<^item> \<open>decimal\<close> is the 18-digit fixed-point number over a 128-bit integer.
  \<^item> storage: an \<open>Item\<close> is a field of type \<open>'a option\<close> (\<open>None\<close>: never saved or removed);
    \<open>load\<close> fails on \<open>None\<close>, \<open>may_load\<close> returns the option. A storage \<open>Map\<close> is an ordered map.
  \<^item> \<open>deps\<close> is the parameter that stands for everything outside the repository: the
    \<open>Api\<close> and the \<open>Querier\<close> a handler gets from the host, and the functions of third-party
    crates the contracts call. Every handler takes it as an argument; a property that needs
    more of it than its type states the documented behaviour as a hypothesis.
\<close>

type_synonym addr = string
type_synonym denom = string

section \<open>Errors of the standard crate\<close>

datatype std_error =
    GenericErr string
  | NotFound string
  | Overflow
  | OtherStdErr string

section \<open>Numbers\<close>

datatype decimal = Decimal (atomics: u128)

definition decimal_fractional :: u128 where
  "decimal_fractional = 1000000000000000000"

definition dec_zero :: decimal where
  "dec_zero = Decimal 0"

definition dec_one :: decimal where
  "dec_one = Decimal decimal_fractional"

definition dec_add :: "decimal \<Rightarrow> decimal \<Rightarrow> (decimal, 'e) result" where
  "dec_add a b = and_then (add_or_panic (atomics a) (atomics b)) (\<lambda>x. Ok (Decimal x))"

definition dec_sub :: "decimal \<Rightarrow> decimal \<Rightarrow> (decimal, 'e) result" where
  "dec_sub a b = and_then (sub_or_panic (atomics a) (atomics b)) (\<lambda>x. Ok (Decimal x))"

definition dec_checked_add :: "decimal \<Rightarrow> decimal \<Rightarrow> (decimal, std_error) result" where
  "dec_checked_add a b = and_then (checked_add Overflow (atomics a) (atomics b)) (\<lambda>x. Ok (Decimal x))"

definition dec_checked_sub :: "decimal \<Rightarrow> decimal \<Rightarrow> (decimal, std_error) result" where
  "dec_checked_sub a b = and_then (checked_sub Overflow (atomics a) (atomics b)) (\<lambda>x. Ok (Decimal x))"

definition dec_is_zero :: "decimal \<Rightarrow> bool" where
  "dec_is_zero a = (a = dec_zero)"

instantiation decimal :: linorder
begin

definition less_eq_decimal :: "decimal \<Rightarrow> decimal \<Rightarrow> bool" where
  "less_eq_decimal a b \<longleftrightarrow> atomics a \<le> atomics b"

definition less_decimal :: "decimal \<Rightarrow> decimal \<Rightarrow> bool" where
  "less_decimal a b \<longleftrightarrow> atomics a < atomics b"

instance
  by standard (auto simp: less_eq_decimal_def less_decimal_def intro: decimal.expand)

end

text \<open>The value of a decimal, in units of the last fractional digit.\<close>

definition dec_val :: "decimal \<Rightarrow> nat" where
  "dec_val d = unat (atomics d)"

abbreviation dec_unit :: nat where
  "dec_unit \<equiv> 1000000000000000000"

lemma dec_val_simps [simp]:
  "dec_val dec_zero = 0" "dec_val dec_one = dec_unit" "dec_val (Decimal x) = unat x"
  by (simp_all add: dec_val_def dec_zero_def dec_one_def decimal_fractional_def)

lemma dec_val_inject: "dec_val a = dec_val b \<longleftrightarrow> a = b"
  by (auto simp: dec_val_def word_eq_unat [symmetric] intro: decimal.expand)

lemma dec_le_iff: "a \<le> b \<longleftrightarrow> dec_val a \<le> dec_val b"
  by (simp add: less_eq_decimal_def dec_val_def word_le_unat)

lemma dec_less_iff: "a < b \<longleftrightarrow> dec_val a < dec_val b"
  by (simp add: less_decimal_def dec_val_def word_less_unat)

lemma dec_is_zero_iff: "dec_is_zero a \<longleftrightarrow> dec_val a = 0"
  using dec_val_inject [of a dec_zero] by (simp add: dec_is_zero_def)

lemma dec_add_Ok [arith_simps]: "dec_add a b = Ok c \<longleftrightarrow> dec_val c = dec_val a + dec_val b"
  by (cases c) (auto simp: dec_add_def result_simps arith_simps dec_val_def)

lemma dec_sub_Ok [arith_simps]: "dec_sub a b = Ok c \<longleftrightarrow> dec_val a = dec_val b + dec_val c"
  by (cases c) (auto simp: dec_sub_def result_simps arith_simps dec_val_def)

lemma dec_checked_add_Ok [arith_simps]:
  "dec_checked_add a b = Ok c \<longleftrightarrow> dec_val c = dec_val a + dec_val b"
  by (cases c) (auto simp: dec_checked_add_def result_simps arith_simps dec_val_def)

lemma dec_checked_sub_Ok [arith_simps]:
  "dec_checked_sub a b = Ok c \<longleftrightarrow> dec_val a = dec_val b + dec_val c"
  by (cases c) (auto simp: dec_checked_sub_def result_simps arith_simps dec_val_def)

lemma dec_sub_total: "b \<le> a \<Longrightarrow> \<exists>c. dec_sub a b = Ok c"
  by (auto simp: dec_sub_def sub_or_panic_def less_eq_decimal_def)

lemma dec_add_total: "dec_val a + dec_val b < 2 ^ 128 \<Longrightarrow> \<exists>c. dec_add a b = Ok c"
  by (auto simp: dec_add_def add_or_panic_def dec_val_def)

text \<open>\<open>Decimal::from_atomics(_, 0)\<close>, \<open>checked_mul\<close> and \<open>to_uint_floor\<close>.\<close>

definition dec_from_atomics_0 :: "'e \<Rightarrow> u128 \<Rightarrow> (decimal, 'e) result" where
  "dec_from_atomics_0 e x = and_then (checked_mul e x decimal_fractional) (\<lambda>a. Ok (Decimal a))"

definition dec_checked_mul :: "'e \<Rightarrow> decimal \<Rightarrow> decimal \<Rightarrow> (decimal, 'e) result" where
  "dec_checked_mul e a b =
     (let n = unat (atomics a) * unat (atomics b) div unat decimal_fractional in
      if n < 2 ^ 128 then Ok (Decimal (of_nat n)) else Err e)"

definition dec_to_uint_floor :: "decimal \<Rightarrow> u128" where
  "dec_to_uint_floor a = atomics a div decimal_fractional"

lemma dec_from_atomics_0_Ok [arith_simps]:
  "dec_from_atomics_0 e x = Ok a \<longleftrightarrow> dec_val a = unat x * dec_unit"
  by (cases a) (auto simp: dec_from_atomics_0_def result_simps arith_simps decimal_fractional_def)

lemma dec_checked_mul_Ok [arith_simps]:
  "dec_checked_mul e a b = Ok c \<longleftrightarrow> dec_val c = dec_val a * dec_val b div dec_unit"
proof -
  have "unat (atomics c) < 2 ^ 128" using unat_word_lt [of "atomics c"] by simp
  then show ?thesis
    by (cases c) (auto simp: dec_checked_mul_def dec_val_def decimal_fractional_def Let_def unat_of_nat word_eq_unat)
qed

lemma unat_dec_to_uint_floor: "unat (dec_to_uint_floor a) = dec_val a div dec_unit"
  by (simp add: dec_to_uint_floor_def dec_val_def decimal_fractional_def unat_div_distrib)

record coin =
  coin_denom :: denom
  coin_amount :: u128

section \<open>Blocks, expirations, messages\<close>

record block_info =
  block_height :: u64
  block_time :: u64   \<comment> \<open>nanoseconds\<close>

record env =
  env_block :: block_info
  contract_address :: addr

record message_info =
  sender :: addr
  funds :: "coin list"

datatype expiration = AtHeight u64 | AtTime u64 | Never

datatype duration = Height u64 | Time u64

datatype ordering = Less | Equal | Greater

record ibc_fee =
  recv_fee :: "coin list"
  ack_fee :: "coin list"
  timeout_fee :: "coin list"

text \<open>Assets of the Astroport exchange: native coins or cw20 tokens.\<close>

datatype asset_info = NativeToken denom | ContractToken addr

record asset =
  info_of :: asset_info
  asset_amount :: u128

text \<open>What the liquidity outpost is told about a pool and the acceptable prices.\<close>

record outpost_provide_config =
  opc_pool_id :: u64
  opc_expected_spot_price :: decimal
  opc_acceptable_price_spread :: decimal
  opc_slippage_tolerance :: decimal
  opc_asset_1_limit :: u128
  opc_asset_2_limit :: u128

datatype memo = MemoText string | MemoDistribution denom u128 | MemoForward addr string string

text \<open>
  What the account on a remote chain is asked to execute through a Polytone note: calls of the
  liquidity outpost (the contract, its message, the attached coins) and transfers back (channel,
  receiver, coin, timeout; with packet forwarding: channel, sender, receiver, coin, timeout, memo).
\<close>

datatype note_msg =
    OutpostProvideLiquidity addr outpost_provide_config "coin list"
  | OutpostWithdrawLiquidity addr u64 "coin list"
  | NoteIbcTransfer string addr coin u64
  | NoteMsgTransfer string addr addr coin u64 memo

record callback_request =
  cb_receiver :: addr
  cb_id :: u8

text \<open>
  The messages one contract of the system sends to another, and those to the exchange: provide
  liquidity (assets, slippage tolerance, automatic staking, receiver), swap (offered asset,
  maximal spread) and the return of liquidity tokens through their cw20 contract. A Polytone
  note takes messages to execute, or balance queries (account and denomination), with a callback
  and a timeout in seconds.
\<close>

datatype wasm_payload =
    TickMsg
  | EnqueueMsg
  | DequeueMsg
  | WithdrawMsg "decimal option"
  | DistributeMsg
  | WithdrawFailedMsg
  | ProvideLiquidityMsg "asset list" "decimal option" "bool option" "addr option"
  | SwapMsg asset "decimal option"
  | Cw20SendWithdrawLiquidity addr u128
  | PolytoneExecute "note_msg list" "callback_request option" u64
  | PolytoneQuery "(addr \<times> denom) list" callback_request u64

record ibc_transfer =
  source_port :: string
  source_channel :: string
  token :: coin
  transfer_sender :: addr
  transfer_receiver :: addr
  timeout_timestamp :: u64
  transfer_memo :: memo
  transfer_fee :: ibc_fee

text \<open>The transactions an interchain account is asked to run on the remote chain.\<close>

record remote_transfer =
  rt_source_port :: string
  rt_source_channel :: string
  rt_token :: coin
  rt_sender :: addr
  rt_receiver :: addr
  rt_timeout_timestamp :: u64
  rt_memo :: string

datatype proto_msg =
    MsgTransfer remote_transfer
  | MsgMultiSend "(addr \<times> coin list) list" "(addr \<times> coin list) list"

text \<open>
  The messages of a contract. The last three are those of the Osmosis pool module: leave a pool
  (sender, pool, shares, least tokens), join it with all tokens (sender, pool, shares, most
  tokens) or with one (sender, pool, token, least shares).
\<close>

datatype cosmos_msg =
    BankSend addr "coin list"
  | WasmExecute addr wasm_payload "coin list"
  | IbcTransfer ibc_transfer
  | RegisterInterchainAccount string string "coin list option"
  | SubmitTx string string "proto_msg list" string u64 ibc_fee
  | ExitPool addr u64 u128 "coin list"
  | JoinPool addr u64 u128 "coin list"
  | JoinSwapExternAmountIn addr u64 coin u128

datatype reply_on = ReplyNever | ReplyOnError | ReplyOnSuccess | ReplyAlways

record submsg =
  sub_msg :: cosmos_msg
  sub_id :: u64
  sub_gas_limit :: "u64 option"
  sub_reply_on :: reply_on

record response =
  submessages :: "submsg list"

definition plain_msg :: "cosmos_msg \<Rightarrow> submsg" where
  "plain_msg m = \<lparr>sub_msg = m, sub_id = 0, sub_gas_limit = None, sub_reply_on = ReplyNever\<rparr>"

definition resp :: "cosmos_msg list \<Rightarrow> response" where
  "resp ms = \<lparr>submessages = map plain_msg ms\<rparr>"

definition messages :: "response \<Rightarrow> cosmos_msg list" where
  "messages r = map sub_msg (submessages r)"

lemma messages_resp [simp]: "messages (resp ms) = ms"
  by (simp add: messages_def resp_def plain_msg_def comp_def)

text \<open>What a list of messages pays to one address in one denomination over the bank module.\<close>

definition coins_in :: "denom \<Rightarrow> coin list \<Rightarrow> nat" where
  "coins_in dn cs = (\<Sum>c\<leftarrow>cs. if coin_denom c = dn then unat (coin_amount c) else 0)"

fun bank_out :: "denom \<Rightarrow> cosmos_msg \<Rightarrow> nat" where
  "bank_out dn (BankSend to cs) = coins_in dn cs"
| "bank_out dn m = 0"

fun bank_to :: "addr \<Rightarrow> denom \<Rightarrow> cosmos_msg \<Rightarrow> nat" where
  "bank_to a dn (BankSend to cs) = (if to = a then coins_in dn cs else 0)"
| "bank_to a dn m = 0"

definition total_out :: "denom \<Rightarrow> cosmos_msg list \<Rightarrow> nat" where
  "total_out dn ms = (\<Sum>m\<leftarrow>ms. bank_out dn m)"

definition total_to :: "addr \<Rightarrow> denom \<Rightarrow> cosmos_msg list \<Rightarrow> nat" where
  "total_to a dn ms = (\<Sum>m\<leftarrow>ms. bank_to a dn m)"

lemma coins_in_simps [simp]:
  "coins_in dn [] = 0"
  "coins_in dn (c # cs) = (if coin_denom c = dn then unat (coin_amount c) else 0) + coins_in dn cs"
  by (simp_all add: coins_in_def)

lemma total_out_simps [simp]:
  "total_out dn [] = 0"
  "total_out dn (m # ms) = bank_out dn m + total_out dn ms"
  "total_out dn (ms @ ns) = total_out dn ms + total_out dn ns"
  by (simp_all add: total_out_def)

lemma total_to_simps [simp]:
  "total_to a dn [] = 0"
  "total_to a dn (m # ms) = bank_to a dn m + total_to a dn ms"
  "total_to a dn (ms @ ns) = total_to a dn ms + total_to a dn ns"
  by (simp_all add: total_to_def)

section \<open>Storage items\<close>

definition load :: "'a option \<Rightarrow> ('a, std_error) result" where
  "load i = ok_or (NotFound ''item'') i"

lemma load_eq [result_simps]:
  "load i = Ok v \<longleftrightarrow> i = Some v"
  "load i = Err e \<longleftrightarrow> i = None \<and> e = NotFound ''item''"
  "load i \<noteq> Panic"
  by (auto simp: load_def result_simps)

lemma is_ok_load [simp]: "is_ok (load i) \<longleftrightarrow> i \<noteq> None"
  by (cases i) (simp_all add: load_def)

lemma load_simps [simp]: "load (Some v) = Ok v" "load None = Err (NotFound ''item'')"
  by (simp_all add: load_def)

section \<open>The platform\<close>

text \<open>
  The parsed version of a channel handshake (\<open>OpenAckVersion\<close>): what the code reads of it.
\<close>

record open_ack_version =
  ack_address :: addr
  ack_controller_connection_id :: string

record deps =
  \<comment> \<open>\<open>Api\<close>\<close>
  addr_validate :: "string \<Rightarrow> (addr, std_error) result"
  addr_humanize :: "nat list \<Rightarrow> (addr, std_error) result"
  addr_canonicalize :: "string \<Rightarrow> (nat list, std_error) result"
  \<comment> \<open>\<open>Querier\<close>\<close>
  query_balance :: "addr \<Rightarrow> denom \<Rightarrow> (coin, std_error) result"
  query_wasm_contract_info :: "addr \<Rightarrow> (unit, std_error) result"
  query_wasm_code_info :: "u64 \<Rightarrow> (nat list, std_error) result"   \<comment> \<open>the checksum\<close>
  query_deposit_address :: "addr \<Rightarrow> (string option, std_error) result"
  query_min_ibc_fee :: "(ibc_fee, std_error) result"
  query_next_memo :: "addr \<Rightarrow> (string, std_error) result"
  query_register_fee :: "(coin list, std_error) result"
  query_remote_address :: "addr \<Rightarrow> addr \<Rightarrow> (string option, std_error) result"   \<comment> \<open>note, local account\<close>
  \<comment> \<open>crates \<open>sha2\<close>, \<open>bech32\<close>, \<open>cw_utils\<close> and \<open>cosmwasm_std\<close>\<close>
  sha256 :: "nat list \<Rightarrow> nat list"
  instantiate2_address :: "nat list \<Rightarrow> nat list \<Rightarrow> nat list \<Rightarrow> (nat list, string) result"
  bech32_decode :: "string \<Rightarrow> (nat list, string) result"
  from_base32 :: "nat list \<Rightarrow> (nat list, string) result"
  is_expired :: "expiration \<Rightarrow> block_info \<Rightarrow> bool"
  expiration_cmp :: "expiration \<Rightarrow> expiration \<Rightarrow> ordering option"
  duration_after :: "duration \<Rightarrow> block_info \<Rightarrow> expiration"
  checked_multiply_ratio :: "u128 \<Rightarrow> u128 \<Rightarrow> u128 \<Rightarrow> (u128, std_error) result"
  must_pay :: "message_info \<Rightarrow> denom \<Rightarrow> (u128, std_error) result"
  \<comment> \<open>crates \<open>neutron_sdk\<close> and \<open>serde_json_wasm\<close>\<close>
  get_port_id :: "addr \<Rightarrow> string \<Rightarrow> string"
  parse_open_ack :: "string \<Rightarrow> open_ack_version option"
  parse_submit_tx_response :: "string \<Rightarrow> (u64 \<times> string) option"
  parse_coins :: "string \<Rightarrow> coin list option"

text \<open>\<open>Decimal::from_ratio\<close> panics on a zero denominator and on overflow.\<close>

definition dec_from_ratio :: "deps \<Rightarrow> u128 \<Rightarrow> u128 \<Rightarrow> (decimal, 'e) result" where
  "dec_from_ratio d a b =
     (case checked_multiply_ratio d a decimal_fractional b of Ok x \<Rightarrow> Ok (Decimal x) | _ \<Rightarrow> Panic)"

text \<open>
  Documented behaviour of \<open>Uint128::checked_multiply_ratio\<close>: \<open>self * numerator / denominator\<close>
  computed in 256 bits and rounded down; an error on a zero denominator or when the
  quotient does not fit 128 bits.
\<close>

definition multiply_ratio_spec :: "deps \<Rightarrow> bool" where
  "multiply_ratio_spec d \<longleftrightarrow>
     (\<forall>a n m r. checked_multiply_ratio d a n m = Ok r \<longleftrightarrow>
        m \<noteq> 0 \<and> unat r = unat a * unat n div unat m) \<and>
     (\<forall>a n m. checked_multiply_ratio d a n m \<noteq> Panic)"

text \<open>Documented behaviour of \<open>QuerierWrapper::query_balance\<close>: the coin has the asked denomination.\<close>

definition query_balance_spec :: "deps \<Rightarrow> bool" where
  "query_balance_spec d \<longleftrightarrow>
     (\<forall>a dn c. query_balance d a dn = Ok c \<longrightarrow> coin_denom c = dn) \<and>
     (\<forall>a dn. query_balance d a dn \<noteq> Panic)"

lemma multiply_ratio_specD:
  assumes "multiply_ratio_spec d"
  shows "checked_multiply_ratio d a n m = Ok r \<longleftrightarrow> m \<noteq> 0 \<and> unat r = unat a * unat n div unat m"
    and "checked_multiply_ratio d a n m \<noteq> Panic"
  using assms by (auto simp: multiply_ratio_spec_def)

lemma query_balance_specD:
  assumes "query_balance_spec d"
  shows "query_balance d a dn = Ok c \<Longrightarrow> coin_denom c = dn"
    and "query_balance d a dn \<noteq> Panic"
  using assms by (auto simp: query_balance_spec_def)

section \<open>A reference platform\<close>

text \<open>
  A concrete platform for evaluating the model: every address is valid, \<open>bals\<close> gives the
  balances, expirations and ratios behave as documented.
\<close>

fun ref_is_expired :: "expiration \<Rightarrow> block_info \<Rightarrow> bool" where
  "ref_is_expired (AtHeight h) b = (h \<le> block_height b)"
| "ref_is_expired (AtTime t) b = (t \<le> block_time b)"
| "ref_is_expired Never b = False"

definition ref_ordering :: "u64 \<Rightarrow> u64 \<Rightarrow> ordering" where
  "ref_ordering a b = (if a < b then Less else if a = b then Equal else Greater)"

fun ref_expiration_cmp :: "expiration \<Rightarrow> expiration \<Rightarrow> ordering option" where
  "ref_expiration_cmp (AtHeight a) (AtHeight b) = Some (ref_ordering a b)"
| "ref_expiration_cmp (AtTime a) (AtTime b) = Some (ref_ordering a b)"
| "ref_expiration_cmp Never Never = Some Equal"
| "ref_expiration_cmp Never e = Some Greater"
| "ref_expiration_cmp e Never = Some Less"
| "ref_expiration_cmp a b = None"

definition ref_multiply_ratio :: "u128 \<Rightarrow> u128 \<Rightarrow> u128 \<Rightarrow> (u128, std_error) result" where
  "ref_multiply_ratio a n m =
     (if m = 0 then Err (OtherStdErr ''DivideByZero'')
      else if unat a * unat n div unat m < 2 ^ 128
      then Ok (of_nat (unat a * unat n div unat m))
      else Err (OtherStdErr ''Overflow''))"

fun ref_duration_after :: "duration \<Rightarrow> block_info \<Rightarrow> expiration" where
  "ref_duration_after (Height h) b = AtHeight (block_height b + h)"
| "ref_duration_after (Time t) b = AtTime (block_time b + t * 1000000000)"

definition ref_must_pay :: "message_info \<Rightarrow> denom \<Rightarrow> (u128, std_error) result" where
  "ref_must_pay i dn =
     (case funds i of
        [c] \<Rightarrow> if coin_denom c = dn \<and> coin_amount c \<noteq> 0 then Ok (coin_amount c)
               else Err (OtherStdErr ''PaymentError'')
      | _ \<Rightarrow> Err (OtherStdErr ''PaymentError''))"

definition ref_deps :: "(addr \<Rightarrow> denom \<Rightarrow> u128) \<Rightarrow> deps" where
  "ref_deps bals =
     \<lparr>addr_validate = Ok, addr_humanize = (\<lambda>_. Ok ''addr''),
      addr_canonicalize = (\<lambda>s. Ok (map of_char s)),
      query_balance = (\<lambda>a dn. Ok \<lparr>coin_denom = dn, coin_amount = bals a dn\<rparr>),
      query_wasm_contract_info = (\<lambda>_. Ok ()), query_wasm_code_info = (\<lambda>c. Ok [unat c]),
      query_deposit_address = (\<lambda>a. Ok (Some a)),
      query_min_ibc_fee = Ok \<lparr>recv_fee = [], ack_fee = [], timeout_fee = []\<rparr>,
      query_next_memo = (\<lambda>_. Err (GenericErr ''unknown query'')), query_register_fee = Ok [],
      query_remote_address = (\<lambda>note a. Ok (Some (''osmo-'' @ a))),
      sha256 = id, instantiate2_address = (\<lambda>checksum creator salt. Ok salt),
      bech32_decode = (\<lambda>s. Ok (map of_char s)), from_base32 = Ok,
      is_expired = ref_is_expired, expiration_cmp = ref_expiration_cmp,
      duration_after = ref_duration_after, checked_multiply_ratio = ref_multiply_ratio,
      must_pay = ref_must_pay,
      get_port_id = (\<lambda>a i. ''icacontroller-'' @ a @ ''.'' @ i),
      parse_open_ack = (\<lambda>s. Some \<lparr>ack_address = s, ack_controller_connection_id = ''connection-0''\<rparr>),
      parse_submit_tx_response = (\<lambda>s. Some (1, s)), parse_coins = (\<lambda>s. None)\<rparr>"

lemma ref_deps_simps [simp]:
  "addr_validate (ref_deps bals) = Ok"
  "addr_humanize (ref_deps bals) = (\<lambda>_. Ok ''addr'')"
  "addr_canonicalize (ref_deps bals) = (\<lambda>s. Ok (map of_char s))"
  "query_wasm_code_info (ref_deps bals) = (\<lambda>c. Ok [unat c])"
  "sha256 (ref_deps bals) = id"
  "instantiate2_address (ref_deps bals) = (\<lambda>checksum creator salt. Ok salt)"
  "bech32_decode (ref_deps bals) = (\<lambda>s. Ok (map of_char s))"
  "from_base32 (ref_deps bals) = Ok"
  "query_balance (ref_deps bals) = (\<lambda>a dn. Ok \<lparr>coin_denom = dn, coin_amount = bals a dn\<rparr>)"
  "query_wasm_contract_info (ref_deps bals) = (\<lambda>_. Ok ())"
  "query_deposit_address (ref_deps bals) = (\<lambda>a. Ok (Some a))"
  "query_min_ibc_fee (ref_deps bals) = Ok \<lparr>recv_fee = [], ack_fee = [], timeout_fee = []\<rparr>"
  "is_expired (ref_deps bals) = ref_is_expired"
  "expiration_cmp (ref_deps bals) = ref_expiration_cmp"
  "duration_after (ref_deps bals) = ref_duration_after"
  "checked_multiply_ratio (ref_deps bals) = ref_multiply_ratio"
  "must_pay (ref_deps bals) = ref_must_pay"
  "query_next_memo (ref_deps bals) = (\<lambda>_. Err (GenericErr ''unknown query''))"
  "query_register_fee (ref_deps bals) = Ok []"
  "get_port_id (ref_deps bals) = (\<lambda>a i. ''icacontroller-'' @ a @ ''.'' @ i)"
  "parse_open_ack (ref_deps bals) = (\<lambda>s. Some \<lparr>ack_address = s, ack_controller_connection_id = ''connection-0''\<rparr>)"
  "parse_submit_tx_response (ref_deps bals) = (\<lambda>s. Some (1, s))"
  "query_remote_address (ref_deps bals) = (\<lambda>note a. Ok (Some (''osmo-'' @ a)))"
  "parse_coins (ref_deps bals) = (\<lambda>s. None)"
  by (simp_all add: ref_deps_def)

lemma ref_multiply_ratio_ok: "multiply_ratio_spec (ref_deps bals)"
proof -
  have "ref_multiply_ratio a n m = Ok r \<longleftrightarrow> m \<noteq> 0 \<and> unat r = unat a * unat n div unat m"
    for a n m r :: u128
    by (auto simp: ref_multiply_ratio_def unat_of_nat word_eq_unat [of _ r] dest: unat_eq_fits)
  moreover have "ref_multiply_ratio a n m \<noteq> Panic" for a n m
    by (simp add: ref_multiply_ratio_def)
  ultimately show ?thesis by (simp add: multiply_ratio_spec_def)
qed

lemma ref_query_balance_ok: "query_balance_spec (ref_deps bals)"
  by (auto simp: query_balance_spec_def)

end
