(* ===== verification/Fifo.thy ===== *)
theory Fifo
  imports Cosmwasm
begin

text \<open>
  The FIFO queue of \<open>packages/cw-fifo\<close>: a bidirectional storage map (\<open>reversable_map.rs\<close>)
  between insertion numbers and elements, and a counter of insertions (\<open>lib.rs\<close>).

  The locale \<open>fifo_queue\<close> is the contract a client relies on: the queue is a list, enqueueing
  appends, dequeueing takes the head, removing takes one element out. It is interpreted on
  the definitions of the crate, under the invariant that the two storage maps are inverse
  to each other and that every number in use lies below the counter.
\<close>

section \<open>\<open>ReversableMap\<close>\<close>

record ('a, 'b) reversable_map =
  rm_fwd :: "('a, 'b) omap"
  rm_rev :: "('b, 'a) omap"

datatype 'k bound = Inclusive 'k | Exclusive 'k

datatype order = Ascending | Descending

definition rm_reverse :: "('a, 'b) reversable_map \<Rightarrow> ('b, 'a) reversable_map" where
  "rm_reverse m = \<lparr>rm_fwd = rm_rev m, rm_rev = rm_fwd m\<rparr>"

definition rm_has :: "('a::linorder, 'b::linorder) reversable_map \<Rightarrow> 'a \<Rightarrow> bool" where
  "rm_has m k = om_contains (rm_fwd m) k"

definition rm_load ::
    "('a::linorder, 'b::linorder) reversable_map \<Rightarrow> 'a \<Rightarrow> ('b, std_error) result" where
  "rm_load m k = load (om_get (rm_fwd m) k)"

definition rm_remove ::
    "('a::linorder, 'b::linorder) reversable_map \<Rightarrow> 'a
     \<Rightarrow> (('a, 'b) reversable_map, std_error) result" where
  "rm_remove m k =
     and_then (rm_load m k) (\<lambda>mapping.
       Ok \<lparr>rm_fwd = om_remove (rm_fwd m) k, rm_rev = om_remove (rm_rev m) mapping\<rparr>)"

definition rm_save ::
    "('a::linorder, 'b::linorder) reversable_map \<Rightarrow> 'a \<Rightarrow> 'b
     \<Rightarrow> (('a, 'b) reversable_map, std_error) result" where
  "rm_save m k v =
     (let rev' = (case om_get (rm_fwd m) k of Some old \<Rightarrow> om_remove (rm_rev m) old
                  | None \<Rightarrow> rm_rev m)
      in Ok \<lparr>rm_fwd = om_insert (rm_fwd m) k v, rm_rev = om_insert rev' v k\<rparr>)"

fun above :: "'k::linorder bound option \<Rightarrow> 'k \<Rightarrow> bool" where
  "above None k = True"
| "above (Some (Inclusive b)) k = (b \<le> k)"
| "above (Some (Exclusive b)) k = (b < k)"

fun below :: "'k::linorder bound option \<Rightarrow> 'k \<Rightarrow> bool" where
  "below None k = True"
| "below (Some (Inclusive b)) k = (k \<le> b)"
| "below (Some (Exclusive b)) k = (k < b)"

definition rm_range ::
    "('a::linorder, 'b::linorder) reversable_map \<Rightarrow> 'a bound option \<Rightarrow> 'a bound option \<Rightarrow> order
     \<Rightarrow> ('a \<times> 'b) list" where
  "rm_range m lo hi ord =
     (let es = filter (\<lambda>(k, _). above lo k \<and> below hi k) (om_entries (rm_fwd m))
      in case ord of Ascending \<Rightarrow> es | Descending \<Rightarrow> rev es)"

section \<open>\<open>FIFOQueue\<close>\<close>

record 'a fifo =
  mapping :: "(u64, 'a) reversable_map"
  item_count :: "u64 option"

definition fifo_new :: "'a fifo" where
  "fifo_new = \<lparr>mapping = \<lparr>rm_fwd = [], rm_rev = []\<rparr>, item_count = None\<rparr>"

definition fifo_enqueue :: "('a::linorder) fifo \<Rightarrow> 'a \<Rightarrow> ('a fifo, std_error) result" where
  "fifo_enqueue q t =
     (let count = (case item_count q of Some c \<Rightarrow> c | None \<Rightarrow> 0) in
      and_then (rm_save (mapping q) count t) (\<lambda>m.
      and_then (add_or_panic count 1) (\<lambda>count'.
        Ok \<lparr>mapping = m, item_count = Some count'\<rparr>)))"

definition fifo_dequeue :: "('a::linorder) fifo \<Rightarrow> ('a option \<times> 'a fifo, std_error) result" where
  "fifo_dequeue q =
     (case rm_range (mapping q) None None Ascending of
        [] \<Rightarrow> Ok (None, q)
      | (time, t) # _ \<Rightarrow>
          and_then (rm_remove (mapping q) time) (\<lambda>m. Ok (Some t, q\<lparr>mapping := m\<rparr>)))"

definition fifo_remove :: "('a::linorder) fifo \<Rightarrow> 'a \<Rightarrow> ('a fifo, std_error) result" where
  "fifo_remove q t =
     and_then (rm_remove (rm_reverse (mapping q)) t) (\<lambda>m. Ok (q\<lparr>mapping := rm_reverse m\<rparr>))"

definition fifo_has :: "('a::linorder) fifo \<Rightarrow> 'a \<Rightarrow> bool" where
  "fifo_has q t = rm_has (rm_reverse (mapping q)) t"

definition fifo_query_queue ::
    "('a::linorder) fifo \<Rightarrow> 'a option \<Rightarrow> u32 option \<Rightarrow> ('a \<times> u64) list" where
  "fifo_query_queue q start_after limit =
     (let range = rm_range (rm_reverse (mapping q)) (map_option Exclusive start_after) None Ascending
      in case limit of None \<Rightarrow> range | Some n \<Rightarrow> take (unat n) range)"

text \<open>
  A client's use of the queue as a sequence of operations with their visible results, and
  the same sequence on a plain list: what the crate documents.
\<close>

datatype 'a fifo_op = OpEnqueue 'a | OpDequeue | OpRemove 'a | OpHas 'a

datatype 'a fifo_out = OutDone | OutItem "'a option" | OutBool bool | OutFailed

fun fifo_step :: "('a::linorder) fifo \<Rightarrow> 'a fifo_op \<Rightarrow> 'a fifo_out \<times> 'a fifo" where
  "fifo_step q (OpEnqueue x) = (case fifo_enqueue q x of Ok q' \<Rightarrow> (OutDone, q') | _ \<Rightarrow> (OutFailed, q))"
| "fifo_step q OpDequeue = (case fifo_dequeue q of Ok (r, q') \<Rightarrow> (OutItem r, q') | _ \<Rightarrow> (OutFailed, q))"
| "fifo_step q (OpRemove x) = (case fifo_remove q x of Ok q' \<Rightarrow> (OutDone, q') | _ \<Rightarrow> (OutFailed, q))"
| "fifo_step q (OpHas x) = (OutBool (fifo_has q x), q)"

fun list_step :: "'a list \<Rightarrow> 'a fifo_op \<Rightarrow> 'a fifo_out \<times> 'a list" where
  "list_step xs (OpEnqueue x) = (OutDone, xs @ [x])"
| "list_step xs OpDequeue =
     (case xs of [] \<Rightarrow> (OutItem None, []) | x # ys \<Rightarrow> (OutItem (Some x), ys))"
| "list_step xs (OpRemove x) =
     (if x \<in> set xs then (OutDone, remove1 x xs) else (OutFailed, xs))"
| "list_step xs (OpHas x) = (OutBool (x \<in> set xs), xs)"

fun steps :: "('s \<Rightarrow> 'o \<Rightarrow> 'r \<times> 's) \<Rightarrow> 's \<Rightarrow> 'o list \<Rightarrow> 'r list \<times> 's" where
  "steps f s [] = ([], s)"
| "steps f s (c # cs) =
     (case f s c of (r, s') \<Rightarrow> case steps f s' cs of (rs, t) \<Rightarrow> (r # rs, t))"

text \<open>The clients never enqueue an element that is already queued.\<close>

fun no_requeue :: "'a list \<Rightarrow> 'a fifo_op list \<Rightarrow> bool" where
  "no_requeue xs [] = True"
| "no_requeue xs (c # cs) =
     ((case c of OpEnqueue x \<Rightarrow> x \<notin> set xs | _ \<Rightarrow> True) \<and> no_requeue (snd (list_step xs c)) cs)"

section \<open>The contract of a FIFO queue\<close>

locale fifo_queue =
  fixes enq :: "'q \<Rightarrow> 'a \<Rightarrow> ('q, 'e) result"
    and deq :: "'q \<Rightarrow> ('a option \<times> 'q, 'e) result"
    and rem :: "'q \<Rightarrow> 'a \<Rightarrow> ('q, 'e) result"
    and has :: "'q \<Rightarrow> 'a \<Rightarrow> bool"
    and elems :: "'q \<Rightarrow> 'a list"
    and room :: "'q \<Rightarrow> nat"
    and inv :: "'q \<Rightarrow> bool"
    and absent :: 'e
  assumes enq_ok: "inv q \<Longrightarrow> x \<notin> set (elems q) \<Longrightarrow> 0 < room q \<Longrightarrow>
      \<exists>q'. enq q x = Ok q' \<and> inv q' \<and> elems q' = elems q @ [x] \<and> room q = Suc (room q')"
    and enq_full: "room q = 0 \<Longrightarrow> enq q x = Panic"
    and deq_empty: "inv q \<Longrightarrow> elems q = [] \<Longrightarrow> deq q = Ok (None, q)"
    and deq_first: "inv q \<Longrightarrow> elems q = x # xs \<Longrightarrow>
      \<exists>q'. deq q = Ok (Some x, q') \<and> inv q' \<and> elems q' = xs \<and> room q' = room q"
    and rem_ok: "inv q \<Longrightarrow> x \<in> set (elems q) \<Longrightarrow>
      \<exists>q'. rem q x = Ok q' \<and> inv q' \<and> elems q' = remove1 x (elems q) \<and> room q' = room q"
    and rem_absent: "inv q \<Longrightarrow> x \<notin> set (elems q) \<Longrightarrow> rem q x = Err absent"
    and has_iff: "inv q \<Longrightarrow> has q x \<longleftrightarrow> x \<in> set (elems q)"
    and elems_distinct: "inv q \<Longrightarrow> distinct (elems q)"
begin

text \<open>Taking the head and putting it back at the end rotates the queue.\<close>

lemma rotate:
  assumes "inv q" and "elems q = x # xs" and "0 < room q"
  shows "\<exists>q1 q2. deq q = Ok (Some x, q1) \<and> enq q1 x = Ok q2 \<and> inv q2 \<and>
           elems q2 = xs @ [x] \<and> room q = Suc (room q2)"
proof -
  from deq_first [OF assms(1,2)] obtain q1
    where q1: "deq q = Ok (Some x, q1)" "inv q1" "elems q1 = xs" "room q1 = room q"
    by blast
  have "x \<notin> set (elems q1)"
    using elems_distinct [OF assms(1)] assms(2) q1(3) by simp
  with q1 enq_ok [of q1 x] assms(3) show ?thesis by auto
qed

text \<open>A list of new elements is enqueued in order.\<close>

lemma enq_all:
  assumes "inv q" and "distinct xs" and "set xs \<inter> set (elems q) = {}" and "length xs \<le> room q"
  shows "\<exists>q'. try_fold enq q xs = Ok q' \<and> inv q' \<and> elems q' = elems q @ xs \<and>
           room q = length xs + room q'"
  using assms
proof (induction xs arbitrary: q)
  case Nil
  then show ?case by simp
next
  case (Cons x xs)
  then have "0 < room q" "x \<notin> set (elems q)" by auto
  from enq_ok [OF Cons.prems(1) this(2,1)] obtain q1
    where q1: "enq q x = Ok q1" "inv q1" "elems q1 = elems q @ [x]" "room q = Suc (room q1)"
    by blast
  then have "\<exists>q'. try_fold enq q1 xs = Ok q' \<and> inv q' \<and> elems q' = elems q1 @ xs \<and>
      room q1 = length xs + room q'"
    using Cons.prems by (intro Cons.IH) auto
  with q1 show ?case by auto
qed

text \<open>A successful enqueue of an absent element, and a successful removal, keep the invariant.\<close>

lemma enq_inv: "inv q \<Longrightarrow> x \<notin> set (elems q) \<Longrightarrow> enq q x = Ok q' \<Longrightarrow> inv q' \<and> elems q' = elems q @ [x]"
  using enq_ok [of q x] enq_full [of q x] by (cases "room q") auto

lemma rem_inv: "inv q \<Longrightarrow> rem q x = Ok q' \<Longrightarrow>
    x \<in> set (elems q) \<and> inv q' \<and> elems q' = remove1 x (elems q)"
  using rem_ok [of q x] rem_absent [of q x] by (cases "x \<in> set (elems q)") auto

lemma deq_inv: "inv q \<Longrightarrow> deq q = Ok (r, q') \<Longrightarrow>
    inv q' \<and> (case r of None \<Rightarrow> elems q = [] \<and> q' = q | Some x \<Rightarrow> elems q = x # elems q')"
  using deq_empty [of q] deq_first [of q] by (cases "elems q") auto

end

section \<open>The crate's queue meets the contract\<close>

definition rm_inverse :: "('a::linorder, 'b::linorder) reversable_map \<Rightarrow> bool" where
  "rm_inverse m \<longleftrightarrow> om_wf (rm_fwd m) \<and> om_wf (rm_rev m) \<and>
     (\<forall>k v. om_get (rm_fwd m) k = Some v \<longleftrightarrow> om_get (rm_rev m) v = Some k)"

definition fifo_next :: "'a fifo \<Rightarrow> nat" where
  "fifo_next q = (case item_count q of None \<Rightarrow> 0 | Some c \<Rightarrow> unat c)"

definition fifo_inv :: "('a::linorder) fifo \<Rightarrow> bool" where
  "fifo_inv q \<longleftrightarrow> rm_inverse (mapping q) \<and>
     (\<forall>k v. om_get (rm_fwd (mapping q)) k = Some v \<longrightarrow> unat k < fifo_next q)"

definition fifo_elems :: "('a::linorder) fifo \<Rightarrow> 'a list" where
  "fifo_elems q = map snd (om_entries (rm_fwd (mapping q)))"

definition fifo_room :: "'a fifo \<Rightarrow> nat" where
  "fifo_room q = 2 ^ 64 - 1 - fifo_next q"

lemma rm_reverse_simps [simp]:
  "rm_fwd (rm_reverse m) = rm_rev m" "rm_rev (rm_reverse m) = rm_fwd m"
  "rm_reverse (rm_reverse m) = m"
  by (simp_all add: rm_reverse_def)

lemma rm_inverse_reverse: "rm_inverse (rm_reverse m) \<longleftrightarrow> rm_inverse m"
  by (auto simp: rm_inverse_def)

text \<open>\<open>remove\<close> keeps the two directions inverse; \<open>save\<close> does so for a value that is not stored yet.\<close>

lemma rm_remove_Ok:
  "rm_remove m k = Ok m' \<longleftrightarrow> (\<exists>v. om_get (rm_fwd m) k = Some v \<and>
     m' = \<lparr>rm_fwd = om_remove (rm_fwd m) k, rm_rev = om_remove (rm_rev m) v\<rparr>)"
  by (auto simp: rm_remove_def rm_load_def result_simps)

lemma rm_remove_inverse:
  assumes "rm_inverse m" and "rm_remove m k = Ok m'"
  shows "rm_inverse m'"
proof -
  from assms(2) obtain v where v: "om_get (rm_fwd m) k = Some v"
    and m': "m' = \<lparr>rm_fwd = om_remove (rm_fwd m) k, rm_rev = om_remove (rm_rev m) v\<rparr>"
    by (auto simp: rm_remove_Ok)
  have wf: "om_wf (rm_fwd m)" "om_wf (rm_rev m)"
    and eq: "om_get (rm_fwd m) j = Some w \<longleftrightarrow> om_get (rm_rev m) w = Some j" for j w
    using assms(1) by (auto simp: rm_inverse_def)
  have "((om_get (rm_fwd m))(k := None)) j = Some w \<longleftrightarrow> ((om_get (rm_rev m))(v := None)) w = Some j"
    for j w
    using v eq [of k v] eq [of k w] eq [of j v] eq [of j w] by (cases "j = k"; cases "w = v") auto
  with wf show ?thesis by (simp add: m' rm_inverse_def)
qed

lemma rm_save_inverse:
  assumes "rm_inverse m" and "om_get (rm_rev m) v = None" and "rm_save m k v = Ok m'"
  shows "rm_inverse m'"
proof (cases "om_get (rm_fwd m) k")
  case None
  then have "om_get (rm_rev m) w \<noteq> Some k" for w
    using assms(1) by (metis option.distinct(1) rm_inverse_def)
  with assms None show ?thesis
    by (auto simp: rm_save_def rm_inverse_def split: if_splits)
next
  case (Some old)
  have wf: "om_wf (rm_fwd m)" "om_wf (rm_rev m)"
    and eq: "om_get (rm_fwd m) j = Some w \<longleftrightarrow> om_get (rm_rev m) w = Some j" for j w
    using assms(1) by (auto simp: rm_inverse_def)
  have "((om_get (rm_fwd m))(k \<mapsto> v)) j = Some w \<longleftrightarrow>
      ((om_get (rm_rev m))(old := None, v \<mapsto> k)) w = Some j" for j w
    using eq [of j v] eq [of k old] eq [of k w] eq [of j old] eq [of j w] assms(2) Some
    by (cases "j = k"; cases "w = v"; cases "w = old") auto
  moreover have "m' = \<lparr>rm_fwd = om_insert (rm_fwd m) k v,
      rm_rev = om_insert (om_remove (rm_rev m) old) v k\<rparr>"
    using assms(3) Some by (simp add: rm_save_def)
  ultimately show ?thesis using wf by (simp add: rm_inverse_def)
qed

lemma fifo_elems_iff:
  assumes "fifo_inv q"
  shows "x \<in> set (fifo_elems q) \<longleftrightarrow> om_get (rm_rev (mapping q)) x \<noteq> None"
proof -
  have wf: "om_wf (rm_fwd (mapping q))"
    and eq: "om_get (rm_fwd (mapping q)) k = Some v \<longleftrightarrow> om_get (rm_rev (mapping q)) v = Some k" for k v
    using assms by (auto simp: fifo_inv_def rm_inverse_def)
  have "x \<in> set (fifo_elems q) \<longleftrightarrow> (\<exists>k. om_get (rm_fwd (mapping q)) k = Some x)"
    by (force simp: fifo_elems_def om.mem_entries_iff [OF wf, symmetric])
  with eq show ?thesis by auto
qed

lemma fifo_elems_distinct:
  assumes "fifo_inv q"
  shows "distinct (fifo_elems q)"
proof -
  let ?m = "rm_fwd (mapping q)"
  have wf: "om_wf ?m"
    and eq: "om_get ?m k = Some v \<longleftrightarrow> om_get (rm_rev (mapping q)) v = Some k" for k v
    using assms by (auto simp: fifo_inv_def rm_inverse_def)
  have "inj_on snd (set (om_entries ?m))"
    by (auto simp: inj_on_def om.mem_entries_iff [OF wf] eq)
  moreover have "distinct (om_entries ?m)"
    using om.distinct_entries [OF wf] by (simp add: distinct_map)
  ultimately show ?thesis by (simp add: fifo_elems_def distinct_map)
qed

lemma fifo_next_lt: "fifo_next q < 2 ^ 64"
  using unat_word_lt [where 'a = 64] by (auto simp: fifo_next_def split: option.splits)

lemma fifo_enqueue_Ok:
  assumes "fifo_inv q" and "x \<notin> set (fifo_elems q)" and "0 < fifo_room q"
  shows "\<exists>q'. fifo_enqueue q x = Ok q' \<and> fifo_inv q' \<and> fifo_elems q' = fifo_elems q @ [x] \<and>
           fifo_room q = Suc (fifo_room q')"
proof -
  define c where "c = (case item_count q of Some c \<Rightarrow> c | None \<Rightarrow> 0)"
  let ?m = "\<lparr>rm_fwd = om_insert (rm_fwd (mapping q)) c x, rm_rev = om_insert (rm_rev (mapping q)) x c\<rparr>"
  have c: "unat c = fifo_next q" by (simp add: c_def fifo_next_def split: option.splits)
  have inv: "rm_inverse (mapping q)" and wf: "om_wf (rm_fwd (mapping q))"
    and lt: "om_get (rm_fwd (mapping q)) k = Some v \<Longrightarrow> k < c" for k v
    using assms(1) by (auto simp: fifo_inv_def rm_inverse_def word_less_unat c)
  have fresh: "om_get (rm_rev (mapping q)) x = None"
    using assms by (simp add: fifo_elems_iff)
  have "om_get (rm_fwd (mapping q)) c = None"
    using lt [of c] by (cases "om_get (rm_fwd (mapping q)) c") auto
  then have save: "rm_save (mapping q) c x = Ok ?m" by (simp add: rm_save_def)
  have fits: "unat c + 1 < 2 ^ 64" using assms(3) by (simp add: fifo_room_def c)
  then have nxt: "unat (c + 1) = Suc (fifo_next q)" by (simp add: unat_plus_nowrap c)
  let ?q = "\<lparr>mapping = ?m, item_count = Some (c + 1)\<rparr>"
  have "fifo_enqueue q x = Ok ?q"
    using save fits by (simp add: fifo_enqueue_def add_or_panic_def flip: c_def)
  moreover have "fifo_inv ?q"
    using rm_save_inverse [OF inv fresh save] lt wf
    by (auto simp: fifo_inv_def fifo_next_def [of ?q] nxt word_less_unat c less_Suc_eq
        split: if_splits)
  moreover have "fifo_elems ?q = fifo_elems q @ [x]"
    using om.entries_ins_last [OF wf lt] by (simp add: fifo_elems_def)
  moreover have "fifo_room q = Suc (fifo_room ?q)"
    using fits by (simp add: fifo_room_def fifo_next_def [of ?q] nxt c)
  ultimately show ?thesis by blast
qed

lemma fifo_enqueue_full:
  assumes "fifo_room q = 0"
  shows "fifo_enqueue q x = Panic"
proof -
  have "fifo_next q = 2 ^ 64 - 1"
    using assms fifo_next_lt [of q] by (simp add: fifo_room_def)
  then have "(add_or_panic (case item_count q of Some c \<Rightarrow> c | None \<Rightarrow> 0) 1
      :: (u64, std_error) result) = Panic"
    by (auto simp: result_simps fifo_next_def split: option.splits)
  then show ?thesis by (simp add: fifo_enqueue_def rm_save_def Let_def)
qed

lemma fifo_range_all: "rm_range m None None Ascending = om_entries (rm_fwd m)"
  by (simp add: rm_range_def)

lemma fifo_dequeue_first:
  assumes "fifo_inv q" and "fifo_elems q = x # xs"
  shows "\<exists>q'. fifo_dequeue q = Ok (Some x, q') \<and> fifo_inv q' \<and> fifo_elems q' = xs \<and>
           fifo_room q' = fifo_room q"
proof -
  let ?f = "rm_fwd (mapping q)"
  from assms(2) obtain k es where es: "om_entries ?f = (k, x) # es" "map snd es = xs"
    by (auto simp: fifo_elems_def)
  have inv: "rm_inverse (mapping q)" and wf: "om_wf ?f"
    using assms(1) by (auto simp: fifo_inv_def rm_inverse_def)
  let ?m = "\<lparr>rm_fwd = om_remove ?f k, rm_rev = om_remove (rm_rev (mapping q)) x\<rparr>"
  have rem: "rm_remove (mapping q) k = Ok ?m"
    using om.first_entry_least(1) [OF wf es(1)] by (simp add: rm_remove_Ok)
  have "fifo_dequeue q = Ok (Some x, q\<lparr>mapping := ?m\<rparr>)"
    using es rem by (simp add: fifo_dequeue_def fifo_range_all)
  moreover have "fifo_inv (q\<lparr>mapping := ?m\<rparr>)"
    using rm_remove_inverse [OF inv rem] assms(1) wf
    by (auto simp: fifo_inv_def fifo_next_def split: if_splits)
  moreover have "fifo_elems (q\<lparr>mapping := ?m\<rparr>) = xs"
    using om.entries_rem_first [OF wf es(1)] es(2) by (simp add: fifo_elems_def)
  ultimately show ?thesis by (auto simp: fifo_room_def fifo_next_def)
qed

lemma fifo_remove_present:
  assumes "fifo_inv q" and "x \<in> set (fifo_elems q)"
  shows "\<exists>q'. fifo_remove q x = Ok q' \<and> fifo_inv q' \<and> fifo_elems q' = remove1 x (fifo_elems q) \<and>
           fifo_room q' = fifo_room q"
proof -
  let ?f = "rm_fwd (mapping q)" and ?r = "rm_rev (mapping q)"
  obtain k where k: "om_get ?r x = Some k"
    using assms by (auto simp: fifo_elems_iff)
  have inv: "rm_inverse (rm_reverse (mapping q))" and wf: "om_wf ?f"
    and eq: "om_get ?f j = Some v \<longleftrightarrow> om_get ?r v = Some j" for j v
    using assms(1) by (auto simp: fifo_inv_def rm_inverse_def)
  let ?m = "\<lparr>rm_fwd = om_remove ?r x, rm_rev = om_remove ?f k\<rparr>"
  let ?q = "q\<lparr>mapping := rm_reverse ?m\<rparr>"
  have rem: "rm_remove (rm_reverse (mapping q)) x = Ok ?m"
    using k by (simp add: rm_remove_Ok)
  then have "fifo_remove q x = Ok ?q" by (simp add: fifo_remove_def)
  moreover have "fifo_inv ?q"
    using rm_remove_inverse [OF inv rem] assms(1) wf
    by (auto simp: fifo_inv_def fifo_next_def rm_inverse_reverse split: if_splits)
  moreover have "fifo_elems ?q = remove1 x (fifo_elems q)"
  proof -
    have "(fst p \<noteq> k) = (snd p \<noteq> x)" if "p \<in> set (om_entries ?f)" for p
      using that k eq [of "fst p" x] eq [of k "snd p"] eq [of k x] om.mem_entries_iff [OF wf, of "fst p" "snd p"]
      by auto
    then have "filter (\<lambda>p. fst p \<noteq> k) (om_entries ?f) = filter (\<lambda>p. snd p \<noteq> x) (om_entries ?f)"
      by (rule filter_cong [OF refl])
    then have "fifo_elems ?q = removeAll x (fifo_elems q)"
      by (simp add: fifo_elems_def om.entries_rem [OF wf] filter_map comp_def
          removeAll_filter_not_eq eq_commute [of x])
    then show ?thesis
      using fifo_elems_distinct [OF assms(1)] by (simp add: distinct_remove1_removeAll)
  qed
  ultimately show ?thesis by (auto simp: fifo_room_def fifo_next_def)
qed

lemma fifo_remove_missing:
  assumes "fifo_inv q" and "x \<notin> set (fifo_elems q)"
  shows "fifo_remove q x = Err (NotFound ''item'')"
  using assms by (simp add: fifo_elems_iff fifo_remove_def rm_remove_def rm_load_def)

interpretation fifo: fifo_queue fifo_enqueue fifo_dequeue fifo_remove fifo_has fifo_elems
  fifo_room fifo_inv "NotFound ''item''"
proof unfold_locales
  fix q :: "'a::linorder fifo" and x
  assume "fifo_inv q" and "fifo_elems q = []"
  then show "fifo_dequeue q = Ok (None, q)"
    by (simp add: fifo_dequeue_def fifo_range_all fifo_elems_def)
next
  fix q :: "'a::linorder fifo" and x
  assume "fifo_inv q"
  then show "fifo_has q x \<longleftrightarrow> x \<in> set (fifo_elems q)"
    by (simp add: fifo_has_def rm_has_def om_contains_def fifo_elems_iff)
qed (auto intro: fifo_enqueue_Ok fifo_enqueue_full fifo_dequeue_first fifo_remove_present
      fifo_remove_missing fifo_elems_distinct)

lemma fifo_new_simps [simp]:
  "fifo_inv fifo_new" "fifo_elems fifo_new = []" "fifo_room fifo_new = 2 ^ 64 - 1"
  by (auto simp: fifo_new_def fifo_inv_def rm_inverse_def fifo_elems_def om_entries_def
      fifo_room_def fifo_next_def)

lemma fifo_step_refines:
  assumes "fifo_inv q" and "0 < fifo_room q"
    and "\<And>x. c = OpEnqueue x \<Longrightarrow> x \<notin> set (fifo_elems q)"
  shows "\<exists>q'. fifo_step q c = (fst (list_step (fifo_elems q) c), q') \<and> fifo_inv q' \<and>
           fifo_elems q' = snd (list_step (fifo_elems q) c) \<and> fifo_room q \<le> Suc (fifo_room q')"
proof (cases c)
  case (OpEnqueue x)
  with fifo.enq_ok [OF assms(1) assms(3) assms(2)] show ?thesis by auto
next
  case OpDequeue
  show ?thesis
  proof (cases "fifo_elems q")
    case Nil
    with OpDequeue fifo.deq_empty [OF assms(1)] assms(1) show ?thesis by simp
  next
    case (Cons x xs)
    with OpDequeue fifo.deq_first [OF assms(1) Cons] show ?thesis by auto
  qed
next
  case (OpRemove x)
  with fifo.rem_ok [OF assms(1), of x] fifo.rem_absent [OF assms(1), of x] assms(1)
  show ?thesis by (cases "x \<in> set (fifo_elems q)") auto
next
  case (OpHas x)
  with fifo.has_iff [OF assms(1)] assms(1) show ?thesis by simp
qed

lemma fifo_steps_refine:
  assumes "fifo_inv q" and "no_requeue (fifo_elems q) cs" and "length cs \<le> fifo_room q"
  shows "fst (steps fifo_step q cs) = fst (steps list_step (fifo_elems q) cs) \<and>
         fifo_inv (snd (steps fifo_step q cs)) \<and>
         fifo_elems (snd (steps fifo_step q cs)) = snd (steps list_step (fifo_elems q) cs)"
  using assms
proof (induction cs arbitrary: q)
  case Nil
  then show ?case by simp
next
  case (Cons c cs)
  then have "0 < fifo_room q" and "\<And>x. c = OpEnqueue x \<Longrightarrow> x \<notin> set (fifo_elems q)" by auto
  from fifo_step_refines [OF Cons.prems(1) this] obtain q' where
    q': "fifo_step q c = (fst (list_step (fifo_elems q) c), q')" "fifo_inv q'"
      "fifo_elems q' = snd (list_step (fifo_elems q) c)" "fifo_room q \<le> Suc (fifo_room q')"
    by blast
  with Cons.prems have "no_requeue (fifo_elems q') cs" "length cs \<le> fifo_room q'" by auto
  from Cons.IH [OF q'(2) this] q' show ?case by (auto simp: case_prod_beta)
qed

section \<open>Properties\<close>



text \<open>
  The insertion counter is the queue's only hard limit. Enqueueing panics exactly
  when the counter has reached 2^64 - 1, and never returns an error value.
\<close>

theorem fifo_enqueue_overflow:
  "(fifo_enqueue q x = Panic \<longleftrightarrow> item_count q = Some (- 1)) \<and> (\<forall>e. fifo_enqueue q x \<noteq> Err e)"
proof -
  have max: "(c::u64) = - 1 \<longleftrightarrow> 2 ^ 64 \<le> unat c + 1" for c
  proof -
    have "unat (- 1 :: u64) = 2 ^ 64 - 1"
      by (simp add: unsigned_minus_1_eq_mask mask_eq_exp_minus_1)
    then show ?thesis using unat_word_lt [of c] by (auto simp: word_eq_unat)
  qed
  have "fifo_enqueue q x = Panic \<longleftrightarrow> item_count q = Some (- 1)"
    by (cases "item_count q") (auto simp: fifo_enqueue_def rm_save_def Let_def result_simps max)
  moreover have "fifo_enqueue q x \<noteq> Err e" for e
    by (simp add: fifo_enqueue_def rm_save_def Let_def result_simps)
  ultimately show ?thesis by blast
qed

text \<open>
  Removing an element that is not in the queue is an error (the underlying map
  fails to load it) and not a no-op.
\<close>

theorem fifo_remove_absent_fails:
  assumes "fifo_inv q" and "x \<notin> set (fifo_elems q)"
  shows "fifo_remove q x = Err (NotFound ''item'')"
  using assms by (rule fifo.rem_absent)

theorem fifo_remove_absent_fails_witness:
  "fifo_remove fifo_new (5::nat) = Err (NotFound ''item'')"
  by (rule fifo_remove_absent_fails) simp_all

lemma take_sorted_filter_above:
  assumes "om_wf m" and "n < length m" and "0 < n"
  shows "filter (\<lambda>p. fst (m ! (n - 1)) < fst p) m = drop n m"
proof -
  let ?k = "fst (m ! (n - 1))"
  have s: "i < j \<Longrightarrow> j < length m \<Longrightarrow> fst (m ! i) < fst (m ! j)" for i j
    using assms(1) by (auto simp: om_wf_def sorted_wrt_iff_nth_less)
  have "fst p \<le> ?k" if "p \<in> set (take n m)" for p
  proof -
    from that obtain i where "i < n" "p = m ! i" using assms(2) by (auto simp: in_set_conv_nth)
    then show ?thesis using s [of i "n - 1"] assms(2) by (cases "i = n - 1") (auto intro: less_imp_le)
  qed
  then have "filter (\<lambda>p. ?k < fst p) (take n m) = []"
    by (auto simp: filter_empty_conv not_less)
  moreover have "?k < fst p" if "p \<in> set (drop n m)" for p
  proof -
    from that obtain i where "n + i < length m" "p = m ! (n + i)"
      using assms(2) by (auto simp: in_set_conv_nth less_diff_conv add.commute)
    then show ?thesis using s [of "n - 1" "n + i"] assms(3) by auto
  qed
  then have "filter (\<lambda>p. ?k < fst p) (drop n m) = drop n m" by (simp add: filter_id_conv)
  ultimately show ?thesis by (metis append_take_drop_id filter_append append_Nil)
qed

lemma query_queue_all: "fifo_query_queue q None None = om_entries (rm_rev (mapping q))"
  by (simp add: fifo_query_queue_def fifo_range_all)

text \<open>
  Claim C39: the paginated query neither skips nor repeats an entry. A page of n entries
  followed by the rest, queried to start after the last address of that page, is the whole
  listing in ascending order of addresses.
\<close>

theorem query_queue_pages:
  assumes "fifo_inv q" and "0 < n"
    and "unat n < length (fifo_query_queue q None None)"
  shows "fifo_query_queue q None (Some n) @
           fifo_query_queue q (Some (fst (last (fifo_query_queue q None (Some n))))) None
         = fifo_query_queue q None None"
proof -
  let ?m = "om_entries (rm_rev (mapping q))"
  have wf: "om_wf ?m"
    using assms(1) by (simp add: fifo_inv_def rm_inverse_def om_entries_def)
  have n: "unat n < length ?m" "0 < unat n"
    using assms(2,3) by (simp_all add: query_queue_all word_less_unat)
  have page: "fifo_query_queue q None (Some n) = take (unat n) ?m"
    by (simp add: fifo_query_queue_def fifo_range_all)
  have "last (take (unat n) ?m) = ?m ! (unat n - 1)"
    using n by (subst last_conv_nth) auto
  moreover have "fifo_query_queue q (Some k) None = filter (\<lambda>p. k < fst p) ?m" for k
    by (simp add: fifo_query_queue_def rm_range_def case_prod_unfold)
  ultimately show ?thesis
    using take_sorted_filter_above [OF wf n] by (simp add: page query_queue_all)
qed

theorem query_queue_pages_witness:
  "let q = snd (steps fifo_step fifo_new [OpEnqueue (4::nat), OpEnqueue 3]) in
   fifo_query_queue q None (Some 1) @
     fifo_query_queue q (Some (fst (last (fifo_query_queue q None (Some 1))))) None
   = fifo_query_queue q None None"
proof -
  let ?q = "snd (steps fifo_step fifo_new [OpEnqueue (4::nat), OpEnqueue 3])"
  have "fifo_inv ?q"
    using fifo_steps_refine [of fifo_new "[OpEnqueue (4::nat), OpEnqueue 3]"] by simp
  moreover have "unat (1::u32) < length (fifo_query_queue ?q None None)"
    by (simp add: fifo_enqueue_def fifo_new_def rm_save_def add_or_panic_def
        query_queue_all om_entries_def Let_def om_get_def)
  ultimately show ?thesis using query_queue_pages [of ?q 1] by (simp add: Let_def)
qed

end
