(* ===== verification/Transactions.thy ===== *)
theory Transactions
  imports Cosmwasm
begin

text \<open>
  Sequences of contract calls. A call that fails leaves the storage unchanged (\<open>commit\<close>), so
  a contract's history is a list of calls, each run on the storage the previous ones left.

  The locale \<open>contract_machine\<close> is the shape every contract of the system has: a handler, an
  invariant of the storage and a condition on a call under which the handler keeps the
  invariant. What holds after one call holds after any history. \<open>contract_phases\<close> adds a phase
  (the contract state) that calls move only along a given order, and \<open>withdraw_lock\<close> the
  protocol of a holder that waits for its pooler.
\<close>

fun run_calls :: "('c \<Rightarrow> 's \<Rightarrow> (response \<times> 's, 'e) result) \<Rightarrow> 's \<Rightarrow> 'c list \<Rightarrow> 's" where
  "run_calls handle s [] = s"
| "run_calls handle s (c # cs) = run_calls handle (commit s (handle c s)) cs"

text \<open>The messages a history sends: those of the calls that succeed.\<close>

fun run_out :: "('c \<Rightarrow> 's \<Rightarrow> (response \<times> 's, 'e) result) \<Rightarrow> 's \<Rightarrow> 'c list \<Rightarrow> cosmos_msg list" where
  "run_out handle s [] = []"
| "run_out handle s (c # cs) =
     (case handle c s of Ok (r, s') \<Rightarrow> messages r @ run_out handle s' cs | _ \<Rightarrow> run_out handle s cs)"

lemma run_calls_append:
  "run_calls handle s (xs @ ys) = run_calls handle (run_calls handle s xs) ys"
  by (induction xs arbitrary: s) auto

locale contract_machine =
  fixes handle :: "'c \<Rightarrow> 's \<Rightarrow> (response \<times> 's, 'e) result"
    and valid :: "'c \<Rightarrow> bool"
    and inv :: "'s \<Rightarrow> bool"
  assumes inv_step: "valid c \<Longrightarrow> inv s \<Longrightarrow> handle c s = Ok (r, s') \<Longrightarrow> inv s'"
begin

lemma inv_commit: "valid c \<Longrightarrow> inv s \<Longrightarrow> inv (commit s (handle c s))"
  by (rule commit_cases) (auto intro: inv_step)

lemma inv_run: "list_all valid cs \<Longrightarrow> inv s \<Longrightarrow> inv (run_calls handle s cs)"
  by (induction cs arbitrary: s) (auto intro: inv_commit)

text \<open>What every message of a single call satisfies, every message of a history satisfies.\<close>

lemma out_run:
  assumes "\<And>c s r s' m. valid c \<Longrightarrow> inv s \<Longrightarrow> handle c s = Ok (r, s') \<Longrightarrow> m \<in> set (messages r) \<Longrightarrow> P m"
    and "list_all valid cs" and "inv s" and "m \<in> set (run_out handle s cs)"
  shows "P m"
  using assms(2-4)
proof (induction cs arbitrary: s)
  case (Cons c cs)
  show ?case
  proof (cases "handle c s")
    case (Ok rs)
    obtain r s' where "rs = (r, s')" by (cases rs)
    with Cons Ok inv_step [of c s r s'] assms(1) [of c s r s'] show ?thesis by auto
  qed (use Cons in auto)
qed simp

end

locale contract_phases = contract_machine +
  fixes phase :: "'s \<Rightarrow> 'p"
    and leads :: "'p \<Rightarrow> 'p \<Rightarrow> bool"
  assumes leads_refl: "leads p p"
    and leads_trans: "leads p q \<Longrightarrow> leads q q' \<Longrightarrow> leads p q'"
    and phase_step: "valid c \<Longrightarrow> inv s \<Longrightarrow> handle c s = Ok (r, s') \<Longrightarrow> leads (phase s) (phase s')"
begin

lemma phase_commit: "valid c \<Longrightarrow> inv s \<Longrightarrow> leads (phase s) (phase (commit s (handle c s)))"
  by (rule commit_cases) (auto intro: phase_step leads_refl)

lemma phase_run:
  "list_all valid cs \<Longrightarrow> inv s \<Longrightarrow> leads (phase s) (phase (run_calls handle s cs))"
proof (induction cs arbitrary: s)
  case Nil
  then show ?case by (simp add: leads_refl)
next
  case (Cons c cs)
  then have "leads (phase s) (phase (commit s (handle c s)))"
    and "inv (commit s (handle c s))"
    by (auto intro: phase_commit inv_commit)
  with Cons show ?case by (auto intro: leads_trans)
qed

lemma final_phase_run:
  assumes "\<And>q. leads p q \<Longrightarrow> q = p" and "list_all valid cs" and "inv s" and "phase s = p"
  shows "phase (run_calls handle s cs) = p"
  using assms phase_run [of cs s] by auto

end

text \<open>
  The withdraw protocol of the holders: a call that starts a withdrawal succeeds only while
  none is pending, and afterwards one is; only calls from the pooler end it.
\<close>

locale withdraw_lock =
  fixes handle :: "'c \<Rightarrow> 's \<Rightarrow> (response \<times> 's, 'e) result"
    and starts :: "'c \<Rightarrow> bool"
    and ends :: "'c \<Rightarrow> bool"
    and pending :: "'s \<Rightarrow> bool"
  assumes start_free: "starts c \<Longrightarrow> pending s \<Longrightarrow> \<exists>e. handle c s = Err e"
    and other_keeps: "\<not> ends c \<Longrightarrow> pending s \<Longrightarrow> handle c s = Ok (r, s') \<Longrightarrow> pending s'"
begin

lemma pending_run:
  assumes "pending s" and "list_all (\<lambda>c. \<not> ends c) cs"
  shows "pending (run_calls handle s cs)"
  using assms
proof (induction cs arbitrary: s)
  case Nil
  then show ?case by simp
next
  case (Cons c cs)
  then have "pending (commit s (handle c s))"
    by (auto simp: commit_def split: result.splits intro: other_keeps)
  with Cons show ?case by simp
qed

text \<open>While a withdrawal is pending, no further one starts until the pooler answers.\<close>

lemma no_second_start:
  assumes "pending s" and "list_all (\<lambda>c. \<not> ends c) cs" and "starts c"
  shows "\<exists>e. handle c (run_calls handle s cs) = Err e"
  by (rule start_free [OF assms(3) pending_run [OF assms(1,2)]])

end

end
