(* ===== verification/Covenant_Utils.thy ===== *)
theory Covenant_Utils
  imports Cosmwasm
begin

text \<open>
  The small helpers of \<open>packages/covenant-utils\<close> that several contracts share: the clock
  messages and the clock check (\<open>clock.rs\<close>), the operation mode of a contract
  (\<open>op_mode.rs\<close>), deadlines (\<open>deadline.rs\<close>), the withdraw message (\<open>withdraw_lp_helper.rs\<close>)
  and the soft validation of remote addresses (\<open>lib.rs\<close>).
\<close>

section \<open>The clock\<close>

definition enqueue_msg :: "addr \<Rightarrow> (cosmos_msg, std_error) result" where
  "enqueue_msg a = Ok (WasmExecute a EnqueueMsg [])"

definition dequeue_msg :: "addr \<Rightarrow> (cosmos_msg, std_error) result" where
  "dequeue_msg a = Ok (WasmExecute a DequeueMsg [])"

definition not_clock_err :: std_error where
  "not_clock_err = GenericErr ''Caller is not the clock, only clock can tick contracts''"

definition verify_clock :: "addr \<Rightarrow> addr \<Rightarrow> (unit, std_error) result" where
  "verify_clock caller clock_addr = (if caller \<noteq> clock_addr then Err not_clock_err else Ok ())"

lemma verify_clock_eq [result_simps]:
  "verify_clock c a = Ok u \<longleftrightarrow> c = a"
  "verify_clock c a = Err e \<longleftrightarrow> c \<noteq> a \<and> e = not_clock_err"
  "verify_clock c a \<noteq> Panic"
  by (auto simp: verify_clock_def)

section \<open>Withdraw messages\<close>

definition generate_withdraw_msg :: "addr \<Rightarrow> decimal option \<Rightarrow> (cosmos_msg, std_error) result" where
  "generate_withdraw_msg a percentage = Ok (WasmExecute a (WithdrawMsg percentage) [])"

lemmas util_msg_defs = enqueue_msg_def dequeue_msg_def generate_withdraw_msg_def

section \<open>Deadlines\<close>

datatype deadline = DeadlineExpiration expiration | DeadlineDuration duration

fun into_expiration :: "deps \<Rightarrow> deadline \<Rightarrow> block_info \<Rightarrow> expiration" where
  "into_expiration d (DeadlineExpiration e) b = e"
| "into_expiration d (DeadlineDuration t) b = duration_after d t b"

section \<open>Operation modes\<close>

datatype op_mode_config = PermissionlessCfg | PermissionedCfg "string list"

text \<open>The privileged accounts are a hash set; the model keeps a list and only asks membership.\<close>

datatype op_mode = Permissionless | Permissioned "addr list"

text \<open>\<open>PrivilegedAccounts::new\<close> asserts that the set is not empty.\<close>

definition privileged_accounts_new :: "addr list \<Rightarrow> (op_mode, std_error) result" where
  "privileged_accounts_new as = (if as = [] then Panic else Ok (Permissioned as))"

definition is_privileged :: "addr list \<Rightarrow> addr \<Rightarrow> bool" where
  "is_privileged as a = (a \<in> set as)"

fun op_mode_try_init :: "deps \<Rightarrow> op_mode_config \<Rightarrow> (op_mode, std_error) result" where
  "op_mode_try_init d PermissionlessCfg = Ok Permissionless"
| "op_mode_try_init d (PermissionedCfg addresses) =
     and_then (ensure (addresses \<noteq> []) (GenericErr ''privileged_accounts cannot be empty'')) (\<lambda>_.
     and_then (try_map (addr_validate d) addresses) (\<lambda>accounts.
       privileged_accounts_new accounts))"

datatype op_error = OpUnauthorized

fun verify_caller :: "addr \<Rightarrow> op_mode \<Rightarrow> (unit, op_error) result" where
  "verify_caller caller (Permissioned accounts) =
     (if \<not> is_privileged accounts caller then Err OpUnauthorized else Ok ())"
| "verify_caller caller Permissionless = Ok ()"

definition op_allows :: "op_mode \<Rightarrow> addr \<Rightarrow> bool" where
  "op_allows m a = (case m of Permissionless \<Rightarrow> True | Permissioned as \<Rightarrow> a \<in> set as)"

lemma verify_caller_eq [result_simps]:
  "verify_caller c m = Ok u \<longleftrightarrow> op_allows m c"
  "verify_caller c m = Err e \<longleftrightarrow> \<not> op_allows m c"
  "verify_caller c m \<noteq> Panic"
  by (cases m; cases e; auto simp: op_allows_def is_privileged_def)+

text \<open>
  The assertion of \<open>PrivilegedAccounts::new\<close> never fires on the validated path: an empty
  configuration is already refused as an error.
\<close>

lemma op_mode_try_init_no_panic:
  assumes "\<And>s. addr_validate d s \<noteq> Panic"
  shows "op_mode_try_init d cfg \<noteq> Panic"
proof (cases cfg)
  case (PermissionedCfg as)
  have "try_map (addr_validate d) as \<noteq> Panic" for as
    by (induction as) (auto simp: result_simps assms)
  moreover have "as \<noteq> [] \<Longrightarrow> try_map (addr_validate d) as = Ok bs \<Longrightarrow> bs \<noteq> []" for bs
    by (auto simp: try_map_Ok_iff)
  ultimately show ?thesis
    using PermissionedCfg by (auto simp: result_simps privileged_accounts_new_def)
qed simp

section \<open>Pool configuration\<close>

record single_side_lp_limits =
  asset_a_limit :: u128
  asset_b_limit :: u128

record pool_price_config =
  expected_spot_price :: decimal
  acceptable_price_spread :: decimal

section \<open>Remote addresses\<close>

text \<open>Decode, convert to bytes, humanize; a failure of any of the three is a generic error.\<close>

definition soft_validate_remote_chain_addr :: "deps \<Rightarrow> string \<Rightarrow> (unit, std_error) result" where
  "soft_validate_remote_chain_addr d a =
     and_then (map_err (\<lambda>e. GenericErr (''failed to bech32 decode: '' @ e)) (bech32_decode d a)) (\<lambda>decoded.
     and_then (map_err (\<lambda>e. GenericErr (''failed to get bytes from base32: '' @ e)) (from_base32 d decoded)) (\<lambda>bytes.
       case addr_humanize d bytes of
         Ok _ \<Rightarrow> Ok ()
       | Err e \<Rightarrow> Err (GenericErr ''failed to addr_humanize'')
       | Panic \<Rightarrow> Panic))"

section \<open>Validated addresses\<close>

text \<open>Documented behaviour of \<open>Api::addr_validate\<close>: a valid address is returned as it is.\<close>

definition addr_validate_spec :: "deps \<Rightarrow> bool" where
  "addr_validate_spec d \<longleftrightarrow> (\<forall>s a. addr_validate d s = Ok a \<longrightarrow> a = s) \<and> (\<forall>s. addr_validate d s \<noteq> Panic)"

lemma addr_validate_specD:
  assumes "addr_validate_spec d"
  shows "addr_validate d s = Ok a \<Longrightarrow> a = s" and "addr_validate d s \<noteq> Panic"
  using assms by (auto simp: addr_validate_spec_def)

lemma try_map_addr_validate:
  assumes "addr_validate_spec d" and "try_map (addr_validate d) ss = Ok as"
  shows "as = ss"
  using assms by (auto simp: try_map_Ok_iff list_all2_conv_all_nth addr_validate_spec_def
      intro: nth_equalityI)

lemma ref_addr_validate_ok: "addr_validate_spec (ref_deps bals)"
  by (simp add: addr_validate_spec_def)

section \<open>Reading balances\<close>

text \<open>
  The two query loops of the routers and splitters: the non-empty balances of some
  denominations, and the balances of fallback denominations, none of which may be one of the
  explicitly configured ones.
\<close>

definition denom_balances :: "deps \<Rightarrow> addr \<Rightarrow> denom list \<Rightarrow> (coin list, std_error) result" where
  "denom_balances d a denoms =
     and_then (try_map (query_balance d a) denoms) (\<lambda>cs. Ok (filter (\<lambda>c. coin_amount c \<noteq> 0) cs))"

definition fallback_balances ::
    "deps \<Rightarrow> addr \<Rightarrow> (denom \<Rightarrow> bool) \<Rightarrow> denom list \<Rightarrow> (coin list, std_error) result" where
  "fallback_balances d a explicit denoms =
     try_map (\<lambda>dn. if explicit dn then Err (GenericErr ''unauthorized denom distribution'')
                   else query_balance d a dn) denoms"

text \<open>The balance of one denomination, zero where the query fails.\<close>

definition balance_of :: "deps \<Rightarrow> addr \<Rightarrow> denom \<Rightarrow> nat" where
  "balance_of d a dn = (case query_balance d a dn of Ok c \<Rightarrow> unat (coin_amount c) | _ \<Rightarrow> 0)"

lemma coins_in_filter_nonzero: "coins_in dn (filter (\<lambda>c. coin_amount c \<noteq> 0) cs) = coins_in dn cs"
  by (induction cs) auto

lemma coins_in_queried:
  assumes "query_balance_spec d" and "try_map (query_balance d a) denoms = Ok cs" and "distinct denoms"
  shows "coins_in dn cs = (if dn \<in> set denoms then balance_of d a dn else 0)"
  using assms(2,3)
proof (induction denoms arbitrary: cs)
  case (Cons x xs)
  then obtain c cs' where c: "query_balance d a x = Ok c" "try_map (query_balance d a) xs = Ok cs'" "cs = c # cs'"
    by (auto simp: result_simps)
  with query_balance_specD(1) [OF assms(1) c(1)] Cons show ?case by (auto simp: balance_of_def)
qed simp

lemma denom_balances_total:
  assumes "query_balance_spec d" and "denom_balances d a denoms = Ok cs" and "distinct denoms"
  shows "coins_in dn cs = (if dn \<in> set denoms then balance_of d a dn else 0)"
  using assms by (auto simp: denom_balances_def result_simps coins_in_filter_nonzero coins_in_queried)

lemma denom_balances_nonzero:
  "denom_balances d a denoms = Ok cs \<Longrightarrow> c \<in> set cs \<Longrightarrow> coin_amount c \<noteq> 0"
  by (auto simp: denom_balances_def result_simps)

lemma fallback_balances_Ok:
  assumes "fallback_balances d a explicit denoms = Ok cs"
  shows "\<forall>dn\<in>set denoms. \<not> explicit dn" and "try_map (query_balance d a) denoms = Ok cs"
proof -
  show "\<forall>dn\<in>set denoms. \<not> explicit dn"
    using assms unfolding fallback_balances_def
    by (induction denoms arbitrary: cs) (auto simp: result_simps split: if_splits)
  show "try_map (query_balance d a) denoms = Ok cs"
    using assms unfolding fallback_balances_def
    by (induction denoms arbitrary: cs) (auto simp: result_simps split: if_splits)
qed

lemma length_try_map: "try_map f xs = Ok ys \<Longrightarrow> length ys = length xs"
  by (auto simp: try_map_Ok_iff dest: list_all2_lengthD)

end
