(* ===== verification/Clock.thy ===== *)
theory Clock
  imports Fifo Transactions Covenant_Utils
begin

text \<open>
  The clock contract (\<open>contracts/clock\<close>): it ticks the contracts in its queue in turn. Each
  \<open>Tick\<close> moves the head of the queue to the end and sends it a tick message with a gas limit;
  a failing receiver is caught by \<open>reply\<close>, so it cannot block the queue.
\<close>

section \<open>Data\<close>

datatype clock_error =
    CkStd std_error
  | CkAlreadyEnqueued
  | CkUnexpectedReplyId u64
  | CkPaused
  | CkNotPaused
  | CkZeroTickMaxGas
  | CkNotContract
  | CkNotClock
  | CkNotWhitelisted
  | CkMustProvideAddOrRemove

record clock_state =
  ck_queue :: "addr fifo"
  ck_paused :: "bool option"
  ck_tick_max_gas :: "u64 option"
  ck_whitelist :: "addr list option"

record clock_instantiate_msg =
  cki_tick_max_gas :: "u64 option"
  cki_whitelist :: "string list"
  cki_initial_queue :: "string list"

datatype clock_execute_msg = CkTick | CkEnqueue | CkDequeue

datatype clock_migrate_msg =
    CkPause
  | CkUnpause
  | CkUpdateTickMaxGas u64
  | CkUpdateCodeId
  | CkManageWhitelist "string list option" "string list option"   \<comment> \<open>add, remove\<close>

datatype clock_query_msg =
    CkIsQueued string
  | CkQueue "string option" "u32 option"
  | CkTickMaxGas
  | CkIsPaused
  | CkGetWhitelist

datatype clock_query_resp =
    CkRespBool bool
  | CkRespQueue "(addr \<times> u64) list"
  | CkRespGas u64
  | CkRespWhitelist "addr list"

datatype submsg_result = SubOk | SubErr string

record reply =
  reply_id :: u64
  reply_result :: submsg_result

section \<open>Operations\<close>

definition min_tick_max_gas :: u64 where
  "min_tick_max_gas = 200000"

definition default_tick_max_gas :: u64 where
  "default_tick_max_gas = 2900000"

definition max_tick_max_gas :: u64 where
  "max_tick_max_gas = 3000000"

definition clock_instantiate ::
    "deps \<Rightarrow> clock_instantiate_msg \<Rightarrow> (response \<times> clock_state, clock_error) result" where
  "clock_instantiate d msg =
     (let tick_max_gas =
        (case cki_tick_max_gas msg of
           Some g \<Rightarrow> min (max g min_tick_max_gas) max_tick_max_gas
         | None \<Rightarrow> default_tick_max_gas) in
      and_then (map_err CkStd (try_map (addr_validate d) (cki_whitelist msg))) (\<lambda>whitelist.
      and_then (map_err CkStd (try_map (addr_validate d) (cki_initial_queue msg))) (\<lambda>initial_queue.
      and_then (map_err CkStd (try_fold fifo_enqueue fifo_new initial_queue)) (\<lambda>queue.
        Ok (resp [], \<lparr>ck_queue = queue, ck_paused = Some False,
                      ck_tick_max_gas = Some tick_max_gas, ck_whitelist = Some whitelist\<rparr>)))))"

definition tick_submsg :: "addr \<Rightarrow> u64 \<Rightarrow> submsg" where
  "tick_submsg receiver gas =
     \<lparr>sub_msg = WasmExecute receiver TickMsg [], sub_id = 0, sub_gas_limit = Some gas,
      sub_reply_on = ReplyOnError\<rparr>"

definition clock_tick :: "clock_state \<Rightarrow> (response \<times> clock_state, clock_error) result" where
  "clock_tick st =
     and_then (map_err CkStd (fifo_dequeue (ck_queue st))) (\<lambda>(receiver, q1).
       case receiver of
         Some receiver \<Rightarrow>
           and_then (map_err CkStd (fifo_enqueue q1 receiver)) (\<lambda>q2.
           and_then (map_err CkStd (load (ck_tick_max_gas st))) (\<lambda>gas.
             Ok (\<lparr>submessages = [tick_submsg receiver gas]\<rparr>, st\<lparr>ck_queue := q2\<rparr>)))
       | None \<Rightarrow> Ok (resp [], st\<lparr>ck_queue := q1\<rparr>))"

definition clock_enqueue ::
    "deps \<Rightarrow> message_info \<Rightarrow> clock_state \<Rightarrow> (response \<times> clock_state, clock_error) result" where
  "clock_enqueue d info st =
     (if fifo_has (ck_queue st) (sender info) then Err CkAlreadyEnqueued
      else and_then (map_err CkStd (load (ck_whitelist st))) (\<lambda>whitelist.
        if \<not> (sender info \<in> set whitelist) then Err CkNotWhitelisted
        else and_then (map_err (\<lambda>_. CkNotContract) (query_wasm_contract_info d (sender info))) (\<lambda>_.
          and_then (map_err CkStd (fifo_enqueue (ck_queue st) (sender info))) (\<lambda>q.
            Ok (resp [], st\<lparr>ck_queue := q\<rparr>)))))"

definition clock_dequeue ::
    "message_info \<Rightarrow> clock_state \<Rightarrow> (response \<times> clock_state, clock_error) result" where
  "clock_dequeue info st =
     and_then (map_err CkStd (fifo_remove (ck_queue st) (sender info))) (\<lambda>q.
       Ok (resp [], st\<lparr>ck_queue := q\<rparr>))"

definition clock_execute ::
    "deps \<Rightarrow> message_info \<Rightarrow> clock_execute_msg \<Rightarrow> clock_state
     \<Rightarrow> (response \<times> clock_state, clock_error) result" where
  "clock_execute d info msg st =
     and_then (map_err CkStd (load (ck_paused st))) (\<lambda>is_paused.
       if is_paused then Err CkPaused
       else (case msg of
           CkTick \<Rightarrow> clock_tick st
         | CkEnqueue \<Rightarrow> clock_enqueue d info st
         | CkDequeue \<Rightarrow> clock_dequeue info st))"

definition clock_query ::
    "deps \<Rightarrow> clock_query_msg \<Rightarrow> clock_state \<Rightarrow> (clock_query_resp, std_error) result" where
  "clock_query d msg st =
     (case msg of
        CkIsQueued a \<Rightarrow> Ok (CkRespBool (fifo_has (ck_queue st) a))
      | CkQueue start_after limit \<Rightarrow>
          and_then (case start_after of
                      None \<Rightarrow> Ok None
                    | Some a \<Rightarrow> and_then (addr_validate d a) (\<lambda>v. Ok (Some v))) (\<lambda>start.
            Ok (CkRespQueue (fifo_query_queue (ck_queue st) start limit)))
      | CkTickMaxGas \<Rightarrow> and_then (load (ck_tick_max_gas st)) (\<lambda>g. Ok (CkRespGas g))
      | CkIsPaused \<Rightarrow> and_then (load (ck_paused st)) (\<lambda>b. Ok (CkRespBool b))
      | CkGetWhitelist \<Rightarrow> and_then (load (ck_whitelist st)) (\<lambda>w. Ok (CkRespWhitelist w)))"

text \<open>\<open>unwrap_err\<close> on a successful result panics.\<close>

definition clock_reply :: "reply \<Rightarrow> clock_state \<Rightarrow> (response \<times> clock_state, clock_error) result" where
  "clock_reply msg st =
     (if reply_id msg \<noteq> 0 then Err (CkUnexpectedReplyId (reply_id msg))
      else case reply_result msg of SubErr e \<Rightarrow> Ok (resp [], st) | SubOk \<Rightarrow> Panic)"

text \<open>\<open>Vec::swap_remove\<close>: the last element takes the place of the removed one.\<close>

definition swap_remove :: "'a list \<Rightarrow> nat \<Rightarrow> 'a list" where
  "swap_remove xs i = butlast (xs[i := last xs])"

fun position :: "('a \<Rightarrow> bool) \<Rightarrow> 'a list \<Rightarrow> nat option" where
  "position p [] = None"
| "position p (x # xs) = (if p x then Some 0 else map_option Suc (position p xs))"

definition whitelist_remove ::
    "addr fifo \<times> addr list \<Rightarrow> string \<Rightarrow> (addr fifo \<times> addr list, clock_error) result" where
  "whitelist_remove qw a =
     (case qw of (queue, whitelist) \<Rightarrow>
        case position (\<lambda>x. x = a) whitelist of
          Some index \<Rightarrow>
            and_then (map_err CkStd (fifo_remove queue (whitelist ! index))) (\<lambda>queue'.
              Ok (queue', swap_remove whitelist index))
        | None \<Rightarrow> Ok (queue, whitelist))"

definition whitelist_add ::
    "deps \<Rightarrow> addr fifo \<times> addr list \<Rightarrow> string \<Rightarrow> (addr fifo \<times> addr list, clock_error) result" where
  "whitelist_add d qw a =
     (case qw of (queue, whitelist) \<Rightarrow>
        if \<not> (a \<in> set whitelist) then
          and_then (map_err CkStd (addr_validate d a)) (\<lambda>addr.
          and_then (map_err (\<lambda>_. CkNotContract) (query_wasm_contract_info d addr)) (\<lambda>_.
          and_then (map_err CkStd (fifo_enqueue queue addr)) (\<lambda>queue'.
            Ok (queue', whitelist @ [addr]))))
        else Ok (queue, whitelist))"

definition clock_manage_whitelist ::
    "deps \<Rightarrow> string list option \<Rightarrow> string list option \<Rightarrow> clock_state
     \<Rightarrow> (response \<times> clock_state, clock_error) result" where
  "clock_manage_whitelist d add remove st =
     (if add = None \<and> remove = None then Err CkMustProvideAddOrRemove
      else and_then (map_err CkStd (load (ck_whitelist st))) (\<lambda>whitelist.
        and_then (case remove of
                    Some addrs \<Rightarrow> try_fold whitelist_remove (ck_queue st, whitelist) addrs
                  | None \<Rightarrow> Ok (ck_queue st, whitelist)) (\<lambda>qw1.
        and_then (case add of
                    Some addrs \<Rightarrow> try_fold (whitelist_add d) qw1 addrs
                  | None \<Rightarrow> Ok qw1) (\<lambda>(queue, whitelist').
          Ok (resp [], st\<lparr>ck_queue := queue, ck_whitelist := Some whitelist'\<rparr>)))))"

definition clock_migrate ::
    "deps \<Rightarrow> clock_migrate_msg \<Rightarrow> clock_state \<Rightarrow> (response \<times> clock_state, clock_error) result" where
  "clock_migrate d msg st =
     (case msg of
        CkPause \<Rightarrow>
          and_then (map_err CkStd (load (ck_paused st))) (\<lambda>is_paused.
            if is_paused then Err CkPaused else Ok (resp [], st\<lparr>ck_paused := Some True\<rparr>))
      | CkUnpause \<Rightarrow>
          and_then (map_err CkStd (load (ck_paused st))) (\<lambda>is_paused.
            if \<not> is_paused then Err CkNotPaused else Ok (resp [], st\<lparr>ck_paused := Some False\<rparr>))
      | CkUpdateTickMaxGas new_value \<Rightarrow>
          if new_value = 0 then Err CkZeroTickMaxGas
          else Ok (resp [], st\<lparr>ck_tick_max_gas :=
                 Some (min (max new_value min_tick_max_gas) max_tick_max_gas)\<rparr>)
      | CkManageWhitelist add remove \<Rightarrow> clock_manage_whitelist d add remove st
      | CkUpdateCodeId \<Rightarrow> Ok (resp [], st))"

text \<open>Any call a deployed clock can receive, with the platform it runs on.\<close>

datatype clock_call =
    ClockExecute deps message_info clock_execute_msg
  | ClockMigrate deps clock_migrate_msg
  | ClockReply reply

fun clock_handle :: "clock_call \<Rightarrow> clock_state \<Rightarrow> (response \<times> clock_state, clock_error) result" where
  "clock_handle (ClockExecute d info msg) st = clock_execute d info msg st"
| "clock_handle (ClockMigrate d msg) st = clock_migrate d msg st"
| "clock_handle (ClockReply r) st = clock_reply r st"

lemmas clock_defs = clock_execute_def clock_tick_def clock_enqueue_def clock_dequeue_def
  clock_migrate_def clock_manage_whitelist_def clock_reply_def

section \<open>The invariant\<close>

text \<open>
  A working clock: the queue's two maps agree, everything queued is whitelisted or one of the
  \<open>extra\<close> contracts, the gas limit lies in its range, and all items are set. The extra contracts
  are those a deployment puts into the initial queue without whitelisting them.
\<close>

definition clock_inv :: "addr list \<Rightarrow> clock_state \<Rightarrow> bool" where
  "clock_inv extra st \<longleftrightarrow> fifo_inv (ck_queue st) \<and> ck_paused st \<noteq> None \<and>
     (\<exists>g. ck_tick_max_gas st = Some g \<and> min_tick_max_gas \<le> g \<and> g \<le> max_tick_max_gas) \<and>
     (\<exists>w. ck_whitelist st = Some w \<and> set (fifo_elems (ck_queue st)) \<subseteq> set w \<union> set extra)"

lemma gas_clamp:
  "min_tick_max_gas \<le> min (max g min_tick_max_gas) max_tick_max_gas"
  "min (max g min_tick_max_gas) max_tick_max_gas \<le> max_tick_max_gas"
  "min_tick_max_gas \<le> default_tick_max_gas" "default_tick_max_gas \<le> max_tick_max_gas"
  by (auto simp: min_tick_max_gas_def max_tick_max_gas_def default_tick_max_gas_def
      min_def max_def)

lemma position_Some: "position p xs = Some i \<Longrightarrow> i < length xs \<and> p (xs ! i)"
  by (induction xs arbitrary: i) (auto split: if_splits)

lemma position_None: "position p xs = None \<longleftrightarrow> (\<forall>x\<in>set xs. \<not> p x)"
  by (induction xs) auto

lemma set_swap_remove:
  assumes "i < length xs"
  shows "set xs \<subseteq> insert (xs ! i) (set (swap_remove xs i))" "set (swap_remove xs i) \<subseteq> set xs"
proof -
  from assms obtain ys y where xs: "xs = ys @ [y]" by (cases xs rule: rev_cases) auto
  show "set xs \<subseteq> insert (xs ! i) (set (swap_remove xs i))"
  proof (cases "i < length ys")
    case True
    have "set ys \<subseteq> insert (ys ! i) (set (ys[i := y]))"
      by (metis True list_update_id list_update_overwrite set_update_subset_insert)
    moreover have "y \<in> set (ys[i := y])" using True by (rule set_update_memI)
    ultimately show ?thesis
      using True by (auto simp: xs swap_remove_def list_update_append butlast_append nth_append)
  next
    case False
    with assms show ?thesis by (simp add: xs swap_remove_def list_update_append nth_append)
  qed
  have "last xs \<in> set xs" by (simp add: xs)
  then show "set (swap_remove xs i) \<subseteq> set xs"
    using assms set_update_subset_insert [of xs i "last xs"]
    by (auto simp: swap_remove_def dest!: in_set_butlastD)
qed

text \<open>A whitelist update that adds none of the extra contracts.\<close>

fun adds_none_of :: "addr list \<Rightarrow> clock_migrate_msg \<Rightarrow> bool" where
  "adds_none_of extra (CkManageWhitelist (Some add) remove) = list_all (\<lambda>a. a \<notin> set extra) add"
| "adds_none_of extra msg = True"

text \<open>The pair of queue and whitelist that the whitelist update works on.\<close>

definition qw_inv :: "addr list \<Rightarrow> addr fifo \<times> addr list \<Rightarrow> bool" where
  "qw_inv extra qw \<longleftrightarrow> fifo_inv (fst qw) \<and> set (fifo_elems (fst qw)) \<subseteq> set (snd qw) \<union> set extra"

lemma whitelist_remove_inv:
  assumes "qw_inv extra qw" and "whitelist_remove qw a = Ok qw'"
  shows "qw_inv extra qw'"
proof -
  obtain q w where qw: "qw = (q, w)" by (cases qw)
  show ?thesis
  proof (cases "position (\<lambda>x. x = a) w")
    case None
    with assms qw show ?thesis by (simp add: whitelist_remove_def)
  next
    case (Some i)
    then have i: "i < length w" "w ! i = a" using position_Some by fastforce+
    from assms(2) Some qw i obtain q' where q': "fifo_remove q a = Ok q'" "qw' = (q', swap_remove w i)"
      by (auto simp: whitelist_remove_def result_simps)
    from fifo.rem_inv [OF _ q'(1)] assms(1) qw
    have "fifo_inv q'" "fifo_elems q' = remove1 a (fifo_elems q)" "distinct (fifo_elems q)"
      by (auto simp: qw_inv_def intro: fifo.elems_distinct)
    moreover have "set w \<subseteq> insert a (set (swap_remove w i))"
      using set_swap_remove(1) [OF i(1)] i(2) by simp
    ultimately show ?thesis
      using assms(1) qw q' by (auto simp: qw_inv_def)
  qed
qed

lemma whitelist_add_inv:
  assumes "addr_validate_spec d" and "a \<notin> set extra" and "qw_inv extra qw" and "whitelist_add d qw a = Ok qw'"
  shows "qw_inv extra qw'"
proof -
  obtain q w where qw: "qw = (q, w)" by (cases qw)
  show ?thesis
  proof (cases "a \<in> set w")
    case True
    with assms qw show ?thesis by (simp add: whitelist_add_def)
  next
    case False
    with assms qw obtain q' where q': "fifo_enqueue q a = Ok q'" "qw' = (q', w @ [a])"
      by (auto simp: whitelist_add_def result_simps dest: addr_validate_specD)
    moreover have "a \<notin> set (fifo_elems q)" using False assms(2,3) qw by (auto simp: qw_inv_def)
    ultimately show ?thesis
      using fifo.enq_inv [of q a q'] assms(3) qw by (auto simp: qw_inv_def)
  qed
qed

lemma whitelist_adds_inv:
  assumes "addr_validate_spec d" and "try_fold (whitelist_add d) qw as = Ok qw'"
    and "list_all (\<lambda>a. a \<notin> set extra) as" and "qw_inv extra qw"
  shows "qw_inv extra qw'"
  using assms(2-4)
  by (induction as arbitrary: qw) (auto simp: result_simps intro: whitelist_add_inv [OF assms(1)])

lemma clock_manage_whitelist_inv:
  assumes "addr_validate_spec d" and "clock_inv extra st"
    and "clock_manage_whitelist d add remove st = Ok (r, st')" and "adds_none_of extra (CkManageWhitelist add remove)"
  shows "clock_inv extra st'"
proof -
  from assms(2) obtain w where w: "ck_whitelist st = Some w" and qw0: "qw_inv extra (ck_queue st, w)"
    by (auto simp: clock_inv_def qw_inv_def)
  from assms(3) w obtain qw1 q' w' where
    qw1: "(case remove of Some addrs \<Rightarrow> try_fold whitelist_remove (ck_queue st, w) addrs
            | None \<Rightarrow> Ok (ck_queue st, w)) = Ok qw1"
    and qw2: "(case add of Some addrs \<Rightarrow> try_fold (whitelist_add d) qw1 addrs | None \<Rightarrow> Ok qw1)
            = Ok (q', w')"
    and st': "st' = st\<lparr>ck_queue := q', ck_whitelist := Some w'\<rparr>"
    by (auto simp: clock_manage_whitelist_def result_simps split: if_splits)
  have "qw_inv extra qw1"
    using qw1 qw0 by (auto split: option.splits intro: try_fold_invariant whitelist_remove_inv)
  then have "qw_inv extra (q', w')"
    using qw2 assms(1,4) by (auto split: option.splits intro: whitelist_adds_inv)
  with assms(2) show ?thesis by (auto simp: st' clock_inv_def qw_inv_def)
qed

lemma clock_tick_empty:
  "fifo_inv (ck_queue st) \<Longrightarrow> fifo_elems (ck_queue st) = [] \<Longrightarrow> clock_tick st = Ok (resp [], st)"
  by (simp add: clock_tick_def fifo.deq_empty)

lemma clock_tick_first:
  assumes "fifo_inv (ck_queue st)" and "fifo_elems (ck_queue st) = x # xs"
    and "0 < fifo_room (ck_queue st)" and "ck_tick_max_gas st = Some g"
  shows "\<exists>q'. clock_tick st = Ok (\<lparr>submessages = [tick_submsg x g]\<rparr>, st\<lparr>ck_queue := q'\<rparr>) \<and>
           fifo_inv q' \<and> fifo_elems q' = xs @ [x] \<and> fifo_room (ck_queue st) = Suc (fifo_room q')"
  using fifo.rotate [OF assms(1-3)] assms(4) by (auto simp: clock_tick_def)

lemma clock_tick_cases:
  assumes "fifo_inv (ck_queue st)" and "clock_tick st = Ok (r, st')"
  shows "(fifo_elems (ck_queue st) = [] \<and> r = resp [] \<and> st' = st) \<or>
    (\<exists>x xs g q'. fifo_elems (ck_queue st) = x # xs \<and> ck_tick_max_gas st = Some g \<and>
       r = \<lparr>submessages = [tick_submsg x g]\<rparr> \<and> st' = st\<lparr>ck_queue := q'\<rparr> \<and> fifo_inv q' \<and>
       fifo_elems q' = xs @ [x])"
proof (cases "fifo_elems (ck_queue st)")
  case Nil
  with assms clock_tick_empty [OF assms(1)] show ?thesis by simp
next
  case (Cons x xs)
  from fifo.deq_first [OF assms(1) Cons] obtain q1
    where q1: "fifo_dequeue (ck_queue st) = Ok (Some x, q1)" "fifo_room q1 = fifo_room (ck_queue st)"
    by blast
  with assms(2) obtain g where g: "ck_tick_max_gas st = Some g" and "0 < fifo_room (ck_queue st)"
    by (cases "fifo_room q1 = 0") (auto simp: clock_tick_def fifo.enq_full result_simps)
  from clock_tick_first [OF assms(1) Cons this(2) g] assms(2) Cons g show ?thesis by auto
qed

lemma clock_execute_inv:
  assumes "clock_inv extra st" and "clock_execute d info msg st = Ok (r, st')"
  shows "clock_inv extra st'"
proof -
  let ?q = "ck_queue st"
  have inv: "fifo_inv ?q" using assms(1) by (simp add: clock_inv_def)
  show ?thesis
  proof (cases msg)
    case CkTick
    with assms(2) have "clock_tick st = Ok (r, st')"
      by (auto simp: clock_execute_def result_simps split: if_splits)
    from clock_tick_cases [OF inv this] assms(1) show ?thesis
      by (auto simp: clock_inv_def)
  next
    case CkEnqueue
    with assms obtain q w where q: "fifo_enqueue ?q (sender info) = Ok q" "st' = st\<lparr>ck_queue := q\<rparr>"
      "\<not> fifo_has ?q (sender info)" "ck_whitelist st = Some w" "sender info \<in> set w"
      by (auto simp: clock_defs result_simps split: if_splits)
    with fifo.enq_inv [OF inv _ q(1)] fifo.has_iff [OF inv] assms(1)
    show ?thesis by (auto simp: clock_inv_def)
  next
    case CkDequeue
    with assms(2) obtain q where q: "fifo_remove ?q (sender info) = Ok q" "st' = st\<lparr>ck_queue := q\<rparr>"
      by (auto simp: clock_defs result_simps split: if_splits)
    with fifo.rem_inv [OF inv q(1)] assms(1) show ?thesis
      using set_remove1_subset by (fastforce simp: clock_inv_def)
  qed
qed

lemma clock_migrate_inv:
  assumes "addr_validate_spec d" and "clock_inv extra st" and "clock_migrate d msg st = Ok (r, st')"
    and "adds_none_of extra msg"
  shows "clock_inv extra st'"
proof (cases msg)
  case (CkManageWhitelist add remove)
  with assms show ?thesis by (auto simp: clock_migrate_def intro: clock_manage_whitelist_inv)
next
  case (CkUpdateTickMaxGas g)
  with assms gas_clamp show ?thesis
    by (auto simp: clock_migrate_def clock_inv_def split: if_splits)
qed (use assms in \<open>auto simp: clock_migrate_def clock_inv_def result_simps split: if_splits\<close>)

fun clock_call_valid :: "addr list \<Rightarrow> clock_call \<Rightarrow> bool" where
  "clock_call_valid extra (ClockExecute d info msg) \<longleftrightarrow> addr_validate_spec d"
| "clock_call_valid extra (ClockMigrate d msg) \<longleftrightarrow> addr_validate_spec d \<and> adds_none_of extra msg"
| "clock_call_valid extra (ClockReply r) \<longleftrightarrow> True"

interpretation clock: contract_machine clock_handle "clock_call_valid extra" "clock_inv extra" for extra
proof unfold_locales
  fix c st r st'
  assume "clock_call_valid extra c" "clock_inv extra st" "clock_handle c st = Ok (r, st')"
  then show "clock_inv extra st'"
    by (cases c) (auto intro: clock_execute_inv clock_migrate_inv
        simp: clock_reply_def split: if_splits submsg_result.splits)
qed

lemma clock_instantiate_inv:
  assumes "addr_validate_spec d" and "clock_instantiate d msg = Ok (r, st)"
    and "distinct (cki_initial_queue msg)"
    and "set (cki_initial_queue msg) \<subseteq> set (cki_whitelist msg) \<union> set extra"
    and "length (cki_initial_queue msg) < 2 ^ 64"
  shows "clock_inv extra st \<and> fifo_elems (ck_queue st) = cki_initial_queue msg"
proof -
  from assms(2) obtain w i where wi: "try_map (addr_validate d) (cki_whitelist msg) = Ok w"
    "try_map (addr_validate d) (cki_initial_queue msg) = Ok i"
    by (auto simp: clock_instantiate_def result_simps)
  note [simp] = wi [THEN try_map_addr_validate [OF assms(1)]]
  from assms(1,2) wi obtain q where
    q: "try_fold fifo_enqueue fifo_new (cki_initial_queue msg) = Ok q"
    and st: "ck_queue st = q" "ck_paused st = Some False" "ck_whitelist st = Some (cki_whitelist msg)"
    and g: "\<exists>g. ck_tick_max_gas st = Some g \<and> min_tick_max_gas \<le> g \<and> g \<le> max_tick_max_gas"
    using gas_clamp
    by (auto simp: clock_instantiate_def Let_def result_simps split: option.splits)
  from fifo.enq_all [of fifo_new "cki_initial_queue msg"] assms(3,5) q
  have "fifo_inv q" "fifo_elems q = cki_initial_queue msg" by auto
  with st g assms(4) show ?thesis by (simp add: clock_inv_def)
qed

section \<open>Properties\<close>

text \<open>
  Claim C6: the clock's invariant holds in every state a deployed clock can reach. If the
  initial queue has no duplicates, then after instantiation and any history of executions,
  migrations and replies (failing calls included) the two storage maps of the queue agree,
  every queued contract is whitelisted or one of the extra contracts that the deployment
  enqueued without whitelisting them, and the gas limit lies between its two constants. The
  one condition on the calls is that no whitelist update adds an extra contract.
\<close>

theorem clock_reachable_inv:
  assumes "addr_validate_spec d" and "clock_instantiate d msg = Ok (r, st)"
    and "distinct (cki_initial_queue msg)"
    and "set (cki_initial_queue msg) \<subseteq> set (cki_whitelist msg) \<union> set extra"
    and "length (cki_initial_queue msg) < 2 ^ 64"
    and "list_all (clock_call_valid extra) calls"
  shows "clock_inv extra (run_calls clock_handle st calls)"
  using clock_instantiate_inv [OF assms(1-5)] assms(6) by (intro clock.inv_run) simp_all

text \<open>Inputs for the witnesses: a clock with two whitelisted contracts.\<close>

definition ck_example_msg :: clock_instantiate_msg where
  "ck_example_msg = \<lparr>cki_tick_max_gas = Some 5, cki_whitelist = [''a'', ''b''], cki_initial_queue = [''a'', ''b'']\<rparr>"

definition ck_example_state :: clock_state where
  "ck_example_state =
     \<lparr>ck_queue = \<lparr>mapping = \<lparr>rm_fwd = [(0, ''a''), (1, ''b'')], rm_rev = [(''a'', 0), (''b'', 1)]\<rparr>,
                  item_count = Some 2\<rparr>,
      ck_paused = Some False, ck_tick_max_gas = Some 200000, ck_whitelist = Some [''a'', ''b'']\<rparr>"

lemma ck_example_instantiate:
  "clock_instantiate (ref_deps bals) ck_example_msg = Ok (resp [], ck_example_state)"
  by (simp add: clock_instantiate_def ck_example_msg_def ck_example_state_def Let_def
      fifo_enqueue_def fifo_new_def rm_save_def add_or_panic_def om_get_def
      min_tick_max_gas_def max_tick_max_gas_def min_def max_def)

theorem clock_reachable_inv_witness:
  "clock_inv [''c''] (run_calls clock_handle ck_example_state
     [ClockExecute (ref_deps (\<lambda>_ _. 0)) \<lparr>sender = ''x'', funds = []\<rparr> CkTick,
      ClockMigrate (ref_deps (\<lambda>_ _. 0)) CkPause])"
  by (rule clock_reachable_inv [OF ref_addr_validate_ok ck_example_instantiate])
    (simp_all add: ck_example_msg_def ref_addr_validate_ok)

text \<open>Any number of ticks in a row, with their responses.\<close>

fun clock_ticks :: "nat \<Rightarrow> clock_state \<Rightarrow> (response list \<times> clock_state, clock_error) result" where
  "clock_ticks 0 st = Ok ([], st)"
| "clock_ticks (Suc n) st =
     and_then (clock_tick st) (\<lambda>(r, st'). and_then (clock_ticks n st') (\<lambda>(rs, st''). Ok (r # rs, st'')))"

lemma clock_ticks_rotate:
  assumes "fifo_inv (ck_queue st)" and "fifo_elems (ck_queue st) = xs" and "xs \<noteq> []"
    and "n \<le> fifo_room (ck_queue st)" and "ck_tick_max_gas st = Some g"
  shows "\<exists>st'. clock_ticks n st =
      Ok (map (\<lambda>i. \<lparr>submessages = [tick_submsg (xs ! (i mod length xs)) g]\<rparr>) [0..<n], st') \<and>
      fifo_elems (ck_queue st') = rotate n xs"
  using assms
proof (induction n arbitrary: st xs)
  case 0
  then show ?case by simp
next
  case (Suc n)
  then obtain x ys where xs: "xs = x # ys" by (cases xs) auto
  from Suc.prems xs clock_tick_first [of st x ys g] obtain q' where
    t: "clock_tick st = Ok (\<lparr>submessages = [tick_submsg x g]\<rparr>, st\<lparr>ck_queue := q'\<rparr>)"
    and q': "fifo_inv q'" "fifo_elems q' = ys @ [x]" "fifo_room (ck_queue st) = Suc (fifo_room q')"
    by auto
  from Suc.IH [of "st\<lparr>ck_queue := q'\<rparr>" "ys @ [x]"] q' Suc.prems(4,5) obtain st'' where
    IH: "clock_ticks n (st\<lparr>ck_queue := q'\<rparr>) = Ok (map (\<lambda>i. \<lparr>submessages =
        [tick_submsg ((ys @ [x]) ! (i mod length (ys @ [x]))) g]\<rparr>) [0..<n], st'')"
      "fifo_elems (ck_queue st'') = rotate n (ys @ [x])"
    by auto
  have "(ys @ [x]) ! (i mod length (ys @ [x])) = xs ! (Suc i mod length xs)" for i
    using nth_rotate [of "i mod length xs" xs 1] by (simp add: xs mod_Suc_eq)
  then have "map (\<lambda>i. \<lparr>submessages = [tick_submsg ((ys @ [x]) ! (i mod length (ys @ [x]))) g]\<rparr>) [0..<n]
      = map (\<lambda>i. \<lparr>submessages = [tick_submsg (xs ! (i mod length xs)) g]\<rparr>) [1..<Suc n]"
    by (simp add: map_Suc_upt [symmetric] comp_def del: upt_Suc)
  moreover have "rotate n (ys @ [x]) = rotate (Suc n) xs"
    by (simp add: xs rotate1_rotate_swap)
  ultimately show ?case
    using t IH xs by (simp add: upt_conv_Cons del: upt_Suc)
qed


lemma ck_example_inv:
  "clock_inv [] ck_example_state" "fifo_elems (ck_queue ck_example_state) = [''a'', ''b'']"
  using clock_instantiate_inv [OF ref_addr_validate_ok ck_example_instantiate]
  by (simp_all add: ck_example_msg_def)

lemma ck_example_empty_inv: "clock_inv [] (ck_example_state\<lparr>ck_queue := fifo_new\<rparr>)"
  using ck_example_inv(1) by (auto simp: clock_inv_def)


text \<open>
  While the clock is paused, every execute message fails with the pause error and
  so changes nothing, and the only way back is an unpause migration.
\<close>

theorem clock_paused_blocks:
  assumes "ck_paused st = Some True"
  shows "clock_execute d info msg st = Err CkPaused \<and>
         (clock_migrate d m st = Ok (r, st') \<and> ck_paused st' = Some False \<longrightarrow> m = CkUnpause)"
  using assms
  by (cases m) (auto simp: clock_execute_def clock_migrate_def clock_manage_whitelist_def
      result_simps split: if_splits)

theorem clock_paused_blocks_witness:
  "clock_execute (ref_deps (\<lambda>_ _. 0)) \<lparr>sender = ''x'', funds = []\<rparr> CkTick
     (ck_example_state\<lparr>ck_paused := Some True\<rparr>) = Err CkPaused"
  using clock_paused_blocks [of "ck_example_state\<lparr>ck_paused := Some True\<rparr>"] by simp

text \<open>
  Who may join the queue. On a running clock with counter capacity left, an
  enqueue message succeeds exactly when its sender is not queued yet, is whitelisted and is
  a contract; it then stands at the end of the queue.
\<close>

theorem clock_enqueue_iff:
  assumes "clock_inv extra st" and "ck_paused st = Some False" and "ck_whitelist st = Some w"
    and "0 < fifo_room (ck_queue st)" and "query_wasm_contract_info d (sender info) \<noteq> Panic"
  shows "(\<exists>st'. clock_execute d info CkEnqueue st = Ok (resp [], st') \<and>
            fifo_elems (ck_queue st') = fifo_elems (ck_queue st) @ [sender info]) \<longleftrightarrow>
         sender info \<notin> set (fifo_elems (ck_queue st)) \<and> sender info \<in> set w \<and>
         query_wasm_contract_info d (sender info) = Ok ()"
proof -
  have inv: "fifo_inv (ck_queue st)" using assms(1) by (simp add: clock_inv_def)
  show ?thesis
    using assms fifo.has_iff [OF inv, of "sender info"] fifo.enq_ok [OF inv, of "sender info"]
    by (cases "query_wasm_contract_info d (sender info)")
      (auto simp: clock_execute_def clock_enqueue_def result_simps)
qed

theorem clock_enqueue_iff_witness:
  "clock_inv [] (ck_example_state\<lparr>ck_queue := fifo_new\<rparr>) \<and>
   (\<exists>st'. clock_execute (ref_deps (\<lambda>_ _. 0)) \<lparr>sender = ''a'', funds = []\<rparr> CkEnqueue
            (ck_example_state\<lparr>ck_queue := fifo_new\<rparr>) = Ok (resp [], st') \<and>
          fifo_elems (ck_queue st') = [''a''])"
  using clock_enqueue_iff [OF ck_example_empty_inv, of "[''a'', ''b'']" "ref_deps (\<lambda>_ _. 0)"
      "\<lparr>sender = ''a'', funds = []\<rparr>"] ck_example_empty_inv
  by (simp add: ck_example_state_def)

text \<open>
  A whitelisted contract that is not in the queue (for example because it dequeued
  itself when it completed) cannot be taken off the whitelist: the migration fails because
  the queue has no such element.
\<close>

theorem clock_whitelist_remove_unqueued_fails:
  assumes "clock_inv extra st" and "ck_whitelist st = Some w" and "a \<in> set w"
    and "a \<notin> set (fifo_elems (ck_queue st))"
  shows "clock_migrate d (CkManageWhitelist None (Some [a])) st = Err (CkStd (NotFound ''item''))"
proof -
  obtain i where i: "position (\<lambda>x. x = a) w = Some i"
    using assms(3) position_None [of "\<lambda>x. x = a" w] by (cases "position (\<lambda>x. x = a) w") auto
  then have "w ! i = a" using position_Some by fastforce
  moreover have "fifo_remove (ck_queue st) a = Err (NotFound ''item'')"
    using assms(1,4) by (intro fifo.rem_absent) (simp_all add: clock_inv_def)
  ultimately show ?thesis
    using i assms(2) by (simp add: clock_migrate_def clock_manage_whitelist_def whitelist_remove_def)
qed

theorem clock_whitelist_remove_unqueued_fails_witness:
  "clock_migrate (ref_deps (\<lambda>_ _. 0)) (CkManageWhitelist None (Some [''a'']))
     (ck_example_state\<lparr>ck_queue := fifo_new\<rparr>) = Err (CkStd (NotFound ''item''))"
  by (rule clock_whitelist_remove_unqueued_fails [OF ck_example_empty_inv])
    (auto simp: ck_example_state_def)

text \<open>
  A duplicate in the initial queue is accepted and corrupts it. After
  instantiation with the same contract twice, the contract dequeues itself and is still
  scheduled, although a membership query denies it.
\<close>

theorem clock_duplicate_initial_queue:
  "\<exists>st r st'. clock_instantiate (ref_deps (\<lambda>_ _. 0))
        \<lparr>cki_tick_max_gas = None, cki_whitelist = [''a''], cki_initial_queue = [''a'', ''a'']\<rparr> = Ok (resp [], st) \<and>
     clock_execute (ref_deps (\<lambda>_ _. 0)) \<lparr>sender = ''a'', funds = []\<rparr> CkDequeue st = Ok (r, st') \<and>
     fifo_elems (ck_queue st') = [''a''] \<and> \<not> fifo_has (ck_queue st') ''a''"
  by (simp add: clock_instantiate_def Let_def fifo_enqueue_def fifo_new_def rm_save_def
      add_or_panic_def om_get_def clock_execute_def clock_dequeue_def fifo_remove_def rm_remove_def
      rm_load_def rm_reverse_def om_remove_def fifo_elems_def om_entries_def fifo_has_def rm_has_def
      om_contains_def)


end
