(* ===== verification/Split.thy ===== *)
theory Split
  imports Covenant_Utils
begin

text \<open>
  Split configurations (\<open>packages/covenant-utils/src/split.rs\<close>): a map from receivers to
  shares, its validation, the transfer messages it generates for an amount, and the
  replacement of receivers by their routers.
\<close>

section \<open>Operations\<close>

record split_config =
  receivers :: "(string, decimal) omap"

definition remap_receivers_to_routers ::
    "split_config \<Rightarrow> string \<Rightarrow> string \<Rightarrow> string \<Rightarrow> string \<Rightarrow> (split_config, std_error) result" where
  "remap_receivers_to_routers sc receiver_a router_a receiver_b router_b =
     (case om_get (receivers sc) receiver_a of
        None \<Rightarrow> Err (NotFound (''receiver '' @ receiver_a @ '' not found''))
      | Some val_a \<Rightarrow>
          let new1 = om_insert [] router_a val_a in
          (case om_get (receivers sc) receiver_b of
             None \<Rightarrow> Err (NotFound (''receiver '' @ receiver_b @ '' not found''))
           | Some val_b \<Rightarrow> Ok \<lparr>receivers = om_insert new1 router_b val_b\<rparr>))"

definition split_validate :: "split_config \<Rightarrow> string \<Rightarrow> string \<Rightarrow> (unit, std_error) result" where
  "split_validate sc party_a party_b =
     (case om_get (receivers sc) party_a of
        None \<Rightarrow> Err (NotFound party_a)
      | Some share_a \<Rightarrow>
          (case om_get (receivers sc) party_b of
             None \<Rightarrow> Err (NotFound party_b)
           | Some share_b \<Rightarrow>
               and_then (dec_add share_a share_b) (\<lambda>total.
                 if total \<noteq> dec_one then Err (GenericErr ''shares must add up to 1.0'') else Ok ())))"

definition validate_shares_and_receiver_addresses ::
    "deps \<Rightarrow> split_config \<Rightarrow> (unit, std_error) result" where
  "validate_shares_and_receiver_addresses d sc =
     and_then (try_fold (\<lambda>total (addr, share).
         and_then (addr_validate d addr) (\<lambda>_. dec_add total share)) dec_zero (om_entries (receivers sc)))
       (\<lambda>total_shares.
          if total_shares \<noteq> dec_one then Err (GenericErr ''shares must add up to 1.0'') else Ok ())"

definition transfer_message ::
    "deps \<Rightarrow> u128 \<Rightarrow> denom \<Rightarrow> string \<times> decimal \<Rightarrow> (cosmos_msg, std_error) result" where
  "transfer_message d amount dn = (\<lambda>(addr, share).
     and_then (map_err (\<lambda>_. GenericErr ''failed to checked_multiply'')
                 (checked_multiply_ratio d amount (atomics share) decimal_fractional)) (\<lambda>entitlement.
       Ok (BankSend addr [\<lparr>coin_denom = dn, coin_amount = entitlement\<rparr>])))"

definition get_transfer_messages ::
    "deps \<Rightarrow> split_config \<Rightarrow> u128 \<Rightarrow> denom \<Rightarrow> string option \<Rightarrow> (cosmos_msg list, std_error) result" where
  "get_transfer_messages d sc amount dn filter_addr =
     try_map (transfer_message d amount dn)
       (filter (\<lambda>(_, share). \<not> dec_is_zero share)
         (map (\<lambda>(addr, share).
            case filter_addr of
              Some f \<Rightarrow> if f = addr then (addr, dec_one) else (addr, dec_zero)
            | None \<Rightarrow> (addr, share))
          (om_entries (receivers sc))))"

definition remap_splits ::
    "(denom, split_config) omap \<Rightarrow> string \<times> string \<Rightarrow> string \<times> string
     \<Rightarrow> ((denom, split_config) omap, std_error) result" where
  "remap_splits splits a b =
     (case (a, b) of ((party_a_receiver, party_a_router), (party_b_receiver, party_b_router)) \<Rightarrow>
        try_fold (\<lambda>remapped (dn, split).
            and_then (remap_receivers_to_routers split party_a_receiver party_a_router
                        party_b_receiver party_b_router) (\<lambda>remapped_split.
              Ok (om_insert remapped dn remapped_split)))
          [] (om_entries splits))"

section \<open>Shares\<close>

definition total_shares :: "split_config \<Rightarrow> nat" where
  "total_shares sc = (\<Sum>p\<leftarrow>receivers sc. dec_val (snd p))"

text \<open>A well-formed split: distinct receivers in order whose shares add up to one.\<close>

definition split_wf :: "split_config \<Rightarrow> bool" where
  "split_wf sc \<longleftrightarrow> om_wf (receivers sc) \<and> total_shares sc = dec_unit"

lemma sum_shares_fold:
  "try_fold (\<lambda>total (addr, share). and_then (addr_validate d addr) (\<lambda>_. dec_add total share)) z ps = Ok t
   \<Longrightarrow> dec_val t = dec_val z + (\<Sum>p\<leftarrow>ps. dec_val (snd p))"
  by (induction ps arbitrary: z) (auto simp: result_simps arith_simps)

lemma validate_shares_total:
  assumes "validate_shares_and_receiver_addresses d sc = Ok u"
  shows "total_shares sc = dec_unit"
  using assms sum_shares_fold [of d dec_zero "receivers sc"]
  by (auto simp: validate_shares_and_receiver_addresses_def result_simps om_entries_def
      total_shares_def dec_val_inject [symmetric] split: if_splits)

lemma split_share_le:
  assumes "total_shares sc = n" and "(a, s) \<in> set (receivers sc)"
  shows "dec_val s \<le> n"
  using assms member_le_sum_list [of "dec_val s" "map (dec_val \<circ> snd) (receivers sc)"]
  by (force simp: total_shares_def comp_def)

lemma validated_wf:
  "validate_shares_and_receiver_addresses d sc = Ok u \<Longrightarrow> om_wf (receivers sc) \<Longrightarrow> split_wf sc"
  by (simp add: split_wf_def validate_shares_total)

lemma mem_om_insert: "om_wf m \<Longrightarrow> (k, v) \<in> set (om_insert m dn sc) \<Longrightarrow> (k, v) = (dn, sc) \<or> (k, v) \<in> set m"
  by (induction m dn sc rule: om_insert.induct) (auto split: if_splits)

text \<open>A map of splits all of whose entries are well-formed.\<close>

definition split_map_wf :: "(denom, split_config) omap \<Rightarrow> bool" where
  "split_map_wf m \<longleftrightarrow> om_wf m \<and> (\<forall>(dn, sc)\<in>set m. split_wf sc)"

lemma split_map_wf_insert: "split_map_wf m \<Longrightarrow> split_wf sc \<Longrightarrow> split_map_wf (om_insert m dn sc)"
  using mem_om_insert [of m _ _ dn sc] by (fastforce simp: split_map_wf_def om_wf_insert)

lemma split_map_wf_get: "split_map_wf m \<Longrightarrow> om_get m dn = Some sc \<Longrightarrow> split_wf sc"
  by (auto simp: split_map_wf_def om_get_def dest: map_of_SomeD)

section \<open>Transfers\<close>

lemma transfer_message_Ok:
  assumes "multiply_ratio_spec d"
  shows "transfer_message d amount dn (a, s) = Ok m \<longleftrightarrow>
    (\<exists>e. m = BankSend a [\<lparr>coin_denom = dn, coin_amount = e\<rparr>] \<and>
       unat e = unat amount * dec_val s div dec_unit)"
  by (auto simp: transfer_message_def result_simps multiply_ratio_specD(1) [OF assms]
      dec_val_def decimal_fractional_def)

lemma transfer_messages_total:
  assumes "multiply_ratio_spec d" and "\<forall>p\<in>set ps. dec_val (snd p) \<le> dec_unit"
  shows "\<exists>ms. try_map (transfer_message d amount dn) ps = Ok ms"
  using assms(2)
proof (induction ps)
  case Nil
  then show ?case by simp
next
  case (Cons p ps)
  obtain a s where p: "p = (a, s)" by (cases p)
  have "unat amount * dec_val s div dec_unit \<le> unat amount"
    using Cons.prems p div_le_mono [OF mult_le_mono2 [of "dec_val s" dec_unit "unat amount"], of dec_unit]
    by simp
  then have "unat amount * dec_val s div dec_unit < 2 ^ 128"
    using unat_word_lt [of amount] by simp
  then have "unat (of_nat (unat amount * dec_val s div dec_unit) :: u128) = unat amount * dec_val s div dec_unit"
    by (simp add: unat_of_nat)
  then have "\<exists>m. transfer_message d amount dn p = Ok m"
    using transfer_message_Ok [OF assms(1)] p by blast
  with Cons show ?case by auto
qed

lemma total_out_transfers:
  assumes "multiply_ratio_spec d" and "try_map (transfer_message d amount dn) ps = Ok ms"
  shows "total_out dn ms = (\<Sum>p\<leftarrow>ps. unat amount * dec_val (snd p) div dec_unit)"
  using assms(2)
proof (induction ps arbitrary: ms)
  case Nil
  then show ?case by simp
next
  case (Cons p ps)
  then show ?case
    by (cases p) (auto simp: result_simps transfer_message_Ok [OF assms(1)])
qed

lemma total_to_transfers:
  assumes "multiply_ratio_spec d" and "try_map (transfer_message d amount dn) ps = Ok ms"
  shows "total_to a dn ms =
    (\<Sum>p\<leftarrow>ps. if fst p = a then unat amount * dec_val (snd p) div dec_unit else 0)"
  using assms(2)
proof (induction ps arbitrary: ms)
  case Nil
  then show ?case by simp
next
  case (Cons p ps)
  then show ?case
    by (cases p) (auto simp: result_simps transfer_message_Ok [OF assms(1)])
qed

lemma sum_nonzero_shares:
  assumes "\<And>a. g (a, dec_zero) = (0::nat)"
  shows "(\<Sum>p\<leftarrow>filter (\<lambda>(_, share). \<not> dec_is_zero share) ps. g p) = (\<Sum>p\<leftarrow>ps. g p)"
  by (induction ps) (auto simp: assms dec_is_zero_def split: prod.splits)

lemma sum_over_key:
  assumes "om_wf m"
  shows "(\<Sum>p\<leftarrow>m. if fst p = a then f (snd p) else 0) =
    (case om_get m a of None \<Rightarrow> (0::nat) | Some s \<Rightarrow> f s)"
  using assms
proof (induction m)
  case Nil
  then show ?case by simp
next
  case (Cons p m)
  obtain k v where p: "p = (k, v)" by (cases p)
  show ?case
  proof (cases "k = a")
    case True
    with Cons.prems p have "\<forall>q\<in>set m. fst q \<noteq> a" by auto
    then have "(\<Sum>q\<leftarrow>m. if fst q = a then f (snd q) else 0) = 0" by (induction m) auto
    with True p show ?thesis by (simp add: om_get_def)
  next
    case False
    with Cons p show ?thesis by (simp add: om_get_def)
  qed
qed

lemmas transfer_sums = total_out_transfers total_to_transfers

lemma get_transfer_messages_None:
  "get_transfer_messages d sc amount dn None =
     try_map (transfer_message d amount dn)
       (filter (\<lambda>(_, share). \<not> dec_is_zero share) (receivers sc))"
  by (simp add: get_transfer_messages_def om_entries_def)

text \<open>A well-formed split never fails to produce its transfers.\<close>

lemma get_transfer_messages_succeeds:
  assumes "multiply_ratio_spec d" and "split_wf sc"
  shows "\<exists>ms. get_transfer_messages d sc amount dn None = Ok ms"
  unfolding get_transfer_messages_None
  using assms(2) by (intro transfer_messages_total [OF assms(1)])
    (auto simp: split_wf_def intro: split_share_le)

text \<open>What one receiver gets, and what all get together.\<close>

lemma get_transfer_messages_sums:
  assumes "multiply_ratio_spec d" and "om_wf (receivers sc)"
    and "get_transfer_messages d sc amount dn None = Ok ms"
  shows "total_to a dn ms =
           (case om_get (receivers sc) a of None \<Rightarrow> 0 | Some s \<Rightarrow> unat amount * dec_val s div dec_unit)"
    and "total_out dn ms = (\<Sum>p\<leftarrow>receivers sc. unat amount * dec_val (snd p) div dec_unit)"
proof -
  note ok = assms(3) [unfolded get_transfer_messages_None]
  show "total_out dn ms = (\<Sum>p\<leftarrow>receivers sc. unat amount * dec_val (snd p) div dec_unit)"
    unfolding total_out_transfers [OF assms(1) ok] by (rule sum_nonzero_shares) simp
  have "total_to a dn ms =
      (\<Sum>p\<leftarrow>receivers sc. if fst p = a then unat amount * dec_val (snd p) div dec_unit else 0)"
    unfolding total_to_transfers [OF assms(1) ok] by (rule sum_nonzero_shares) simp
  then show "total_to a dn ms =
      (case om_get (receivers sc) a of None \<Rightarrow> 0 | Some s \<Rightarrow> unat amount * dec_val s div dec_unit)"
    using sum_over_key [OF assms(2), of a "\<lambda>s. unat amount * dec_val s div dec_unit"] by simp
qed

text \<open>No other denomination is touched.\<close>

lemma get_transfer_messages_other:
  assumes "multiply_ratio_spec d" and "get_transfer_messages d sc amount dn' f = Ok ms" and "dn \<noteq> dn'"
  shows "total_to a dn ms = 0" and "total_out dn ms = 0"
proof -
  have "total_to a dn ms = 0 \<and> total_out dn ms = 0"
    if "try_map (transfer_message d amount dn') ps = Ok ms" for ps ms
    using that assms(3)
  proof (induction ps arbitrary: ms)
    case (Cons p ps)
    then show ?case by (cases p) (auto simp: result_simps transfer_message_Ok [OF assms(1)])
  qed simp
  with assms(2) show "total_to a dn ms = 0" "total_out dn ms = 0"
    unfolding get_transfer_messages_def by blast+
qed

lemma sum_list_mult_left: "(\<Sum>x\<leftarrow>xs. (c::nat) * f x) = c * (\<Sum>x\<leftarrow>xs. f x)"
  by (induction xs) (auto simp: algebra_simps)

lemma split_dust:
  fixes amount :: u128
  assumes "total_shares sc = dec_unit"
  defines "paid \<equiv> (\<Sum>p\<leftarrow>receivers sc. unat amount * dec_val (snd p) div dec_unit)"
  shows "paid \<le> unat amount" and "unat amount - paid < length (receivers sc)"
proof -
  have sum: "(\<Sum>p\<leftarrow>receivers sc. unat amount * dec_val (snd p)) = unat amount * dec_unit"
    using assms(1) by (simp add: sum_list_mult_left total_shares_def)
  show le: "paid \<le> unat amount"
    using sum_list_div_le [of "\<lambda>p. unat amount * dec_val (snd p)" dec_unit "receivers sc"]
    by (simp add: sum paid_def)
  let ?n = "length (receivers sc)"
  have "receivers sc \<noteq> []" using assms(1) by (auto simp: total_shares_def)
  then have n: "0 < ?n" by simp
  have "unat amount * dec_unit \<le> dec_unit * paid + ?n * (dec_unit - 1)"
    using sum_list_div_gap [of dec_unit "\<lambda>p. unat amount * dec_val (snd p)" "receivers sc"]
    by (simp add: sum paid_def)
  moreover have "?n * (dec_unit - 1) < ?n * dec_unit" using n by simp
  ultimately have "unat amount * dec_unit < dec_unit * paid + ?n * dec_unit" by linarith
  with n have "(unat amount - paid) * dec_unit < ?n * dec_unit"
    unfolding diff_mult_distrib by linarith
  then show "unat amount - paid < ?n" by simp
qed

section \<open>A single receiver\<close>

lemma filter_single_receiver:
  assumes "om_wf m"
  shows "filter (\<lambda>(_, share). \<not> dec_is_zero share)
      (map (\<lambda>(addr, share). if f = addr then (addr, dec_one) else (addr, dec_zero)) m)
    = (if om_contains m f then [(f, dec_one)] else [])"
  using assms
proof (induction m)
  case Nil
  then show ?case by (simp add: om_contains_def)
next
  case (Cons p m)
  obtain k v where p: "p = (k, v)" by (cases p)
  have "om_get m f = None" if "f = k"
  proof -
    from that Cons.prems p have "f \<notin> fst ` set m" by auto
    then show ?thesis by (simp add: om_get_def map_of_eq_None_iff)
  qed
  with Cons p show ?case
    by (auto simp: om_contains_def om_get_def dec_is_zero_def dec_zero_def dec_one_def
        decimal_fractional_def split: if_splits)
qed

lemma get_transfer_messages_single:
  assumes "multiply_ratio_spec d" and "om_wf (receivers sc)"
  shows "get_transfer_messages d sc amount dn (Some f) =
    Ok (if om_contains (receivers sc) f
        then [BankSend f [\<lparr>coin_denom = dn, coin_amount = amount\<rparr>]] else [])"
proof -
  have "transfer_message d amount dn (f, dec_one) = Ok (BankSend f [\<lparr>coin_denom = dn, coin_amount = amount\<rparr>])"
    unfolding transfer_message_Ok [OF assms(1)] by simp
  then show ?thesis
    using filter_single_receiver [OF assms(2), of f]
    by (simp add: get_transfer_messages_def om_entries_def)
qed

section \<open>Routers\<close>

lemma remap_receivers_Ok:
  "remap_receivers_to_routers sc ra qa rb qb = Ok sc' \<longleftrightarrow>
     (\<exists>va vb. om_get (receivers sc) ra = Some va \<and> om_get (receivers sc) rb = Some vb \<and>
        sc' = \<lparr>receivers = om_insert [(qa, va)] qb vb\<rparr>)"
  by (auto simp: remap_receivers_to_routers_def split: option.splits)

lemma remap_receivers_get:
  assumes "remap_receivers_to_routers sc ra qa rb qb = Ok sc'" and "qa \<noteq> qb"
  shows "om_get (receivers sc') qa = om_get (receivers sc) ra" and "om_get (receivers sc') qb = om_get (receivers sc) rb"
    and "fst ` set (receivers sc') = {qa, qb}"
proof -
  from assms(1) obtain va vb where v: "om_get (receivers sc) ra = Some va" "om_get (receivers sc) rb = Some vb"
    "sc' = \<lparr>receivers = om_insert [(qa, va)] qb vb\<rparr>" by (auto simp: remap_receivers_Ok)
  show "om_get (receivers sc') qa = om_get (receivers sc) ra" "om_get (receivers sc') qb = om_get (receivers sc) rb"
    using assms(2) v om.get_ins [of "[(qa, va)]" qb vb] by (simp_all add: om_get_def del: om_insert.simps)
  show "fst ` set (receivers sc') = {qa, qb}" using v(3) set_om_insert [of "[(qa, va)]" qb vb] by auto
qed

lemma remap_splits_get:
  assumes "om_wf m" and "remap_splits m (ra, qa) (rb, qb) = Ok m'"
  shows "case om_get m dn of None \<Rightarrow> om_get m' dn = None
     | Some sc \<Rightarrow> \<exists>sc'. om_get m' dn = Some sc' \<and> remap_receivers_to_routers sc ra qa rb qb = Ok sc'"
proof -
  let ?f = "\<lambda>remapped (dn, split). and_then (remap_receivers_to_routers split ra qa rb qb)
      (\<lambda>remapped_split. Ok (om_insert remapped dn remapped_split))"
  have "try_fold ?f acc m = Ok m' \<Longrightarrow> om_wf m \<Longrightarrow> om_wf acc \<Longrightarrow> om_wf m' \<and>
    (case om_get m dn of None \<Rightarrow> om_get m' dn = om_get acc dn
     | Some sc \<Rightarrow> \<exists>sc'. om_get m' dn = Some sc' \<and> remap_receivers_to_routers sc ra qa rb qb = Ok sc')" for acc
  proof (induction m arbitrary: acc)
    case (Cons p m)
    obtain k sc where p: "p = (k, sc)" by (cases p)
    from Cons.prems(1) p obtain sc' where sc': "remap_receivers_to_routers sc ra qa rb qb = Ok sc'"
      "try_fold ?f (om_insert acc k sc') m = Ok m'"
      by (auto simp: result_simps)
    have "om_get m k = None"
      using Cons.prems(2) p by (auto simp: om_get_def map_of_eq_None_iff)
    with Cons.IH [OF sc'(2)] Cons.prems p sc'(1) show ?case
      by (auto simp: om_wf_insert om_get_def map_of_om_insert split: if_splits option.splits)
  qed simp
  from this [of "[]"] assms show ?thesis by (auto simp: remap_splits_def om_entries_def split: option.splits)
qed

section \<open>Properties\<close>

text \<open>
  Claim C10: splitting an amount conserves it up to rounding. For a configuration that passed
  the share validation, the transfers are always produced; every receiver gets exactly the
  floor of its share of the amount, the payments never exceed the amount, and what rounding
  leaves undistributed is less than one unit per receiver.
\<close>

theorem split_conserves_amount:
  assumes "multiply_ratio_spec d" and "om_wf (receivers sc)"
    and "validate_shares_and_receiver_addresses d sc = Ok ()"
  shows "\<exists>ms. get_transfer_messages d sc amount dn None = Ok ms \<and>
    (\<forall>a. total_to a dn ms = (case om_get (receivers sc) a of None \<Rightarrow> 0
        | Some s \<Rightarrow> unat amount * dec_val s div dec_unit)) \<and>
    total_out dn ms \<le> unat amount \<and> unat amount - total_out dn ms < length (receivers sc)"
proof -
  have total: "total_shares sc = dec_unit" using assms(3) by (rule validate_shares_total)
  with assms(2) have "split_wf sc" by (simp add: split_wf_def)
  from get_transfer_messages_succeeds [OF assms(1) this] obtain ms
    where ms: "get_transfer_messages d sc amount dn None = Ok ms" by blast
  from get_transfer_messages_sums [OF assms(1,2) ms] split_dust [OF total] ms
  show ?thesis by auto
qed

text \<open>A split of three receivers, used by the witnesses.\<close>

definition thirds :: split_config where
  "thirds = \<lparr>receivers = [(''a'', Decimal 333333333333333333), (''b'', Decimal 333333333333333333),
                          (''c'', Decimal 333333333333333334)]\<rparr>"

lemma thirds_valid:
  "om_wf (receivers thirds)"
  "validate_shares_and_receiver_addresses (ref_deps bals) thirds = Ok ()"
  by (simp_all add: thirds_def validate_shares_and_receiver_addresses_def om_entries_def dec_add_def
      add_or_panic_def dec_zero_def dec_one_def decimal_fractional_def)

theorem split_conserves_amount_witness:
  "\<exists>ms. get_transfer_messages (ref_deps (\<lambda>_ _. 0)) thirds 100 ''untrn'' None = Ok ms \<and>
     total_to ''a'' ''untrn'' ms = 33 \<and> total_out ''untrn'' ms \<le> 100"
proof -
  have "unat (100 :: u128) = 100" by simp
  with split_conserves_amount [OF ref_multiply_ratio_ok thirds_valid(1) thirds_valid(2), where amount = 100 and dn = "''untrn''"]
  show ?thesis by (force simp: thirds_def om_get_def)
qed

text \<open>
  A distribution filtered to one receiver pays the whole amount to that receiver,
  in a single message, when it is part of the split, and pays nothing otherwise; its share
  plays no role.
\<close>

theorem split_single_receiver:
  assumes "multiply_ratio_spec d" and "om_wf (receivers sc)"
  shows "get_transfer_messages d sc amount dn (Some f) =
    Ok (if om_contains (receivers sc) f
        then [BankSend f [\<lparr>coin_denom = dn, coin_amount = amount\<rparr>]] else [])"
  using assms by (rule get_transfer_messages_single)

theorem split_single_receiver_witness:
  "get_transfer_messages (ref_deps (\<lambda>_ _. 0)) thirds 100 ''untrn'' (Some ''b'') =
     Ok [BankSend ''b'' [\<lparr>coin_denom = ''untrn'', coin_amount = 100\<rparr>]]"
  using split_single_receiver [OF ref_multiply_ratio_ok thirds_valid(1), of "\<lambda>_ _. 0" 100 "''untrn''" "''b''"]
  by (simp add: thirds_def om_contains_def om_get_def)

text \<open>
  Replacing the two receivers of a split by their routers keeps each party's
  share, and the result is again a valid split between the routers, provided the two routers
  are different addresses.
\<close>

theorem remap_keeps_shares:
  assumes "om_wf (receivers sc)" and "split_validate sc ra rb = Ok ()" and "qa \<noteq> qb"
  shows "\<exists>sc'. remap_receivers_to_routers sc ra qa rb qb = Ok sc' \<and>
    om_get (receivers sc') qa = om_get (receivers sc) ra \<and>
    om_get (receivers sc') qb = om_get (receivers sc) rb \<and>
    split_validate sc' qa qb = Ok () \<and> split_wf sc'"
proof -
  from assms(2) obtain va vb where v: "om_get (receivers sc) ra = Some va"
    "om_get (receivers sc) rb = Some vb" and sum: "dec_add va vb = (Ok dec_one :: (decimal, std_error) result)"
    by (auto simp: split_validate_def result_simps split: option.splits if_splits)
  let ?sc = "\<lparr>receivers = om_insert [(qa, va)] qb vb\<rparr>"
  have "remap_receivers_to_routers sc ra qa rb qb = Ok ?sc" using v by (simp add: remap_receivers_Ok)
  moreover have wf: "om_wf (receivers ?sc)" using om_wf_insert [of "[(qa, va)]" qb vb] by simp
  moreover have "om_get (receivers ?sc) qa = Some va" "om_get (receivers ?sc) qb = Some vb"
    using assms(3) om.get_ins [of "[(qa, va)]" qb vb] by (simp_all add: om_get_def del: om_insert.simps)
  moreover have "total_shares ?sc = dec_unit"
    using sum_om_insert [of "[(qa, va)]" dec_val qb vb] assms(3) sum
    by (simp add: total_shares_def om_get_def arith_simps del: om_insert.simps)
  ultimately show ?thesis
    using v sum by (auto simp: split_validate_def split_wf_def)
qed

theorem remap_keeps_shares_witness:
  "\<exists>sc'. remap_receivers_to_routers \<lparr>receivers = [(''a'', Decimal 300000000000000000), (''b'', Decimal 700000000000000000)]\<rparr>
      ''a'' ''z'' ''b'' ''y'' = Ok sc' \<and> split_wf sc'"
  using remap_keeps_shares [of "\<lparr>receivers = [(''a'', Decimal 300000000000000000), (''b'', Decimal 700000000000000000)]\<rparr>"
      "''a''" "''b''" "''z''" "''y''"]
  by (force simp: split_validate_def om_get_def dec_add_def add_or_panic_def dec_one_def decimal_fractional_def)

definition overfull :: split_config where
  "overfull = \<lparr>receivers = [(''a'', Decimal 500000000000000000), (''b'', Decimal 500000000000000000),
                            (''c'', Decimal 1000000000000000000)]\<rparr>"

text \<open>
  The two-party validation looks only at the two named parties. A split with a
  third receiver passes it although its shares add up to two, and distributing 10 coins
  with it would send out 20.
\<close>

theorem split_validate_ignores_third_receiver:
  "split_validate overfull ''a'' ''b'' = Ok () \<and>
   (\<exists>ms. get_transfer_messages (ref_deps (\<lambda>_ _. 0)) overfull 10 ''untrn'' None = Ok ms \<and>
      total_out ''untrn'' ms = 20)"
  by (simp add: split_validate_def overfull_def om_get_def dec_add_def add_or_panic_def dec_one_def
      decimal_fractional_def get_transfer_messages_None transfer_message_def ref_multiply_ratio_def
      dec_is_zero_def dec_zero_def)

end
