(* ===== verification/Two_Party_Holder.thy ===== *)
theory Two_Party_Holder
  imports Split Transactions
begin

text \<open>
  The holder of a two-party liquidity covenant (\<open>contracts/two-party-pol-holder\<close>). It
  collects both contributions, hands them to the liquid pooler, and later routes withdrawn
  funds to the parties: after the lockup (claim), before it with a penalty (ragequit), or on
  request of the emergency committee.

  The storage items of \<open>state.rs\<close> are the fields of \<open>tp_state\<close>; the operations follow
  \<open>msg.rs\<close> (configuration types) and \<open>contract.rs\<close> (entry points) in their order.
\<close>

section \<open>Configuration types\<close>

datatype tp_error =
    TpStd std_error
  | TpAllocationValidationError
  | TpRagequitPenaltyRangeError
  | TpRagequitPenaltyExceedsPartyAllocationError
  | TpUnauthorized
  | TpClaimError
  | TpNotActive
  | TpExpiredError
  | TpInsufficientDeposits
  | TpFractionMulError
  | TpInvalidExpiryBlockHeight
  | TpLockupValidationError
  | TpExpirationValidationError
  | TpDepositDeadlineValidationError
  | TpInvolvedPartiesConfigError
  | TpPartyNotFound
  | TpRagequitDisabled
  | TpRagequitUnauthorized
  | TpRagequitWithLockupPassed
  | TpRagequitInProgress
  | TpUnauthorizedDenomDistribution
  | TpWithdrawAlreadyStarted
  | TpWithdrawStateNotStarted
  | TpPartyAllocationIsZero
  | TpPartyContributionConfigError

datatype covenant_type = Share | Side

record denom_splits =
  explicit_splits :: "(denom, split_config) omap"
  fallback_split :: "split_config option"

record tp_party =
  contribution :: coin
  host_addr :: string
  controller_addr :: string
  allocation :: decimal
  router :: string

record tp_config =
  party_a :: tp_party
  party_b :: tp_party
  cov_type :: covenant_type

record rq_state =
  rq_coins :: "coin list"
  rq_party :: tp_party

record rq_terms =
  penalty :: decimal
  rq_terms_state :: "rq_state option"

datatype ragequit_config = RqDisabled | RqEnabled rq_terms

datatype tp_contract_state = TpInstantiated | TpActive | TpRagequit | TpExpired | TpComplete

datatype withdraw_state =
    Processing string
  | ProcessingRagequit string rq_terms
  | Emergency

record tp_state =
  tp_contract_state :: "tp_contract_state option"
  tp_clock :: "addr option"
  tp_pooler :: "addr option"
  tp_lockup :: "expiration option"
  tp_deposit_deadline :: "expiration option"
  tp_ragequit :: "ragequit_config option"
  tp_covenant :: "tp_config option"
  tp_splits :: "denom_splits option"
  tp_withdraw :: "withdraw_state option"
  tp_committee :: "addr option"

record tp_instantiate_msg =
  tpi_clock :: string
  tpi_next_contract :: string
  tpi_lockup :: expiration
  tpi_ragequit :: ragequit_config
  tpi_deposit_deadline :: expiration
  tpi_covenant :: tp_config
  tpi_splits :: "(denom, split_config) omap"
  tpi_fallback_split :: "split_config option"
  tpi_committee :: "string option"

datatype tp_execute_msg =
    TpRagequitMsg
  | TpTick
  | TpClaim
  | TpDistribute
  | TpWithdrawFailed
  | TpDistributeFallbackSplit "denom list"
  | TpEmergencyWithdraw

record tp_update_config =
  tpu_clock :: "string option"
  tpu_next_contract :: "string option"
  tpu_committee :: "string option"
  tpu_lockup :: "expiration option"
  tpu_deposit_deadline :: "expiration option"
  tpu_ragequit :: "ragequit_config option"
  tpu_covenant :: "tp_config option"
  tpu_splits :: "(denom, split_config) omap option"
  tpu_fallback_split :: "split_config option"

datatype tp_migrate_msg = TpUpdateConfig tp_update_config | TpUpdateCodeId

section \<open>Denom splits\<close>

text \<open>\<open>filter_map\<close> over a list of fallible results: errors are dropped, a panic is not.\<close>

fun collect_ok :: "('y list, 'e) result list \<Rightarrow> ('y list, 'f) result" where
  "collect_ok [] = Ok []"
| "collect_ok (Ok ms # rs) = and_then (collect_ok rs) (\<lambda>rest. Ok (ms @ rest))"
| "collect_ok (Err e # rs) = collect_ok rs"
| "collect_ok (Panic # rs) = Panic"

definition get_fallback_distribution_messages ::
    "deps \<Rightarrow> denom_splits \<Rightarrow> coin list \<Rightarrow> (cosmos_msg list, tp_error) result" where
  "get_fallback_distribution_messages d ds coins =
     collect_ok (map (\<lambda>c.
       if om_contains (explicit_splits ds) (coin_denom c) then Ok []
       else case fallback_split ds of
              Some fs \<Rightarrow> get_transfer_messages d fs (coin_amount c) (coin_denom c) None
            | None \<Rightarrow> Ok []) coins)"

definition get_single_receiver_distribution_messages ::
    "deps \<Rightarrow> denom_splits \<Rightarrow> coin list \<Rightarrow> string \<Rightarrow> (cosmos_msg list, tp_error) result" where
  "get_single_receiver_distribution_messages d ds coins addr =
     collect_ok (map (\<lambda>c.
       case om_get (explicit_splits ds) (coin_denom c) of
         Some config \<Rightarrow> get_transfer_messages d config (coin_amount c) (coin_denom c) (Some addr)
       | None \<Rightarrow> Ok []) coins)"

definition get_shared_distribution_messages ::
    "deps \<Rightarrow> denom_splits \<Rightarrow> coin list \<Rightarrow> (cosmos_msg list, tp_error) result" where
  "get_shared_distribution_messages d ds coins =
     collect_ok (map (\<lambda>c.
       case om_get (explicit_splits ds) (coin_denom c) of
         Some config \<Rightarrow> get_transfer_messages d config (coin_amount c) (coin_denom c) None
       | None \<Rightarrow> Ok []) coins)"

definition shift_shares ::
    "decimal \<Rightarrow> tp_party \<Rightarrow> tp_party \<Rightarrow> split_config \<Rightarrow> decimal \<Rightarrow> (split_config, tp_error) result" where
  "shift_shares pen party counterparty config party_share =
     and_then (map_err TpStd (dec_checked_sub party_share pen)) (\<lambda>new_party_share.
     and_then (ok_or TpPartyNotFound (om_get (receivers config) (router counterparty))) (\<lambda>counter_share.
     and_then (map_err TpStd (dec_checked_add counter_share pen)) (\<lambda>new_counterparty_share.
       Ok \<lparr>receivers =
             om_insert (om_insert (receivers config) (router party) new_party_share)
               (router counterparty) new_counterparty_share\<rparr>)))"

definition penalize_explicit ::
    "decimal \<Rightarrow> tp_party \<Rightarrow> tp_party \<Rightarrow> (denom, split_config) omap \<Rightarrow> denom \<times> split_config
     \<Rightarrow> ((denom, split_config) omap, tp_error) result" where
  "penalize_explicit pen party counterparty splits = (\<lambda>(dn, config).
     and_then (ok_or TpPartyNotFound (om_get (receivers config) (router party))) (\<lambda>party_share.
       if party_share > dec_zero then
         and_then (shift_shares pen party counterparty config party_share) (\<lambda>config'.
           Ok (om_insert splits dn config'))
       else Ok splits))"

definition apply_penalty ::
    "denom_splits \<Rightarrow> decimal \<Rightarrow> tp_party \<Rightarrow> tp_party \<Rightarrow> (denom_splits, tp_error) result" where
  "apply_penalty ds pen party counterparty =
     and_then (try_fold (penalize_explicit pen party counterparty) (explicit_splits ds)
                 (om_entries (explicit_splits ds))) (\<lambda>explicit'.
       case fallback_split ds of
         Some config \<Rightarrow>
           and_then (ok_or TpPartyNotFound (om_get (receivers config) (router party))) (\<lambda>party_share.
           and_then (shift_shares pen party counterparty config party_share) (\<lambda>config'.
             Ok \<lparr>explicit_splits = explicit', fallback_split = Some config'\<rparr>))
       | None \<Rightarrow> Ok \<lparr>explicit_splits = explicit', fallback_split = None\<rparr>)"

section \<open>Parties\<close>

definition update_parties :: "tp_config \<Rightarrow> tp_party \<Rightarrow> tp_party \<Rightarrow> tp_config" where
  "update_parties c p1 p2 =
     (if controller_addr (party_a c) = controller_addr p1
      then c\<lparr>party_a := p1, party_b := p2\<rparr>
      else c\<lparr>party_a := p2, party_b := p1\<rparr>)"

definition tp_config_validate :: "deps \<Rightarrow> tp_config \<Rightarrow> (unit, tp_error) result" where
  "tp_config_validate d c =
     and_then (map_err TpStd (addr_validate d (router (party_a c)))) (\<lambda>_.
     and_then (map_err TpStd (addr_validate d (router (party_b c)))) (\<lambda>_.
     and_then (map_err TpStd (addr_validate d (host_addr (party_a c)))) (\<lambda>_.
     and_then (map_err TpStd (addr_validate d (host_addr (party_b c)))) (\<lambda>_.
     and_then (ensure (coin_amount (contribution (party_a c)) \<noteq> 0 \<and> coin_amount (contribution (party_b c)) \<noteq> 0)
                 TpPartyContributionConfigError) (\<lambda>_.
     and_then (dec_add (allocation (party_a c)) (allocation (party_b c))) (\<lambda>total.
       ensure (total = dec_one) TpAllocationValidationError))))))"

definition authorize_sender :: "tp_config \<Rightarrow> string \<Rightarrow> (tp_party \<times> tp_party, tp_error) result" where
  "authorize_sender c sndr =
     and_then
       (if host_addr (party_a c) = sndr then Ok (party_a c, party_b c)
        else if host_addr (party_b c) = sndr then Ok (party_b c, party_a c)
        else Err TpUnauthorized) (\<lambda>parties.
     and_then (ensure (\<not> dec_is_zero (allocation (fst parties))) TpPartyAllocationIsZero) (\<lambda>_.
       Ok parties))"

definition validate_claim_state :: "tp_contract_state \<Rightarrow> (unit, tp_error) result" where
  "validate_claim_state s = (case s of TpRagequit \<Rightarrow> Ok () | TpExpired \<Rightarrow> Ok () | _ \<Rightarrow> Err TpClaimError)"

definition tp_complete_and_dequeue :: "addr \<Rightarrow> tp_state \<Rightarrow> (cosmos_msg \<times> tp_state, std_error) result" where
  "tp_complete_and_dequeue clock_addr st =
     and_then (dequeue_msg clock_addr) (\<lambda>msg. Ok (msg, st\<lparr>tp_contract_state := Some TpComplete\<rparr>))"

definition ragequit_validate :: "ragequit_config \<Rightarrow> decimal \<Rightarrow> decimal \<Rightarrow> (unit, tp_error) result" where
  "ragequit_validate cfg a_alloc b_alloc =
     (case cfg of
        RqDisabled \<Rightarrow> Ok ()
      | RqEnabled terms \<Rightarrow>
          if penalty terms \<ge> dec_one \<or> penalty terms < dec_zero then Err TpRagequitPenaltyRangeError
          else if penalty terms > a_alloc \<or> penalty terms > b_alloc
          then Err TpRagequitPenaltyExceedsPartyAllocationError
          else Ok ())"

section \<open>Instantiation\<close>

text \<open>Explicit splits that fail validation are filtered out silently.\<close>

fun valid_splits ::
    "string \<Rightarrow> string \<Rightarrow> (denom \<times> split_config) list \<Rightarrow> ((denom, split_config) omap, tp_error) result" where
  "valid_splits ra rb [] = Ok []"
| "valid_splits ra rb ((dn, split) # rest) =
     (case split_validate split ra rb of
        Ok _ \<Rightarrow> and_then (valid_splits ra rb rest) (\<lambda>m. Ok ((dn, split) # m))
      | Err _ \<Rightarrow> valid_splits ra rb rest
      | Panic \<Rightarrow> Panic)"

definition tp_instantiate ::
    "deps \<Rightarrow> env \<Rightarrow> tp_instantiate_msg \<Rightarrow> (response \<times> tp_state, tp_error) result" where
  "tp_instantiate d env msg =
     and_then (map_err TpStd (addr_validate d (tpi_next_contract msg))) (\<lambda>next_contract.
     and_then (map_err TpStd (addr_validate d (tpi_clock msg))) (\<lambda>clock_addr.
     and_then (ensure (\<not> is_expired d (tpi_deposit_deadline msg) (env_block env))
                 TpDepositDeadlineValidationError) (\<lambda>_.
     and_then (case expiration_cmp d (tpi_deposit_deadline msg) (tpi_lockup msg) of
                 Some ord \<Rightarrow> ensure (ord = Less) TpLockupValidationError
               | None \<Rightarrow> Err TpExpirationValidationError) (\<lambda>_.
     and_then (case tpi_committee msg of
                 Some a \<Rightarrow> and_then (map_err TpStd (addr_validate d a)) (\<lambda>v. Ok (Some v))
               | None \<Rightarrow> Ok None) (\<lambda>committee.
     and_then (tp_config_validate d (tpi_covenant msg)) (\<lambda>_.
     and_then (ragequit_validate (tpi_ragequit msg) (allocation (party_a (tpi_covenant msg)))
                 (allocation (party_b (tpi_covenant msg)))) (\<lambda>_.
     and_then (valid_splits (router (party_a (tpi_covenant msg))) (router (party_b (tpi_covenant msg)))
                 (om_entries (tpi_splits msg))) (\<lambda>explicit.
     and_then (case tpi_fallback_split msg of
                 Some fs \<Rightarrow> map_err TpStd (split_validate fs (router (party_a (tpi_covenant msg)))
                              (router (party_b (tpi_covenant msg))))
               | None \<Rightarrow> Ok ()) (\<lambda>_.
     and_then (map_err TpStd (enqueue_msg clock_addr)) (\<lambda>enqueue.
       Ok (resp [enqueue],
           \<lparr>tp_contract_state = Some TpInstantiated, tp_clock = Some clock_addr,
            tp_pooler = Some next_contract, tp_lockup = Some (tpi_lockup msg),
            tp_deposit_deadline = Some (tpi_deposit_deadline msg),
            tp_ragequit = Some (tpi_ragequit msg), tp_covenant = Some (tpi_covenant msg),
            tp_splits = Some \<lparr>explicit_splits = explicit, fallback_split = tpi_fallback_split msg\<rparr>,
            tp_withdraw = None, tp_committee = committee\<rparr>)))))))))))"

section \<open>Execution\<close>

definition tp_try_distribute_fallback_split ::
    "deps \<Rightarrow> env \<Rightarrow> denom list \<Rightarrow> tp_state \<Rightarrow> (response \<times> tp_state, tp_error) result" where
  "tp_try_distribute_fallback_split d env denoms st =
     and_then (map_err TpStd (load (tp_splits st))) (\<lambda>ds.
     and_then (try_map (\<lambda>dn.
         if om_contains (explicit_splits ds) dn then Err TpUnauthorizedDenomDistribution
         else map_err TpStd (query_balance d (contract_address env) dn)) denoms) (\<lambda>balances.
     and_then (get_fallback_distribution_messages d ds balances) (\<lambda>msgs.
       Ok (resp msgs, st))))"

definition tp_try_claim ::
    "message_info \<Rightarrow> tp_state \<Rightarrow> (response \<times> tp_state, tp_error) result" where
  "tp_try_claim info st =
     (if is_ok (load (tp_withdraw st)) then Err TpWithdrawAlreadyStarted
      else
        and_then (map_err TpStd (load (tp_covenant st))) (\<lambda>config.
        and_then (authorize_sender config (sender info)) (\<lambda>(claim_party, counterparty).
        if dec_is_zero (allocation claim_party) \<and> dec_is_zero (allocation counterparty) then
          and_then (map_err TpStd (load (tp_clock st))) (\<lambda>clock_address.
          and_then (map_err TpStd (tp_complete_and_dequeue clock_address st)) (\<lambda>(dequeue, st').
            Ok (resp [dequeue], st')))
        else
          and_then (map_err TpStd (load (tp_contract_state st))) (\<lambda>contract_state.
          and_then (validate_claim_state contract_state) (\<lambda>_.
          let st1 = st\<lparr>tp_withdraw := Some (Processing (host_addr claim_party))\<rparr>;
              withdraw_percentage =
                (case cov_type config of Share \<Rightarrow> Some (allocation claim_party) | Side \<Rightarrow> None) in
          and_then (map_err TpStd (load (tp_pooler st1))) (\<lambda>lper.
          and_then (map_err TpStd (generate_withdraw_msg lper withdraw_percentage)) (\<lambda>withdraw_msg.
            Ok (resp [withdraw_msg], st1))))))))"

definition tp_try_emergency_withdraw ::
    "message_info \<Rightarrow> tp_state \<Rightarrow> (response \<times> tp_state, tp_error) result" where
  "tp_try_emergency_withdraw info st =
     (if is_ok (load (tp_withdraw st)) then Err TpWithdrawAlreadyStarted
      else
        and_then (map_err TpStd (load (tp_committee st))) (\<lambda>committee_addr.
        and_then (ensure (sender info = committee_addr) TpUnauthorized) (\<lambda>_.
        let st1 = st\<lparr>tp_withdraw := Some Emergency\<rparr> in
        and_then (map_err TpStd (load (tp_pooler st1))) (\<lambda>lper.
        and_then (map_err TpStd (generate_withdraw_msg lper None)) (\<lambda>withdraw_msg.
          Ok (resp [withdraw_msg], st1))))))"

definition tp_try_claim_share_based ::
    "deps \<Rightarrow> tp_party \<Rightarrow> tp_party \<Rightarrow> coin list \<Rightarrow> tp_config \<Rightarrow> denom_splits \<Rightarrow> tp_state
     \<Rightarrow> (response \<times> tp_state, tp_error) result" where
  "tp_try_claim_share_based d claim_party counterparty fnds config ds st =
     and_then (get_single_receiver_distribution_messages d ds fnds (router claim_party)) (\<lambda>msgs.
     let claim_party' = claim_party\<lparr>allocation := dec_zero\<rparr> in
     and_then
       (if \<not> dec_is_zero (allocation counterparty)
        then Ok (msgs, counterparty\<lparr>allocation := dec_one\<rparr>, st)
        else
          and_then (map_err TpStd (load (tp_clock st))) (\<lambda>clock_address.
          and_then (map_err TpStd (tp_complete_and_dequeue clock_address st)) (\<lambda>(dequeue, st').
            Ok (msgs @ [dequeue], counterparty, st')))) (\<lambda>(msgs', counterparty', st1).
       Ok (resp msgs', st1\<lparr>tp_covenant := Some (update_parties config claim_party' counterparty')\<rparr>)))"

definition tp_try_claim_side_based ::
    "deps \<Rightarrow> tp_party \<Rightarrow> tp_party \<Rightarrow> coin list \<Rightarrow> tp_config \<Rightarrow> denom_splits \<Rightarrow> tp_state
     \<Rightarrow> (response \<times> tp_state, tp_error) result" where
  "tp_try_claim_side_based d claim_party counterparty fnds config ds st =
     and_then (get_shared_distribution_messages d ds fnds) (\<lambda>msgs.
     let st1 = st\<lparr>tp_covenant := Some (update_parties config (claim_party\<lparr>allocation := dec_zero\<rparr>)
                                       (counterparty\<lparr>allocation := dec_zero\<rparr>))\<rparr> in
     and_then (map_err TpStd (load (tp_clock st1))) (\<lambda>clock_address.
     and_then (map_err TpStd (tp_complete_and_dequeue clock_address st1)) (\<lambda>(dequeue, st2).
       Ok (resp (msgs @ [dequeue]), st2))))"

definition apply_rq_state_side ::
    "tp_party \<Rightarrow> coin list \<Rightarrow> tp_state \<Rightarrow> (tp_state, tp_error) result" where
  "apply_rq_state_side rqp coins st =
     and_then (map_err TpStd (load (tp_ragequit st))) (\<lambda>cfg.
       case cfg of
         RqEnabled terms \<Rightarrow>
           Ok (st\<lparr>tp_ragequit := Some (RqEnabled
                 (terms\<lparr>rq_terms_state := Some \<lparr>rq_coins = coins, rq_party = rqp\<rparr>\<rparr>))\<rparr>)
       | RqDisabled \<Rightarrow> Ok st)"

definition apply_rq_state_share ::
    "tp_party \<Rightarrow> coin list \<Rightarrow> tp_state \<Rightarrow> (tp_state, tp_error) result" where
  "apply_rq_state_share rqp coins st =
     and_then (map_err TpStd (load (tp_ragequit st))) (\<lambda>cfg.
     let st1 = (case cfg of
         RqEnabled terms \<Rightarrow>
           st\<lparr>tp_ragequit := Some (RqEnabled
                 (terms\<lparr>rq_terms_state := Some \<lparr>rq_coins = coins, rq_party = rqp\<rparr>\<rparr>))\<rparr>
       | RqDisabled \<Rightarrow> st) in
       Ok (st1\<lparr>tp_contract_state := Some TpRagequit\<rparr>))"

text \<open>
  What a distribution does once the withdraw state is known: the parties, the splits to use
  and whether it settles a ragequit (\<open>None\<close> for the emergency path).
\<close>

definition distribution_terms ::
    "withdraw_state \<Rightarrow> tp_config \<Rightarrow> denom_splits
     \<Rightarrow> ((tp_party \<times> tp_party \<times> denom_splits \<times> bool) option, tp_error) result" where
  "distribution_terms ws config ds =
     (case ws of
        Processing claimer_addr \<Rightarrow>
          and_then (authorize_sender config claimer_addr) (\<lambda>(claim_party, counterparty).
            Ok (Some (claim_party, counterparty, ds, False)))
      | ProcessingRagequit claimer_addr terms \<Rightarrow>
          and_then (authorize_sender config claimer_addr) (\<lambda>(rqp, counterparty).
          and_then (apply_penalty ds (penalty terms) rqp counterparty) (\<lambda>ds'.
            Ok (Some (rqp, counterparty, ds', True))))
      | Emergency \<Rightarrow> Ok None)"

definition tp_try_distribute ::
    "deps \<Rightarrow> message_info \<Rightarrow> tp_state \<Rightarrow> (response \<times> tp_state, tp_error) result" where
  "tp_try_distribute d info st =
     and_then (map_err TpStd (load (tp_pooler st))) (\<lambda>pooler_addr.
     and_then (ensure (sender info = pooler_addr) TpUnauthorized) (\<lambda>_.
     and_then (map_err (\<lambda>_. TpWithdrawStateNotStarted) (load (tp_withdraw st))) (\<lambda>ws.
     and_then (map_err TpStd (load (tp_covenant st))) (\<lambda>config.
     and_then (map_err TpStd (load (tp_splits st))) (\<lambda>ds.
     and_then (distribution_terms ws config ds) (\<lambda>terms.
       case terms of
         None \<Rightarrow> tp_try_claim_side_based d (party_a config) (party_b config) (funds info) config ds st
       | Some (claim_party, counterparty, ds', is_rq) \<Rightarrow>
           let st1 = st\<lparr>tp_withdraw := None\<rparr> in
           (case cov_type config of
              Share \<Rightarrow>
                and_then (if is_rq then apply_rq_state_share claim_party (funds info) st1 else Ok st1) (\<lambda>st2.
                  tp_try_claim_share_based d claim_party counterparty (funds info) config ds' st2)
            | Side \<Rightarrow>
                and_then (if is_rq then apply_rq_state_side claim_party (funds info) st1 else Ok st1) (\<lambda>st2.
                  tp_try_claim_side_based d claim_party counterparty (funds info) config ds' st2))))))))"

definition tp_try_withdraw_failed ::
    "message_info \<Rightarrow> tp_state \<Rightarrow> (response \<times> tp_state, tp_error) result" where
  "tp_try_withdraw_failed info st =
     and_then (map_err TpStd (load (tp_pooler st))) (\<lambda>pooler_addr.
     and_then (ensure (sender info = pooler_addr) TpUnauthorized) (\<lambda>_.
       Ok (resp [], st\<lparr>tp_withdraw := None\<rparr>)))"

definition tp_try_refund ::
    "deps \<Rightarrow> env \<Rightarrow> tp_state \<Rightarrow> (response \<times> tp_state, tp_error) result" where
  "tp_try_refund d env st =
     and_then (map_err TpStd (load (tp_covenant st))) (\<lambda>config.
     and_then (map_err TpStd (query_balance d (contract_address env)
                 (coin_denom (contribution (party_a config))))) (\<lambda>party_a_bal.
     and_then (map_err TpStd (query_balance d (contract_address env)
                 (coin_denom (contribution (party_b config))))) (\<lambda>party_b_bal.
       Ok (resp
         (case (coin_amount party_a_bal = 0, coin_amount party_b_bal = 0) of
            (True, True) \<Rightarrow> []
          | (True, False) \<Rightarrow> [BankSend (router (party_b config)) [party_b_bal]]
          | (False, True) \<Rightarrow> [BankSend (router (party_a config)) [party_a_bal]]
          | (False, False) \<Rightarrow> [BankSend (router (party_a config)) [party_a_bal],
                              BankSend (router (party_b config)) [party_b_bal]]), st))))"

definition tp_try_deposit ::
    "deps \<Rightarrow> env \<Rightarrow> tp_state \<Rightarrow> (response \<times> tp_state, tp_error) result" where
  "tp_try_deposit d env st =
     and_then (map_err TpStd (load (tp_deposit_deadline st))) (\<lambda>deposit_deadline.
     if is_expired d deposit_deadline (env_block env)
     then Ok (resp [], st\<lparr>tp_contract_state := Some TpComplete\<rparr>)
     else
       and_then (map_err TpStd (load (tp_covenant st))) (\<lambda>config.
       and_then (map_err TpStd (query_balance d (contract_address env)
                   (coin_denom (contribution (party_a config))))) (\<lambda>party_a_bal.
       and_then (map_err TpStd (query_balance d (contract_address env)
                   (coin_denom (contribution (party_b config))))) (\<lambda>party_b_bal.
       let party_a_fulfilled = coin_amount (contribution (party_a config)) \<le> coin_amount party_a_bal;
           party_b_fulfilled = coin_amount (contribution (party_b config)) \<le> coin_amount party_b_bal in
       if \<not> party_a_fulfilled \<or> \<not> party_b_fulfilled then Err TpInsufficientDeposits
       else
         and_then (map_err TpStd (load (tp_pooler st))) (\<lambda>liquid_pooler.
           Ok (resp [BankSend liquid_pooler [party_a_bal, party_b_bal]],
               st\<lparr>tp_contract_state := Some TpActive\<rparr>))))))"

definition tp_check_expiration ::
    "deps \<Rightarrow> env \<Rightarrow> tp_state \<Rightarrow> (response \<times> tp_state, tp_error) result" where
  "tp_check_expiration d env st =
     and_then (map_err TpStd (load (tp_lockup st))) (\<lambda>lockup_config.
       if \<not> is_expired d lockup_config (env_block env) then Ok (resp [], st)
       else Ok (resp [], st\<lparr>tp_contract_state := Some TpExpired\<rparr>))"

definition tp_try_tick ::
    "deps \<Rightarrow> env \<Rightarrow> message_info \<Rightarrow> tp_state \<Rightarrow> (response \<times> tp_state, tp_error) result" where
  "tp_try_tick d env info st =
     and_then (map_err TpStd (load (tp_contract_state st))) (\<lambda>state.
     and_then (map_err TpStd (load (tp_clock st))) (\<lambda>clock_addr.
     and_then (map_err TpStd (verify_clock (sender info) clock_addr)) (\<lambda>_.
       case state of
         TpInstantiated \<Rightarrow> tp_try_deposit d env st
       | TpActive \<Rightarrow> tp_check_expiration d env st
       | TpExpired \<Rightarrow> Ok (resp [], st)
       | TpRagequit \<Rightarrow> Ok (resp [], st)
       | TpComplete \<Rightarrow> tp_try_refund d env st)))"

definition tp_try_ragequit ::
    "deps \<Rightarrow> env \<Rightarrow> message_info \<Rightarrow> tp_state \<Rightarrow> (response \<times> tp_state, tp_error) result" where
  "tp_try_ragequit d env info st =
     and_then (map_err TpStd (load (tp_ragequit st))) (\<lambda>cfg.
     and_then (case cfg of RqDisabled \<Rightarrow> Err TpRagequitDisabled | RqEnabled terms \<Rightarrow> Ok terms) (\<lambda>terms.
     and_then (map_err TpStd (load (tp_contract_state st))) (\<lambda>current_state.
     if current_state \<noteq> TpActive then Err TpNotActive
     else if is_ok (load (tp_withdraw st)) then Err TpWithdrawAlreadyStarted
     else
       and_then (map_err TpStd (load (tp_lockup st))) (\<lambda>lockup_config.
       if is_expired d lockup_config (env_block env) then Err TpExpiredError
       else
         and_then (map_err TpStd (load (tp_covenant st))) (\<lambda>config.
         and_then (authorize_sender config (sender info)) (\<lambda>(rqp, _).
         and_then (case cov_type config of
                     Share \<Rightarrow> and_then (dec_sub (allocation rqp) (penalty terms)) (\<lambda>p. Ok (Some p))
                   | Side \<Rightarrow> Ok None) (\<lambda>withdraw_percentage.
         let st1 = st\<lparr>tp_withdraw := Some (ProcessingRagequit (host_addr rqp) terms)\<rparr> in
         and_then (map_err TpStd (load (tp_pooler st1))) (\<lambda>lper.
         and_then (map_err TpStd (generate_withdraw_msg lper withdraw_percentage)) (\<lambda>withdraw_msg.
           Ok (resp [withdraw_msg], st1))))))))))"

definition tp_execute ::
    "deps \<Rightarrow> env \<Rightarrow> message_info \<Rightarrow> tp_execute_msg \<Rightarrow> tp_state
     \<Rightarrow> (response \<times> tp_state, tp_error) result" where
  "tp_execute d env info msg st =
     (case msg of
        TpRagequitMsg \<Rightarrow> tp_try_ragequit d env info st
      | TpTick \<Rightarrow> tp_try_tick d env info st
      | TpClaim \<Rightarrow> tp_try_claim info st
      | TpDistribute \<Rightarrow> tp_try_distribute d info st
      | TpWithdrawFailed \<Rightarrow> tp_try_withdraw_failed info st
      | TpDistributeFallbackSplit denoms \<Rightarrow> tp_try_distribute_fallback_split d env denoms st
      | TpEmergencyWithdraw \<Rightarrow> tp_try_emergency_withdraw info st)"

section \<open>Queries\<close>

datatype tp_query_msg =
    TpQContractState | TpQRagequitConfig | TpQLockupConfig | TpQClockAddress | TpQNextContract
  | TpQConfigPartyA | TpQConfigPartyB | TpQDepositDeadline | TpQConfig | TpQDepositAddress
  | TpQDenomSplits | TpQEmergencyCommittee

datatype tp_query_reply =
    TpRState tp_contract_state | TpRRagequit ragequit_config | TpRExpiration expiration | TpRAddr addr
  | TpRParty tp_party | TpRConfig tp_config | TpRSplits denom_splits | TpRMaybeAddr "addr option"

definition tp_query :: "env \<Rightarrow> tp_query_msg \<Rightarrow> tp_state \<Rightarrow> (tp_query_reply, std_error) result" where
  "tp_query env msg st =
     (case msg of
        TpQContractState \<Rightarrow> and_then (load (tp_contract_state st)) (\<lambda>v. Ok (TpRState v))
      | TpQRagequitConfig \<Rightarrow> and_then (load (tp_ragequit st)) (\<lambda>v. Ok (TpRRagequit v))
      | TpQLockupConfig \<Rightarrow> and_then (load (tp_lockup st)) (\<lambda>v. Ok (TpRExpiration v))
      | TpQClockAddress \<Rightarrow> and_then (load (tp_clock st)) (\<lambda>v. Ok (TpRAddr v))
      | TpQNextContract \<Rightarrow> and_then (load (tp_pooler st)) (\<lambda>v. Ok (TpRAddr v))
      | TpQConfigPartyA \<Rightarrow> and_then (load (tp_covenant st)) (\<lambda>v. Ok (TpRParty (party_a v)))
      | TpQConfigPartyB \<Rightarrow> and_then (load (tp_covenant st)) (\<lambda>v. Ok (TpRParty (party_b v)))
      | TpQDepositDeadline \<Rightarrow> and_then (load (tp_deposit_deadline st)) (\<lambda>v. Ok (TpRExpiration v))
      | TpQConfig \<Rightarrow> and_then (load (tp_covenant st)) (\<lambda>v. Ok (TpRConfig v))
      | TpQDepositAddress \<Rightarrow> Ok (TpRAddr (contract_address env))
      | TpQDenomSplits \<Rightarrow> and_then (load (tp_splits st)) (\<lambda>v. Ok (TpRSplits v))
      | TpQEmergencyCommittee \<Rightarrow> Ok (TpRMaybeAddr (tp_committee st)))"

section \<open>Migration\<close>

definition tp_update_splits ::
    "deps \<Rightarrow> (denom, split_config) omap \<Rightarrow> tp_state \<Rightarrow> (tp_state, std_error) result" where
  "tp_update_splits d splits st =
     and_then (try_fold (\<lambda>_ (_, config). validate_shares_and_receiver_addresses d config) ()
                 (om_entries splits)) (\<lambda>_.
     and_then (load (tp_splits st)) (\<lambda>current.
       Ok (st\<lparr>tp_splits := Some (current\<lparr>explicit_splits := splits\<rparr>)\<rparr>)))"

definition tp_update_fallback ::
    "deps \<Rightarrow> split_config \<Rightarrow> tp_state \<Rightarrow> (tp_state, std_error) result" where
  "tp_update_fallback d split st =
     and_then (validate_shares_and_receiver_addresses d split) (\<lambda>_.
     and_then (load (tp_splits st)) (\<lambda>current.
       Ok (st\<lparr>tp_splits := Some (current\<lparr>fallback_split := Some split\<rparr>)\<rparr>)))"

definition tp_migrate ::
    "deps \<Rightarrow> env \<Rightarrow> tp_migrate_msg \<Rightarrow> tp_state \<Rightarrow> (response \<times> tp_state, std_error) result" where
  "tp_migrate d env msg st =
     (case msg of
        TpUpdateConfig u \<Rightarrow>
          and_then (upd_field (\<lambda>a st. and_then (addr_validate d a) (\<lambda>v.
                      Ok (st\<lparr>tp_clock := Some v\<rparr>))) (tpu_clock u) st) (\<lambda>st.
          and_then (upd_field (\<lambda>a st. and_then (addr_validate d a) (\<lambda>v.
                      Ok (st\<lparr>tp_pooler := Some v\<rparr>))) (tpu_next_contract u) st) (\<lambda>st.
          and_then (upd_field (\<lambda>e st. if is_expired d e (env_block env)
                      then Err (GenericErr ''lockup config is already past'')
                      else Ok (st\<lparr>tp_lockup := Some e\<rparr>)) (tpu_lockup u) st) (\<lambda>st.
          and_then (upd_field (\<lambda>e st. if is_expired d e (env_block env)
                      then Err (GenericErr ''deposit deadline is already past'')
                      else Ok (st\<lparr>tp_deposit_deadline := Some e\<rparr>)) (tpu_deposit_deadline u) st) (\<lambda>st.
          and_then (upd_field (\<lambda>a st. and_then (addr_validate d a) (\<lambda>v.
                      Ok (st\<lparr>tp_committee := Some v\<rparr>))) (tpu_committee u) st) (\<lambda>st.
          and_then (upd_field (\<lambda>c st. Ok (st\<lparr>tp_ragequit := Some c\<rparr>)) (tpu_ragequit u) st) (\<lambda>st.
          and_then (upd_field (\<lambda>c st. Ok (st\<lparr>tp_covenant := Some c\<rparr>)) (tpu_covenant u) st) (\<lambda>st.
          and_then (upd_field (tp_update_splits d) (tpu_splits u) st) (\<lambda>st.
          and_then (upd_field (tp_update_fallback d) (tpu_fallback_split u) st) (\<lambda>st.
            Ok (resp [], st))))))))))
      | TpUpdateCodeId \<Rightarrow> Ok (resp [], st))"

end
