(* ===== verification/Two_Party_Payouts.thy ===== *)
theory Two_Party_Payouts
  imports Two_Party_Correct
begin

text \<open>
  The single operations of the two-party holder: when a claim or a ragequit goes through and
  what it asks the pooler for, what the ragequit penalty does to the splits, whom a
  distribution pays, and how the deposit tick decides.
\<close>

section \<open>Claims and ragequits\<close>

lemma tp_claim_Ok_iff:
  assumes "tp_inv st"
  shows "tp_try_claim info st = Ok (r, st') \<longleftrightarrow>
    (\<exists>c p q lper. tp_withdraw st = None \<and> tp_covenant st = Some c \<and> tp_pooler st = Some lper \<and>
       authorize_sender c (sender info) = Ok (p, q) \<and> tp_contract_state st \<in> {Some TpRagequit, Some TpExpired} \<and>
       r = resp [WasmExecute lper (WithdrawMsg (case cov_type c of Share \<Rightarrow> Some (allocation p) | Side \<Rightarrow> None)) []] \<and>
       st' = st\<lparr>tp_withdraw := Some (Processing (sender info))\<rparr>)"
proof -
  from assms obtain ph c rq where st: "tp_contract_state st = Some ph" "tp_covenant st = Some c"
    "tp_params_set st" by (rule tp_invE)
  then obtain lper where lper: "tp_pooler st = Some lper" by (auto simp: tp_params_set_def)
  show ?thesis
  proof (cases "authorize_sender c (sender info)")
    case (Ok pq)
    obtain p q where pq: "pq = (p, q)" by (cases pq)
    from Ok pq have "\<not> dec_is_zero (allocation p)" "host_addr p = sender info"
      by (simp_all add: authorize_sender_Ok)
    with Ok pq st lper show ?thesis
      by (cases "tp_withdraw st"; cases ph)
        (auto simp: tp_try_claim_def validate_claim_state_def generate_withdraw_msg_def Let_def)
  qed (use st in \<open>auto simp: tp_try_claim_def is_ok_iff\<close>)
qed

text \<open>
  Claim C34: exact behaviour of a claim. In a reachable state it succeeds if and only if no
  withdrawal is pending, the sender is the host of a party with a non-zero allocation, and
  the covenant is expired or ragequit. It then locks the withdrawal for that host and asks
  the pooler to withdraw the party's allocation (share covenants) or everything (side
  covenants). In particular the branch of the code that completes the covenant when both
  allocations are zero is never taken: such a claim is refused before.
\<close>

theorem tp_claim_iff:
  assumes "tp_inv st"
  shows "tp_try_claim info st = Ok (r, st') \<longleftrightarrow>
    (\<exists>c p q lper. tp_withdraw st = None \<and> tp_covenant st = Some c \<and> tp_pooler st = Some lper \<and>
       authorize_sender c (sender info) = Ok (p, q) \<and> tp_contract_state st \<in> {Some TpRagequit, Some TpExpired} \<and>
       r = resp [WasmExecute lper (WithdrawMsg (case cov_type c of Share \<Rightarrow> Some (allocation p) | Side \<Rightarrow> None)) []] \<and>
       st' = st\<lparr>tp_withdraw := Some (Processing (sender info))\<rparr>)"
  by (rule tp_claim_Ok_iff [OF assms])

theorem tp_claim_iff_witness:
  "\<exists>r st'. tp_try_claim \<lparr>sender = ''host_b'', funds = []\<rparr> (ex_tp_active\<lparr>tp_contract_state := Some TpExpired\<rparr>) = Ok (r, st')"
proof -
  have "tp_inv (ex_tp_active\<lparr>tp_contract_state := Some TpExpired\<rparr>)"
    using ex_tp_active_inv by (auto simp: tp_inv_def tp_core_def tp_params_set_def ex_tp_active_def ex_tp_state_def)
  from tp_claim_iff [OF this] show ?thesis
    by (force simp: ex_tp_active_def ex_tp_state_def authorize_sender_def ex_tp_defs dec_eval)
qed



section \<open>The ragequit penalty\<close>

definition share_of :: "split_config \<Rightarrow> string \<Rightarrow> nat" where
  "share_of sc a = (case om_get (receivers sc) a of None \<Rightarrow> 0 | Some s \<Rightarrow> dec_val s)"

text \<open>Exactly the penalty moves from one router to the other; the rest stays.\<close>

definition penalised :: "decimal \<Rightarrow> tp_party \<Rightarrow> tp_party \<Rightarrow> split_config \<Rightarrow> split_config \<Rightarrow> bool" where
  "penalised pen p q sc sc' \<longleftrightarrow>
     share_of sc' (router p) + dec_val pen = share_of sc (router p) \<and>
     share_of sc' (router q) = share_of sc (router q) + dec_val pen \<and>
     (\<forall>a. a \<noteq> router p \<longrightarrow> a \<noteq> router q \<longrightarrow> om_get (receivers sc') a = om_get (receivers sc) a) \<and>
     total_shares sc' = total_shares sc \<and> om_wf (receivers sc')"

text \<open>An explicit split without a share of the party is left as it is.\<close>

definition penalty_applied :: "decimal \<Rightarrow> tp_party \<Rightarrow> tp_party \<Rightarrow> split_config \<Rightarrow> split_config \<Rightarrow> bool" where
  "penalty_applied pen p q sc sc' \<longleftrightarrow>
     (if share_of sc (router p) = 0 then sc' = sc else penalised pen p q sc sc')"

lemma shift_shares_penalised:
  assumes "shift_shares pen p q sc s = Ok sc'" and "om_get (receivers sc) (router p) = Some s"
    and "router p \<noteq> router q" and wf: "om_wf (receivers sc)"
  shows "penalised pen p q sc sc'"
proof -
  from assms(1) obtain sp cs sq where v: "dec_val s = dec_val pen + dec_val sp"
    "om_get (receivers sc) (router q) = Some cs" "dec_val sq = dec_val cs + dec_val pen"
    "sc' = \<lparr>receivers = om_insert (om_insert (receivers sc) (router p) sp) (router q) sq\<rparr>"
    by (auto simp: shift_shares_def result_simps arith_simps)
  have "(\<Sum>x\<leftarrow>om_insert (om_insert (receivers sc) (router p) sp) (router q) sq. dec_val (snd x)) + dec_val cs
      = (\<Sum>x\<leftarrow>om_insert (receivers sc) (router p) sp. dec_val (snd x)) + dec_val sq"
    using sum_om_insert [of "om_insert (receivers sc) (router p) sp" dec_val "router q" sq] v(2) wf assms(3) by simp
  moreover have "(\<Sum>x\<leftarrow>om_insert (receivers sc) (router p) sp. dec_val (snd x)) + dec_val s
      = (\<Sum>x\<leftarrow>receivers sc. dec_val (snd x)) + dec_val sp"
    using sum_om_insert [OF wf, of dec_val "router p" sp] assms(2) by simp
  ultimately show ?thesis
    using v wf assms(2,3) by (auto simp: penalised_def share_of_def total_shares_def)
qed

lemma penalize_explicit_Ok:
  assumes "penalize_explicit pen p q acc (dn, sc) = Ok acc'" and "om_wf acc" and "om_get acc dn = Some sc"
    and "router p \<noteq> router q" and "om_wf (receivers sc)"
  shows "om_wf acc'" and "\<And>k. k \<noteq> dn \<Longrightarrow> om_get acc' k = om_get acc k"
    and "\<exists>sc'. om_get acc' dn = Some sc' \<and>
      penalty_applied pen p q sc sc'"
proof -
  from assms(1) obtain s where s: "om_get (receivers sc) (router p) = Some s"
    "(if s > dec_zero then and_then (shift_shares pen p q sc s) (\<lambda>sc'. Ok (om_insert acc dn sc')) else Ok acc) = Ok acc'"
    by (auto simp: penalize_explicit_def result_simps)
  then show "om_wf acc'" "\<And>k. k \<noteq> dn \<Longrightarrow> om_get acc' k = om_get acc k"
    "\<exists>sc'. om_get acc' dn = Some sc' \<and>
      penalty_applied pen p q sc sc'"
    using assms(2-5) shift_shares_penalised [of pen p q sc s]
    by (auto simp: result_simps dec_less_iff penalty_applied_def share_of_def split: if_splits)
qed

lemma penalize_fold:
  assumes "try_fold (penalize_explicit pen p q) acc es = Ok acc'" and "distinct (map fst es)" and "om_wf acc"
    and "\<forall>(dn, sc)\<in>set es. om_get acc dn = Some sc \<and> om_wf (receivers sc)" and "router p \<noteq> router q"
  shows "(\<forall>dn. dn \<notin> fst ` set es \<longrightarrow> om_get acc' dn = om_get acc dn) \<and>
    (\<forall>(dn, sc)\<in>set es. \<exists>sc'. om_get acc' dn = Some sc' \<and>
      penalty_applied pen p q sc sc')"
  using assms
proof (induction es arbitrary: acc)
  case Nil
  then show ?case by simp
next
  case (Cons e es)
  obtain dn sc where e: "e = (dn, sc)" by (cases e)
  with Cons.prems(1) obtain acc1 where acc1: "penalize_explicit pen p q acc (dn, sc) = Ok acc1"
    "try_fold (penalize_explicit pen p q) acc1 es = Ok acc'" by (auto simp: result_simps)
  from Cons.prems e have sc: "om_get acc dn = Some sc" "om_wf (receivers sc)" and dn: "dn \<notin> fst ` set es" by auto
  note first = penalize_explicit_Ok [OF acc1(1) Cons.prems(3) sc(1) Cons.prems(5) sc(2)]
  have rest: "\<forall>(k, c)\<in>set es. om_get acc1 k = Some c \<and> om_wf (receivers c)"
  proof safe
    fix k c
    assume kc: "(k, c) \<in> set es"
    with dn have "k \<noteq> dn" by force
    with first(2) kc Cons.prems(4) show "om_get acc1 k = Some c" by auto
    from kc Cons.prems(4) show "om_wf (receivers c)" by auto
  qed
  from Cons.prems(2) have "distinct (map fst es)" by simp
  from Cons.IH [OF acc1(2) this first(1) rest Cons.prems(5)] first(2,3) dn show ?case
    unfolding e by auto
qed

text \<open>
  Claim C5: the ragequit penalty conserves every split. When it is applied to the splits of
  a covenant whose parties use different routers, each explicit split in which the
  ragequitting party has a share, and the fallback split, lose exactly the penalty on that
  party's router and gain it on the counterparty's; all other shares and the total of every
  split are unchanged. Explicit splits without a share of the party stay as they are, and no
  denomination appears or disappears.
\<close>

theorem penalty_moves_shares:
  assumes "apply_penalty ds pen p q = Ok ds'" and "router p \<noteq> router q"
    and "om_wf (explicit_splits ds)" and "\<forall>(dn, sc)\<in>set (explicit_splits ds). om_wf (receivers sc)"
    and "\<forall>fs. fallback_split ds = Some fs \<longrightarrow> om_wf (receivers fs)"
  shows "(\<forall>dn. om_get (explicit_splits ds) dn = None \<longrightarrow> om_get (explicit_splits ds') dn = None) \<and>
    (\<forall>dn sc. om_get (explicit_splits ds) dn = Some sc \<longrightarrow> (\<exists>sc'. om_get (explicit_splits ds') dn = Some sc' \<and>
      penalty_applied pen p q sc sc')) \<and>
    (case fallback_split ds of None \<Rightarrow> fallback_split ds' = None
     | Some fs \<Rightarrow> \<exists>fs'. fallback_split ds' = Some fs' \<and> penalised pen p q fs fs')"
proof -
  from assms(1) have fold: "try_fold (penalize_explicit pen p q) (explicit_splits ds) (om_entries (explicit_splits ds))
      = Ok (explicit_splits ds')"
    by (auto simp: apply_penalty_def result_simps split: option.splits)
  have mem: "(dn, sc) \<in> set (om_entries (explicit_splits ds)) \<longleftrightarrow> om_get (explicit_splits ds) dn = Some sc" for dn sc
    using assms(3) by (rule om.mem_entries_iff)
  have none: "dn \<notin> fst ` set (om_entries (explicit_splits ds))" if "om_get (explicit_splits ds) dn = None" for dn
    using that mem by force
  have "(\<forall>dn. dn \<notin> fst ` set (om_entries (explicit_splits ds)) \<longrightarrow>
      om_get (explicit_splits ds') dn = om_get (explicit_splits ds) dn) \<and>
    (\<forall>(dn, sc)\<in>set (om_entries (explicit_splits ds)). \<exists>sc'. om_get (explicit_splits ds') dn = Some sc' \<and>
      penalty_applied pen p q sc sc')"
    using assms(2-4) mem om.distinct_entries [OF assms(3)]
    by (intro penalize_fold [OF fold]) (auto simp: om_entries_def)
  moreover from assms(1,2,5) have "case fallback_split ds of None \<Rightarrow> fallback_split ds' = None
     | Some fs \<Rightarrow> \<exists>fs'. fallback_split ds' = Some fs' \<and> penalised pen p q fs fs'"
    by (auto simp: apply_penalty_def result_simps split: option.splits dest!: shift_shares_penalised)
  ultimately show ?thesis using none by (auto simp: mem [symmetric])
qed

definition ex_quarters :: denom_splits where
  "ex_quarters = \<lparr>explicit_splits = [(''uatom'', \<lparr>receivers = [(''router_a'', Decimal 250000000000000000),
     (''router_b'', Decimal 750000000000000000)]\<rparr>)], fallback_split = Some ex_split\<rparr>"

theorem penalty_moves_shares_witness:
  "\<exists>ds' fs'. apply_penalty ex_quarters (penalty ex_rq) ex_party_a ex_party_b = Ok ds' \<and>
     fallback_split ds' = Some fs' \<and> penalised (penalty ex_rq) ex_party_a ex_party_b ex_split fs'"
proof -
  have "\<exists>ds'. apply_penalty ex_quarters (penalty ex_rq) ex_party_a ex_party_b = Ok ds'"
    by (simp add: apply_penalty_def penalize_explicit_def shift_shares_def ex_quarters_def ex_tp_defs om_entries_def
        om_get_def dec_eval)
  then obtain ds' where ds': "apply_penalty ex_quarters (penalty ex_rq) ex_party_a ex_party_b = Ok ds'" by blast
  from penalty_moves_shares [OF this] ds' show ?thesis
    by (auto simp: ex_quarters_def ex_split_def ex_party_a_def ex_party_b_def)
qed

section \<open>Distributions\<close>

lemma collect_ok_concat:
  "(\<And>c. c \<in> set cs \<Longrightarrow> f c = Ok (g c)) \<Longrightarrow> collect_ok (map f cs) = Ok (concat (map g cs))"
  by (induction cs) auto

lemma total_to_concat: "total_to a dn (concat (map g cs)) = (\<Sum>c\<leftarrow>cs. total_to a dn (g c))"
  by (induction cs) auto

lemma total_out_concat: "total_out dn (concat (map g cs)) = (\<Sum>c\<leftarrow>cs. total_out dn (g c))"
  by (induction cs) auto

definition splits_wf :: "denom_splits \<Rightarrow> bool" where
  "splits_wf ds \<longleftrightarrow> (\<forall>dn sc. om_get (explicit_splits ds) dn = Some sc \<longrightarrow> split_wf sc)"

lemma single_receiver_messages:
  assumes "multiply_ratio_spec d" and "splits_wf ds"
  shows "get_single_receiver_distribution_messages d ds coins a =
    Ok (concat (map (\<lambda>c. case om_get (explicit_splits ds) (coin_denom c) of
        Some sc \<Rightarrow> if om_contains (receivers sc) a then [BankSend a [c]] else [] | None \<Rightarrow> []) coins))"
  unfolding get_single_receiver_distribution_messages_def
  using assms by (intro collect_ok_concat)
    (auto simp: get_transfer_messages_single splits_wf_def split_wf_def split: option.splits)

lemma single_receiver_total:
  assumes "multiply_ratio_spec d" and "splits_wf ds"
    and "get_single_receiver_distribution_messages d ds coins b = Ok ms"
  shows "total_to a dn ms =
    (if a = b \<and> (\<exists>sc. om_get (explicit_splits ds) dn = Some sc \<and> om_contains (receivers sc) b)
     then coins_in dn coins else 0)"
proof -
  let ?g = "\<lambda>c. case om_get (explicit_splits ds) (coin_denom c) of
        Some sc \<Rightarrow> if om_contains (receivers sc) b then [BankSend b [c]] else [] | None \<Rightarrow> []"
  have one: "total_to a dn (?g c) = (if a = b \<and> (\<exists>sc. om_get (explicit_splits ds) dn = Some sc \<and> om_contains (receivers sc) b)
      then coins_in dn [c] else 0)" for c
    by (auto split: option.splits)
  have "(\<Sum>c\<leftarrow>cs. if P then coins_in dn [c] else 0) = (if P then coins_in dn cs else 0)" for P cs
    by (induction cs) auto
  with one have "total_to a dn (concat (map ?g coins)) =
      (if a = b \<and> (\<exists>sc. om_get (explicit_splits ds) dn = Some sc \<and> om_contains (receivers sc) b)
       then coins_in dn coins else 0)" by (simp only: total_to_concat)
  moreover have "ms = concat (map ?g coins)" using assms single_receiver_messages [OF assms(1,2), of coins b] by simp
  ultimately show ?thesis by (simp only:)
qed

lemma share_distribution:
  assumes "multiply_ratio_spec d" and "splits_wf ds" and "tp_inv st" and "tp_splits st = Some ds"
    and "tp_covenant st = Some c" and "cov_type c = Share" and "tp_withdraw st = Some (Processing h)"
    and "authorize_sender c h = Ok (p, q)" and "tp_try_distribute d info st = Ok (r, st')"
  shows "(\<forall>a dn. total_to a dn (messages r) =
      (if a = router p \<and> (\<exists>sc. om_get (explicit_splits ds) dn = Some sc \<and> om_contains (receivers sc) (router p))
       then coins_in dn (funds info) else 0)) \<and>
    tp_withdraw st' = None \<and>
    (if dec_is_zero (allocation q) then tp_contract_state st' = Some TpComplete
     else tp_covenant st' = Some (update_parties c (p\<lparr>allocation := dec_zero\<rparr>) (q\<lparr>allocation := dec_one\<rparr>)))"
proof -
  from assms have "tp_try_claim_share_based d p q (funds info) c ds (st\<lparr>tp_withdraw := None\<rparr>) = Ok (r, st')"
    by (auto simp: tp_try_distribute_def distribution_terms_def result_simps Let_def)
  then obtain ms where ms: "get_single_receiver_distribution_messages d ds (funds info) (router p) = Ok ms"
    "\<exists>extra. messages r = ms @ extra \<and> (\<forall>m\<in>set extra. \<exists>a. m = WasmExecute a DequeueMsg [])"
    "tp_withdraw st' = None" "if dec_is_zero (allocation q) then tp_contract_state st' = Some TpComplete
     else tp_covenant st' = Some (update_parties c (p\<lparr>allocation := dec_zero\<rparr>) (q\<lparr>allocation := dec_one\<rparr>))"
    by (cases "dec_is_zero (allocation q)") (auto simp: tp_try_claim_share_based_Ok)
  have "total_to a dn extra = 0" if "\<forall>m\<in>set extra. \<exists>a. m = WasmExecute a DequeueMsg []" for a dn extra
    using that by (induction extra) auto
  with single_receiver_total [OF assms(1,2) ms(1)] ms(2-4) show ?thesis by auto
qed

text \<open>
  A claim on a share covenant pays the claimer in full and nobody else. When the
  pooler returns funds for a pending claim of a party, every withdrawn coin whose
  denomination has an explicit split with the party's router goes to that router entirely;
  no other address receives anything, coins without such a split stay with the holder, and
  the counterparty's allocation becomes one (or the covenant completes if it has none left).
\<close>

theorem tp_share_claim_pays_claimer:
  assumes "multiply_ratio_spec d" and "splits_wf ds" and "tp_inv st" and "tp_splits st = Some ds"
    and "tp_covenant st = Some c" and "cov_type c = Share" and "tp_withdraw st = Some (Processing h)"
    and "authorize_sender c h = Ok (p, q)" and "tp_try_distribute d info st = Ok (r, st')"
  shows "(\<forall>a dn. total_to a dn (messages r) =
      (if a = router p \<and> (\<exists>sc. om_get (explicit_splits ds) dn = Some sc \<and> om_contains (receivers sc) (router p))
       then coins_in dn (funds info) else 0)) \<and>
    tp_withdraw st' = None \<and>
    (if dec_is_zero (allocation q) then tp_contract_state st' = Some TpComplete
     else tp_covenant st' = Some (update_parties c (p\<lparr>allocation := dec_zero\<rparr>) (q\<lparr>allocation := dec_one\<rparr>)))"
  using share_distribution [OF assms] .

definition ex_claimed :: "covenant_type \<Rightarrow> withdraw_state \<Rightarrow> tp_state" where
  "ex_claimed ct ws = ex_tp_state\<lparr>tp_contract_state := Some TpExpired, tp_withdraw := Some ws,
     tp_covenant := Some \<lparr>party_a = ex_party_a, party_b = ex_party_b, cov_type = ct\<rparr>\<rparr>"

definition ex_payment :: message_info where
  "ex_payment = \<lparr>sender = ''pooler'', funds = [\<lparr>coin_denom = ''uatom'', coin_amount = 40\<rparr>]\<rparr>"

abbreviation ex_ds :: denom_splits where
  "ex_ds \<equiv> \<lparr>explicit_splits = [(''uatom'', ex_split)], fallback_split = None\<rparr>"

lemma ex_split_wf: "split_wf ex_split" "splits_wf ex_ds"
  by (auto simp: splits_wf_def split_wf_def ex_split_def om_get_def total_shares_def half_def split: if_splits)

lemma ex_claimed_inv: "tp_inv (ex_claimed ct (Processing h))" "tp_inv (ex_claimed ct Emergency)"
  by (simp_all add: tp_inv_def tp_core_def tp_params_set_def ex_claimed_def ex_tp_state_def alloc_a_def alloc_b_def
      ex_party_a_def ex_party_b_def half_def)

lemma ex_authorize: "authorize_sender \<lparr>party_a = ex_party_a, party_b = ex_party_b, cov_type = ct\<rparr> ''host_a''
    = Ok (ex_party_a, ex_party_b)"
  by (simp add: authorize_sender_def ex_tp_defs dec_eval)

lemma ex_deps_ratio: "multiply_ratio_spec ex_deps"
  unfolding ex_deps_def by (rule ref_multiply_ratio_ok)

theorem tp_share_claim_pays_claimer_witness:
  "\<exists>r st'. tp_try_distribute ex_deps ex_payment (ex_claimed Share (Processing ''host_a'')) = Ok (r, st') \<and>
     total_to ''router_a'' ''uatom'' (messages r) = 40 \<and> total_to ''router_b'' ''uatom'' (messages r) = 0"
proof -
  let ?st = "ex_claimed Share (Processing ''host_a'')"
  have "\<not> dec_is_zero (allocation ex_party_b)" by (simp add: ex_tp_defs dec_eval)
  then have "\<exists>r st'. tp_try_distribute ex_deps ex_payment ?st = Ok (r, st')"
    using single_receiver_messages [OF ex_deps_ratio ex_split_wf(2)]
    by (simp add: tp_try_distribute_def ex_claimed_def ex_tp_state_def ex_payment_def distribution_terms_def
        ex_authorize tp_try_claim_share_based_Ok)
  then obtain r st' where ok: "tp_try_distribute ex_deps ex_payment ?st = Ok (r, st')" by blast
  from tp_share_claim_pays_claimer [OF ex_deps_ratio ex_split_wf(2) ex_claimed_inv(1) _ _ _ _ ex_authorize ok] ok
  show ?thesis
    by (auto simp: ex_claimed_def ex_tp_state_def ex_payment_def ex_split_def ex_party_a_def om_get_def om_contains_def)
qed

text \<open>What one coin and what all coins pay when the explicit splits decide.\<close>

definition split_due :: "denom_splits \<Rightarrow> string \<Rightarrow> denom \<Rightarrow> coin \<Rightarrow> nat" where
  "split_due ds a dn c =
     (if coin_denom c = dn then
        (case om_get (explicit_splits ds) dn of None \<Rightarrow> 0
         | Some sc \<Rightarrow> unat (coin_amount c) * share_of sc a div dec_unit) else 0)"

lemma shared_message_one:
  assumes "multiply_ratio_spec d" and "splits_wf ds"
    and "(case om_get (explicit_splits ds) (coin_denom c) of
         Some sc \<Rightarrow> get_transfer_messages d sc (coin_amount c) (coin_denom c) None | None \<Rightarrow> Ok []) = Ok ms"
  shows "total_to a dn ms = split_due ds a dn c" and "total_out dn ms \<le> coins_in dn [c]"
proof -
  have "total_to a dn ms = split_due ds a dn c \<and> total_out dn ms \<le> coins_in dn [c]"
  proof (cases "om_get (explicit_splits ds) (coin_denom c)")
    case None
    with assms(3) show ?thesis by (auto simp: split_due_def)
  next
    case (Some sc)
    with assms(2) have wf: "om_wf (receivers sc)" "total_shares sc = dec_unit"
      by (auto simp: splits_wf_def split_wf_def)
    from Some assms(3) have ok: "get_transfer_messages d sc (coin_amount c) (coin_denom c) None = Ok ms" by simp
    show ?thesis
    proof (cases "coin_denom c = dn")
      case True
      with get_transfer_messages_sums [OF assms(1) wf(1) ok] split_dust(1) [OF wf(2)] Some show ?thesis
        by (auto simp: split_due_def share_of_def split: option.splits)
    next
      case False
      with get_transfer_messages_other [OF assms(1) ok] show ?thesis by (simp add: split_due_def)
    qed
  qed
  then show "total_to a dn ms = split_due ds a dn c" "total_out dn ms \<le> coins_in dn [c]" by simp_all
qed

lemma shared_messages:
  assumes "multiply_ratio_spec d" and "splits_wf ds"
  shows "\<exists>ms. get_shared_distribution_messages d ds coins = Ok ms \<and>
    (\<forall>a dn. total_to a dn ms = (\<Sum>c\<leftarrow>coins. split_due ds a dn c)) \<and>
    (\<forall>dn. total_out dn ms \<le> coins_in dn coins)"
proof (induction coins)
  case Nil
  then show ?case by (simp add: get_shared_distribution_messages_def)
next
  case (Cons c coins)
  then obtain ms where ms: "get_shared_distribution_messages d ds coins = Ok ms"
    "\<And>a dn. total_to a dn ms = (\<Sum>c\<leftarrow>coins. split_due ds a dn c)"
    "\<And>dn. total_out dn ms \<le> coins_in dn coins" by blast
  let ?one = "case om_get (explicit_splits ds) (coin_denom c) of
      Some sc \<Rightarrow> get_transfer_messages d sc (coin_amount c) (coin_denom c) None | None \<Rightarrow> Ok []"
  have "\<exists>m1. ?one = Ok m1"
    using assms(2) by (cases "om_get (explicit_splits ds) (coin_denom c)")
      (auto simp: splits_wf_def intro: get_transfer_messages_succeeds [OF assms(1)])
  then obtain m1 where m1: "?one = Ok m1" by blast
  from ms(1) m1 have "get_shared_distribution_messages d ds (c # coins) = Ok (m1 @ ms)"
    by (simp add: get_shared_distribution_messages_def)
  moreover have "total_out dn (m1 @ ms) \<le> coins_in dn (c # coins)" for dn
    using shared_message_one(2) [OF assms m1, of dn] ms(3) [of dn] by simp
  moreover have "total_to a dn (m1 @ ms) = (\<Sum>c\<leftarrow>c # coins. split_due ds a dn c)" for a dn
    using shared_message_one(1) [OF assms m1, of a dn] ms(2) [of a dn] by simp
  ultimately show ?case by blast
qed



section \<open>Deposits\<close>

text \<open>
  The deposit tick. While the covenant is instantiated, a tick from the clock
  completes the covenant without any transfer once the deposit deadline has passed (the
  following ticks refund). Before the deadline it forwards both full balances to the pooler
  and activates the covenant exactly when each balance covers the party's contribution, and
  fails otherwise.
\<close>

theorem tp_deposit_tick:
  assumes "tp_inv st" and "tp_contract_state st = Some TpInstantiated" and "tp_clock st = Some (sender info)"
    and "tp_deposit_deadline st = Some deadline" and "tp_covenant st = Some c" and "tp_pooler st = Some lper"
    and "query_balance d (contract_address env) (coin_denom (contribution (party_a c))) = Ok ba"
    and "query_balance d (contract_address env) (coin_denom (contribution (party_b c))) = Ok bb"
  shows "tp_try_tick d env info st =
    (if is_expired d deadline (env_block env) then Ok (resp [], st\<lparr>tp_contract_state := Some TpComplete\<rparr>)
     else if coin_amount (contribution (party_a c)) \<le> coin_amount ba \<and>
             coin_amount (contribution (party_b c)) \<le> coin_amount bb
     then Ok (resp [BankSend lper [ba, bb]], st\<lparr>tp_contract_state := Some TpActive\<rparr>)
     else Err TpInsufficientDeposits)"
  using assms by (auto simp: tp_try_tick_def tp_try_deposit_def verify_clock_def Let_def)

theorem tp_deposit_tick_witness:
  "tp_try_tick ex_deps (ex_env 100) \<lparr>sender = ''clock'', funds = []\<rparr> ex_tp_state =
     Ok (resp [], ex_tp_state\<lparr>tp_contract_state := Some TpComplete\<rparr>)"
  by (subst tp_deposit_tick [OF ex_tp_inv, where deadline = "AtHeight 100" and lper = "''pooler''"
        and c = "\<lparr>party_a = ex_party_a, party_b = ex_party_b, cov_type = Share\<rparr>"
        and ba = "\<lparr>coin_denom = ''uatom'', coin_amount = 1000\<rparr>"
        and bb = "\<lparr>coin_denom = ''untrn'', coin_amount = 1000\<rparr>"])
    (simp_all add: ex_tp_state_def ex_deps_def ex_env_def ex_party_a_def ex_party_b_def)

text \<open>
  After the covenant is complete every tick refunds: it pays the whole balance of
  each party's contributed denomination to that party's router, skips empty balances and
  leaves the state alone.
\<close>

theorem tp_refund_tick:
  assumes "tp_inv st" and "tp_contract_state st = Some TpComplete" and "tp_clock st = Some (sender info)"
    and "tp_covenant st = Some c" and "router (party_a c) \<noteq> router (party_b c)"
    and "query_balance_spec d"
    and "query_balance d (contract_address env) (coin_denom (contribution (party_a c))) = Ok ba"
    and "query_balance d (contract_address env) (coin_denom (contribution (party_b c))) = Ok bb"
  shows "\<exists>r. tp_try_tick d env info st = Ok (r, st) \<and>
    total_to (router (party_a c)) (coin_denom (contribution (party_a c))) (messages r) = unat (coin_amount ba) \<and>
    total_to (router (party_b c)) (coin_denom (contribution (party_b c))) (messages r) = unat (coin_amount bb) \<and>
    (\<forall>m\<in>set (messages r). \<forall>to cs. m = BankSend to cs \<longrightarrow> (\<forall>x\<in>set cs. coin_amount x \<noteq> 0))"
  using assms query_balance_specD(1) [OF assms(6,7)] query_balance_specD(1) [OF assms(6,8)]
  by (auto simp: tp_try_tick_def tp_try_refund_def verify_clock_def split: bool.splits)

theorem tp_refund_tick_witness:
  "\<exists>r. tp_try_tick ex_deps (ex_env 100) \<lparr>sender = ''clock'', funds = []\<rparr>
       (ex_tp_state\<lparr>tp_contract_state := Some TpComplete\<rparr>) =
     Ok (r, ex_tp_state\<lparr>tp_contract_state := Some TpComplete\<rparr>) \<and>
     total_to ''router_a'' ''uatom'' (messages r) = 1000"
proof -
  let ?c = "\<lparr>party_a = ex_party_a, party_b = ex_party_b, cov_type = Share\<rparr>"
  have "tp_inv (ex_tp_state\<lparr>tp_contract_state := Some TpComplete\<rparr>)"
    using ex_tp_inv by (auto simp: tp_inv_def tp_core_def tp_params_set_def ex_tp_state_def)
  moreover have "query_balance_spec ex_deps" unfolding ex_deps_def by (rule ref_query_balance_ok)
  ultimately show ?thesis
    using tp_refund_tick [where d = ex_deps and env = "ex_env 100" and c = ?c
        and st = "ex_tp_state\<lparr>tp_contract_state := Some TpComplete\<rparr>"
        and info = "\<lparr>sender = ''clock'', funds = []\<rparr>"
        and ba = "\<lparr>coin_denom = ''uatom'', coin_amount = 1000\<rparr>"
        and bb = "\<lparr>coin_denom = ''untrn'', coin_amount = 1000\<rparr>"]
    by (fastforce simp: ex_tp_state_def ex_deps_def ex_env_def ex_party_a_def ex_party_b_def)
qed

section \<open>A fallback split smaller than the penalty\<close>

definition ex_fallback :: split_config where
  "ex_fallback = \<lparr>receivers = [(''router_a'', dec_zero), (''router_b'', dec_one)]\<rparr>"

definition ex_fallback_state :: tp_state where
  "ex_fallback_state = ex_tp_state\<lparr>tp_splits := Some (ex_ds\<lparr>fallback_split := Some ex_fallback\<rparr>)\<rparr>"

lemma ex_fallback_instantiate:
  "tp_instantiate ex_deps (ex_env 5) (ex_tp_msg\<lparr>tpi_fallback_split := Some ex_fallback\<rparr>) =
     Ok (resp [WasmExecute ''clock'' EnqueueMsg []], ex_fallback_state)"
proof -
  have "split_validate ex_fallback (router ex_party_a) (router ex_party_b) = Ok ()"
    by (simp add: split_validate_def ex_fallback_def ex_party_a_def ex_party_b_def om_get_def dec_eval)
  with ex_validations show ?thesis
    by (simp add: tp_instantiate_def ex_env_def ex_tp_msg_def ex_tp_state_def om_entries_def enqueue_msg_def
        ex_fallback_state_def) (simp add: ex_deps_def ref_ordering_def)
qed

text \<open>
  The penalty is only checked against the allocations, never against the splits.
  A fallback split that gives one router nothing is accepted at instantiation; then that
  party can ragequit, but the distribution of its withdrawn funds fails with an overflow
  error, even though none of the returned coins is subject to the fallback split.
\<close>

theorem tp_fallback_blocks_ragequit:
  "\<exists>r st. tp_instantiate ex_deps (ex_env 5) (ex_tp_msg\<lparr>tpi_fallback_split := Some ex_fallback\<rparr>) = Ok (r, st) \<and>
     tp_handle ex_deps (TpExec (ex_env 80) ex_payment TpDistribute)
       (run_calls (tp_handle ex_deps) st [TpExec (ex_env 50) \<lparr>sender = ''clock'', funds = []\<rparr> TpTick, ex_ragequit])
     = Err (TpStd Overflow)"
proof -
  let ?active = "ex_fallback_state\<lparr>tp_contract_state := Some TpActive\<rparr>"
  have "tp_handle ex_deps (TpExec (ex_env 50) \<lparr>sender = ''clock'', funds = []\<rparr> TpTick) ex_fallback_state =
      Ok (resp [BankSend ''pooler'' [\<lparr>coin_denom = ''uatom'', coin_amount = 1000\<rparr>,
                                    \<lparr>coin_denom = ''untrn'', coin_amount = 1000\<rparr>]], ?active)"
    by (simp add: tp_execute_def tp_try_tick_def tp_try_deposit_def ex_tp_state_def ex_fallback_state_def
        verify_clock_def ex_env_def ex_deps_def Let_def ex_tp_defs)
  moreover have "\<exists>r. tp_handle ex_deps ex_ragequit ?active =
      Ok (r, ?active\<lparr>tp_withdraw := Some (ProcessingRagequit ''host_a'' ex_rq)\<rparr>)"
    by (simp add: ex_ragequit_def tp_execute_def tp_try_ragequit_def ex_tp_state_def ex_fallback_state_def
        ex_env_def ex_deps_def Let_def ex_tp_defs authorize_sender_def dec_eval generate_withdraw_msg_def)
  moreover have "apply_penalty (ex_ds\<lparr>fallback_split := Some ex_fallback\<rparr>) (penalty ex_rq) ex_party_a ex_party_b
      = Err (TpStd Overflow)"
    by (simp add: apply_penalty_def penalize_explicit_def shift_shares_def ex_tp_defs ex_fallback_def om_entries_def
        om_get_def dec_eval)
  then have "tp_handle ex_deps (TpExec (ex_env 80) ex_payment TpDistribute)
      (?active\<lparr>tp_withdraw := Some (ProcessingRagequit ''host_a'' ex_rq)\<rparr>) = Err (TpStd Overflow)"
    by (simp add: tp_execute_def tp_try_distribute_def ex_tp_state_def ex_fallback_state_def ex_payment_def
        distribution_terms_def ex_authorize)
  ultimately show ?thesis using ex_fallback_instantiate by auto
qed

end
