(* ===== verification/Single_Party_Holder.thy ===== *)
theory Single_Party_Holder
  imports Covenant_Utils Transactions
begin

text \<open>
  The holder of a single-party liquidity covenant (\<open>contracts/single-party-pol-holder\<close>). The
  withdrawer may claim after the lockup, the emergency committee at any time; the pooler then
  returns the funds with a distribution, or reports a failed withdrawal.
\<close>

section \<open>State and messages\<close>

datatype sp_error =
    SpStd std_error
  | SpUnauthorized
  | SpWithdrawAlreadyStarted
  | SpLockupPeriodNotOver expiration
  | SpLockupPeriodIsExpired
  | SpMustBeFutureLockupPeriod
  | SpInvalidFunds

record sp_state =
  sp_withdrawer :: "addr option"
  sp_withdraw_to :: "addr option"
  sp_pooler :: "addr option"
  sp_lockup :: "expiration option"
  sp_withdraw :: "bool option"
  sp_committee :: "addr option"

record sp_instantiate_msg =
  spi_withdrawer :: string
  spi_withdraw_to :: string
  spi_committee :: "string option"
  spi_pooler :: string
  spi_lockup :: expiration

datatype sp_execute_msg = SpClaim | SpDistribute | SpWithdrawFailed | SpEmergencyWithdraw

datatype sp_query_msg =
    SpQWithdrawer | SpQWithdrawTo | SpQPoolerAddress | SpQEmergencyCommittee | SpQLockupConfig

datatype sp_query_reply = SpRMaybeAddr "addr option" | SpRExpiration expiration

record sp_update_config =
  spu_withdrawer :: "string option"
  spu_withdraw_to :: "string option"
  spu_committee :: "string option"
  spu_pooler :: "string option"
  spu_lockup :: "expiration option"

datatype sp_migrate_msg = SpUpdateConfig sp_update_config | SpUpdateCodeId

section \<open>Entry points\<close>

definition sp_instantiate ::
    "deps \<Rightarrow> env \<Rightarrow> sp_instantiate_msg \<Rightarrow> (response \<times> sp_state, sp_error) result" where
  "sp_instantiate d env msg =
     and_then (map_err SpStd (addr_validate d (spi_withdrawer msg))) (\<lambda>withdrawer.
     and_then (map_err SpStd (addr_validate d (spi_withdraw_to msg))) (\<lambda>withdraw_to.
     and_then (map_err SpStd (addr_validate d (spi_pooler msg))) (\<lambda>pooler.
     and_then (ensure (\<not> is_expired d (spi_lockup msg) (env_block env)) SpMustBeFutureLockupPeriod) (\<lambda>_.
     and_then (case spi_committee msg of
                 Some a \<Rightarrow> and_then (map_err SpStd (addr_validate d a)) (\<lambda>v. Ok (Some v))
               | None \<Rightarrow> Ok None) (\<lambda>committee.
       Ok (resp [],
           \<lparr>sp_withdrawer = Some withdrawer, sp_withdraw_to = Some withdraw_to, sp_pooler = Some pooler,
            sp_lockup = Some (spi_lockup msg), sp_withdraw = None, sp_committee = committee\<rparr>))))))"

definition sp_try_claim ::
    "deps \<Rightarrow> env \<Rightarrow> message_info \<Rightarrow> sp_state \<Rightarrow> (response \<times> sp_state, sp_error) result" where
  "sp_try_claim d env info st =
     (if is_ok (load (sp_withdraw st)) then Err SpWithdrawAlreadyStarted
      else
        and_then (map_err SpStd (load (sp_lockup st))) (\<lambda>lockup_period.
        and_then (ensure (is_expired d lockup_period (env_block env)) (SpLockupPeriodNotOver lockup_period)) (\<lambda>_.
        and_then (map_err SpStd (load (sp_withdrawer st))) (\<lambda>withdrawer.
        and_then (ensure (sender info = withdrawer) SpUnauthorized) (\<lambda>_.
        and_then (map_err SpStd (load (sp_pooler st))) (\<lambda>pooler_address.
        and_then (map_err SpStd (generate_withdraw_msg pooler_address None)) (\<lambda>withdraw_msg.
          Ok (resp [withdraw_msg], st\<lparr>sp_withdraw := Some True\<rparr>))))))))"

definition sp_try_emergency_withdraw ::
    "message_info \<Rightarrow> sp_state \<Rightarrow> (response \<times> sp_state, sp_error) result" where
  "sp_try_emergency_withdraw info st =
     (if is_ok (load (sp_withdraw st)) then Err SpWithdrawAlreadyStarted
      else
        and_then (map_err SpStd (load (sp_committee st))) (\<lambda>committee_addr.
        and_then (ensure (sender info = committee_addr) SpUnauthorized) (\<lambda>_.
        and_then (map_err SpStd (load (sp_pooler st))) (\<lambda>pooler_address.
        and_then (map_err SpStd (generate_withdraw_msg pooler_address None)) (\<lambda>withdraw_msg.
          Ok (resp [withdraw_msg], st\<lparr>sp_withdraw := Some True\<rparr>))))))"

definition sp_try_distribute ::
    "message_info \<Rightarrow> sp_state \<Rightarrow> (response \<times> sp_state, sp_error) result" where
  "sp_try_distribute info st =
     and_then (map_err SpStd (load (sp_pooler st))) (\<lambda>pooler_addr.
     and_then (map_err SpStd (load (sp_withdraw_to st))) (\<lambda>withdraw_to_addr.
     and_then (ensure (sender info = pooler_addr) SpUnauthorized) (\<lambda>_.
     and_then (ensure (length (funds info) = 2) SpInvalidFunds) (\<lambda>_.
       Ok (resp [BankSend withdraw_to_addr (funds info)], st\<lparr>sp_withdraw := None\<rparr>)))))"

definition sp_try_withdraw_failed ::
    "message_info \<Rightarrow> sp_state \<Rightarrow> (response \<times> sp_state, sp_error) result" where
  "sp_try_withdraw_failed info st =
     and_then (map_err SpStd (load (sp_pooler st))) (\<lambda>pooler_addr.
     and_then (ensure (sender info = pooler_addr) SpUnauthorized) (\<lambda>_.
       Ok (resp [], st\<lparr>sp_withdraw := None\<rparr>)))"

definition sp_execute ::
    "deps \<Rightarrow> env \<Rightarrow> message_info \<Rightarrow> sp_execute_msg \<Rightarrow> sp_state
     \<Rightarrow> (response \<times> sp_state, sp_error) result" where
  "sp_execute d env info msg st =
     (case msg of
        SpClaim \<Rightarrow> sp_try_claim d env info st
      | SpDistribute \<Rightarrow> sp_try_distribute info st
      | SpWithdrawFailed \<Rightarrow> sp_try_withdraw_failed info st
      | SpEmergencyWithdraw \<Rightarrow> sp_try_emergency_withdraw info st)"

definition sp_query :: "sp_query_msg \<Rightarrow> sp_state \<Rightarrow> (sp_query_reply, std_error) result" where
  "sp_query msg st =
     (case msg of
        SpQWithdrawer \<Rightarrow> Ok (SpRMaybeAddr (sp_withdrawer st))
      | SpQWithdrawTo \<Rightarrow> Ok (SpRMaybeAddr (sp_withdraw_to st))
      | SpQPoolerAddress \<Rightarrow> Ok (SpRMaybeAddr (sp_pooler st))
      | SpQEmergencyCommittee \<Rightarrow> Ok (SpRMaybeAddr (sp_committee st))
      | SpQLockupConfig \<Rightarrow> and_then (load (sp_lockup st)) (\<lambda>e. Ok (SpRExpiration e)))"

definition sp_migrate ::
    "deps \<Rightarrow> env \<Rightarrow> sp_migrate_msg \<Rightarrow> sp_state \<Rightarrow> (response \<times> sp_state, sp_error) result" where
  "sp_migrate d env msg st =
     (case msg of
        SpUpdateConfig u \<Rightarrow>
          and_then (upd_field (\<lambda>a st. and_then (map_err SpStd (addr_validate d a)) (\<lambda>v.
                      Ok (st\<lparr>sp_withdrawer := Some v\<rparr>))) (spu_withdrawer u) st) (\<lambda>st.
          and_then (upd_field (\<lambda>a st. and_then (map_err SpStd (addr_validate d a)) (\<lambda>v.
                      Ok (st\<lparr>sp_withdraw_to := Some v\<rparr>))) (spu_withdraw_to u) st) (\<lambda>st.
          and_then (upd_field (\<lambda>a st. and_then (map_err SpStd (addr_validate d a)) (\<lambda>v.
                      Ok (st\<lparr>sp_committee := Some v\<rparr>))) (spu_committee u) st) (\<lambda>st.
          and_then (upd_field (\<lambda>a st. and_then (map_err SpStd (addr_validate d a)) (\<lambda>v.
                      Ok (st\<lparr>sp_pooler := Some v\<rparr>))) (spu_pooler u) st) (\<lambda>st.
          and_then (upd_field (\<lambda>e st. and_then (ensure (\<not> is_expired d e (env_block env))
                      SpMustBeFutureLockupPeriod) (\<lambda>_. Ok (st\<lparr>sp_lockup := Some e\<rparr>))) (spu_lockup u) st) (\<lambda>st.
            Ok (resp [], st))))))
      | SpUpdateCodeId \<Rightarrow> Ok (resp [], st))"

section \<open>Histories\<close>

datatype sp_call = SpExec env message_info sp_execute_msg | SpMigrate env sp_migrate_msg

fun sp_handle :: "deps \<Rightarrow> sp_call \<Rightarrow> sp_state \<Rightarrow> (response \<times> sp_state, sp_error) result" where
  "sp_handle d (SpExec env info msg) st = sp_execute d env info msg st"
| "sp_handle d (SpMigrate env msg) st = sp_migrate d env msg st"

fun sp_starts :: "sp_call \<Rightarrow> bool" where
  "sp_starts (SpExec _ _ msg) = (msg \<in> {SpClaim, SpEmergencyWithdraw})"
| "sp_starts (SpMigrate _ _) = False"

fun sp_ends :: "sp_call \<Rightarrow> bool" where
  "sp_ends (SpExec _ _ msg) = (msg \<in> {SpDistribute, SpWithdrawFailed})"
| "sp_ends (SpMigrate _ _) = False"

lemmas sp_exec_defs = sp_execute_def sp_try_claim_def sp_try_emergency_withdraw_def sp_try_distribute_def
  sp_try_withdraw_failed_def

text \<open>A migration never touches the withdraw state, and leaves the fields it does not name.\<close>

definition sp_keeps :: "sp_update_config \<Rightarrow> sp_state \<Rightarrow> sp_state \<Rightarrow> bool" where
  "sp_keeps u a b \<longleftrightarrow> sp_withdraw b = sp_withdraw a \<and>
     (spu_withdraw_to u = None \<longrightarrow> sp_withdraw_to b = sp_withdraw_to a) \<and>
     (spu_withdrawer u = None \<longrightarrow> sp_withdrawer b = sp_withdrawer a) \<and>
     (spu_committee u = None \<longrightarrow> sp_committee b = sp_committee a) \<and>
     (spu_pooler u = None \<longrightarrow> sp_pooler b = sp_pooler a) \<and>
     (spu_lockup u = None \<longrightarrow> sp_lockup b = sp_lockup a)"

lemma sp_keeps_chain:
  assumes "and_then (upd_field f v st) k = Ok (r, st')"
    and "\<And>s. k s = Ok (r, st') \<Longrightarrow> sp_keeps u s st'"
    and "\<And>x s. v = Some x \<Longrightarrow> f x st = Ok s \<Longrightarrow> sp_keeps u st s"
  shows "sp_keeps u st st'"
  using assms by (rule upd_field_chain [where R = "sp_keeps u"]) (auto simp: sp_keeps_def)

lemma sp_update_keeps:
  assumes "sp_migrate d env (SpUpdateConfig u) st = Ok (r, st')"
  shows "sp_keeps u st st'"
  using assms unfolding sp_migrate_def sp_migrate_msg.case
  by (elim sp_keeps_chain) (auto simp: sp_keeps_def result_simps)

lemma sp_start_free: "sp_starts c \<Longrightarrow> sp_withdraw st \<noteq> None \<Longrightarrow> \<exists>e. sp_handle d c st = Err e"
  by (cases c) (auto simp: sp_exec_defs)

lemma sp_other_keeps:
  assumes "\<not> sp_ends c" and "sp_withdraw st \<noteq> None" and "sp_handle d c st = Ok (r, st')"
  shows "sp_withdraw st' \<noteq> None"
proof (cases c)
  case (SpExec env info msg)
  with assms sp_start_free [of c st d] show ?thesis by (cases msg) auto
next
  case (SpMigrate env msg)
  with assms sp_update_keeps [of d env _ st r st'] show ?thesis
    by (cases msg) (auto simp: sp_keeps_def sp_migrate_def [of _ _ SpUpdateCodeId])
qed

interpretation sp_lock: withdraw_lock "sp_handle d" sp_starts sp_ends "\<lambda>st. sp_withdraw st \<noteq> None" for d
  by unfold_locales (auto intro: sp_start_free dest: sp_other_keeps)

section \<open>Properties\<close>

text \<open>
  Exact behaviour of a claim on the single-party holder, errors in their order: a
  pending withdrawal refuses it, an unexpired lockup refuses it, any sender but the
  withdrawer is unauthorized, and otherwise it locks the holder and asks the pooler to
  withdraw everything.
\<close>

theorem sp_claim_behaviour:
  assumes "sp_lockup st = Some e" and "sp_withdrawer st = Some w" and "sp_pooler st = Some lper"
  shows "sp_try_claim d env info st =
    (if sp_withdraw st \<noteq> None then Err SpWithdrawAlreadyStarted
     else if \<not> is_expired d e (env_block env) then Err (SpLockupPeriodNotOver e)
     else if sender info \<noteq> w then Err SpUnauthorized
     else Ok (resp [WasmExecute lper (WithdrawMsg None) []], st\<lparr>sp_withdraw := Some True\<rparr>))"
  using assms by (auto simp: sp_try_claim_def generate_withdraw_msg_def)

definition ex_sp_msg :: sp_instantiate_msg where
  "ex_sp_msg = \<lparr>spi_withdrawer = ''owner'', spi_withdraw_to = ''router'', spi_committee = None,
     spi_pooler = ''pooler'', spi_lockup = AtHeight 100\<rparr>"

definition ex_sp_state :: sp_state where
  "ex_sp_state = \<lparr>sp_withdrawer = Some ''owner'', sp_withdraw_to = Some ''router'', sp_pooler = Some ''pooler'',
     sp_lockup = Some (AtHeight 100), sp_withdraw = None, sp_committee = None\<rparr>"

definition ex_sp_env :: "u64 \<Rightarrow> env" where
  "ex_sp_env h = \<lparr>env_block = \<lparr>block_height = h, block_time = 0\<rparr>, contract_address = ''holder''\<rparr>"

definition ex_sp_deps :: deps where
  "ex_sp_deps = ref_deps (\<lambda>_ _. 0)"

lemma ex_sp_instantiate: "sp_instantiate ex_sp_deps (ex_sp_env 5) ex_sp_msg = Ok (resp [], ex_sp_state)"
  by (simp add: sp_instantiate_def ex_sp_msg_def ex_sp_state_def ex_sp_env_def ex_sp_deps_def)

theorem sp_claim_behaviour_witness:
  "sp_try_claim ex_sp_deps (ex_sp_env 99) \<lparr>sender = ''owner'', funds = []\<rparr> ex_sp_state =
     Err (SpLockupPeriodNotOver (AtHeight 100))"
  by (subst sp_claim_behaviour [where e = "AtHeight 100" and w = "''owner''" and lper = "''pooler''"])
    (simp_all add: ex_sp_state_def ex_sp_deps_def ex_sp_env_def)

text \<open>
  One withdrawal at a time. Once a claim or an emergency withdrawal went through,
  no other succeeds until the pooler distributes or reports a failure, whatever calls and
  migrations happen in between.
\<close>

theorem sp_single_pending_withdrawal:
  assumes "sp_starts c1" and "sp_handle d c1 st = Ok (r, st1)"
    and "list_all (\<lambda>c. \<not> sp_ends c) cs" and "sp_starts c2"
  shows "\<exists>e. sp_handle d c2 (run_calls (sp_handle d) st1 cs) = Err e"
proof -
  from assms(1,2) have "sp_withdraw st1 = Some True"
    by (cases c1) (auto simp: sp_exec_defs result_simps split: if_splits)
  then have "sp_withdraw st1 \<noteq> None" by (simp only: option.distinct not_False_eq_True)
  from sp_lock.no_second_start [OF this assms(3,4)] show ?thesis .
qed

definition ex_sp_claim :: sp_call where
  "ex_sp_claim = SpExec (ex_sp_env 200) \<lparr>sender = ''owner'', funds = []\<rparr> SpClaim"

lemma ex_sp_claimed:
  "sp_handle ex_sp_deps ex_sp_claim ex_sp_state =
     Ok (resp [WasmExecute ''pooler'' (WithdrawMsg None) []], ex_sp_state\<lparr>sp_withdraw := Some True\<rparr>)"
  by (simp add: ex_sp_claim_def sp_exec_defs ex_sp_state_def ex_sp_env_def ex_sp_deps_def generate_withdraw_msg_def)

theorem sp_single_pending_withdrawal_witness:
  "\<exists>e. sp_handle ex_sp_deps ex_sp_claim
     (run_calls (sp_handle ex_sp_deps) (ex_sp_state\<lparr>sp_withdraw := Some True\<rparr>)
       [SpMigrate (ex_sp_env 210) SpUpdateCodeId]) = Err e"
  by (rule sp_single_pending_withdrawal [OF _ ex_sp_claimed]) (simp_all add: ex_sp_claim_def)

text \<open>The histories in which no migration replaces the receiver of the funds.\<close>

fun sp_keeps_receiver :: "sp_call \<Rightarrow> bool" where
  "sp_keeps_receiver (SpExec _ _ _) = True"
| "sp_keeps_receiver (SpMigrate _ SpUpdateCodeId) = True"
| "sp_keeps_receiver (SpMigrate _ (SpUpdateConfig u)) = (spu_withdraw_to u = None)"

lemma sp_receiver_step:
  assumes "sp_keeps_receiver c" and "sp_handle d c st = Ok (r, st')"
  shows "sp_withdraw_to st' = sp_withdraw_to st"
proof (cases c)
  case (SpExec env info msg)
  with assms(2) show ?thesis by (cases msg) (auto simp: sp_exec_defs result_simps split: if_splits)
next
  case (SpMigrate env msg)
  with assms sp_update_keeps [of d env _ st r st'] show ?thesis
    by (cases msg) (auto simp: sp_keeps_def sp_migrate_def [of _ _ SpUpdateCodeId])
qed

interpretation sp_receiver: contract_machine "sp_handle d" sp_keeps_receiver "\<lambda>st. sp_withdraw_to st = Some a" for d a
  by unfold_locales (simp add: sp_receiver_step)

lemma sp_bank_messages:
  assumes "sp_handle d c st = Ok (r, st')" and "BankSend to coins \<in> set (messages r)"
  shows "sp_withdraw_to st = Some to \<and> (\<exists>env info. c = SpExec env info SpDistribute \<and>
    sp_pooler st = Some (sender info) \<and> coins = funds info)"
proof (cases c)
  case (SpExec env info msg)
  with assms show ?thesis
    by (cases msg) (auto simp: sp_exec_defs result_simps generate_withdraw_msg_def split: if_splits)
next
  case (SpMigrate env msg)
  with assms show ?thesis by (cases msg) (auto simp: sp_migrate_def result_simps)
qed

text \<open>
  Claim C36: funds only ever leave the single-party holder towards the configured receiver.
  In every history that does not migrate the receiver, each bank transfer the holder sends
  goes to the \<open>withdraw_to\<close> address it was instantiated with.
\<close>

theorem sp_funds_reach_receiver:
  assumes "addr_validate_spec d" and "sp_instantiate d env msg = Ok (r, st)"
    and "list_all sp_keeps_receiver cs" and "BankSend to coins \<in> set (run_out (sp_handle d) st cs)"
  shows "to = spi_withdraw_to msg"
proof -
  from assms(2) obtain a where a: "addr_validate d (spi_withdraw_to msg) = Ok a" "sp_withdraw_to st = Some a"
    by (auto simp: sp_instantiate_def result_simps)
  have "to' = a" if "BankSend to' coins' \<in> set (run_out (sp_handle d) st cs)" for to' coins'
    using sp_receiver.out_run [where P = "\<lambda>m. \<forall>to coins. m = BankSend to coins \<longrightarrow> to = a",
        OF _ assms(3) a(2) that] sp_bank_messages by fastforce
  with assms(1,4) a(1) show ?thesis by (auto simp: addr_validate_spec_def)
qed

definition ex_sp_coins :: "coin list" where
  "ex_sp_coins = [\<lparr>coin_denom = ''uatom'', coin_amount = 7\<rparr>, \<lparr>coin_denom = ''untrn'', coin_amount = 9\<rparr>]"

lemma ex_sp_run:
  "run_out (sp_handle ex_sp_deps) ex_sp_state
     [ex_sp_claim, SpExec (ex_sp_env 201) \<lparr>sender = ''pooler'', funds = ex_sp_coins\<rparr> SpDistribute] =
   [WasmExecute ''pooler'' (WithdrawMsg None) [], BankSend ''router'' ex_sp_coins]"
  using ex_sp_claimed by (simp add: sp_execute_def sp_try_distribute_def ex_sp_state_def ex_sp_coins_def)

theorem sp_funds_reach_receiver_witness:
  "BankSend ''router'' ex_sp_coins \<in> set (run_out (sp_handle ex_sp_deps) ex_sp_state
     [ex_sp_claim, SpExec (ex_sp_env 201) \<lparr>sender = ''pooler'', funds = ex_sp_coins\<rparr> SpDistribute]) \<and>
   ''router'' = spi_withdraw_to ex_sp_msg"
  using sp_funds_reach_receiver [OF _ ex_sp_instantiate, where to = "''router''" and coins = ex_sp_coins
      and cs = "[ex_sp_claim, SpExec (ex_sp_env 201) \<lparr>sender = ''pooler'', funds = ex_sp_coins\<rparr> SpDistribute]"]
    ex_sp_run ref_addr_validate_ok [of "\<lambda>_ _. 0"]
  by (simp add: ex_sp_claim_def ex_sp_deps_def)

text \<open>
  A distribution succeeds only for exactly two coins. If the pooler returns any
  other number of coins the holder refuses them and stays locked, so that no claim can go
  through afterwards unless the pooler reports a failure or retries.
\<close>

theorem sp_distribution_needs_two_coins:
  assumes "sp_pooler st = Some (sender info)" and "sp_withdraw_to st = Some a" and "sp_withdraw st \<noteq> None"
  shows "(length (funds info) = 2 \<longrightarrow> sp_handle d (SpExec env info SpDistribute) st =
      Ok (resp [BankSend a (funds info)], st\<lparr>sp_withdraw := None\<rparr>)) \<and>
    (length (funds info) \<noteq> 2 \<longrightarrow> sp_handle d (SpExec env info SpDistribute) st = Err SpInvalidFunds \<and>
      (\<forall>c. sp_starts c \<longrightarrow>
        (\<exists>e. sp_handle d c (commit st (sp_handle d (SpExec env info SpDistribute) st)) = Err e)))"
proof -
  have "length (funds info) \<noteq> 2 \<Longrightarrow> sp_handle d (SpExec env info SpDistribute) st = Err SpInvalidFunds"
    and "length (funds info) = 2 \<Longrightarrow> sp_handle d (SpExec env info SpDistribute) st =
      Ok (resp [BankSend a (funds info)], st\<lparr>sp_withdraw := None\<rparr>)"
    using assms(1,2) by (simp_all add: sp_execute_def sp_try_distribute_def)
  with sp_start_free [OF _ assms(3)] show ?thesis by auto
qed

theorem sp_distribution_needs_two_coins_witness:
  "sp_handle ex_sp_deps (SpExec (ex_sp_env 201)
       \<lparr>sender = ''pooler'', funds = [\<lparr>coin_denom = ''uatom'', coin_amount = 7\<rparr>]\<rparr> SpDistribute)
     (ex_sp_state\<lparr>sp_withdraw := Some True\<rparr>) = Err SpInvalidFunds"
  using sp_distribution_needs_two_coins [where st = "ex_sp_state\<lparr>sp_withdraw := Some True\<rparr>" and a = "''router''"
      and info = "\<lparr>sender = ''pooler'', funds = [\<lparr>coin_denom = ''uatom'', coin_amount = 7\<rparr>]\<rparr>"]
  by (simp add: ex_sp_state_def)

end
