(* ===== verification/Astroport_Pooler.thy ===== *)
theory Astroport_Pooler
  imports Covenant_Utils Transactions
begin

text \<open>
  The Astroport liquid pooler (\<open>contracts/astroport-liquid-pooler\<close>): each tick enters the pool
  with the funds the pooler holds, on one or on both sides; the holder withdraws a share of the
  position, which the pooler returns with a \<open>Distribute\<close> message.

  The exchange is a parameter: its queries, and the two functions of its crate the pooler calls
  (\<open>Asset::to_coin\<close> and \<open>DecimalCheckedOps::checked_mul_uint128\<close>).
\<close>

section \<open>The exchange\<close>

datatype pair_type = Xyk | Stable | Custom string

record pair_info =
  pair_type_of :: pair_type
  liquidity_token :: addr

record astroport =
  query_pair :: "addr \<Rightarrow> (pair_info, std_error) result"
  query_pool :: "addr \<Rightarrow> (asset list, std_error) result"
  query_cw20_balance :: "addr \<Rightarrow> addr \<Rightarrow> (u128, std_error) result"
  query_share :: "addr \<Rightarrow> u128 \<Rightarrow> (asset list, std_error) result"
  query_simulation :: "addr \<Rightarrow> asset \<Rightarrow> (u128, std_error) result"
  asset_to_coin :: "asset \<Rightarrow> (coin, std_error) result"
  checked_mul_uint128 :: "decimal \<Rightarrow> u128 \<Rightarrow> (u128, std_error) result"

text \<open>
  Documented behaviour: a native asset converts to the coin of its denomination, and the product
  of a decimal and an integer is rounded down, an error when it does not fit 128 bits.
\<close>

definition asset_to_coin_spec :: "astroport \<Rightarrow> bool" where
  "asset_to_coin_spec ax \<longleftrightarrow>
     (\<forall>dn x. asset_to_coin ax \<lparr>info_of = NativeToken dn, asset_amount = x\<rparr> = Ok \<lparr>coin_denom = dn, coin_amount = x\<rparr>)"

definition mul_uint128_spec :: "astroport \<Rightarrow> bool" where
  "mul_uint128_spec ax \<longleftrightarrow>
     (\<forall>r x y. checked_mul_uint128 ax r x = Ok y \<longleftrightarrow> unat y = dec_val r * unat x div dec_unit) \<and>
     (\<forall>r x. checked_mul_uint128 ax r x \<noteq> Panic)"

record astroport_pool_token_response =
  pool_pair_info :: pair_info
  pool_token_balance :: u128

definition query_astro_pool_token ::
    "astroport \<Rightarrow> addr \<Rightarrow> addr \<Rightarrow> (astroport_pool_token_response, std_error) result" where
  "query_astro_pool_token ax pool a =
     and_then (query_pair ax pool) (\<lambda>pinfo.
     and_then (query_cw20_balance ax (liquidity_token pinfo) a) (\<lambda>balance.
       Ok \<lparr>pool_pair_info = pinfo, pool_token_balance = balance\<rparr>))"

section \<open>State and messages\<close>

text \<open>The errors the code raises; the source declares some more that nothing uses.\<close>

datatype ap_error =
    ApStd std_error
  | ApOverflow
  | ApDecimalRangeExceeded
  | ApOperation op_error
  | SingleSideLpLimitError
  | PriceRangeError
  | PairTypeMismatch
  | NotHolder
  | NothingToWithdraw
  | WithdrawPercentageRangeError

record decimal_range =
  range_min :: decimal
  range_max :: decimal

definition decimal_range_try_from :: "decimal \<Rightarrow> decimal \<Rightarrow> (decimal_range, ap_error) result" where
  "decimal_range_try_from mid delta =
     and_then (map_err (\<lambda>_. ApOverflow) (dec_checked_sub mid delta)) (\<lambda>lo.
     and_then (map_err (\<lambda>_. ApOverflow) (dec_checked_add mid delta)) (\<lambda>hi.
       Ok \<lparr>range_min = lo, range_max = hi\<rparr>))"

definition is_within_range :: "decimal_range \<Rightarrow> decimal \<Rightarrow> (unit, ap_error) result" where
  "is_within_range r v = ensure (range_min r \<le> v \<and> v \<le> range_max r) PriceRangeError"

record asset_data =
  asset_a_denom :: denom
  asset_b_denom :: denom

definition to_asset_vec :: "asset_data \<Rightarrow> u128 \<Rightarrow> u128 \<Rightarrow> asset list" where
  "to_asset_vec ad a_bal b_bal =
     [\<lparr>info_of = NativeToken (asset_a_denom ad), asset_amount = a_bal\<rparr>,
      \<lparr>info_of = NativeToken (asset_b_denom ad), asset_amount = b_bal\<rparr>]"

definition to_tuple :: "asset_data \<Rightarrow> u128 \<Rightarrow> u128 \<Rightarrow> asset \<times> asset" where
  "to_tuple ad a_bal b_bal =
     (\<lparr>info_of = NativeToken (asset_a_denom ad), asset_amount = a_bal\<rparr>,
      \<lparr>info_of = NativeToken (asset_b_denom ad), asset_amount = b_bal\<rparr>)"

record lp_config =
  pool_address :: addr
  asset_data :: asset_data
  lp_limits :: single_side_lp_limits
  slippage_tolerance :: "decimal option"
  expected_pool_ratio_range :: decimal_range
  lp_pair_type :: pair_type

record provided_liquidity_info =
  provided_coin_a :: coin
  provided_coin_b :: coin

datatype ap_contract_state = ApInstantiated

record ap_state =
  ap_phase :: "ap_contract_state option"
  ap_op_mode :: "op_mode option"
  ap_holder :: "addr option"
  ap_provided :: "provided_liquidity_info option"
  ap_lp_config :: "lp_config option"

record ap_instantiate_msg =
  api_pool_address :: string
  api_slippage_tolerance :: "decimal option"
  api_assets :: asset_data
  api_limits :: single_side_lp_limits
  api_price_config :: pool_price_config
  api_pair_type :: pair_type
  api_holder :: string
  api_op_mode :: op_mode_config

datatype ap_execute_msg = ApTick | ApWithdraw "decimal option"

record ap_update_config =
  apu_op_mode :: "op_mode_config option"
  apu_holder :: "string option"
  apu_lp_config :: "lp_config option"

datatype ap_migrate_msg = ApUpdateConfig ap_update_config | ApUpdateCodeId

datatype ap_query_msg =
    ApQContractState | ApQHolderAddress | ApQLpConfig | ApQDepositAddress | ApQProvidedLiquidityInfo | ApQOperationMode

datatype ap_query_reply =
    ApRState "ap_contract_state option" | ApRMaybeAddr "addr option" | ApRLpConfig "lp_config option"
  | ApRProvided provided_liquidity_info | ApROpMode "op_mode option"

definition double_sided_reply_id :: u64 where
  "double_sided_reply_id = 321"

definition single_sided_reply_id :: u64 where
  "single_sided_reply_id = 322"

definition swap_reply_id :: u64 where
  "swap_reply_id = 323"

section \<open>Entry points\<close>

definition ap_instantiate ::
    "deps \<Rightarrow> astroport \<Rightarrow> ap_instantiate_msg \<Rightarrow> (response \<times> ap_state, ap_error) result" where
  "ap_instantiate d ax msg =
     and_then (map_err ApStd (op_mode_try_init d (api_op_mode msg))) (\<lambda>mode.
     and_then (map_err ApStd (addr_validate d (api_pool_address msg))) (\<lambda>pool_addr.
     and_then (map_err ApStd (addr_validate d (api_holder msg))) (\<lambda>holder_addr.
     and_then (map_err ApStd (query_pair ax pool_addr)) (\<lambda>pool_response.
     and_then (ensure (pair_type_of pool_response = api_pair_type msg) PairTypeMismatch) (\<lambda>_.
     and_then (decimal_range_try_from (expected_spot_price (api_price_config msg))
                 (acceptable_price_spread (api_price_config msg))) (\<lambda>decimal_range.
       Ok (resp [],
           \<lparr>ap_phase = Some ApInstantiated, ap_op_mode = Some mode, ap_holder = Some holder_addr,
            ap_provided = Some \<lparr>provided_coin_a = \<lparr>coin_denom = asset_a_denom (api_assets msg), coin_amount = 0\<rparr>,
              provided_coin_b = \<lparr>coin_denom = asset_b_denom (api_assets msg), coin_amount = 0\<rparr>\<rparr>,
            ap_lp_config = Some \<lparr>pool_address = pool_addr, asset_data = api_assets msg, lp_limits = api_limits msg,
              slippage_tolerance = api_slippage_tolerance msg, expected_pool_ratio_range = decimal_range,
              lp_pair_type = api_pair_type msg\<rparr>\<rparr>)))))))"

text \<open>The balances the pooler returns when it has no liquidity tokens.\<close>

definition withdraw_balances ::
    "deps \<Rightarrow> addr \<Rightarrow> lp_config \<Rightarrow> (coin list, ap_error) result" where
  "withdraw_balances d self cfg =
     and_then (map_err ApStd (query_balance d self (asset_a_denom (asset_data cfg)))) (\<lambda>asset_a_bal.
     and_then (map_err ApStd (query_balance d self (asset_b_denom (asset_data cfg)))) (\<lambda>asset_b_bal.
     let funds = (if coin_amount asset_a_bal \<noteq> 0 then [asset_a_bal] else []) @
                 (if coin_amount asset_b_bal \<noteq> 0 then [asset_b_bal] else []) in
     and_then (ensure (funds \<noteq> []) NothingToWithdraw) (\<lambda>_. Ok funds)))"

definition withdraw_shares :: "u128 \<Rightarrow> decimal \<Rightarrow> (u128, ap_error) result" where
  "withdraw_shares balance percent =
     (if percent = dec_one then Ok balance
      else and_then (dec_from_atomics_0 ApDecimalRangeExceeded balance) (\<lambda>b.
           and_then (dec_checked_mul ApOverflow b percent) (\<lambda>x. Ok (dec_to_uint_floor x))))"

definition ap_try_withdraw ::
    "deps \<Rightarrow> astroport \<Rightarrow> env \<Rightarrow> message_info \<Rightarrow> decimal option \<Rightarrow> ap_state
     \<Rightarrow> (response \<times> ap_state, ap_error) result" where
  "ap_try_withdraw d ax env info percentage st =
     (let percent = (case percentage of Some p \<Rightarrow> p | None \<Rightarrow> dec_one) in
      and_then (ensure (dec_zero < percent \<and> percent \<le> dec_one) WithdrawPercentageRangeError) (\<lambda>_.
      and_then (map_err ApStd (load (ap_holder st))) (\<lambda>holder_addr.
      and_then (ensure (sender info = holder_addr) NotHolder) (\<lambda>_.
      and_then (map_err ApStd (load (ap_lp_config st))) (\<lambda>cfg.
      and_then (map_err ApStd (query_astro_pool_token ax (pool_address cfg) (contract_address env))) (\<lambda>tok.
      if pool_token_balance tok = 0
      then and_then (withdraw_balances d (contract_address env) cfg) (\<lambda>funds.
             Ok (resp [WasmExecute holder_addr DistributeMsg funds], st))
      else
        and_then (withdraw_shares (pool_token_balance tok) percent) (\<lambda>shares.
        and_then (map_err ApStd (query_share ax (pool_address cfg) shares)) (\<lambda>assets.
        and_then (map_err ApStd (try_map (asset_to_coin ax) assets)) (\<lambda>withdrawn_coins.
          Ok (resp [WasmExecute (liquidity_token (pool_pair_info tok))
                      (Cw20SendWithdrawLiquidity (pool_address cfg) shares) [],
                    WasmExecute holder_addr DistributeMsg withdrawn_coins], st))))))))))"

definition pool_asset_step ::
    "astroport \<Rightarrow> denom \<Rightarrow> denom \<Rightarrow> u128 \<times> u128 \<Rightarrow> asset \<Rightarrow> (u128 \<times> u128, std_error) result" where
  "pool_asset_step ax a_denom b_denom acc a =
     (case acc of (a_bal, b_bal) \<Rightarrow>
        and_then (asset_to_coin ax a) (\<lambda>c.
          if coin_denom c = b_denom then Ok (a_bal, coin_amount c)
          else if coin_denom c = a_denom then Ok (coin_amount c, b_bal)
          else Ok (a_bal, b_bal)))"

definition get_pool_asset_amounts ::
    "astroport \<Rightarrow> asset list \<Rightarrow> denom \<Rightarrow> denom \<Rightarrow> (u128 \<times> u128, std_error) result" where
  "get_pool_asset_amounts ax assets a_denom b_denom =
     and_then (try_fold (pool_asset_step ax a_denom b_denom) (0, 0) assets) (\<lambda>(a_bal, b_bal).
       if a_bal = 0 \<or> b_bal = 0 then Err (GenericErr ''all pool assets must be non-zero'')
       else Ok (a_bal, b_bal))"

definition add_provided :: "coin \<Rightarrow> u128 \<Rightarrow> (coin, ap_error) result" where
  "add_provided c x = and_then (checked_add (ApStd Overflow) (coin_amount c) x) (\<lambda>y. Ok (c\<lparr>coin_amount := y\<rparr>))"

definition reply_submsg :: "cosmos_msg \<Rightarrow> u64 \<Rightarrow> submsg" where
  "reply_submsg m i = \<lparr>sub_msg = m, sub_id = i, sub_gas_limit = None, sub_reply_on = ReplyOnSuccess\<rparr>"

definition double_side_amounts ::
    "deps \<Rightarrow> astroport \<Rightarrow> u128 \<Rightarrow> u128 \<Rightarrow> decimal \<Rightarrow> u128 \<times> u128 \<Rightarrow> (u128 \<times> u128, ap_error) result" where
  "double_side_amounts d ax token_a token_b pool_token_ratio pool_bals =
     (case pool_bals of (pool_a, pool_b) \<Rightarrow>
        and_then (map_err (\<lambda>_. ApOverflow) (checked_mul_uint128 ax pool_token_ratio token_b)) (\<lambda>required_a.
          if token_a \<ge> required_a then Ok (required_a, token_b)
          else and_then (dec_from_ratio d pool_b pool_a) (\<lambda>ratio.
               and_then (map_err (\<lambda>_. ApOverflow) (checked_mul_uint128 ax ratio token_a)) (\<lambda>required_b.
                 Ok (token_a, required_b)))))"

definition try_get_double_side_lp_submsg ::
    "deps \<Rightarrow> astroport \<Rightarrow> env \<Rightarrow> coin \<times> coin \<Rightarrow> decimal \<Rightarrow> u128 \<times> u128 \<Rightarrow> lp_config \<Rightarrow> ap_state
     \<Rightarrow> (submsg option \<times> ap_state, ap_error) result" where
  "try_get_double_side_lp_submsg d ax env tokens pool_token_ratio pool_bals cfg st =
     (case tokens of (token_a, token_b) \<Rightarrow>
        and_then (double_side_amounts d ax (coin_amount token_a) (coin_amount token_b) pool_token_ratio pool_bals)
          (\<lambda>(amount_a, amount_b).
        case to_tuple (asset_data cfg) amount_a amount_b of (asset_a, asset_b) \<Rightarrow>
        and_then (map_err ApStd (asset_to_coin ax asset_a)) (\<lambda>a_coin.
        and_then (map_err ApStd (asset_to_coin ax asset_b)) (\<lambda>b_coin.
        and_then (map_err ApStd (load (ap_provided st))) (\<lambda>pinfo.
        and_then (add_provided (provided_coin_b pinfo) (coin_amount b_coin)) (\<lambda>pb.
        and_then (add_provided (provided_coin_a pinfo) (coin_amount a_coin)) (\<lambda>pa.
          Ok (Some (reply_submsg (WasmExecute (pool_address cfg)
                (ProvideLiquidityMsg [asset_a, asset_b] (slippage_tolerance cfg) (Some False) (Some (contract_address env)))
                [a_coin, b_coin]) double_sided_reply_id),
              st\<lparr>ap_provided := Some \<lparr>provided_coin_a = pa, provided_coin_b = pb\<rparr>\<rparr>))))))))"

text \<open>The exchange swaps half of the coin; the assets vector has both assets, the other one empty.\<close>

definition xyk_single_side ::
    "astroport \<Rightarrow> env \<Rightarrow> coin \<Rightarrow> asset list \<Rightarrow> lp_config \<Rightarrow> ap_state \<Rightarrow> (submsg list \<times> ap_state, ap_error) result" where
  "xyk_single_side ax env c assets cfg st =
     (case assets of
        a0 # a1 # _ \<Rightarrow>
          let halved = coin_amount c div 2 in
          and_then (map_err ApStd (asset_to_coin ax a0)) (\<lambda>c0.
          let (offer_asset, ask) = (if coin_denom c0 = coin_denom c then (a0\<lparr>asset_amount := halved\<rparr>, a1)
                                    else (a1\<lparr>asset_amount := halved\<rparr>, a0));
              offer_coin = c\<lparr>coin_amount := halved\<rparr> in
          and_then (map_err ApStd (query_simulation ax (pool_address cfg) offer_asset)) (\<lambda>return_amount.
          let ask_asset = ask\<lparr>asset_amount := return_amount\<rparr> in
          and_then (map_err ApStd (asset_to_coin ax ask_asset)) (\<lambda>ask_coin.
          and_then (map_err ApStd (load (ap_provided st))) (\<lambda>pinfo.
          and_then (if coin_denom offer_coin = coin_denom (provided_coin_a pinfo)
                    then and_then (add_provided (provided_coin_a pinfo) (coin_amount offer_coin)) (\<lambda>pa.
                         and_then (add_provided (provided_coin_b pinfo) (coin_amount ask_coin)) (\<lambda>pb.
                           Ok \<lparr>provided_coin_a = pa, provided_coin_b = pb\<rparr>))
                    else and_then (add_provided (provided_coin_b pinfo) (coin_amount offer_coin)) (\<lambda>pb.
                         and_then (add_provided (provided_coin_a pinfo) (coin_amount ask_coin)) (\<lambda>pa.
                           Ok \<lparr>provided_coin_a = pa, provided_coin_b = pb\<rparr>))) (\<lambda>pinfo'.
            Ok ([reply_submsg (WasmExecute (pool_address cfg) (SwapMsg offer_asset (slippage_tolerance cfg)) [offer_coin])
                   swap_reply_id,
                 reply_submsg (WasmExecute (pool_address cfg)
                   (ProvideLiquidityMsg [offer_asset, ask_asset] (slippage_tolerance cfg) (Some False)
                      (Some (contract_address env)))
                   [offer_coin, ask_coin]) double_sided_reply_id],
                st\<lparr>ap_provided := Some pinfo'\<rparr>))))))
      | _ \<Rightarrow> Panic)"

definition stable_single_side ::
    "env \<Rightarrow> coin \<Rightarrow> asset list \<Rightarrow> lp_config \<Rightarrow> ap_state \<Rightarrow> (submsg list \<times> ap_state, ap_error) result" where
  "stable_single_side env c assets cfg st =
     and_then (map_err ApStd (load (ap_provided st))) (\<lambda>pinfo.
     and_then (if coin_denom c = coin_denom (provided_coin_a pinfo)
               then and_then (add_provided (provided_coin_a pinfo) (coin_amount c)) (\<lambda>pa. Ok (pinfo\<lparr>provided_coin_a := pa\<rparr>))
               else and_then (add_provided (provided_coin_b pinfo) (coin_amount c)) (\<lambda>pb. Ok (pinfo\<lparr>provided_coin_b := pb\<rparr>)))
       (\<lambda>pinfo'.
       Ok ([reply_submsg (WasmExecute (pool_address cfg)
              (ProvideLiquidityMsg assets (slippage_tolerance cfg) (Some False) (Some (contract_address env)))
              [c]) single_sided_reply_id],
           st\<lparr>ap_provided := Some pinfo'\<rparr>)))"

definition try_get_single_side_lp_submsg ::
    "astroport \<Rightarrow> env \<Rightarrow> coin \<Rightarrow> asset list \<Rightarrow> lp_config \<Rightarrow> ap_state \<Rightarrow> (submsg list \<times> ap_state, ap_error) result" where
  "try_get_single_side_lp_submsg ax env c assets cfg st =
     (case lp_pair_type cfg of
        Xyk \<Rightarrow> xyk_single_side ax env c assets cfg st
      | _ \<Rightarrow> stable_single_side env c assets cfg st)"

definition single_side_response :: "(submsg list \<times> ap_state, ap_error) result \<Rightarrow> (response \<times> ap_state, ap_error) result" where
  "single_side_response m =
     and_then m (\<lambda>(msgs, st'). if msgs \<noteq> [] then Ok (\<lparr>submessages = msgs\<rparr>, st') else Ok (resp [], st'))"

text \<open>The action depends on which of the two balances are there.\<close>

definition lp_action ::
    "deps \<Rightarrow> astroport \<Rightarrow> env \<Rightarrow> lp_config \<Rightarrow> u128 \<times> u128 \<Rightarrow> decimal \<Rightarrow> coin \<Rightarrow> coin \<Rightarrow> ap_state
     \<Rightarrow> (response \<times> ap_state, ap_error) result" where
  "lp_action d ax env cfg pool_bals a_to_b_ratio coin_a coin_b st =
     (let assets = to_asset_vec (asset_data cfg) (coin_amount coin_a) (coin_amount coin_b) in
      case (coin_amount coin_a = 0, coin_amount coin_b = 0) of
        (True, False) \<Rightarrow>
          and_then (ensure (coin_amount coin_b \<le> asset_b_limit (lp_limits cfg)) SingleSideLpLimitError) (\<lambda>_.
            single_side_response (try_get_single_side_lp_submsg ax env coin_b assets cfg st))
      | (False, True) \<Rightarrow>
          and_then (ensure (coin_amount coin_a \<le> asset_a_limit (lp_limits cfg)) SingleSideLpLimitError) (\<lambda>_.
            single_side_response (try_get_single_side_lp_submsg ax env coin_a assets cfg st))
      | (False, False) \<Rightarrow>
          and_then (try_get_double_side_lp_submsg d ax env (coin_a, coin_b) a_to_b_ratio pool_bals cfg st)
            (\<lambda>(m, st'). case m of Some sm \<Rightarrow> Ok (\<lparr>submessages = [sm]\<rparr>, st') | None \<Rightarrow> Ok (resp [], st'))
      | (True, True) \<Rightarrow> Ok (resp [], st))"

definition try_lp :: "deps \<Rightarrow> astroport \<Rightarrow> env \<Rightarrow> ap_state \<Rightarrow> (response \<times> ap_state, ap_error) result" where
  "try_lp d ax env st =
     and_then (map_err ApStd (load (ap_lp_config st))) (\<lambda>cfg.
     and_then (map_err ApStd (query_pool ax (pool_address cfg))) (\<lambda>pool_assets.
     and_then (map_err ApStd (get_pool_asset_amounts ax pool_assets (asset_a_denom (asset_data cfg))
                 (asset_b_denom (asset_data cfg)))) (\<lambda>(pool_a, pool_b).
     and_then (dec_from_ratio d pool_a pool_b) (\<lambda>a_to_b_ratio.
     and_then (is_within_range (expected_pool_ratio_range cfg) a_to_b_ratio) (\<lambda>_.
     and_then (map_err ApStd (query_balance d (contract_address env) (asset_a_denom (asset_data cfg)))) (\<lambda>coin_a.
     and_then (map_err ApStd (query_balance d (contract_address env) (asset_b_denom (asset_data cfg)))) (\<lambda>coin_b.
       lp_action d ax env cfg (pool_a, pool_b) a_to_b_ratio coin_a coin_b st)))))))"

definition ap_try_tick ::
    "deps \<Rightarrow> astroport \<Rightarrow> env \<Rightarrow> message_info \<Rightarrow> ap_state \<Rightarrow> (response \<times> ap_state, ap_error) result" where
  "ap_try_tick d ax env info st =
     and_then (map_err ApStd (load (ap_op_mode st))) (\<lambda>mode.
     and_then (map_err ApOperation (verify_caller (sender info) mode)) (\<lambda>_.
     and_then (map_err ApStd (load (ap_phase st))) (\<lambda>current_state.
       case current_state of ApInstantiated \<Rightarrow> try_lp d ax env st)))"

definition ap_execute ::
    "deps \<Rightarrow> astroport \<Rightarrow> env \<Rightarrow> message_info \<Rightarrow> ap_execute_msg \<Rightarrow> ap_state \<Rightarrow> (response \<times> ap_state, ap_error) result" where
  "ap_execute d ax env info msg st =
     (case msg of
        ApTick \<Rightarrow> ap_try_tick d ax env info st
      | ApWithdraw percentage \<Rightarrow> ap_try_withdraw d ax env info percentage st)"

definition ap_query :: "env \<Rightarrow> ap_query_msg \<Rightarrow> ap_state \<Rightarrow> (ap_query_reply, std_error) result" where
  "ap_query env msg st =
     (case msg of
        ApQContractState \<Rightarrow> Ok (ApRState (ap_phase st))
      | ApQHolderAddress \<Rightarrow> Ok (ApRMaybeAddr (ap_holder st))
      | ApQLpConfig \<Rightarrow> Ok (ApRLpConfig (ap_lp_config st))
      | ApQDepositAddress \<Rightarrow> Ok (ApRMaybeAddr (Some (contract_address env)))
      | ApQProvidedLiquidityInfo \<Rightarrow> and_then (load (ap_provided st)) (\<lambda>p. Ok (ApRProvided p))
      | ApQOperationMode \<Rightarrow> Ok (ApROpMode (ap_op_mode st)))"

definition ap_migrate :: "deps \<Rightarrow> ap_migrate_msg \<Rightarrow> ap_state \<Rightarrow> (response \<times> ap_state, std_error) result" where
  "ap_migrate d msg st =
     (case msg of
        ApUpdateConfig u \<Rightarrow>
          and_then (upd_field (\<lambda>cfg st. and_then (map_err (\<lambda>_. GenericErr ''op mode'') (op_mode_try_init d cfg)) (\<lambda>m.
                      Ok (st\<lparr>ap_op_mode := Some m\<rparr>))) (apu_op_mode u) st) (\<lambda>st.
          and_then (upd_field (\<lambda>a st. and_then (addr_validate d a) (\<lambda>v.
                      Ok (st\<lparr>ap_holder := Some v\<rparr>))) (apu_holder u) st) (\<lambda>st.
          and_then (upd_field (\<lambda>cfg st. and_then (addr_validate d (pool_address cfg)) (\<lambda>_.
                      Ok (st\<lparr>ap_lp_config := Some cfg\<rparr>))) (apu_lp_config u) st) (\<lambda>st.
            Ok (resp [], st))))
      | ApUpdateCodeId \<Rightarrow> Ok (resp [], st))"

text \<open>The result and the identifier of the submessage a reply is for.\<close>

definition ap_reply :: "u64 \<Rightarrow> (unit, string) result \<Rightarrow> ap_state \<Rightarrow> (response \<times> ap_state, ap_error) result" where
  "ap_reply rid res st =
     (case res of
        Ok _ \<Rightarrow>
          if rid = double_sided_reply_id \<or> rid = single_sided_reply_id \<or> rid = swap_reply_id then Ok (resp [], st)
          else Err (ApStd (GenericErr ''unknown reply id''))
      | Err e \<Rightarrow> Err (ApStd (GenericErr e))
      | Panic \<Rightarrow> Panic)"

section \<open>The pool price\<close>

text \<open>What a successful attempt has seen: pool balances, a ratio in the expected range, own balances.\<close>

record lp_view =
  view_cfg :: lp_config
  view_pool_a :: u128
  view_pool_b :: u128
  view_ratio :: decimal
  view_coin_a :: coin
  view_coin_b :: coin

definition lp_sees :: "deps \<Rightarrow> astroport \<Rightarrow> env \<Rightarrow> ap_state \<Rightarrow> lp_view \<Rightarrow> bool" where
  "lp_sees d ax env st v \<longleftrightarrow>
     ap_lp_config st = Some (view_cfg v) \<and>
     (\<exists>assets. query_pool ax (pool_address (view_cfg v)) = Ok assets \<and>
        get_pool_asset_amounts ax assets (asset_a_denom (asset_data (view_cfg v))) (asset_b_denom (asset_data (view_cfg v)))
          = Ok (view_pool_a v, view_pool_b v)) \<and>
     dec_from_ratio d (view_pool_a v) (view_pool_b v) = (Ok (view_ratio v) :: (decimal, ap_error) result) \<and>
     range_min (expected_pool_ratio_range (view_cfg v)) \<le> view_ratio v \<and>
     view_ratio v \<le> range_max (expected_pool_ratio_range (view_cfg v)) \<and>
     query_balance d (contract_address env) (asset_a_denom (asset_data (view_cfg v))) = Ok (view_coin_a v) \<and>
     query_balance d (contract_address env) (asset_b_denom (asset_data (view_cfg v))) = Ok (view_coin_b v)"

lemma ap_tick_Ok:
  assumes "ap_execute d ax env info ApTick st = Ok (r, st')"
  obtains v where "lp_sees d ax env st v"
    "lp_action d ax env (view_cfg v) (view_pool_a v, view_pool_b v) (view_ratio v) (view_coin_a v) (view_coin_b v) st = Ok (r, st')"
proof -
  have "try_lp d ax env st = Ok (r, st')"
    using assms ap_contract_state.exhaust by (auto simp: ap_execute_def ap_try_tick_def result_simps split: ap_contract_state.splits)
  then obtain cfg assets pool_a pool_b ratio coin_a coin_b where
    "ap_lp_config st = Some cfg" "query_pool ax (pool_address cfg) = Ok assets"
    "get_pool_asset_amounts ax assets (asset_a_denom (asset_data cfg)) (asset_b_denom (asset_data cfg)) = Ok (pool_a, pool_b)"
    "dec_from_ratio d pool_a pool_b = (Ok ratio :: (decimal, ap_error) result)"
    "range_min (expected_pool_ratio_range cfg) \<le> ratio" "ratio \<le> range_max (expected_pool_ratio_range cfg)"
    "query_balance d (contract_address env) (asset_a_denom (asset_data cfg)) = Ok coin_a"
    "query_balance d (contract_address env) (asset_b_denom (asset_data cfg)) = Ok coin_b"
    "lp_action d ax env cfg (pool_a, pool_b) ratio coin_a coin_b st = Ok (r, st')"
    by (auto simp: try_lp_def result_simps is_within_range_def)
  then show thesis
    by (intro that [of "\<lparr>view_cfg = cfg, view_pool_a = pool_a, view_pool_b = pool_b, view_ratio = ratio,
        view_coin_a = coin_a, view_coin_b = coin_b\<rparr>"]) (auto simp: lp_sees_def)
qed

lemma get_pool_nonzero:
  "get_pool_asset_amounts ax assets da db = Ok (a, b) \<Longrightarrow> a \<noteq> 0 \<and> b \<noteq> 0"
  by (auto simp: get_pool_asset_amounts_def result_simps split: if_splits)

lemma dec_from_ratio_Ok:
  assumes "multiply_ratio_spec d"
  shows "dec_from_ratio d a b = Ok r \<longleftrightarrow> b \<noteq> 0 \<and> dec_val r = unat a * dec_unit div unat b"
  by (cases r; cases "checked_multiply_ratio d a decimal_fractional b")
    (use multiply_ratio_specD(1) [OF assms, of a decimal_fractional b] in
      \<open>auto simp: dec_from_ratio_def decimal_fractional_def\<close>)

section \<open>Double-sided provision\<close>

text \<open>
  The counter-amount computed from the pool ratio never exceeds the balance it is taken from: if
  the first token does not suffice for all of the second, the second suffices for all of the first.
\<close>

lemma counter_amount_fits:
  fixes a b A B u :: nat
  assumes "0 < A" and "0 < B" and "0 < u" and "a < (A * u div B) * b div u"
  shows "(B * u div A) * a div u \<le> b"
proof -
  have "(A * u div B) * b div u \<le> A * b div B"
  proof -
    have "(A * u div B) * b * B \<le> A * u * b"
      using div_times_less_eq_dividend [of "A * u" B] mult_le_mono1 [of "A * u div B * B" "A * u" b]
      by (simp add: ac_simps)
    then have "(A * u div B) * b div u * B * u \<le> A * b * u"
      using div_times_less_eq_dividend [of "(A * u div B) * b" u] mult_le_mono1
      by (smt (verit) mult.assoc mult.commute order_trans)
    then have "(A * u div B) * b div u * B \<le> A * b" using assms(3) by simp
    then show ?thesis using assms(2) by (simp add: less_eq_div_iff_mult_less_eq)
  qed
  with assms have "a < A * b div B" by linarith
  then have "a * B \<le> A * b"
    using div_times_less_eq_dividend [of "A * b" B] mult_le_mono1 [of a "A * b div B" B] by linarith
  have "(B * u div A) * a * A \<le> B * u * a"
    using div_times_less_eq_dividend [of "B * u" A] mult_le_mono1 [of "B * u div A * A" "B * u" a]
    by (simp add: ac_simps)
  also have "\<dots> \<le> A * b * u" using mult_le_mono1 [OF \<open>a * B \<le> A * b\<close>, of u] by (simp add: ac_simps)
  finally have "(B * u div A) * a \<le> b * u" using assms(1) by (simp add: ac_simps)
  then show ?thesis using assms(3) by (metis div_le_mono nonzero_mult_div_cancel_right less_not_refl)
qed

lemma double_side_amounts_Ok:
  assumes "multiply_ratio_spec d" and "mul_uint128_spec ax" and "pool_a \<noteq> 0" and "pool_b \<noteq> 0"
    and ratio: "dec_from_ratio d pool_a pool_b = (Ok ratio :: (decimal, ap_error) result)"
    and "double_side_amounts d ax token_a token_b ratio (pool_a, pool_b) = Ok (x, y)"
  shows "x \<le> token_a \<and> y \<le> token_b \<and> (x = token_a \<or> y = token_b)"
proof -
  have mul: "checked_mul_uint128 ax r z = Ok w \<longleftrightarrow> unat w = dec_val r * unat z div dec_unit" for r z w
    using assms(2) by (simp add: mul_uint128_spec_def)
  from ratio have ab: "dec_val ratio = unat pool_a * dec_unit div unat pool_b"
    by (simp add: dec_from_ratio_Ok [OF assms(1)])
  from assms(6) obtain req where req: "checked_mul_uint128 ax ratio token_b = Ok req"
    by (auto simp: double_side_amounts_def result_simps)
  show ?thesis
  proof (cases "token_a \<ge> req")
    case True
    with assms(6) req show ?thesis by (simp add: double_side_amounts_def)
  next
    case False
    with assms(6) req obtain ratio' where r': "dec_from_ratio d pool_b pool_a = (Ok ratio' :: (decimal, ap_error) result)"
      "checked_mul_uint128 ax ratio' token_a = Ok y" "x = token_a"
      by (auto simp: double_side_amounts_def result_simps)
    have "unat pool_a > 0" "unat pool_b > 0" using assms(3,4) by (simp_all add: unat_gt_0)
    moreover have "unat token_a < (unat pool_a * dec_unit div unat pool_b) * unat token_b div dec_unit"
      using False req by (simp add: mul ab word_le_unat)
    ultimately have "(unat pool_b * dec_unit div unat pool_a) * unat token_a div dec_unit \<le> unat token_b"
      by (intro counter_amount_fits) simp_all
    with r' show ?thesis by (simp add: mul dec_from_ratio_Ok [OF assms(1)] word_le_unat)
  qed
qed

lemma add_provided_Ok:
  "add_provided c x = Ok c' \<longleftrightarrow> coin_denom c' = coin_denom c \<and> unat (coin_amount c') = unat (coin_amount c) + unat x"
  by (cases c; cases c') (auto simp: add_provided_def result_simps arith_simps)

text \<open>Funds attached to the wasm messages of a response.\<close>

fun wasm_funds :: "cosmos_msg \<Rightarrow> coin list" where
  "wasm_funds (WasmExecute _ _ cs) = cs"
| "wasm_funds _ = []"

definition funds_out :: "denom \<Rightarrow> cosmos_msg list \<Rightarrow> nat" where
  "funds_out dn ms = (\<Sum>m\<leftarrow>ms. coins_in dn (wasm_funds m))"

text \<open>The pooler deals with its pool only, and liquidity tokens come back to it.\<close>

fun to_pool :: "addr \<Rightarrow> addr \<Rightarrow> cosmos_msg \<Rightarrow> bool" where
  "to_pool pool self (WasmExecute a (ProvideLiquidityMsg _ _ _ rcv) _) = (a = pool \<and> rcv = Some self)"
| "to_pool pool self (WasmExecute a (SwapMsg _ _) _) = (a = pool)"
| "to_pool pool self _ = False"

lemma double_side_Ok:
  assumes "asset_to_coin_spec ax"
    and "try_get_double_side_lp_submsg d ax env (token_a, token_b) ratio pools cfg st = Ok (m, st')"
  obtains x y pinfo pinfo' where
    "double_side_amounts d ax (coin_amount token_a) (coin_amount token_b) ratio pools = Ok (x, y)"
    "ap_provided st = Some pinfo" "st' = st\<lparr>ap_provided := Some pinfo'\<rparr>"
    "add_provided (provided_coin_a pinfo) x = Ok (provided_coin_a pinfo')"
    "add_provided (provided_coin_b pinfo) y = Ok (provided_coin_b pinfo')"
    "m = Some (reply_submsg (WasmExecute (pool_address cfg) (ProvideLiquidityMsg (to_asset_vec (asset_data cfg) x y)
          (slippage_tolerance cfg) (Some False) (Some (contract_address env)))
        [\<lparr>coin_denom = asset_a_denom (asset_data cfg), coin_amount = x\<rparr>,
         \<lparr>coin_denom = asset_b_denom (asset_data cfg), coin_amount = y\<rparr>]) double_sided_reply_id)"
proof -
  have conv: "asset_to_coin ax \<lparr>info_of = NativeToken dn, asset_amount = z\<rparr> = Ok \<lparr>coin_denom = dn, coin_amount = z\<rparr>" for dn z
    using assms(1) by (simp add: asset_to_coin_spec_def)
  from assms(2) obtain x y where xy:
    "double_side_amounts d ax (coin_amount token_a) (coin_amount token_b) ratio pools = Ok (x, y)"
    by (auto simp: try_get_double_side_lp_submsg_def result_simps)
  from assms(2) obtain pinfo pa pb where p: "ap_provided st = Some pinfo"
    "add_provided (provided_coin_a pinfo) x = Ok pa" "add_provided (provided_coin_b pinfo) y = Ok pb"
    by (auto simp: try_get_double_side_lp_submsg_def result_simps xy to_tuple_def conv)
  with assms(2) xy show thesis
    by (intro that [of x y pinfo "\<lparr>provided_coin_a = pa, provided_coin_b = pb\<rparr>"])
      (auto simp: try_get_double_side_lp_submsg_def to_tuple_def conv to_asset_vec_def)
qed

section \<open>Single-sided provision\<close>

lemma unat_half: "unat ((x :: u128) div 2) + unat (x div 2) \<le> unat x"
proof -
  have "unat (x div 2) = unat x div 2" by (simp add: unat_div_distrib)
  then show ?thesis by linarith
qed

lemma single_side_Ok:
  assumes spec: "asset_to_coin_spec ax" and ne: "asset_a_denom ad \<noteq> asset_b_denom ad"
    and c: "coin_denom c = asset_a_denom ad \<or> coin_denom c = asset_b_denom ad"
    and ok: "try_get_single_side_lp_submsg ax env c (to_asset_vec ad xa xb) cfg st = Ok (ms, st')"
  shows "ms \<noteq> [] \<and> list_all (to_pool (pool_address cfg) (contract_address env)) (map sub_msg ms) \<and>
    funds_out (coin_denom c) (map sub_msg ms) \<le> unat (coin_amount c)"
proof (cases "lp_pair_type cfg = Xyk")
  case True
  have conv: "asset_to_coin ax \<lparr>info_of = NativeToken dn, asset_amount = z\<rparr> = Ok \<lparr>coin_denom = dn, coin_amount = z\<rparr>" for dn z
    using spec by (simp add: asset_to_coin_spec_def)
  from ok True have "xyk_single_side ax env c (to_asset_vec ad xa xb) cfg st = Ok (ms, st')"
    by (simp add: try_get_single_side_lp_submsg_def)
  then show ?thesis
    using c ne unat_half [of "coin_amount c"]
    by (auto simp: xyk_single_side_def to_asset_vec_def conv result_simps reply_submsg_def funds_out_def Let_def)
next
  case False
  with ok have "stable_single_side env c (to_asset_vec ad xa xb) cfg st = Ok (ms, st')"
    by (auto simp: try_get_single_side_lp_submsg_def split: pair_type.splits)
  then show ?thesis by (auto simp: stable_single_side_def result_simps reply_submsg_def funds_out_def)
qed

section \<open>Properties\<close>

text \<open>A reference exchange for evaluating the model: a pool of 1000 to 4000 and a cw20 balance of \<open>lp\<close>.\<close>

definition ref_asset_to_coin :: "asset \<Rightarrow> (coin, std_error) result" where
  "ref_asset_to_coin a =
     (case info_of a of
        NativeToken dn \<Rightarrow> Ok \<lparr>coin_denom = dn, coin_amount = asset_amount a\<rparr>
      | ContractToken _ \<Rightarrow> Err (GenericErr ''not a native token''))"

definition ref_mul_uint128 :: "decimal \<Rightarrow> u128 \<Rightarrow> (u128, std_error) result" where
  "ref_mul_uint128 r x =
     (let n = dec_val r * unat x div dec_unit in if n < 2 ^ 128 then Ok (of_nat n) else Err Overflow)"

definition ref_astroport :: "u128 \<Rightarrow> astroport" where
  "ref_astroport lp =
     \<lparr>query_pair = (\<lambda>_. Ok \<lparr>pair_type_of = Xyk, liquidity_token = ''lptoken''\<rparr>),
      query_pool = (\<lambda>_. Ok [\<lparr>info_of = NativeToken ''uatom'', asset_amount = 1000\<rparr>,
                            \<lparr>info_of = NativeToken ''untrn'', asset_amount = 4000\<rparr>]),
      query_cw20_balance = (\<lambda>_ _. Ok lp),
      query_share = (\<lambda>_ n. Ok [\<lparr>info_of = NativeToken ''uatom'', asset_amount = n\<rparr>,
                              \<lparr>info_of = NativeToken ''untrn'', asset_amount = n\<rparr>]),
      query_simulation = (\<lambda>_ a. Ok (asset_amount a)),
      asset_to_coin = ref_asset_to_coin, checked_mul_uint128 = ref_mul_uint128\<rparr>"

lemma ref_astroport_simps [simp]:
  "query_pair (ref_astroport lp) = (\<lambda>_. Ok \<lparr>pair_type_of = Xyk, liquidity_token = ''lptoken''\<rparr>)"
  "query_pool (ref_astroport lp) = (\<lambda>_. Ok [\<lparr>info_of = NativeToken ''uatom'', asset_amount = 1000\<rparr>,
     \<lparr>info_of = NativeToken ''untrn'', asset_amount = 4000\<rparr>])"
  "query_cw20_balance (ref_astroport lp) = (\<lambda>_ _. Ok lp)"
  "query_share (ref_astroport lp) = (\<lambda>_ n. Ok [\<lparr>info_of = NativeToken ''uatom'', asset_amount = n\<rparr>,
     \<lparr>info_of = NativeToken ''untrn'', asset_amount = n\<rparr>])"
  "query_simulation (ref_astroport lp) = (\<lambda>_ a. Ok (asset_amount a))"
  "asset_to_coin (ref_astroport lp) = ref_asset_to_coin"
  "checked_mul_uint128 (ref_astroport lp) = ref_mul_uint128"
  by (simp_all add: ref_astroport_def)

lemma ref_astroport_specs: "asset_to_coin_spec (ref_astroport lp)" "mul_uint128_spec (ref_astroport lp)"
proof -
  show "asset_to_coin_spec (ref_astroport lp)"
    by (simp add: asset_to_coin_spec_def ref_asset_to_coin_def)
  have "ref_mul_uint128 r x = Ok y \<longleftrightarrow> unat y = dec_val r * unat x div dec_unit" for r x y
    by (auto simp: ref_mul_uint128_def Let_def unat_of_nat word_eq_unat [of _ y] dest: unat_eq_fits)
  moreover have "ref_mul_uint128 r x \<noteq> Panic" for r x by (simp add: ref_mul_uint128_def Let_def)
  ultimately show "mul_uint128_spec (ref_astroport lp)" by (simp add: mul_uint128_spec_def)
qed

definition ex_ap_cfg :: lp_config where
  "ex_ap_cfg = \<lparr>pool_address = ''pool'', asset_data = \<lparr>asset_a_denom = ''uatom'', asset_b_denom = ''untrn''\<rparr>,
     lp_limits = \<lparr>asset_a_limit = 500, asset_b_limit = 500\<rparr>, slippage_tolerance = None,
     expected_pool_ratio_range = \<lparr>range_min = Decimal 200000000000000000, range_max = Decimal 300000000000000000\<rparr>,
     lp_pair_type = Xyk\<rparr>"

definition ex_ap_state :: ap_state where
  "ex_ap_state = \<lparr>ap_phase = Some ApInstantiated, ap_op_mode = Some Permissionless, ap_holder = Some ''holder'',
     ap_provided = Some \<lparr>provided_coin_a = \<lparr>coin_denom = ''uatom'', coin_amount = 0\<rparr>,
       provided_coin_b = \<lparr>coin_denom = ''untrn'', coin_amount = 0\<rparr>\<rparr>,
     ap_lp_config = Some ex_ap_cfg\<rparr>"

definition ex_ap_env :: env where
  "ex_ap_env = \<lparr>env_block = \<lparr>block_height = 5, block_time = 7\<rparr>, contract_address = ''pooler''\<rparr>"

definition ex_ap_bals :: "u128 \<Rightarrow> u128 \<Rightarrow> addr \<Rightarrow> denom \<Rightarrow> u128" where
  "ex_ap_bals a b = (\<lambda>_ dn. if dn = ''uatom'' then a else if dn = ''untrn'' then b else 0)"

lemma ex_ap_ratios:
  "dec_from_ratio (ref_deps bals) 1000 4000 = Ok (Decimal 250000000000000000)"
  "dec_from_ratio (ref_deps bals) 4000 1000 = Ok (Decimal 4000000000000000000)"
  by (simp_all add: dec_from_ratio_def ref_multiply_ratio_def decimal_fractional_def)

lemma ex_ap_muls:
  "ref_mul_uint128 (Decimal 250000000000000000) 1000 = Ok 250"
  "ref_mul_uint128 (Decimal 4000000000000000000) 100 = Ok 400"
  by (simp_all add: ref_mul_uint128_def Let_def)

lemmas ap_eval = ap_execute_def ap_try_tick_def try_lp_def get_pool_asset_amounts_def pool_asset_step_def
  ref_asset_to_coin_def is_within_range_def lp_action_def
  try_get_double_side_lp_submsg_def double_side_amounts_def to_tuple_def to_asset_vec_def add_provided_def
  try_get_single_side_lp_submsg_def xyk_single_side_def single_side_response_def reply_submsg_def
  dec_le_iff checked_add_def
  ex_ap_cfg_def ex_ap_state_def ex_ap_env_def ex_ap_bals_def Let_def

text \<open>
  Claim C25: a tick of the pooler that finds both assets provides liquidity within its means. It
  sends one message, to the pool, whose liquidity tokens come back to the pooler; the two attached
  coins are at most the balances, one of them is the whole balance, and the record of provided
  liquidity grows by exactly these amounts. In particular the amount computed from the inverse
  pool ratio always fits the balance, although both ratios are rounded.
\<close>

theorem ap_double_side_within_balances:
  assumes "multiply_ratio_spec d" and "mul_uint128_spec ax" and "asset_to_coin_spec ax"
    and "ap_execute d ax env info ApTick st = Ok (r, st')" and "ap_lp_config st = Some cfg"
    and "query_balance d (contract_address env) (asset_a_denom (asset_data cfg)) = Ok coin_a"
    and "query_balance d (contract_address env) (asset_b_denom (asset_data cfg)) = Ok coin_b"
    and "coin_amount coin_a \<noteq> 0" and "coin_amount coin_b \<noteq> 0"
  shows "\<exists>x y before after. x \<le> coin_amount coin_a \<and> y \<le> coin_amount coin_b \<and>
    (x = coin_amount coin_a \<or> y = coin_amount coin_b) \<and>
    messages r = [WasmExecute (pool_address cfg) (ProvideLiquidityMsg (to_asset_vec (asset_data cfg) x y)
        (slippage_tolerance cfg) (Some False) (Some (contract_address env)))
      [\<lparr>coin_denom = asset_a_denom (asset_data cfg), coin_amount = x\<rparr>,
       \<lparr>coin_denom = asset_b_denom (asset_data cfg), coin_amount = y\<rparr>]] \<and>
    ap_provided st = Some before \<and> st' = st\<lparr>ap_provided := Some after\<rparr> \<and>
    unat (coin_amount (provided_coin_a after)) = unat (coin_amount (provided_coin_a before)) + unat x \<and>
    unat (coin_amount (provided_coin_b after)) = unat (coin_amount (provided_coin_b before)) + unat y"
proof -
  from assms(4) obtain v where v: "lp_sees d ax env st v"
    "lp_action d ax env (view_cfg v) (view_pool_a v, view_pool_b v) (view_ratio v) (view_coin_a v) (view_coin_b v) st = Ok (r, st')"
    by (rule ap_tick_Ok)
  with assms(5-7) have eq: "view_cfg v = cfg" "view_coin_a v = coin_a" "view_coin_b v = coin_b"
    by (auto simp: lp_sees_def)
  from v(2) assms(8,9) obtain m where m: "try_get_double_side_lp_submsg d ax env (coin_a, coin_b) (view_ratio v)
      (view_pool_a v, view_pool_b v) cfg st = Ok (m, st')" "r = (case m of Some sm \<Rightarrow> \<lparr>submessages = [sm]\<rparr> | None \<Rightarrow> resp [])"
    unfolding eq by (auto simp: lp_action_def result_simps split: option.splits)
  from v(1) have "view_pool_a v \<noteq> 0" "view_pool_b v \<noteq> 0"
    "dec_from_ratio d (view_pool_a v) (view_pool_b v) = (Ok (view_ratio v) :: (decimal, ap_error) result)"
    by (auto simp: lp_sees_def dest: get_pool_nonzero)
  note bounds = double_side_amounts_Ok [OF assms(1,2) this]
  show ?thesis
    by (rule double_side_Ok [OF assms(3) m(1)])
      (use bounds m(2) in \<open>auto simp: add_provided_Ok messages_def reply_submsg_def\<close>)
qed

theorem ap_double_side_within_balances_witness:
  "\<exists>r st' (x :: u128) (y :: u128). ap_execute (ref_deps (ex_ap_bals 100 1000)) (ref_astroport 0) ex_ap_env \<lparr>sender = ''anyone'', funds = []\<rparr> ApTick
      ex_ap_state = Ok (r, st') \<and> x \<le> 100 \<and> y \<le> 1000 \<and> (x = 100 \<or> y = 1000) \<and> length (messages r) = 1"
proof -
  let ?d = "ref_deps (ex_ap_bals 100 1000)" and ?i = "\<lparr>sender = ''anyone'', funds = []\<rparr>"
  have "is_ok (ap_execute ?d (ref_astroport 0) ex_ap_env ?i ApTick ex_ap_state)"
    by (simp add: ap_eval ex_ap_ratios ex_ap_muls)
  then obtain r st' where run: "ap_execute ?d (ref_astroport 0) ex_ap_env ?i ApTick ex_ap_state = Ok (r, st')"
    by (auto simp: is_ok_iff)
  have cfg: "ap_lp_config ex_ap_state = Some ex_ap_cfg" by (simp add: ex_ap_state_def)
  have "query_balance ?d (contract_address ex_ap_env) (asset_a_denom (asset_data ex_ap_cfg))
      = Ok \<lparr>coin_denom = ''uatom'', coin_amount = 100\<rparr>"
    "query_balance ?d (contract_address ex_ap_env) (asset_b_denom (asset_data ex_ap_cfg))
      = Ok \<lparr>coin_denom = ''untrn'', coin_amount = 1000\<rparr>" by (simp_all add: ex_ap_cfg_def ex_ap_bals_def)
  note used = ap_double_side_within_balances [OF ref_multiply_ratio_ok ref_astroport_specs(2,1) run cfg this]
  have "(100 :: u128) \<noteq> 0" "(1000 :: u128) \<noteq> 0" by simp_all
  with used obtain x y :: u128 and msg where "x \<le> 100 \<and> y \<le> 1000 \<and> (x = 100 \<or> y = 1000) \<and> messages r = [msg]"
    unfolding coin.select_convs by blast
  with run show ?thesis by (intro exI [of _ r] exI [of _ st'] exI [of _ x] exI [of _ y]) simp
qed

text \<open>
  Claim C26: whatever a tick of the pooler does, it does it at an acceptable price and within the
  configured limits. A tick that succeeds has seen a pool whose two assets are there and whose
  ratio lies in the expected range; all its messages go to the pool and leave the liquidity tokens
  with the pooler; with only one asset at hand it respects that asset's limit and spends at most
  the balance (also when half of it is swapped first); with none it sends nothing.
\<close>

theorem ap_tick_guarded:
  assumes "asset_to_coin_spec ax" and "query_balance_spec d"
    and "ap_execute d ax env info ApTick st = Ok (r, st')"
    and "\<And>cfg. ap_lp_config st = Some cfg \<Longrightarrow> asset_a_denom (asset_data cfg) \<noteq> asset_b_denom (asset_data cfg)"
  shows "\<exists>v. lp_sees d ax env st v \<and>
    list_all (to_pool (pool_address (view_cfg v)) (contract_address env)) (messages r) \<and>
    (coin_amount (view_coin_a v) = 0 \<and> coin_amount (view_coin_b v) = 0 \<longrightarrow> messages r = []) \<and>
    (coin_amount (view_coin_a v) \<noteq> 0 \<and> coin_amount (view_coin_b v) = 0 \<longrightarrow>
       coin_amount (view_coin_a v) \<le> asset_a_limit (lp_limits (view_cfg v)) \<and>
       funds_out (asset_a_denom (asset_data (view_cfg v))) (messages r) \<le> unat (coin_amount (view_coin_a v))) \<and>
    (coin_amount (view_coin_a v) = 0 \<and> coin_amount (view_coin_b v) \<noteq> 0 \<longrightarrow>
       coin_amount (view_coin_b v) \<le> asset_b_limit (lp_limits (view_cfg v)) \<and>
       funds_out (asset_b_denom (asset_data (view_cfg v))) (messages r) \<le> unat (coin_amount (view_coin_b v)))"
proof -
  from assms(3) obtain v where v: "lp_sees d ax env st v"
    "lp_action d ax env (view_cfg v) (view_pool_a v, view_pool_b v) (view_ratio v) (view_coin_a v) (view_coin_b v) st = Ok (r, st')"
    by (rule ap_tick_Ok)
  let ?cfg = "view_cfg v" and ?a = "view_coin_a v" and ?b = "view_coin_b v"
  from v(1) assms(4) have ne: "asset_a_denom (asset_data ?cfg) \<noteq> asset_b_denom (asset_data ?cfg)"
    by (simp add: lp_sees_def)
  from v(1) query_balance_specD(1) [OF assms(2)] have dn: "coin_denom ?a = asset_a_denom (asset_data ?cfg)"
    "coin_denom ?b = asset_b_denom (asset_data ?cfg)" by (auto simp: lp_sees_def)
  have one: "list_all (to_pool (pool_address ?cfg) (contract_address env)) (messages r) \<and>
      funds_out (coin_denom c) (messages r) \<le> unat (coin_amount c)"
    if "single_side_response (try_get_single_side_lp_submsg ax env c (to_asset_vec (asset_data ?cfg) xa xb) ?cfg st) = Ok (r, st')"
      "coin_denom c = asset_a_denom (asset_data ?cfg) \<or> coin_denom c = asset_b_denom (asset_data ?cfg)" for c xa xb
    using that single_side_Ok [OF assms(1) ne that(2)]
    by (fastforce simp: single_side_response_def result_simps messages_def split: if_splits)
  consider (none) "coin_amount ?a = 0" "coin_amount ?b = 0" | (a) "coin_amount ?a \<noteq> 0" "coin_amount ?b = 0"
    | (b) "coin_amount ?a = 0" "coin_amount ?b \<noteq> 0" | (both) "coin_amount ?a \<noteq> 0" "coin_amount ?b \<noteq> 0" by blast
  then show ?thesis
  proof cases
    case none
    with v show ?thesis by (auto simp: lp_action_def)
  next
    case a
    with v(2) one [of ?a] dn v(1) show ?thesis by (auto simp: lp_action_def result_simps intro!: exI [of _ v])
  next
    case b
    with v(2) one [of ?b] dn v(1) show ?thesis by (auto simp: lp_action_def result_simps intro!: exI [of _ v])
  next
    case both
    with v(2) obtain m where m: "try_get_double_side_lp_submsg d ax env (?a, ?b) (view_ratio v) (view_pool_a v, view_pool_b v)
        ?cfg st = Ok (m, st')" "r = (case m of Some sm \<Rightarrow> \<lparr>submessages = [sm]\<rparr> | None \<Rightarrow> resp [])"
      by (auto simp: lp_action_def result_simps split: option.splits)
    show ?thesis
      by (rule double_side_Ok [OF assms(1) m(1)]) (use v(1) m(2) both in \<open>auto simp: messages_def reply_submsg_def intro!: exI [of _ v]\<close>)
  qed
qed

theorem ap_tick_guarded_witness:
  "\<exists>r st' v. ap_execute (ref_deps (ex_ap_bals 101 0)) (ref_astroport 0) ex_ap_env \<lparr>sender = ''anyone'', funds = []\<rparr> ApTick
      ex_ap_state = Ok (r, st') \<and> lp_sees (ref_deps (ex_ap_bals 101 0)) (ref_astroport 0) ex_ap_env ex_ap_state v \<and>
     length (messages r) = 2 \<and> funds_out ''uatom'' (messages r) \<le> 101"
proof -
  let ?d = "ref_deps (ex_ap_bals 101 0)" and ?i = "\<lparr>sender = ''anyone'', funds = []\<rparr>"
  have "\<exists>r st'. ap_execute ?d (ref_astroport 0) ex_ap_env ?i ApTick ex_ap_state = Ok (r, st') \<and> length (messages r) = 2"
    by (simp add: ap_eval ex_ap_ratios messages_def)
  then obtain r st' where run: "ap_execute ?d (ref_astroport 0) ex_ap_env ?i ApTick ex_ap_state = Ok (r, st')"
    "length (messages r) = 2" by auto
  from ap_tick_guarded [OF ref_astroport_specs(1) ref_query_balance_ok run(1)] obtain v where
    v: "lp_sees ?d (ref_astroport 0) ex_ap_env ex_ap_state v"
    "coin_amount (view_coin_a v) \<noteq> 0 \<and> coin_amount (view_coin_b v) = 0 \<longrightarrow>
       funds_out (asset_a_denom (asset_data (view_cfg v))) (messages r) \<le> unat (coin_amount (view_coin_a v))"
    by (auto simp: ex_ap_state_def ex_ap_cfg_def)
  have cfg: "view_cfg v = ex_ap_cfg" using v(1) by (simp add: lp_sees_def ex_ap_state_def)
  then have "coin_amount (view_coin_a v) = 101" "coin_amount (view_coin_b v) = 0"
    using v(1) by (auto simp: lp_sees_def ex_ap_cfg_def ex_ap_bals_def
        dest!: sym [of _ "view_coin_a v"] sym [of _ "view_coin_b v"])
  with v(2) cfg have "funds_out ''uatom'' (messages r) \<le> 101" by (simp add: ex_ap_cfg_def)
  with run v(1) show ?thesis by blast
qed

section \<open>Withdrawals\<close>

lemma withdraw_balances_Ok:
  assumes "withdraw_balances d self cfg = Ok fs"
  shows "\<exists>ca cb. query_balance d self (asset_a_denom (asset_data cfg)) = Ok ca \<and>
    query_balance d self (asset_b_denom (asset_data cfg)) = Ok cb \<and>
    filter (\<lambda>c. coin_amount c \<noteq> 0) [ca, cb] \<noteq> [] \<and> fs = filter (\<lambda>c. coin_amount c \<noteq> 0) [ca, cb]"
proof -
  from assms obtain ca cb where "query_balance d self (asset_a_denom (asset_data cfg)) = Ok ca"
    "query_balance d self (asset_b_denom (asset_data cfg)) = Ok cb"
    "fs = (if coin_amount ca \<noteq> 0 then [ca] else []) @ (if coin_amount cb \<noteq> 0 then [cb] else [])" "fs \<noteq> []"
    by (auto simp: withdraw_balances_def result_simps Let_def)
  then show ?thesis by auto
qed

lemma withdraw_shares_floor:
  "withdraw_shares balance percent = Ok n \<Longrightarrow> unat n = unat balance * dec_val percent div dec_unit"
  by (auto simp: withdraw_shares_def result_simps arith_simps unat_dec_to_uint_floor split: if_splits)

lemma ap_withdraw_Ok [consumes 2, case_names shares balances]:
  assumes "ap_try_withdraw d ax env info pct st = Ok (r, st')"
    and "percent = (case pct of Some p \<Rightarrow> p | None \<Rightarrow> dec_one)"
  obtains cfg tok shares assets coins where
    "st' = st" "ap_holder st = Some (sender info)" "0 < dec_val percent" "dec_val percent \<le> dec_unit"
    "ap_lp_config st = Some cfg" "query_astro_pool_token ax (pool_address cfg) (contract_address env) = Ok tok"
    "pool_token_balance tok \<noteq> 0" "withdraw_shares (pool_token_balance tok) percent = Ok shares"
    "query_share ax (pool_address cfg) shares = Ok assets" "try_map (asset_to_coin ax) assets = Ok coins"
    "messages r = [WasmExecute (liquidity_token (pool_pair_info tok)) (Cw20SendWithdrawLiquidity (pool_address cfg) shares) [],
       WasmExecute (sender info) DistributeMsg coins]"
  | cfg tok fs where
    "st' = st" "ap_holder st = Some (sender info)" "0 < dec_val percent" "dec_val percent \<le> dec_unit"
    "ap_lp_config st = Some cfg" "query_astro_pool_token ax (pool_address cfg) (contract_address env) = Ok tok"
    "pool_token_balance tok = 0" "withdraw_balances d (contract_address env) cfg = Ok fs"
    "messages r = [WasmExecute (sender info) DistributeMsg fs]"
proof -
  from assms obtain cfg tok where *: "dec_zero < percent" "percent \<le> dec_one" "ap_holder st = Some (sender info)"
    "ap_lp_config st = Some cfg" "query_astro_pool_token ax (pool_address cfg) (contract_address env) = Ok tok"
    by (auto simp: ap_try_withdraw_def result_simps Let_def)
  show thesis
  proof (cases "pool_token_balance tok = 0")
    case True
    with assms * obtain fs where "withdraw_balances d (contract_address env) cfg = Ok fs"
      "st' = st" "messages r = [WasmExecute (sender info) DistributeMsg fs]"
      by (auto simp: ap_try_withdraw_def result_simps Let_def)
    with * True that(2) show thesis by (simp add: dec_less_iff dec_le_iff)
  next
    case False
    with assms * obtain shares assets coins where "withdraw_shares (pool_token_balance tok) percent = Ok shares"
      "query_share ax (pool_address cfg) shares = Ok assets" "try_map (asset_to_coin ax) assets = Ok coins" "st' = st"
      "messages r = [WasmExecute (liquidity_token (pool_pair_info tok)) (Cw20SendWithdrawLiquidity (pool_address cfg) shares) [],
            WasmExecute (sender info) DistributeMsg coins]"
      by (auto simp: ap_try_withdraw_def result_simps Let_def)
    with * False that(1) show thesis by (simp add: dec_less_iff dec_le_iff)
  qed
qed

text \<open>
  A withdrawal is the holder's alone and changes nothing in the pooler's storage. When
  it succeeds, the sender is the holder and the percentage lies in (0, 1]; with liquidity tokens,
  the pooler redeems the floor of that percentage of them, never more than it has, and passes what
  the pool pays for them to the holder; without any, it passes on its whole balances of the two
  denominations, as one coin each, leaving out an empty one.
\<close>

theorem ap_withdraw_behaviour:
  assumes "query_balance_spec d" and "ap_execute d ax env info (ApWithdraw pct) st = Ok (r, st')"
    and "percent = (case pct of Some p \<Rightarrow> p | None \<Rightarrow> dec_one)"
  shows "st' = st \<and> ap_holder st = Some (sender info) \<and> 0 < dec_val percent \<and> dec_val percent \<le> dec_unit \<and>
    (\<exists>cfg tok. ap_lp_config st = Some cfg \<and>
      query_astro_pool_token ax (pool_address cfg) (contract_address env) = Ok tok \<and>
      (pool_token_balance tok \<noteq> 0 \<longrightarrow>
        (\<exists>shares assets coins. unat shares = unat (pool_token_balance tok) * dec_val percent div dec_unit \<and>
          shares \<le> pool_token_balance tok \<and> query_share ax (pool_address cfg) shares = Ok assets \<and>
          try_map (asset_to_coin ax) assets = Ok coins \<and>
          messages r = [WasmExecute (liquidity_token (pool_pair_info tok)) (Cw20SendWithdrawLiquidity (pool_address cfg) shares) [],
            WasmExecute (sender info) DistributeMsg coins])) \<and>
      (pool_token_balance tok = 0 \<longrightarrow>
        (\<exists>ca cb. query_balance d (contract_address env) (asset_a_denom (asset_data cfg)) = Ok ca \<and>
          query_balance d (contract_address env) (asset_b_denom (asset_data cfg)) = Ok cb \<and>
          filter (\<lambda>c. coin_amount c \<noteq> 0) [ca, cb] \<noteq> [] \<and>
          messages r = [WasmExecute (sender info) DistributeMsg (filter (\<lambda>c. coin_amount c \<noteq> 0) [ca, cb])])))"
proof -
  from assms(2,3) have "ap_try_withdraw d ax env info pct st = Ok (r, st')" by (simp add: ap_execute_def)
  from this assms(3) show ?thesis
  proof (cases rule: ap_withdraw_Ok)
    case (shares cfg tok shares assets coins)
    have "unat (pool_token_balance tok) * dec_val percent div dec_unit \<le> unat (pool_token_balance tok)"
      using shares(4) div_le_mono [OF mult_le_mono2 [of "dec_val percent" dec_unit "unat (pool_token_balance tok)"], of dec_unit]
      by simp
    with withdraw_shares_floor [OF shares(8)] shares show ?thesis by (auto simp: word_le_unat)
  next
    case (balances cfg tok fs)
    with withdraw_balances_Ok [OF balances(8)] show ?thesis by auto
  qed
qed

theorem ap_withdraw_behaviour_witness:
  "\<exists>r st' shares coins. ap_execute (ref_deps (ex_ap_bals 0 0)) (ref_astroport 7) ex_ap_env \<lparr>sender = ''holder'', funds = []\<rparr>
      (ApWithdraw (Some (Decimal 500000000000000000))) ex_ap_state = Ok (r, st') \<and> st' = ex_ap_state \<and> unat shares = 3 \<and>
     messages r = [WasmExecute ''lptoken'' (Cw20SendWithdrawLiquidity ''pool'' shares) [], WasmExecute ''holder'' DistributeMsg coins]"
proof -
  let ?d = "ref_deps (ex_ap_bals 0 0)" and ?i = "\<lparr>sender = ''holder'', funds = []\<rparr>"
  let ?m = "ApWithdraw (Some (Decimal 500000000000000000))"
  have "is_ok (ap_execute ?d (ref_astroport 7) ex_ap_env ?i ?m ex_ap_state)"
    by (simp add: ap_execute_def ap_try_withdraw_def ex_ap_state_def ex_ap_cfg_def ex_ap_env_def query_astro_pool_token_def
        withdraw_shares_def dec_from_atomics_0_def checked_mul_def dec_checked_mul_def decimal_fractional_def
        dec_less_iff dec_le_iff dec_one_def ref_asset_to_coin_def Let_def)
  then obtain r st' where run: "ap_execute ?d (ref_astroport 7) ex_ap_env ?i ?m ex_ap_state = Ok (r, st')"
    by (auto simp: is_ok_iff)
  from ap_withdraw_behaviour [OF ref_query_balance_ok run refl] run show ?thesis
    by (auto simp: ex_ap_state_def query_astro_pool_token_def ex_ap_cfg_def)
qed

end
