(* ===== verification/Claims.thy ===== *)
theory Claims
  imports Two_Party_Payouts Single_Party_Holder Astroport_Pooler
begin

text \<open>
  A claim is one transaction over two contracts: the holder asks its pooler to withdraw, the
  pooler answers with a \<open>Distribute\<close> message to the holder, and the holder pays out. This theory
  runs the holders of \<open>contracts/single-party-pol-holder\<close> and \<open>contracts/two-party-pol-holder\<close>
  together with the Astroport pooler (\<open>contracts/astroport-liquid-pooler\<close>). Messages run in order,
  and a failure of any of them reverts the whole transaction, as the host does for messages
  without a reply. Messages to the exchange (the return of liquidity tokens) are left to the
  exchange.
\<close>

section \<open>The transaction\<close>

datatype 'e claim_error = HolderFailed 'e | PoolerFailed ap_error

text \<open>The \<open>Distribute\<close> messages of the pooler among its messages reach the holder.\<close>

fun deliver ::
    "(message_info \<Rightarrow> 's \<Rightarrow> (response \<times> 's, 'e) result) \<Rightarrow> addr \<Rightarrow> addr \<Rightarrow> cosmos_msg list \<Rightarrow> 's
     \<Rightarrow> (cosmos_msg list \<times> 's, 'e claim_error) result" where
  "deliver distribute holder pooler [] hst = Ok ([], hst)"
| "deliver distribute holder pooler (WasmExecute a DistributeMsg fs # ms) hst =
     (if a = holder
      then and_then (map_err HolderFailed (distribute \<lparr>sender = pooler, funds = fs\<rparr> hst)) (\<lambda>(r, hst').
           and_then (deliver distribute holder pooler ms hst') (\<lambda>(out, hst'').
             Ok (messages r @ out, hst'')))
      else deliver distribute holder pooler ms hst)"
| "deliver distribute holder pooler (_ # ms) hst = deliver distribute holder pooler ms hst"

definition withdraw_transaction ::
    "deps \<Rightarrow> astroport \<Rightarrow> (env \<Rightarrow> message_info \<Rightarrow> 'm \<Rightarrow> 's \<Rightarrow> (response \<times> 's, 'e) result) \<Rightarrow> 'm
     \<Rightarrow> env \<Rightarrow> env \<Rightarrow> message_info \<Rightarrow> 'm \<Rightarrow> 's \<Rightarrow> ap_state
     \<Rightarrow> (cosmos_msg list \<times> 's \<times> ap_state, 'e claim_error) result" where
  "withdraw_transaction d ax exec distribute env_h env_p info msg hst pst =
     and_then (map_err HolderFailed (exec env_h info msg hst)) (\<lambda>(r1, hst1).
       case messages r1 of
         [WasmExecute a (WithdrawMsg pct) fs] \<Rightarrow>
           if a = contract_address env_p then
             and_then (map_err PoolerFailed
                 (ap_execute d ax env_p \<lparr>sender = contract_address env_h, funds = fs\<rparr> (ApWithdraw pct) pst)) (\<lambda>(r2, pst1).
             and_then (deliver (\<lambda>i. exec env_h i distribute) (contract_address env_h) (contract_address env_p) (messages r2) hst1)
               (\<lambda>(out, hst2). Ok (out, hst2, pst1)))
           else Ok (messages r1, hst1, pst)
       | _ \<Rightarrow> Ok (messages r1, hst1, pst))"

text \<open>
  The coins a pooler returns for a percentage: what the pool pays for that part of its liquidity
  tokens or, without any tokens, all it has.
\<close>

definition redeemed :: "deps \<Rightarrow> astroport \<Rightarrow> addr \<Rightarrow> ap_state \<Rightarrow> decimal option \<Rightarrow> coin list \<Rightarrow> bool" where
  "redeemed d ax self pst pct coins \<longleftrightarrow>
     (case ap_lp_config pst of
        None \<Rightarrow> False
      | Some cfg \<Rightarrow>
          (case query_astro_pool_token ax (pool_address cfg) self of
             Ok tok \<Rightarrow>
               if pool_token_balance tok = 0 then withdraw_balances d self cfg = Ok coins
               else (case withdraw_shares (pool_token_balance tok) (case pct of Some p \<Rightarrow> p | None \<Rightarrow> dec_one) of
                       Ok shares \<Rightarrow> and_then (query_share ax (pool_address cfg) shares) (try_map (asset_to_coin ax)) = Ok coins
                     | _ \<Rightarrow> False)
           | _ \<Rightarrow> False))"

lemma redeemed_iff:
  "redeemed d ax self pst pct coins \<longleftrightarrow>
     (\<exists>cfg tok. ap_lp_config pst = Some cfg \<and> query_astro_pool_token ax (pool_address cfg) self = Ok tok \<and>
        (if pool_token_balance tok = 0 then withdraw_balances d self cfg = Ok coins
         else (\<exists>shares. withdraw_shares (pool_token_balance tok) (case pct of Some p \<Rightarrow> p | None \<Rightarrow> dec_one) = Ok shares \<and>
                 and_then (query_share ax (pool_address cfg) shares) (try_map (asset_to_coin ax)) = Ok coins)))"
  by (auto simp: redeemed_def split: option.splits result.splits)

section \<open>What a holder promises to the transaction\<close>

text \<open>
  A message that starts a withdrawal asks the pooler, and nobody else, and the holder takes a
  distribution from its pooler only.
\<close>

locale liquidity_holder =
  fixes exec :: "env \<Rightarrow> message_info \<Rightarrow> 'm \<Rightarrow> 's \<Rightarrow> (response \<times> 's, 'e) result"
    and starts :: "'m \<Rightarrow> bool" and distribute :: 'm and pooler :: "'s \<Rightarrow> addr option" and inv :: "'s \<Rightarrow> bool"
  assumes asks: "starts m \<Longrightarrow> inv s \<Longrightarrow> exec env info m s = Ok (r, s') \<Longrightarrow>
      \<exists>lper pct. pooler s = Some lper \<and> messages r = [WasmExecute lper (WithdrawMsg pct) []]"
begin

lemma transaction_Ok:
  assumes "withdraw_transaction d ax exec distribute env_h env_p info m hst pst = Ok (out, hst', pst')"
    and "starts m" and "inv hst" and "pooler hst = Some (contract_address env_p)"
  obtains pct r1 hst1 coins r where
    "exec env_h info m hst = Ok (r1, hst1)" "messages r1 = [WasmExecute (contract_address env_p) (WithdrawMsg pct) []]"
    "redeemed d ax (contract_address env_p) pst pct coins"
    "exec env_h \<lparr>sender = contract_address env_p, funds = coins\<rparr> distribute hst1 = Ok (r, hst')"
    "out = messages r" "pst' = pst"
proof -
  from assms(1) obtain r1 hst1 where h: "exec env_h info m hst = Ok (r1, hst1)"
    by (auto simp: withdraw_transaction_def result_simps)
  from asks [OF assms(2,3) h] assms(4) obtain pct where
    m: "messages r1 = [WasmExecute (contract_address env_p) (WithdrawMsg pct) []]" by auto
  with assms(1) h obtain r2 pst1 where
    p: "ap_try_withdraw d ax env_p \<lparr>sender = contract_address env_h, funds = []\<rparr> pct pst = Ok (r2, pst1)"
      "deliver (\<lambda>i. exec env_h i distribute) (contract_address env_h) (contract_address env_p) (messages r2) hst1 = Ok (out, hst')"
      "pst' = pst1"
    by (auto simp: withdraw_transaction_def result_simps ap_execute_def)
  from p(1) refl show thesis
  proof (cases rule: ap_withdraw_Ok)
    case (shares cfg tok shares assets coins)
    then have "redeemed d ax (contract_address env_p) pst pct coins" by (simp add: redeemed_def)
    with shares p(2,3) show thesis by (auto simp: result_simps intro!: that [OF h m])
  next
    case (balances cfg tok fs)
    then have "redeemed d ax (contract_address env_p) pst pct fs" by (simp add: redeemed_def)
    with balances p(2,3) show thesis by (auto simp: result_simps intro!: that [OF h m])
  qed
qed

text \<open>If there is nothing to return, no withdrawal goes through.\<close>

lemma nothing_redeemed_fails:
  assumes "\<And>pct coins. \<not> redeemed d ax (contract_address env_p) pst pct coins"
    and "starts m" and "inv hst" and "pooler hst = Some (contract_address env_p)"
  shows "\<not> is_ok (withdraw_transaction d ax exec distribute env_h env_p info m hst pst)"
proof
  assume "is_ok (withdraw_transaction d ax exec distribute env_h env_p info m hst pst)"
  then obtain out hst' pst' where "withdraw_transaction d ax exec distribute env_h env_p info m hst pst = Ok (out, hst', pst')"
    by (auto simp: is_ok_iff)
  from transaction_Ok [OF this assms(2-4)] assms(1) show False by metis
qed

end

section \<open>The single-party holder\<close>

definition sp_starts_withdraw :: "sp_execute_msg \<Rightarrow> bool" where
  "sp_starts_withdraw m \<longleftrightarrow> m = SpClaim \<or> m = SpEmergencyWithdraw"

lemma withdraw_started:
  assumes "sp_execute d env_h info msg hst = Ok (r1, hst1)" and "sp_starts_withdraw msg"
  shows "\<exists>pooler. sp_pooler hst = Some pooler \<and> messages r1 = [WasmExecute pooler (WithdrawMsg None) []] \<and>
    hst1 = hst\<lparr>sp_withdraw := Some True\<rparr>"
  using assms by (auto simp: sp_starts_withdraw_def sp_execute_def sp_try_claim_def sp_try_emergency_withdraw_def
      generate_withdraw_msg_def result_simps split: if_splits)

interpretation sp_liquidity: liquidity_holder "sp_execute d" sp_starts_withdraw SpDistribute sp_pooler "\<lambda>_. True" for d
  by unfold_locales (auto dest: withdraw_started)

lemma distribute_Ok:
  "sp_execute d env info SpDistribute st = Ok (r, st') \<longleftrightarrow>
     (\<exists>a. sp_pooler st = Some (sender info) \<and> sp_withdraw_to st = Some a \<and> length (funds info) = 2 \<and>
        r = resp [BankSend a (funds info)] \<and> st' = st\<lparr>sp_withdraw := None\<rparr>)"
  by (auto simp: sp_execute_def sp_try_distribute_def result_simps)

definition claim_transaction ::
    "deps \<Rightarrow> astroport \<Rightarrow> env \<Rightarrow> env \<Rightarrow> message_info \<Rightarrow> sp_execute_msg \<Rightarrow> sp_state \<Rightarrow> ap_state
     \<Rightarrow> (cosmos_msg list \<times> sp_state \<times> ap_state, sp_error claim_error) result" where
  "claim_transaction d ax = withdraw_transaction d ax (sp_execute d) SpDistribute"

lemma claim_transaction_Ok:
  assumes "claim_transaction d ax env_h env_p info msg hst pst = Ok (out, hst', pst')"
    and "msg = SpClaim \<or> msg = SpEmergencyWithdraw" and "sp_pooler hst = Some (contract_address env_p)"
  shows "\<exists>a coins. sp_withdraw_to hst = Some a \<and> out = [BankSend a coins] \<and> length coins = 2 \<and>
    redeemed d ax (contract_address env_p) pst None coins \<and> hst' = hst\<lparr>sp_withdraw := None\<rparr> \<and> pst' = pst"
proof -
  from assms(2) have m: "sp_starts_withdraw msg" by (simp add: sp_starts_withdraw_def)
  from assms(1)[unfolded claim_transaction_def] m TrueI assms(3) show ?thesis
  proof (rule sp_liquidity.transaction_Ok)
    fix pct r1 hst1 coins r
    assume a: "sp_execute d env_h info msg hst = Ok (r1, hst1)"
      "messages r1 = [WasmExecute (contract_address env_p) (WithdrawMsg pct) []]"
      "redeemed d ax (contract_address env_p) pst pct coins"
      "sp_execute d env_h \<lparr>sender = contract_address env_p, funds = coins\<rparr> SpDistribute hst1 = Ok (r, hst')"
      "out = messages r" "pst' = pst"
    from withdraw_started [OF a(1) m] a(2) have "pct = None" "hst1 = hst\<lparr>sp_withdraw := Some True\<rparr>" by auto
    with a show ?thesis by (auto simp: distribute_Ok)
  qed
qed

text \<open>
  Claim C11: a claim pays exactly what the pooler returns. Whenever the transaction of a claim or an
  emergency withdrawal goes through, its only payment is one transfer to the configured receiver,
  of two coins: what the pool pays for all the liquidity tokens of the pooler, or, if there are
  none, the pooler's balances; the lock of the holder is released again and nothing else changes.
\<close>

theorem claim_pays_what_is_withdrawn:
  assumes "claim_transaction d ax env_h env_p info msg hst pst = Ok (out, hst', pst')"
    and "msg = SpClaim \<or> msg = SpEmergencyWithdraw" and "sp_pooler hst = Some (contract_address env_p)"
  shows "\<exists>a coins cfg tok. sp_withdraw_to hst = Some a \<and> out = [BankSend a coins] \<and> length coins = 2 \<and>
    hst' = hst\<lparr>sp_withdraw := None\<rparr> \<and> pst' = pst \<and> ap_lp_config pst = Some cfg \<and>
    query_astro_pool_token ax (pool_address cfg) (contract_address env_p) = Ok tok \<and>
    (if pool_token_balance tok = 0 then withdraw_balances d (contract_address env_p) cfg = Ok coins
     else and_then (query_share ax (pool_address cfg) (pool_token_balance tok)) (try_map (asset_to_coin ax)) = Ok coins)"
proof -
  from claim_transaction_Ok [OF assms, unfolded redeemed_iff option.case] obtain a coins cfg tok where
    *: "sp_withdraw_to hst = Some a" "out = [BankSend a coins]" "length coins = 2" "hst' = hst\<lparr>sp_withdraw := None\<rparr>"
      "pst' = pst" "ap_lp_config pst = Some cfg" "query_astro_pool_token ax (pool_address cfg) (contract_address env_p) = Ok tok"
    and r: "if pool_token_balance tok = 0 then withdraw_balances d (contract_address env_p) cfg = Ok coins
      else (\<exists>shares. withdraw_shares (pool_token_balance tok) dec_one = Ok shares \<and>
              and_then (query_share ax (pool_address cfg) shares) (try_map (asset_to_coin ax)) = Ok coins)"
    by blast
  from r have "if pool_token_balance tok = 0 then withdraw_balances d (contract_address env_p) cfg = Ok coins
      else and_then (query_share ax (pool_address cfg) (pool_token_balance tok)) (try_map (asset_to_coin ax)) = Ok coins"
    by (auto simp: withdraw_shares_def split: if_splits)
  with * show ?thesis by blast
qed

definition ex_claim_d :: "u128 \<Rightarrow> u128 \<Rightarrow> deps" where
  "ex_claim_d a b = ref_deps (ex_ap_bals a b)"

lemmas claim_eval = claim_transaction_def withdraw_transaction_def sp_execute_def sp_try_claim_def generate_withdraw_msg_def ap_execute_def
  ap_try_withdraw_def query_astro_pool_token_def withdraw_balances_def withdraw_shares_def sp_try_distribute_def
  ex_claim_d_def ex_ap_bals_def ex_ap_state_def ex_ap_cfg_def ex_ap_env_def ex_sp_state_def ex_sp_env_def
  ref_asset_to_coin_def dec_less_iff dec_le_iff Let_def

theorem claim_pays_what_is_withdrawn_witness:
  "\<exists>out hst' pst' coins. claim_transaction (ex_claim_d 0 0) (ref_astroport 7) (ex_sp_env 201) ex_ap_env
      \<lparr>sender = ''owner'', funds = []\<rparr> SpClaim ex_sp_state ex_ap_state = Ok (out, hst', pst') \<and>
     out = [BankSend ''router'' coins] \<and> length coins = 2 \<and> hst' = ex_sp_state"
proof -
  have "is_ok (claim_transaction (ex_claim_d 0 0) (ref_astroport 7) (ex_sp_env 201) ex_ap_env
      \<lparr>sender = ''owner'', funds = []\<rparr> SpClaim ex_sp_state ex_ap_state)"
    by (simp add: claim_eval)
  then obtain out hst' pst' where run: "claim_transaction (ex_claim_d 0 0) (ref_astroport 7) (ex_sp_env 201) ex_ap_env
      \<lparr>sender = ''owner'', funds = []\<rparr> SpClaim ex_sp_state ex_ap_state = Ok (out, hst', pst')"
    by (auto simp: is_ok_iff)
  from claim_pays_what_is_withdrawn [OF run] run show ?thesis by (auto simp: ex_sp_state_def ex_ap_env_def)
qed

text \<open>
  Claim C37: a position that never entered the pool and consists of one denomination only cannot
  be claimed. If the pooler has no liquidity tokens and one of its two balances is empty, every
  claim and every emergency withdrawal of the single-party holder fails, whoever sends it and
  whenever: the pooler answers with one coin, the holder insists on two, and the transaction
  reverts.
\<close>

theorem one_sided_balance_cannot_be_claimed:
  assumes "ap_lp_config pst = Some cfg"
    and "query_astro_pool_token ax (pool_address cfg) (contract_address env_p) = Ok tok" and "pool_token_balance tok = 0"
    and "query_balance d (contract_address env_p) (asset_a_denom (asset_data cfg)) = Ok ca"
    and "query_balance d (contract_address env_p) (asset_b_denom (asset_data cfg)) = Ok cb"
    and "coin_amount ca = 0 \<or> coin_amount cb = 0" and "msg = SpClaim \<or> msg = SpEmergencyWithdraw"
    and "sp_pooler hst = Some (contract_address env_p)"
  shows "\<not> is_ok (claim_transaction d ax env_h env_p info msg hst pst)"
proof
  assume "is_ok (claim_transaction d ax env_h env_p info msg hst pst)"
  then obtain out hst' pst' where "claim_transaction d ax env_h env_p info msg hst pst = Ok (out, hst', pst')"
    by (auto simp: is_ok_iff)
  from claim_transaction_Ok [OF this assms(7,8)] assms(1-6) show False
    by (auto simp: redeemed_iff withdraw_balances_def Let_def result_simps split: if_splits)
qed

theorem one_sided_balance_cannot_be_claimed_witness:
  "\<not> is_ok (claim_transaction (ex_claim_d 5 0) (ref_astroport 0) (ex_sp_env 201) ex_ap_env
      \<lparr>sender = ''owner'', funds = []\<rparr> SpClaim ex_sp_state ex_ap_state)"
  using one_sided_balance_cannot_be_claimed [of ex_ap_state ex_ap_cfg "ref_astroport 0" ex_ap_env
      "\<lparr>pool_pair_info = \<lparr>pair_type_of = Xyk, liquidity_token = ''lptoken''\<rparr>, pool_token_balance = 0\<rparr>" "ex_claim_d 5 0"
      "\<lparr>coin_denom = ''uatom'', coin_amount = 5\<rparr>" "\<lparr>coin_denom = ''untrn'', coin_amount = 0\<rparr>" SpClaim ex_sp_state]
  by (simp add: ex_sp_state_def ex_ap_env_def ex_ap_state_def ex_ap_cfg_def ex_claim_d_def ex_ap_bals_def query_astro_pool_token_def)

section \<open>The two-party holder\<close>

definition tp_starts_withdraw :: "tp_execute_msg \<Rightarrow> bool" where
  "tp_starts_withdraw m \<longleftrightarrow> m \<in> {TpClaim, TpRagequitMsg, TpEmergencyWithdraw}"

lemma tp_withdraw_started:
  assumes "tp_starts_withdraw m" and "tp_inv st" and "tp_execute d env info m st = Ok (r, st')"
  shows "\<exists>lper pct. tp_pooler st = Some lper \<and> messages r = [WasmExecute lper (WithdrawMsg pct) []]"
proof -
  from assms(1) consider "m = TpClaim" | "m = TpRagequitMsg" | "m = TpEmergencyWithdraw"
    by (auto simp: tp_starts_withdraw_def)
  then show ?thesis
  proof cases
    case 1
    with assms(2,3) show ?thesis by (auto simp: tp_execute_def tp_claim_Ok_iff)
  next
    case 2
    with assms(3) show ?thesis
      by (auto simp: tp_execute_def tp_try_ragequit_def generate_withdraw_msg_def Let_def result_simps split: if_splits)
  next
    case 3
    with assms(3) show ?thesis
      by (auto simp: tp_execute_def tp_try_emergency_withdraw_def generate_withdraw_msg_def Let_def result_simps split: if_splits)
  qed
qed

interpretation tp_liquidity: liquidity_holder "tp_execute d" tp_starts_withdraw TpDistribute tp_pooler tp_inv for d
  by unfold_locales (rule tp_withdraw_started)

definition tp_transaction ::
    "deps \<Rightarrow> astroport \<Rightarrow> env \<Rightarrow> env \<Rightarrow> message_info \<Rightarrow> tp_execute_msg \<Rightarrow> tp_state \<Rightarrow> ap_state
     \<Rightarrow> (cosmos_msg list \<times> tp_state \<times> ap_state, tp_error claim_error) result" where
  "tp_transaction d ax = withdraw_transaction d ax (tp_execute d) TpDistribute"

text \<open>The holder's side of a claim on a share covenant that went through.\<close>

lemma share_claim_Ok:
  assumes "multiply_ratio_spec d" and "splits_wf ds" and "tp_inv hst" and "tp_splits hst = Some ds"
    and "tp_covenant hst = Some c" and "cov_type c = Share" and "tp_pooler hst = Some (contract_address env_p)"
    and "authorize_sender c (sender info) = Ok (p, q)"
    and "tp_transaction d ax env_h env_p info TpClaim hst pst = Ok (out, hst', pst')"
  shows "tp_inv hst' \<and> tp_pooler hst' = tp_pooler hst \<and> pst' = pst \<and> tp_withdraw hst' = None \<and>
    (if dec_is_zero (allocation q) then tp_contract_state hst' = Some TpComplete
     else tp_covenant hst' = Some (update_parties c (p\<lparr>allocation := dec_zero\<rparr>) (q\<lparr>allocation := dec_one\<rparr>))) \<and>
    (\<exists>coins. redeemed d ax (contract_address env_p) pst (Some (allocation p)) coins \<and>
       (\<forall>a dn. total_to a dn out =
          (if a = router p \<and> (\<exists>sc. om_get (explicit_splits ds) dn = Some sc \<and> om_contains (receivers sc) (router p))
           then coins_in dn coins else 0)))"
proof -
  have "tp_starts_withdraw TpClaim" by (simp add: tp_starts_withdraw_def)
  with assms(9)[unfolded tp_transaction_def] show ?thesis using assms(3,7)
  proof (rule tp_liquidity.transaction_Ok)
    fix pct r1 hst1 coins r
    assume a: "tp_execute d env_h info TpClaim hst = Ok (r1, hst1)"
      "messages r1 = [WasmExecute (contract_address env_p) (WithdrawMsg pct) []]"
      "redeemed d ax (contract_address env_p) pst pct coins"
      "tp_execute d env_h \<lparr>sender = contract_address env_p, funds = coins\<rparr> TpDistribute hst1 = Ok (r, hst')"
      "out = messages r" "pst' = pst"
    from a(1,2) assms(3,5,6,8) have s: "pct = Some (allocation p)" "hst1 = hst\<lparr>tp_withdraw := Some (Processing (sender info))\<rparr>"
      by (auto simp: tp_execute_def tp_claim_Ok_iff)
    have inv1: "tp_inv hst1" using tp.inv_step [of "TpExec env_h info TpClaim" hst d r1 hst1] a(1) assms(3) by simp
    have inv': "tp_inv hst'"
      using tp.inv_step [of "TpExec env_h \<lparr>sender = contract_address env_p, funds = coins\<rparr> TpDistribute" hst1 d r hst'] a(4) inv1 by simp
    have d: "tp_try_distribute d \<lparr>sender = contract_address env_p, funds = coins\<rparr> hst1 = Ok (r, hst')"
      using a(4) by (simp add: tp_execute_def)
    have "tp_try_claim_share_based d p q coins c ds (hst1\<lparr>tp_withdraw := None\<rparr>) = Ok (r, hst')"
      using d s assms(4-8) by (auto simp: tp_try_distribute_def distribution_terms_def result_simps Let_def)
    then have "tp_pooler hst' = tp_pooler hst"
      using s(2) by (cases "dec_is_zero (allocation q)") (auto simp: tp_try_claim_share_based_Ok)
    moreover note share_distribution [OF assms(1,2) inv1 _ _ assms(6) _ assms(8) d]
    ultimately show ?thesis using s a(3,5,6) inv' assms(4,5) by auto
  qed
qed


lemma unpooled_redeemed:
  assumes "query_balance_spec d" and "ap_lp_config pst = Some cfg"
    and "query_astro_pool_token ax (pool_address cfg) self = Ok tok" and "pool_token_balance tok = 0"
    and "asset_a_denom (asset_data cfg) \<noteq> asset_b_denom (asset_data cfg)" and "redeemed d ax self pst pct coins"
  shows "coins \<noteq> []" and "coins_in dn coins =
    (if dn \<in> {asset_a_denom (asset_data cfg), asset_b_denom (asset_data cfg)} then balance_of d self dn else 0)"
proof -
  let ?ds = "[asset_a_denom (asset_data cfg), asset_b_denom (asset_data cfg)]"
  from assms(2-4,6) have "withdraw_balances d self cfg = Ok coins" by (auto simp: redeemed_iff)
  then obtain a b where q: "query_balance d self (asset_a_denom (asset_data cfg)) = Ok a"
    "query_balance d self (asset_b_denom (asset_data cfg)) = Ok b"
    and c': "coins = (if coin_amount a \<noteq> 0 then [a] else []) @ (if coin_amount b \<noteq> 0 then [b] else [])" "coins \<noteq> []"
    by (auto simp: withdraw_balances_def Let_def and_then_eq_Ok map_err_eq ensure_eq simp del: append_is_Nil_conv)
  then have c: "coins = filter (\<lambda>x. coin_amount x \<noteq> 0) [a, b]" by simp
  from c' show "coins \<noteq> []" by simp
  from q have "try_map (query_balance d self) ?ds = Ok [a, b]" by simp
  from coins_in_queried [OF assms(1) this] assms(5) show "coins_in dn coins =
      (if dn \<in> {asset_a_denom (asset_data cfg), asset_b_denom (asset_data cfg)} then balance_of d self dn else 0)"
    unfolding c coins_in_filter_nonzero by simp
qed

text \<open>
  Claim C13: funds that never entered the pool go to whoever claims first. If the pooler holds no liquidity
  tokens, it ignores the requested percentage: the first claim of a share covenant that goes
  through pays the pooler's whole balances (of the denominations with a split for the claimer) to
  the claimer's router, whatever its allocation. The counterparty is then recorded with an
  allocation of one, but as long as the pooler has neither tokens nor coins, every claim of it fails.
\<close>

theorem unpooled_funds_go_to_first_claimer:
  assumes "multiply_ratio_spec d" and "query_balance_spec d" and "splits_wf ds" and "tp_inv hst" and "tp_splits hst = Some ds"
    and "tp_covenant hst = Some c" and "cov_type c = Share" and "tp_pooler hst = Some (contract_address env_p)"
    and "authorize_sender c (sender info) = Ok (p, q)" and "ap_lp_config pst = Some cfg"
    and "query_astro_pool_token ax (pool_address cfg) (contract_address env_p) = Ok tok" and "pool_token_balance tok = 0"
    and "asset_a_denom (asset_data cfg) \<noteq> asset_b_denom (asset_data cfg)"
    and "\<forall>dn\<in>{asset_a_denom (asset_data cfg), asset_b_denom (asset_data cfg)}.
           \<exists>sc. om_get (explicit_splits ds) dn = Some sc \<and> om_contains (receivers sc) (router p)"
    and "tp_transaction d ax env_h env_p info TpClaim hst pst = Ok (out, hst', pst')"
    and "query_astro_pool_token ax' (pool_address cfg) (contract_address env_p) = Ok tok"
    and "\<forall>dn\<in>{asset_a_denom (asset_data cfg), asset_b_denom (asset_data cfg)}. balance_of d' (contract_address env_p) dn = 0"
  shows "(\<forall>dn\<in>{asset_a_denom (asset_data cfg), asset_b_denom (asset_data cfg)}.
       total_to (router p) dn out = balance_of d (contract_address env_p) dn) \<and>
    (router q \<noteq> router p \<longrightarrow> (\<forall>dn. total_to (router q) dn out = 0)) \<and>
    \<not> is_ok (tp_transaction d' ax' env_h' env_p info' TpClaim hst' pst')"
proof (intro conjI ballI impI allI)
  note claim = share_claim_Ok [OF assms(1,3,4-9,15)]
  from claim obtain coins where coins: "redeemed d ax (contract_address env_p) pst (Some (allocation p)) coins"
    "\<And>a dn. total_to a dn out =
       (if a = router p \<and> (\<exists>sc. om_get (explicit_splits ds) dn = Some sc \<and> om_contains (receivers sc) (router p))
        then coins_in dn coins else 0)" by blast
  note all = unpooled_redeemed [OF assms(2,10,11,12,13) coins(1)]
  show "total_to (router p) dn out = balance_of d (contract_address env_p) dn"
    if "dn \<in> {asset_a_denom (asset_data cfg), asset_b_denom (asset_data cfg)}" for dn
    using that assms(14) coins(2) all(2) [of dn] by auto
  show "total_to (router q) dn out = 0" if "router q \<noteq> router p" for dn using that coins(2) by simp
  have none: "\<not> redeemed d' ax' (contract_address env_p) pst' pct cs" for pct cs
  proof
    assume "redeemed d' ax' (contract_address env_p) pst' pct cs"
    then have "withdraw_balances d' (contract_address env_p) cfg = Ok cs"
      using claim assms(10,12,16) by (auto simp: redeemed_iff)
    with assms(17) show False
      by (auto simp: withdraw_balances_def balance_of_def unat_eq_0 Let_def result_simps split: if_splits)
  qed
  show "\<not> is_ok (tp_transaction d' ax' env_h' env_p info' TpClaim hst' pst')"
    unfolding tp_transaction_def using claim assms(8)
    by (intro tp_liquidity.nothing_redeemed_fails [OF none]) (auto simp: tp_starts_withdraw_def)
qed

section \<open>An example\<close>

text \<open>An expired share covenant of two equal parties, both of whose coins have explicit splits.\<close>

definition ex_two_splits :: denom_splits where
  "ex_two_splits = \<lparr>explicit_splits = [(''uatom'', ex_split), (''untrn'', ex_split)], fallback_split = None\<rparr>"

definition ex_expired :: tp_state where
  "ex_expired = ex_tp_state\<lparr>tp_contract_state := Some TpExpired, tp_splits := Some ex_two_splits\<rparr>"

abbreviation ex_from_a :: message_info where
  "ex_from_a \<equiv> \<lparr>sender = ''host_a'', funds = []\<rparr>"

lemma ex_expired_ok:
  "splits_wf ex_two_splits" "tp_inv ex_expired" "tp_splits ex_expired = Some ex_two_splits"
  "tp_covenant ex_expired = Some \<lparr>party_a = ex_party_a, party_b = ex_party_b, cov_type = Share\<rparr>"
  "tp_pooler ex_expired = Some (contract_address ex_ap_env)"
  using ex_tp_inv ex_split_wf(1)
  by (auto simp: ex_expired_def ex_tp_state_def ex_two_splits_def splits_wf_def om_get_def ex_ap_env_def tp_inv_def tp_core_def
      tp_params_set_def split: if_splits)

lemma ex_claim_started:
  "tp_execute d env ex_from_a TpClaim ex_expired =
     Ok (resp [WasmExecute ''pooler'' (WithdrawMsg (Some half)) []], ex_expired\<lparr>tp_withdraw := Some (Processing ''host_a'')\<rparr>)"
  using ex_authorize [of Share] ex_expired_ok(4)
  by (simp add: tp_execute_def tp_claim_Ok_iff [OF ex_expired_ok(2)])
    (simp add: ex_expired_def ex_tp_state_def ex_party_a_def)

lemma ex_distributed:
  "\<exists>r st'. tp_execute (ex_claim_d a b) env \<lparr>sender = ''pooler'', funds = coins\<rparr> TpDistribute
     (ex_expired\<lparr>tp_withdraw := Some (Processing ''host_a'')\<rparr>) = Ok (r, st')"
proof -
  have "\<not> dec_is_zero (allocation ex_party_b)" by (simp add: ex_tp_defs dec_eval)
  moreover have "multiply_ratio_spec (ex_claim_d a b)" unfolding ex_claim_d_def by (rule ref_multiply_ratio_ok)
  ultimately show ?thesis
    using single_receiver_messages [OF _ ex_expired_ok(1)] ex_authorize [of Share] ex_expired_ok(3-5)
    by (simp add: tp_execute_def tp_try_distribute_def distribution_terms_def tp_try_claim_share_based_Ok ex_ap_env_def)
qed

lemma ex_unpooled_withdraw:
  "ap_execute (ex_claim_d 100 1000) (ref_astroport 0) ex_ap_env \<lparr>sender = ''holder'', funds = []\<rparr> (ApWithdraw (Some half)) ex_ap_state =
     Ok (resp [WasmExecute ''holder'' DistributeMsg [\<lparr>coin_denom = ''uatom'', coin_amount = 100\<rparr>, \<lparr>coin_denom = ''untrn'', coin_amount = 1000\<rparr>]],
         ex_ap_state)"
  by (simp add: claim_eval half_def)

lemma ex_unpooled_claim:
  "\<exists>out hst' pst'. tp_transaction (ex_claim_d 100 1000) (ref_astroport 0) (ex_env 2000) ex_ap_env ex_from_a TpClaim
     ex_expired ex_ap_state = Ok (out, hst', pst')"
  using ex_distributed [of 100 1000 "ex_env 2000" "[\<lparr>coin_denom = ''uatom'', coin_amount = 100\<rparr>, \<lparr>coin_denom = ''untrn'', coin_amount = 1000\<rparr>]"]
    ex_unpooled_withdraw
  by (auto simp: tp_transaction_def withdraw_transaction_def ex_claim_started ex_env_def ex_ap_env_def)


theorem unpooled_funds_go_to_first_claimer_witness:
  "\<exists>out hst' pst'. tp_transaction (ex_claim_d 100 1000) (ref_astroport 0) (ex_env 2000) ex_ap_env ex_from_a TpClaim
     ex_expired ex_ap_state = Ok (out, hst', pst') \<and> allocation ex_party_a = half \<and>
     total_to ''router_a'' ''uatom'' out = 100 \<and> total_to ''router_a'' ''untrn'' out = 1000 \<and>
     \<not> is_ok (tp_transaction (ex_claim_d 0 0) (ref_astroport 0) (ex_env 2001) ex_ap_env \<lparr>sender = ''host_b'', funds = []\<rparr> TpClaim hst' pst')"
proof -
  let ?d = "ex_claim_d 100 1000" and ?d' = "ex_claim_d 0 0" and ?ax = "ref_astroport 0" and ?b = "\<lparr>sender = ''host_b'', funds = []\<rparr>"
  let ?tok = "\<lparr>pool_pair_info = \<lparr>pair_type_of = Xyk, liquidity_token = ''lptoken''\<rparr>, pool_token_balance = 0\<rparr>"
  obtain out hst' pst' where run: "tp_transaction ?d ?ax (ex_env 2000) ex_ap_env ex_from_a TpClaim ex_expired ex_ap_state
     = Ok (out, hst', pst')" using ex_unpooled_claim by blast
  have r: "multiply_ratio_spec ?d" "query_balance_spec ?d"
    unfolding ex_claim_d_def by (rule ref_multiply_ratio_ok, rule ref_query_balance_ok)
  have pool: "ap_lp_config ex_ap_state = Some ex_ap_cfg" "query_astro_pool_token ?ax (pool_address ex_ap_cfg) (contract_address ex_ap_env) = Ok ?tok"
    by (simp_all add: ex_ap_state_def query_astro_pool_token_def)
  have bal: "balance_of (ex_claim_d a b) x dn = unat (ex_ap_bals a b x dn)" for a b x dn
    by (simp add: balance_of_def ex_claim_d_def)
  have auth: "authorize_sender \<lparr>party_a = ex_party_a, party_b = ex_party_b, cov_type = Share\<rparr> (sender ex_from_a) = Ok (ex_party_a, ex_party_b)"
    using ex_authorize by simp
  from unpooled_funds_go_to_first_claimer [OF r ex_expired_ok(1-4) _ ex_expired_ok(5) auth pool _ _ _ run pool(2), where d' = ?d' and
      env_h' = "ex_env 2001" and info' = ?b]
  show ?thesis using run
    by (auto simp: bal ex_ap_cfg_def ex_ap_bals_def ex_two_splits_def om_get_def ex_split_def om_contains_def ex_party_a_def)
qed

end
