(* ===== verification/Destination.thy ===== *)
theory Destination
  imports Covenant_Utils Ordered_Map
begin

text \<open>
  Routing over IBC (\<open>packages/covenant-utils\<close>): the destination configuration and the transfer
  messages it generates (\<open>lib.rs\<close>), the IBC fee helpers (\<open>neutron.rs\<close>) and the parties of a
  covenant (\<open>lib.rs\<close>). A transfer of the chain's own token keeps back a reserve for the fees
  of the whole batch.
\<close>

section \<open>Fees\<close>

definition sum_coins :: "u128 \<Rightarrow> coin list \<Rightarrow> (u128, std_error) result" where
  "sum_coins z cs = try_fold (\<lambda>total c. add_or_panic total (coin_amount c)) z cs"

definition flatten_ibc_fee_total_amount :: "ibc_fee \<Rightarrow> (u128, std_error) result" where
  "flatten_ibc_fee_total_amount fee =
     and_then (sum_coins 0 (recv_fee fee)) (\<lambda>t1.
     and_then (sum_coins t1 (ack_fee fee)) (\<lambda>t2.
       sum_coins t2 (timeout_fee fee)))"

record min_ibc_fee_config =
  fee_config_fee :: ibc_fee
  total_ntrn_fee :: u128

definition query_ibc_fee :: "deps \<Rightarrow> (min_ibc_fee_config, std_error) result" where
  "query_ibc_fee d =
     and_then (query_min_ibc_fee d) (\<lambda>min_fee.
     and_then (flatten_ibc_fee_total_amount min_fee) (\<lambda>total.
       Ok \<lparr>fee_config_fee = min_fee, total_ntrn_fee = total\<rparr>))"

definition assert_ibc_fee_coverage ::
    "deps \<Rightarrow> message_info \<Rightarrow> u128 \<Rightarrow> u128 \<Rightarrow> (unit, std_error) result" where
  "assert_ibc_fee_coverage d info total_fee count =
     (case must_pay d info ''untrn'' of
        Ok amt \<Rightarrow>
          and_then (checked_mul Overflow total_fee count) (\<lambda>required.
            if amt < required then Err (GenericErr ''insufficient fees'') else Ok ())
      | Err _ \<Rightarrow> Err (GenericErr ''must cover ibc fees to distribute fallback denoms'')
      | Panic \<Rightarrow> Panic)"

definition get_default_ica_fee :: coin where
  "get_default_ica_fee = \<lparr>coin_denom = ''untrn'', coin_amount = 1000000\<rparr>"

section \<open>Destinations\<close>

record pfm_config =
  local_to_hop_channel :: string
  hop_to_destination_channel :: string
  hop_chain_receiver :: string

record destination_config =
  local_to_destination_channel :: string
  destination_receiver :: string
  ibc_transfer_timeout :: u64
  denom_to_pfm_map :: "(denom, pfm_config) omap"

text \<open>\<open>Timestamp::plus_seconds\<close> in nanoseconds; it panics when the sum leaves 64 bits.\<close>

definition plus_seconds :: "u64 \<Rightarrow> u64 \<Rightarrow> (u64, std_error) result" where
  "plus_seconds t s = and_then (mul_or_panic s 1000000000) (\<lambda>n. add_or_panic t n)"

text \<open>The coin to send: the whole coin, or what exceeds the fee reserve of the native token.\<close>

definition send_coin :: "u128 \<Rightarrow> u128 \<Rightarrow> coin \<Rightarrow> (coin option, std_error) result" where
  "send_coin count total_fee c =
     (if coin_denom c \<noteq> ''untrn'' then Ok (Some c)
      else
        and_then (mul_or_panic count total_fee) (\<lambda>reserve_amount.
          if coin_amount c > reserve_amount
          then and_then (sub_or_panic (coin_amount c) reserve_amount) (\<lambda>rest.
                 Ok (Some \<lparr>coin_denom = coin_denom c, coin_amount = rest\<rparr>))
          else Ok None))"

definition transfer_for_coin ::
    "destination_config \<Rightarrow> u64 \<Rightarrow> addr \<Rightarrow> ibc_fee \<Rightarrow> coin \<Rightarrow> (cosmos_msg, std_error) result" where
  "transfer_for_coin cfg ts sndr fee c =
     and_then (plus_seconds ts (ibc_transfer_timeout cfg)) (\<lambda>timeout.
       Ok (IbcTransfer
         (case om_get (denom_to_pfm_map cfg) (coin_denom c) of
            Some pfm \<Rightarrow>
              \<lparr>source_port = ''transfer'', source_channel = local_to_hop_channel pfm, token = c,
               transfer_sender = sndr, transfer_receiver = hop_chain_receiver pfm,
               timeout_timestamp = timeout,
               transfer_memo = MemoForward (destination_receiver cfg) ''transfer'' (hop_to_destination_channel pfm),
               transfer_fee = fee\<rparr>
          | None \<Rightarrow>
              \<lparr>source_port = ''transfer'', source_channel = local_to_destination_channel cfg, token = c,
               transfer_sender = sndr, transfer_receiver = destination_receiver cfg,
               timeout_timestamp = timeout, transfer_memo = MemoDistribution (coin_denom c) (coin_amount c),
               transfer_fee = fee\<rparr>)))"

definition push_transfer ::
    "destination_config \<Rightarrow> u64 \<Rightarrow> addr \<Rightarrow> ibc_fee \<Rightarrow> u128 \<Rightarrow> u128 \<Rightarrow> cosmos_msg list \<Rightarrow> coin
     \<Rightarrow> (cosmos_msg list, std_error) result" where
  "push_transfer cfg ts sndr fee count total_fee msgs c =
     and_then (send_coin count total_fee c) (\<lambda>sc.
       case sc of
         Some c' \<Rightarrow> and_then (transfer_for_coin cfg ts sndr fee c') (\<lambda>m. Ok (msgs @ [m]))
       | None \<Rightarrow> Ok msgs)"

definition get_ibc_transfer_messages_for_coins ::
    "destination_config \<Rightarrow> coin list \<Rightarrow> u64 \<Rightarrow> addr \<Rightarrow> ibc_fee \<Rightarrow> (cosmos_msg list, std_error) result" where
  "get_ibc_transfer_messages_for_coins cfg coins ts sndr fee =
     and_then (flatten_ibc_fee_total_amount fee) (\<lambda>total_fee.
       try_fold (push_transfer cfg ts sndr fee (of_nat (1 + length coins)) total_fee) [] coins)"

section \<open>Parties\<close>

datatype receiver_config = NativeReceiver string | IbcReceiver destination_config

record covenant_party =
  party_addr :: string
  native_denom :: denom
  receiver_cfg :: receiver_config

record covenant_parties_config =
  cp_party_a :: covenant_party
  cp_party_b :: covenant_party

definition validate_receiver_address :: "deps \<Rightarrow> covenant_party \<Rightarrow> (addr, std_error) result" where
  "validate_receiver_address d p =
     (case receiver_cfg p of
        NativeReceiver a \<Rightarrow> addr_validate d a
      | IbcReceiver dc \<Rightarrow>
          and_then (soft_validate_remote_chain_addr d (destination_receiver dc)) (\<lambda>_.
            Ok (destination_receiver dc)))"

definition match_caller_party :: "covenant_parties_config \<Rightarrow> string \<Rightarrow> (covenant_party, std_error) result" where
  "match_caller_party c caller =
     (if party_addr (cp_party_a c) = caller then Ok (cp_party_a c)
      else if party_addr (cp_party_b c) = caller then Ok (cp_party_b c)
      else Err (GenericErr ''unauthorized''))"

definition validate_party_addresses :: "deps \<Rightarrow> covenant_parties_config \<Rightarrow> (unit, std_error) result" where
  "validate_party_addresses d c =
     and_then (validate_receiver_address d (cp_party_a c)) (\<lambda>_.
     and_then (validate_receiver_address d (cp_party_b c)) (\<lambda>_. Ok ()))"

record swap_covenant_terms =
  party_a_amount :: u128
  party_b_amount :: u128

datatype covenant_terms = TokenSwap swap_covenant_terms

section \<open>What is transferred\<close>

definition ibc_out :: "denom \<Rightarrow> cosmos_msg list \<Rightarrow> nat" where
  "ibc_out dn ms = (\<Sum>m\<leftarrow>ms. case m of IbcTransfer t \<Rightarrow> coins_in dn [token t] | _ \<Rightarrow> 0)"

definition fee_total :: "ibc_fee \<Rightarrow> nat" where
  "fee_total fee = (\<Sum>c\<leftarrow>recv_fee fee @ ack_fee fee @ timeout_fee fee. unat (coin_amount c))"

lemma sum_coins_Ok: "sum_coins z cs = Ok t \<Longrightarrow> unat t = unat z + (\<Sum>c\<leftarrow>cs. unat (coin_amount c))"
  unfolding sum_coins_def
  by (induction cs arbitrary: z) (auto simp: result_simps arith_simps)

lemma flatten_Ok: "flatten_ibc_fee_total_amount fee = Ok t \<Longrightarrow> unat t = fee_total fee"
  by (auto simp: flatten_ibc_fee_total_amount_def result_simps fee_total_def dest!: sum_coins_Ok)

lemma ibc_out_simps [simp]:
  "ibc_out dn [] = 0"
  "ibc_out dn (ms @ ns) = ibc_out dn ms + ibc_out dn ns"
  "ibc_out dn [IbcTransfer t] = coins_in dn [token t]"
  by (simp_all add: ibc_out_def)

lemma send_coin_cases:
  assumes "send_coin n tf c = Ok sc"
  shows "if coin_denom c \<noteq> ''untrn'' then sc = Some c
    else if unat (coin_amount c) \<le> unat n * unat tf then sc = None
    else \<exists>c'. sc = Some c' \<and> coin_denom c' = ''untrn'' \<and> unat (coin_amount c') = unat (coin_amount c) - unat n * unat tf"
  using assms by (auto simp: send_coin_def result_simps arith_simps word_less_unat split: if_splits)

text \<open>A transfer towards the destination, directly or through the configured hop.\<close>

definition routed_to :: "destination_config \<Rightarrow> addr \<Rightarrow> ibc_fee \<Rightarrow> cosmos_msg \<Rightarrow> bool" where
  "routed_to cfg sndr fee m \<longleftrightarrow>
     (case m of
        IbcTransfer t \<Rightarrow> transfer_sender t = sndr \<and> transfer_fee t = fee \<and>
          (case om_get (denom_to_pfm_map cfg) (coin_denom (token t)) of
             None \<Rightarrow> source_channel t = local_to_destination_channel cfg \<and>
               transfer_receiver t = destination_receiver cfg
           | Some pfm \<Rightarrow> source_channel t = local_to_hop_channel pfm \<and>
               transfer_receiver t = hop_chain_receiver pfm \<and>
               transfer_memo t = MemoForward (destination_receiver cfg) ''transfer'' (hop_to_destination_channel pfm))
      | _ \<Rightarrow> False)"

lemma transfer_for_coin_Ok:
  assumes "transfer_for_coin cfg ts sndr fee c = Ok m"
  shows "ibc_out dn [m] = coins_in dn [c]" and "routed_to cfg sndr fee m"
proof -
  from assms obtain t where "m = IbcTransfer t" "token t = c" "routed_to cfg sndr fee (IbcTransfer t)"
    by (auto simp: transfer_for_coin_def result_simps routed_to_def split: option.splits)
  then show "ibc_out dn [m] = coins_in dn [c]" "routed_to cfg sndr fee m" by simp_all
qed

text \<open>What a batch sends in total: everything, less the reserve for each coin of the native token.\<close>

definition batch_due :: "nat \<Rightarrow> denom \<Rightarrow> coin list \<Rightarrow> nat" where
  "batch_due reserve dn coins =
     (\<Sum>c\<leftarrow>coins. if coin_denom c = dn
        then (if dn = ''untrn'' then unat (coin_amount c) - reserve else unat (coin_amount c)) else 0)"

lemma push_transfer_Ok:
  assumes "push_transfer cfg ts sndr fee n tf acc c = Ok acc'"
  shows "\<exists>new. acc' = acc @ new \<and> length new \<le> 1 \<and> (\<forall>m\<in>set new. routed_to cfg sndr fee m) \<and>
    (\<forall>dn. ibc_out dn new = batch_due (unat n * unat tf) dn [c])"
proof -
  from assms obtain sc where sc: "send_coin n tf c = Ok sc" "(case sc of
         Some c' \<Rightarrow> and_then (transfer_for_coin cfg ts sndr fee c') (\<lambda>m. Ok (acc @ [m])) | None \<Rightarrow> Ok acc) = Ok acc'"
    by (auto simp: push_transfer_def result_simps)
  from send_coin_cases [OF sc(1)]
  have due: "batch_due (unat n * unat tf) dn [c] = (case sc of None \<Rightarrow> 0 | Some c' \<Rightarrow> coins_in dn [c'])" for dn
    by (auto simp: batch_due_def split: if_splits)
  show ?thesis
  proof (cases sc)
    case None
    with sc(2) due show ?thesis by simp
  next
    case (Some c')
    with sc(2) obtain m where m: "transfer_for_coin cfg ts sndr fee c' = Ok m" "acc' = acc @ [m]"
      by (auto simp: result_simps)
    with transfer_for_coin_Ok [OF m(1)] due Some show ?thesis by auto
  qed
qed

lemma push_fold_Ok:
  assumes "try_fold (push_transfer cfg ts sndr fee n tf) acc coins = Ok ms"
  shows "\<exists>new. ms = acc @ new \<and> length new \<le> length coins \<and> (\<forall>m\<in>set new. routed_to cfg sndr fee m) \<and>
    (\<forall>dn. ibc_out dn new = batch_due (unat n * unat tf) dn coins)"
  using assms
proof (induction coins arbitrary: acc)
  case Nil
  then show ?case by (simp add: batch_due_def)
next
  case (Cons c coins)
  from Cons.prems obtain acc' where p: "push_transfer cfg ts sndr fee n tf acc c = Ok acc'"
    and rest: "try_fold (push_transfer cfg ts sndr fee n tf) acc' coins = Ok ms"
    by (auto simp: result_simps)
  from push_transfer_Ok [OF p] obtain n1 where n1: "acc' = acc @ n1" "length n1 \<le> 1"
    "\<forall>m\<in>set n1. routed_to cfg sndr fee m" "\<And>dn. ibc_out dn n1 = batch_due (unat n * unat tf) dn [c]" by blast
  from Cons.IH [OF rest] obtain n2 where n2: "ms = acc' @ n2" "length n2 \<le> length coins"
    "\<forall>m\<in>set n2. routed_to cfg sndr fee m" "\<And>dn. ibc_out dn n2 = batch_due (unat n * unat tf) dn coins" by blast
  have "batch_due R dn (c # coins) = batch_due R dn [c] + batch_due R dn coins" for R dn
    by (simp add: batch_due_def)
  with n1 n2 show ?case by (intro exI [of _ "n1 @ n2"]) auto
qed

lemma batch_due_simps:
  "batch_due r dn [] = 0"
  "batch_due r dn (c # cs) = (if coin_denom c = dn
     then (if dn = ''untrn'' then unat (coin_amount c) - r else unat (coin_amount c)) else 0) + batch_due r dn cs"
  by (simp_all add: batch_due_def)

lemma batch_due_other: "dn \<noteq> ''untrn'' \<Longrightarrow> batch_due r dn coins = coins_in dn coins"
  by (induction coins) (auto simp: batch_due_simps)

lemma batch_due_reserve:
  "batch_due r ''untrn'' coins = 0 \<or> batch_due r ''untrn'' coins + r \<le> coins_in ''untrn'' coins"
  by (induction coins) (auto simp: batch_due_simps)

lemma ibc_batch_reserves:
  assumes "get_ibc_transfer_messages_for_coins cfg coins ts sndr fee = Ok ms" and "length coins < 2 ^ 64"
  shows "(\<forall>m\<in>set ms. routed_to cfg sndr fee m) \<and>
    (\<forall>dn. dn \<noteq> ''untrn'' \<longrightarrow> ibc_out dn ms = coins_in dn coins) \<and>
    (0 < ibc_out ''untrn'' ms \<longrightarrow>
      ibc_out ''untrn'' ms + length ms * fee_total fee \<le> coins_in ''untrn'' coins)"
proof -
  from assms(1) obtain tf where tf: "flatten_ibc_fee_total_amount fee = Ok tf"
    "try_fold (push_transfer cfg ts sndr fee (of_nat (1 + length coins)) tf) [] coins = Ok ms"
    by (auto simp: get_ibc_transfer_messages_for_coins_def result_simps)
  let ?r = "unat (of_nat (1 + length coins) :: u128) * unat tf"
  from assms(2) have "unat (of_nat (1 + length coins) :: u128) = 1 + length coins"
    by (simp only: unat_of_nat) simp
  then have r: "?r = (1 + length coins) * fee_total fee" by (simp only: flatten_Ok [OF tf(1)])
  from push_fold_Ok [OF tf(2)] have ms: "length ms \<le> length coins" "\<forall>m\<in>set ms. routed_to cfg sndr fee m"
    "\<And>dn. ibc_out dn ms = batch_due ?r dn coins" by auto
  from ms(1) have "length ms * fee_total fee \<le> ?r" unfolding r by (intro mult_le_mono1) simp
  with batch_due_reserve [of ?r coins] batch_due_other [of _ ?r coins] ms(2,3) show ?thesis by fastforce
qed


definition ex_destination :: destination_config where
  "ex_destination = \<lparr>local_to_destination_channel = ''channel-1'', destination_receiver = ''cosmos1xyz'',
     ibc_transfer_timeout = 10,
     denom_to_pfm_map = [(''ibc/osmo'', \<lparr>local_to_hop_channel = ''channel-2'',
       hop_to_destination_channel = ''channel-3'', hop_chain_receiver = ''osmo1xyz''\<rparr>)]\<rparr>"

definition ex_fee :: ibc_fee where
  "ex_fee = \<lparr>recv_fee = [], ack_fee = [\<lparr>coin_denom = ''untrn'', coin_amount = 100\<rparr>],
     timeout_fee = [\<lparr>coin_denom = ''untrn'', coin_amount = 100\<rparr>]\<rparr>"


end
