(* ===== verification/Swap_Holder.thy ===== *)
theory Swap_Holder
  imports Destination Transactions
begin

text \<open>
  The holder of a swap covenant (\<open>contracts/swap-holder\<close>): it waits until both parties have
  deposited their side, then forwards both balances together to the splitter and is done;
  if the lockup passes first, it refunds whatever it holds.
\<close>

section \<open>State and messages\<close>

datatype sw_error =
    SwStd std_error
  | SwUnauthorized
  | SwNoWithdrawerError
  | SwInsufficientFunds
  | SwUnexpectedReplyId

datatype sw_contract_state = SwInstantiated | SwExpired | SwComplete

record refund_config =
  party_a_refund_address :: string
  party_b_refund_address :: string

record sw_state =
  sw_contract_state :: "sw_contract_state option"
  sw_clock :: "addr option"
  sw_next_contract :: "addr option"
  sw_parties :: "covenant_parties_config option"
  sw_lockup :: "expiration option"
  sw_terms :: "covenant_terms option"
  sw_refund :: "refund_config option"

record sw_instantiate_msg =
  swi_clock :: string
  swi_next_contract :: string
  swi_lockup :: expiration
  swi_parties :: covenant_parties_config
  swi_terms :: covenant_terms
  swi_refund :: refund_config

datatype sw_execute_msg = SwTick

datatype sw_query_msg =
    SwQNextContract | SwQLockupConfig | SwQCovenantParties | SwQCovenantTerms | SwQClockAddress
  | SwQContractState | SwQDepositAddress | SwQRefundConfig

datatype sw_query_reply =
    SwRAddr "addr option" | SwRExpiration "expiration option" | SwRParties "covenant_parties_config option"
  | SwRTerms "covenant_terms option" | SwRState "sw_contract_state option" | SwRRefund "refund_config option"

record sw_update_config =
  swu_clock :: "string option"
  swu_next_contract :: "string option"
  swu_lockup :: "expiration option"
  swu_parties :: "covenant_parties_config option"
  swu_terms :: "covenant_terms option"
  swu_refund :: "refund_config option"

datatype sw_migrate_msg = SwUpdateConfig sw_update_config | SwUpdateCodeId

section \<open>Entry points\<close>

definition sw_instantiate ::
    "deps \<Rightarrow> env \<Rightarrow> sw_instantiate_msg \<Rightarrow> (response \<times> sw_state, sw_error) result" where
  "sw_instantiate d env msg =
     and_then (map_err SwStd (addr_validate d (swi_next_contract msg))) (\<lambda>next_contract.
     and_then (map_err SwStd (addr_validate d (swi_clock msg))) (\<lambda>clock_addr.
     and_then (map_err SwStd (validate_party_addresses d (swi_parties msg))) (\<lambda>_.
     if is_expired d (swi_lockup msg) (env_block env) then Err (SwStd (GenericErr ''past lockup config''))
     else
       and_then (map_err SwStd (addr_validate d (party_a_refund_address (swi_refund msg)))) (\<lambda>_.
       and_then (map_err SwStd (addr_validate d (party_b_refund_address (swi_refund msg)))) (\<lambda>_.
       and_then (map_err SwStd (enqueue_msg clock_addr)) (\<lambda>enqueue.
         Ok (resp [enqueue],
             \<lparr>sw_contract_state = Some SwInstantiated, sw_clock = Some clock_addr,
              sw_next_contract = Some next_contract, sw_parties = Some (swi_parties msg),
              sw_lockup = Some (swi_lockup msg), sw_terms = Some (swi_terms msg),
              sw_refund = Some (swi_refund msg)\<rparr>)))))))"

definition sw_try_refund :: "deps \<Rightarrow> env \<Rightarrow> sw_state \<Rightarrow> (response \<times> sw_state, sw_error) result" where
  "sw_try_refund d env st =
     and_then (map_err SwStd (load (sw_parties st))) (\<lambda>parties.
     and_then (map_err SwStd (load (sw_refund st))) (\<lambda>refund.
     and_then (map_err SwStd (query_balance d (contract_address env) (native_denom (cp_party_a parties)))) (\<lambda>party_a_bal.
     and_then (map_err SwStd (query_balance d (contract_address env) (native_denom (cp_party_b parties)))) (\<lambda>party_b_bal.
       Ok (resp
         (case (coin_amount party_a_bal = 0, coin_amount party_b_bal = 0) of
            (True, True) \<Rightarrow> []
          | (True, False) \<Rightarrow> [BankSend (party_b_refund_address refund) [party_b_bal]]
          | (False, True) \<Rightarrow> [BankSend (party_a_refund_address refund) [party_a_bal]]
          | (False, False) \<Rightarrow> [BankSend (party_a_refund_address refund) [party_a_bal],
                              BankSend (party_b_refund_address refund) [party_b_bal]]), st)))))"

definition sw_complete_and_dequeue :: "addr \<Rightarrow> sw_state \<Rightarrow> (cosmos_msg \<times> sw_state, std_error) result" where
  "sw_complete_and_dequeue clock_addr st =
     and_then (dequeue_msg clock_addr) (\<lambda>m. Ok (m, st\<lparr>sw_contract_state := Some SwComplete\<rparr>))"

text \<open>The balances that count: a side below its term is set to zero; the second is only
  looked at when the first one is sufficient.\<close>

definition swap_amounts :: "swap_covenant_terms \<Rightarrow> coin \<Rightarrow> coin \<Rightarrow> coin \<times> coin" where
  "swap_amounts terms a b =
     (if coin_amount a < party_a_amount terms then (a\<lparr>coin_amount := 0\<rparr>, b)
      else if coin_amount b < party_b_amount terms then (a, b\<lparr>coin_amount := 0\<rparr>)
      else (a, b))"

definition sw_try_forward :: "deps \<Rightarrow> env \<Rightarrow> addr \<Rightarrow> sw_state \<Rightarrow> (response \<times> sw_state, sw_error) result" where
  "sw_try_forward d env clock_addr st =
     and_then (map_err SwStd (load (sw_lockup st))) (\<lambda>lockup.
     if is_expired d lockup (env_block env) then Ok (resp [], st\<lparr>sw_contract_state := Some SwExpired\<rparr>)
     else
       and_then (map_err SwStd (load (sw_parties st))) (\<lambda>parties.
       and_then (map_err SwStd (load (sw_terms st))) (\<lambda>terms.
       case terms of TokenSwap covenant_terms \<Rightarrow>
       and_then (map_err SwStd (query_balance d (contract_address env) (native_denom (cp_party_a parties)))) (\<lambda>a_coin.
       and_then (map_err SwStd (query_balance d (contract_address env) (native_denom (cp_party_b parties)))) (\<lambda>b_coin.
       case swap_amounts covenant_terms a_coin b_coin of (party_a_coin, party_b_coin) \<Rightarrow>
       if coin_amount party_a_coin = 0 \<or> coin_amount party_b_coin = 0 then Err SwInsufficientFunds
       else
         and_then (map_err SwStd (load (sw_next_contract st))) (\<lambda>next_contract.
         and_then (map_err SwStd (query_deposit_address d next_contract)) (\<lambda>deposit.
         case deposit of
           None \<Rightarrow> Err (SwStd (NotFound ''Next contract is not ready for receiving the funds yet''))
         | Some deposit_address \<Rightarrow>
             and_then (map_err SwStd (sw_complete_and_dequeue clock_addr st)) (\<lambda>(dequeue, st').
               Ok (resp [BankSend deposit_address [party_a_coin, party_b_coin], dequeue], st')))))))))"

definition sw_try_tick :: "deps \<Rightarrow> env \<Rightarrow> message_info \<Rightarrow> sw_state \<Rightarrow> (response \<times> sw_state, sw_error) result" where
  "sw_try_tick d env info st =
     and_then (map_err SwStd (load (sw_clock st))) (\<lambda>clock_addr.
     and_then (map_err SwStd (verify_clock (sender info) clock_addr)) (\<lambda>_.
     and_then (map_err SwStd (load (sw_contract_state st))) (\<lambda>current_state.
       case current_state of
         SwInstantiated \<Rightarrow> sw_try_forward d env (sender info) st
       | SwExpired \<Rightarrow> sw_try_refund d env st
       | SwComplete \<Rightarrow> Ok (resp [], st))))"

definition sw_execute ::
    "deps \<Rightarrow> env \<Rightarrow> message_info \<Rightarrow> sw_execute_msg \<Rightarrow> sw_state \<Rightarrow> (response \<times> sw_state, sw_error) result" where
  "sw_execute d env info msg st = (case msg of SwTick \<Rightarrow> sw_try_tick d env info st)"

definition sw_query :: "env \<Rightarrow> sw_query_msg \<Rightarrow> sw_state \<Rightarrow> (sw_query_reply, std_error) result" where
  "sw_query env msg st =
     (case msg of
        SwQNextContract \<Rightarrow> Ok (SwRAddr (sw_next_contract st))
      | SwQLockupConfig \<Rightarrow> Ok (SwRExpiration (sw_lockup st))
      | SwQCovenantParties \<Rightarrow> Ok (SwRParties (sw_parties st))
      | SwQCovenantTerms \<Rightarrow> Ok (SwRTerms (sw_terms st))
      | SwQClockAddress \<Rightarrow> Ok (SwRAddr (sw_clock st))
      | SwQContractState \<Rightarrow> Ok (SwRState (sw_contract_state st))
      | SwQDepositAddress \<Rightarrow> Ok (SwRAddr (Some (contract_address env)))
      | SwQRefundConfig \<Rightarrow> Ok (SwRRefund (sw_refund st)))"

definition sw_migrate ::
    "deps \<Rightarrow> env \<Rightarrow> sw_migrate_msg \<Rightarrow> sw_state \<Rightarrow> (response \<times> sw_state, std_error) result" where
  "sw_migrate d env msg st =
     (case msg of
        SwUpdateConfig u \<Rightarrow>
          and_then (upd_field (\<lambda>a st. and_then (addr_validate d a) (\<lambda>v.
                      Ok (st\<lparr>sw_clock := Some v\<rparr>))) (swu_clock u) st) (\<lambda>st.
          and_then (upd_field (\<lambda>a st. and_then (addr_validate d a) (\<lambda>v.
                      Ok (st\<lparr>sw_next_contract := Some v\<rparr>))) (swu_next_contract u) st) (\<lambda>st.
          and_then (upd_field (\<lambda>e st. if is_expired d e (env_block env)
                      then Err (GenericErr ''lockup config is already past'')
                      else Ok (st\<lparr>sw_lockup := Some e\<rparr>)) (swu_lockup u) st) (\<lambda>st.
          and_then (upd_field (\<lambda>c st. Ok (st\<lparr>sw_parties := Some c\<rparr>)) (swu_parties u) st) (\<lambda>st.
          and_then (upd_field (\<lambda>c st. Ok (st\<lparr>sw_terms := Some c\<rparr>)) (swu_terms u) st) (\<lambda>st.
          and_then (upd_field (\<lambda>c st.
                      and_then (addr_validate d (party_a_refund_address c)) (\<lambda>_.
                      and_then (addr_validate d (party_b_refund_address c)) (\<lambda>_.
                        Ok (st\<lparr>sw_refund := Some c\<rparr>)))) (swu_refund u) st) (\<lambda>st.
            Ok (resp [], st)))))))
      | SwUpdateCodeId \<Rightarrow> Ok (resp [], st))"

section \<open>Histories\<close>

datatype sw_call = SwExec env message_info sw_execute_msg | SwMigrate env sw_migrate_msg

fun sw_handle :: "deps \<Rightarrow> sw_call \<Rightarrow> sw_state \<Rightarrow> (response \<times> sw_state, sw_error) result" where
  "sw_handle d (SwExec env info msg) st = sw_execute d env info msg st"
| "sw_handle d (SwMigrate env msg) st = map_err SwStd (sw_migrate d env msg st)"

text \<open>The two outcomes of a swap; an instantiated covenant can still become either.\<close>

fun sw_leads :: "sw_contract_state option \<Rightarrow> sw_contract_state option \<Rightarrow> bool" where
  "sw_leads (Some SwInstantiated) q = (q \<noteq> None)"
| "sw_leads p q = (q = p)"

definition sw_set :: "sw_state \<Rightarrow> bool" where
  "sw_set st \<longleftrightarrow> sw_contract_state st \<noteq> None \<and> sw_clock st \<noteq> None \<and> sw_next_contract st \<noteq> None \<and>
     sw_parties st \<noteq> None \<and> sw_lockup st \<noteq> None \<and> sw_terms st \<noteq> None \<and> sw_refund st \<noteq> None"

lemma sw_forward_cases:
  assumes "sw_try_forward d env a st = Ok (r, st')"
  shows "(\<exists>e. sw_lockup st = Some e \<and> is_expired d e (env_block env) \<and> messages r = [] \<and>
      st' = st\<lparr>sw_contract_state := Some SwExpired\<rparr>) \<or>
    (\<exists>parties terms a_coin b_coin next_contract dest. sw_parties st = Some parties \<and> sw_terms st = Some (TokenSwap terms) \<and>
      query_balance d (contract_address env) (native_denom (cp_party_a parties)) = Ok a_coin \<and>
      query_balance d (contract_address env) (native_denom (cp_party_b parties)) = Ok b_coin \<and>
      party_a_amount terms \<le> coin_amount a_coin \<and> party_b_amount terms \<le> coin_amount b_coin \<and>
      coin_amount a_coin \<noteq> 0 \<and> coin_amount b_coin \<noteq> 0 \<and>
      sw_next_contract st = Some next_contract \<and> query_deposit_address d next_contract = Ok (Some dest) \<and>
      messages r = [BankSend dest [a_coin, b_coin], WasmExecute a DequeueMsg []] \<and>
      st' = st\<lparr>sw_contract_state := Some SwComplete\<rparr>)"
proof -
  from assms obtain e where e: "sw_lockup st = Some e" by (auto simp: sw_try_forward_def result_simps)
  show ?thesis
  proof (cases "is_expired d e (env_block env)")
    case True
    with assms e show ?thesis by (auto simp: sw_try_forward_def)
  next
    case False
    with assms e obtain parties ct where c: "sw_parties st = Some parties" "sw_terms st = Some ct"
      by (auto simp: sw_try_forward_def result_simps)
    obtain terms where t: "ct = TokenSwap terms" by (cases ct)
    from assms e False c t obtain x y where b:
      "query_balance d (contract_address env) (native_denom (cp_party_a parties)) = Ok x"
      "query_balance d (contract_address env) (native_denom (cp_party_b parties)) = Ok y"
      by (auto simp: sw_try_forward_def result_simps)
    have ok: "party_a_amount terms \<le> coin_amount x" "party_b_amount terms \<le> coin_amount y"
      "coin_amount x \<noteq> 0" "coin_amount y \<noteq> 0"
      using assms e False c t b by (auto simp: sw_try_forward_def swap_amounts_def not_less split: if_splits)
    then have "swap_amounts terms x y = (x, y)" by (simp add: swap_amounts_def not_less)
    with assms e False c t b ok obtain nc dest where
      "sw_next_contract st = Some nc" "query_deposit_address d nc = Ok (Some dest)"
      "messages r = [BankSend dest [x, y], WasmExecute a DequeueMsg []]" "st' = st\<lparr>sw_contract_state := Some SwComplete\<rparr>"
      by (auto simp: sw_try_forward_def result_simps sw_complete_and_dequeue_def dequeue_msg_def split: option.splits)
    with c t b ok show ?thesis by auto
  qed
qed

lemma sw_leads_refl: "sw_leads p p"
  by (cases "(p, p)" rule: sw_leads.cases) auto

lemma sw_tick_step:
  assumes "sw_try_tick d env info st = Ok (r, st')"
  shows "sw_leads (sw_contract_state st) (sw_contract_state st')" and "sw_set st \<Longrightarrow> sw_set st'"
proof -
  from assms obtain ph where ph: "sw_contract_state st = Some ph" by (auto simp: sw_try_tick_def result_simps)
  have "sw_leads (sw_contract_state st) (sw_contract_state st') \<and> (sw_set st \<longrightarrow> sw_set st')"
  proof (cases ph)
    case SwInstantiated
    with assms ph have "sw_try_forward d env (sender info) st = Ok (r, st')"
      by (auto simp: sw_try_tick_def result_simps)
    from sw_forward_cases [OF this] SwInstantiated ph show ?thesis by (auto simp: sw_set_def)
  qed (use assms ph in \<open>auto simp: sw_try_tick_def sw_try_refund_def result_simps\<close>)
  then show "sw_leads (sw_contract_state st) (sw_contract_state st')" "sw_set st \<Longrightarrow> sw_set st'" by auto
qed

definition sw_kept :: "sw_state \<Rightarrow> sw_state \<Rightarrow> bool" where
  "sw_kept a b \<longleftrightarrow> sw_contract_state b = sw_contract_state a \<and> (sw_set a \<longrightarrow> sw_set b)"

lemma sw_kept_chain:
  assumes "and_then (upd_field f v st) k = Ok (r, st')"
    and "\<And>s. k s = Ok (r, st') \<Longrightarrow> sw_kept s st'"
    and "\<And>x s. v = Some x \<Longrightarrow> f x st = Ok s \<Longrightarrow> sw_kept st s"
  shows "sw_kept st st'"
  using assms by (rule upd_field_chain [where R = sw_kept]) (auto simp: sw_kept_def)

lemma sw_migrate_keeps:
  assumes "sw_migrate d env msg st = Ok (r, st')"
  shows "sw_kept st st'"
proof (cases msg)
  case (SwUpdateConfig u)
  with assms show ?thesis
    unfolding SwUpdateConfig sw_migrate_def sw_migrate_msg.case
    by (elim sw_kept_chain) (auto simp: sw_kept_def sw_set_def result_simps split: if_splits)
qed (use assms in \<open>simp add: sw_migrate_def sw_kept_def\<close>)

interpretation sw: contract_phases "sw_handle d" "\<lambda>_. True" sw_set sw_contract_state sw_leads for d
proof
  fix c st r st'
  assume st: "sw_set st" "sw_handle d c st = Ok (r, st')"
  have "sw_set st' \<and> sw_leads (sw_contract_state st) (sw_contract_state st')"
  proof (cases c)
    case (SwExec env info msg)
    with st show ?thesis by (cases msg) (auto simp: sw_execute_def dest: sw_tick_step)
  next
    case (SwMigrate env msg)
    with st sw_migrate_keeps [of d env msg st r st'] show ?thesis
      by (auto simp: result_simps sw_kept_def sw_leads_refl)
  qed
  then show "sw_set st'" "sw_leads (sw_contract_state st) (sw_contract_state st')" by auto
next
  show "sw_leads p p" for p by (rule sw_leads_refl)
  show "sw_leads p q \<Longrightarrow> sw_leads q q' \<Longrightarrow> sw_leads p q'" for p q q'
    by (cases "(p, q)" rule: sw_leads.cases; cases "(q, q')" rule: sw_leads.cases) auto
qed

section \<open>Properties\<close>

lemma sw_instantiate_set:
  "sw_instantiate d env msg = Ok (r, st) \<Longrightarrow> sw_set st \<and> sw_contract_state st = Some SwInstantiated"
  by (auto simp: sw_instantiate_def result_simps sw_set_def split: if_splits)

text \<open>
  A swap has exactly one outcome. Whatever calls and migrations follow, a holder that
  has expired never completes and one that has completed never expires, so no history both
  forwards the swap and refunds the deposits.
\<close>

theorem sw_outcome_is_final:
  assumes "sw_instantiate d env msg = Ok (r, st)"
    and "sw_contract_state (run_calls (sw_handle d) st cs) = Some ph" and "ph \<noteq> SwInstantiated"
  shows "sw_contract_state (run_calls (sw_handle d) st (cs @ cs')) = Some ph"
proof -
  have set: "sw_set (run_calls (sw_handle d) st cs)"
    using sw.inv_run [of cs st d] sw_instantiate_set [OF assms(1)] by (simp add: list_all_iff)
  have "sw_leads (Some ph) q \<Longrightarrow> q = Some ph" for q using assms(3) by (cases ph) auto
  from sw.final_phase_run [OF this _ set assms(2), of cs' d] show ?thesis
    by (simp add: run_calls_append list_all_iff)
qed

definition ex_swap_parties :: covenant_parties_config where
  "ex_swap_parties =
     \<lparr>cp_party_a = \<lparr>party_addr = ''a'', native_denom = ''uatom'', receiver_cfg = NativeReceiver ''ra''\<rparr>,
      cp_party_b = \<lparr>party_addr = ''b'', native_denom = ''uosmo'', receiver_cfg = NativeReceiver ''rb''\<rparr>\<rparr>"

definition ex_swap_terms :: swap_covenant_terms where
  "ex_swap_terms = \<lparr>party_a_amount = 10, party_b_amount = 20\<rparr>"

definition ex_sw_msg :: sw_instantiate_msg where
  "ex_sw_msg = \<lparr>swi_clock = ''clock'', swi_next_contract = ''splitter'', swi_lockup = AtHeight 100,
     swi_parties = ex_swap_parties, swi_terms = TokenSwap ex_swap_terms,
     swi_refund = \<lparr>party_a_refund_address = ''refund_a'', party_b_refund_address = ''refund_b''\<rparr>\<rparr>"

definition ex_sw_state :: sw_state where
  "ex_sw_state = \<lparr>sw_contract_state = Some SwInstantiated, sw_clock = Some ''clock'', sw_next_contract = Some ''splitter'',
     sw_parties = Some ex_swap_parties, sw_lockup = Some (AtHeight 100), sw_terms = Some (TokenSwap ex_swap_terms),
     sw_refund = Some \<lparr>party_a_refund_address = ''refund_a'', party_b_refund_address = ''refund_b''\<rparr>\<rparr>"

definition ex_sw_deps :: deps where
  "ex_sw_deps = ref_deps (\<lambda>_ _. 25)"

definition ex_sw_tick :: "u64 \<Rightarrow> sw_call" where
  "ex_sw_tick h = SwExec \<lparr>env_block = \<lparr>block_height = h, block_time = 0\<rparr>, contract_address = ''holder''\<rparr>
     \<lparr>sender = ''clock'', funds = []\<rparr> SwTick"

definition ex_sw_env :: env where
  "ex_sw_env = \<lparr>env_block = \<lparr>block_height = 5, block_time = 0\<rparr>, contract_address = ''holder''\<rparr>"

lemma ex_sw_instantiate:
  "sw_instantiate ex_sw_deps ex_sw_env ex_sw_msg = Ok (resp [WasmExecute ''clock'' EnqueueMsg []], ex_sw_state)"
  by (simp add: sw_instantiate_def ex_sw_deps_def ex_sw_env_def ex_sw_msg_def ex_sw_state_def ex_swap_parties_def
      validate_party_addresses_def validate_receiver_address_def enqueue_msg_def)

lemma ex_sw_forward:
  "sw_handle ex_sw_deps (ex_sw_tick 50) ex_sw_state =
     Ok (resp [BankSend ''splitter'' [\<lparr>coin_denom = ''uatom'', coin_amount = 25\<rparr>, \<lparr>coin_denom = ''uosmo'', coin_amount = 25\<rparr>],
               WasmExecute ''clock'' DequeueMsg []], ex_sw_state\<lparr>sw_contract_state := Some SwComplete\<rparr>)"
  by (simp add: ex_sw_tick_def sw_execute_def sw_try_tick_def sw_try_forward_def ex_sw_state_def ex_sw_deps_def verify_clock_def
      ex_swap_parties_def ex_swap_terms_def swap_amounts_def sw_complete_and_dequeue_def dequeue_msg_def)

theorem sw_outcome_is_final_witness:
  "sw_contract_state (run_calls (sw_handle ex_sw_deps) ex_sw_state ([ex_sw_tick 50] @ [ex_sw_tick 200])) = Some SwComplete"
  by (rule sw_outcome_is_final [OF ex_sw_instantiate]) (simp_all add: ex_sw_forward)

text \<open>
  The swap is atomic. A tick of an instantiated holder either finds the lockup
  expired, sends nothing and expires; or sends both full balances in a single transfer to the
  deposit address of the next contract and completes, which it does exactly when the lockup
  is open and both balances are non-zero and cover the agreed amounts. Nothing is ever sent
  for one side alone.
\<close>

theorem sw_swap_is_atomic:
  assumes "sw_contract_state st = Some SwInstantiated" and "sw_clock st = Some (sender info)"
    and "sw_lockup st = Some e" and "sw_parties st = Some parties" and "sw_terms st = Some (TokenSwap terms)"
    and "sw_next_contract st = Some nc" and "query_deposit_address d nc = Ok (Some dest)"
    and "query_balance d (contract_address env) (native_denom (cp_party_a parties)) = Ok a_coin"
    and "query_balance d (contract_address env) (native_denom (cp_party_b parties)) = Ok b_coin"
  shows "sw_execute d env info SwTick st =
    (if is_expired d e (env_block env) then Ok (resp [], st\<lparr>sw_contract_state := Some SwExpired\<rparr>)
     else if party_a_amount terms \<le> coin_amount a_coin \<and> party_b_amount terms \<le> coin_amount b_coin \<and>
             coin_amount a_coin \<noteq> 0 \<and> coin_amount b_coin \<noteq> 0
     then Ok (resp [BankSend dest [a_coin, b_coin], WasmExecute (sender info) DequeueMsg []],
              st\<lparr>sw_contract_state := Some SwComplete\<rparr>)
     else Err SwInsufficientFunds)"
  using assms
  by (auto simp: sw_execute_def sw_try_tick_def verify_clock_def sw_try_forward_def swap_amounts_def not_less
      sw_complete_and_dequeue_def dequeue_msg_def split: sw_execute_msg.splits)

theorem sw_swap_is_atomic_witness:
  "sw_execute ex_sw_deps \<lparr>env_block = \<lparr>block_height = 100, block_time = 0\<rparr>, contract_address = ''holder''\<rparr>
     \<lparr>sender = ''clock'', funds = []\<rparr> SwTick ex_sw_state =
   Ok (resp [], ex_sw_state\<lparr>sw_contract_state := Some SwExpired\<rparr>)"
  by (subst sw_swap_is_atomic [where e = "AtHeight 100" and parties = ex_swap_parties and terms = ex_swap_terms
        and nc = "''splitter''" and dest = "''splitter''" and a_coin = "\<lparr>coin_denom = ''uatom'', coin_amount = 25\<rparr>"
        and b_coin = "\<lparr>coin_denom = ''uosmo'', coin_amount = 25\<rparr>"])
    (simp_all add: ex_sw_state_def ex_sw_deps_def ex_swap_parties_def)

text \<open>
  Refunds go to the configured addresses. A tick of an expired holder pays the whole
  balance of each party's denomination to that party's refund address, sends no empty coin
  and leaves the state alone, so that later deposits are refunded by later ticks.
\<close>

theorem sw_refund_pays_back:
  assumes "query_balance_spec d" and "sw_contract_state st = Some SwExpired" and "sw_clock st = Some (sender info)"
    and "sw_parties st = Some parties" and "sw_refund st = Some refund"
    and "party_a_refund_address refund \<noteq> party_b_refund_address refund"
    and "query_balance d (contract_address env) (native_denom (cp_party_a parties)) = Ok a_coin"
    and "query_balance d (contract_address env) (native_denom (cp_party_b parties)) = Ok b_coin"
  shows "\<exists>r. sw_execute d env info SwTick st = Ok (r, st) \<and>
    total_to (party_a_refund_address refund) (native_denom (cp_party_a parties)) (messages r) = unat (coin_amount a_coin) \<and>
    total_to (party_b_refund_address refund) (native_denom (cp_party_b parties)) (messages r) = unat (coin_amount b_coin) \<and>
    (\<forall>m\<in>set (messages r). \<exists>to c. m = BankSend to [c] \<and> coin_amount c \<noteq> 0)"
  using assms query_balance_specD(1) [OF assms(1,7)] query_balance_specD(1) [OF assms(1,8)]
  by (auto simp: sw_execute_def sw_try_tick_def sw_try_refund_def verify_clock_def
      split: bool.splits sw_execute_msg.splits)

theorem sw_refund_pays_back_witness:
  "\<exists>r. sw_execute ex_sw_deps ex_sw_env \<lparr>sender = ''clock'', funds = []\<rparr> SwTick
       (ex_sw_state\<lparr>sw_contract_state := Some SwExpired\<rparr>) = Ok (r, ex_sw_state\<lparr>sw_contract_state := Some SwExpired\<rparr>) \<and>
     total_to ''refund_a'' ''uatom'' (messages r) = 25"
proof -
  have "query_balance_spec ex_sw_deps" unfolding ex_sw_deps_def by (rule ref_query_balance_ok)
  from sw_refund_pays_back [OF this, where st = "ex_sw_state\<lparr>sw_contract_state := Some SwExpired\<rparr>"
      and parties = ex_swap_parties and refund = "\<lparr>party_a_refund_address = ''refund_a'', party_b_refund_address = ''refund_b''\<rparr>"
      and a_coin = "\<lparr>coin_denom = ''uatom'', coin_amount = 25\<rparr>" and b_coin = "\<lparr>coin_denom = ''uosmo'', coin_amount = 25\<rparr>"
      and info = "\<lparr>sender = ''clock'', funds = []\<rparr>" and env = ex_sw_env]
  show ?thesis by (auto simp: ex_sw_state_def ex_sw_deps_def ex_swap_parties_def ex_sw_env_def)
qed

end
