(* ===== verification/Native_Splitter.thy ===== *)
theory Native_Splitter
  imports Split Transactions
begin

text \<open>
  The native splitter (\<open>contracts/native-splitter\<close>): on each tick of the clock it divides its
  balances of the configured denominations among their receivers; the fallback split, if
  there is one, serves any other denomination on request.
\<close>

section \<open>State and messages\<close>

datatype ns_error = NsStd std_error | NsNotClock | NsSplitMisconfig | NsUnauthorized

record ns_state =
  ns_clock :: "addr option"
  ns_splits :: "(denom, split_config) omap"
  ns_fallback :: "split_config option"

record ns_instantiate_msg =
  nsi_clock :: string
  nsi_splits :: "(denom, split_config) omap"
  nsi_fallback :: "split_config option"

datatype ns_execute_msg = NsTick | NsDistributeFallback "denom list"

datatype ns_query_msg = NsQClockAddress | NsQDenomSplit denom | NsQSplits | NsQFallbackSplit | NsQDepositAddress

datatype ns_query_reply =
    NsRMaybeAddr "addr option" | NsRSplit split_config | NsRSplits "(denom \<times> split_config) list"
  | NsRMaybeSplit "split_config option"

record ns_update_config =
  nsu_clock :: "string option"
  nsu_fallback :: "split_config option"
  nsu_splits :: "(denom, split_config) omap option"

datatype ns_migrate_msg = NsUpdateConfig ns_update_config | NsUpdateCodeId

section \<open>Entry points\<close>

definition ns_save_split ::
    "deps \<Rightarrow> (denom, split_config) omap \<Rightarrow> denom \<times> split_config
     \<Rightarrow> ((denom, split_config) omap, ns_error) result" where
  "ns_save_split d m = (\<lambda>(dn, split).
     and_then (map_err NsStd (validate_shares_and_receiver_addresses d split)) (\<lambda>_.
       Ok (om_insert m dn split)))"

definition ns_instantiate :: "deps \<Rightarrow> ns_instantiate_msg \<Rightarrow> (response \<times> ns_state, ns_error) result" where
  "ns_instantiate d msg =
     and_then (map_err NsStd (addr_validate d (nsi_clock msg))) (\<lambda>clock_address.
     and_then (try_fold (ns_save_split d) [] (om_entries (nsi_splits msg))) (\<lambda>splits.
     and_then (case nsi_fallback msg of
                 Some split \<Rightarrow> map_err NsStd (validate_shares_and_receiver_addresses d split)
               | None \<Rightarrow> Ok ()) (\<lambda>_.
     and_then (map_err NsStd (enqueue_msg (nsi_clock msg))) (\<lambda>enqueue.
       Ok (resp [enqueue],
           \<lparr>ns_clock = Some clock_address, ns_splits = splits, ns_fallback = nsi_fallback msg\<rparr>)))))"

definition ns_split_balance ::
    "deps \<Rightarrow> split_config \<Rightarrow> coin \<Rightarrow> (cosmos_msg list, ns_error) result" where
  "ns_split_balance d config balance =
     (if coin_amount balance \<noteq> 0
      then map_err NsStd (get_transfer_messages d config (coin_amount balance) (coin_denom balance) None)
      else Ok [])"

definition ns_try_distribute :: "deps \<Rightarrow> env \<Rightarrow> ns_state \<Rightarrow> (response \<times> ns_state, ns_error) result" where
  "ns_try_distribute d env st =
     and_then (try_map (\<lambda>(dn, config).
         and_then (map_err NsStd (query_balance d (contract_address env) dn)) (ns_split_balance d config))
       (om_entries (ns_splits st))) (\<lambda>msgs. Ok (resp (concat msgs), st))"

definition ns_try_distribute_fallback ::
    "deps \<Rightarrow> env \<Rightarrow> denom list \<Rightarrow> ns_state \<Rightarrow> (response \<times> ns_state, ns_error) result" where
  "ns_try_distribute_fallback d env denoms st =
     (case ns_fallback st of
        Some split \<Rightarrow>
          and_then (try_map (\<lambda>dn.
              and_then (ensure (\<not> om_contains (ns_splits st) dn)
                          (NsStd (GenericErr ''unauthorized denom distribution''))) (\<lambda>_.
              and_then (map_err NsStd (query_balance d (contract_address env) dn)) (ns_split_balance d split)))
            denoms) (\<lambda>msgs. Ok (resp (concat msgs), st))
      | None \<Rightarrow> Err (NsStd (GenericErr ''no fallback split defined'')))"

definition ns_execute ::
    "deps \<Rightarrow> env \<Rightarrow> message_info \<Rightarrow> ns_execute_msg \<Rightarrow> ns_state \<Rightarrow> (response \<times> ns_state, ns_error) result" where
  "ns_execute d env info msg st =
     (case msg of
        NsTick \<Rightarrow>
          and_then (map_err NsStd (load (ns_clock st))) (\<lambda>clock_addr.
          and_then (map_err (\<lambda>_. NsNotClock) (verify_clock (sender info) clock_addr)) (\<lambda>_.
            ns_try_distribute d env st))
      | NsDistributeFallback denoms \<Rightarrow> ns_try_distribute_fallback d env denoms st)"

definition query_split :: "(denom, split_config) omap \<Rightarrow> denom \<Rightarrow> split_config" where
  "query_split m dn =
     (case filter (\<lambda>(k, _). k = dn) (om_entries m) of (_, config) # _ \<Rightarrow> config | [] \<Rightarrow> \<lparr>receivers = []\<rparr>)"

definition ns_query :: "env \<Rightarrow> ns_query_msg \<Rightarrow> ns_state \<Rightarrow> (ns_query_reply, std_error) result" where
  "ns_query env msg st =
     (case msg of
        NsQClockAddress \<Rightarrow> Ok (NsRMaybeAddr (ns_clock st))
      | NsQDenomSplit dn \<Rightarrow> Ok (NsRSplit (query_split (ns_splits st) dn))
      | NsQSplits \<Rightarrow> Ok (NsRSplits (om_entries (ns_splits st)))
      | NsQFallbackSplit \<Rightarrow> Ok (NsRMaybeSplit (ns_fallback st))
      | NsQDepositAddress \<Rightarrow> Ok (NsRMaybeAddr (Some (contract_address env))))"

text \<open>The update stores new splits as they are.\<close>

definition ns_migrate :: "deps \<Rightarrow> ns_migrate_msg \<Rightarrow> ns_state \<Rightarrow> (response \<times> ns_state, std_error) result" where
  "ns_migrate d msg st =
     (case msg of
        NsUpdateConfig u \<Rightarrow>
          and_then (upd_field (\<lambda>a st. and_then (addr_validate d a) (\<lambda>v.
                      Ok (st\<lparr>ns_clock := Some v\<rparr>))) (nsu_clock u) st) (\<lambda>st.
          and_then (upd_field (\<lambda>splits st.
                      Ok (st\<lparr>ns_splits := fold (\<lambda>(dn, split) m. om_insert m dn split) (om_entries splits) []\<rparr>))
                      (nsu_splits u) st) (\<lambda>st.
          and_then (upd_field (\<lambda>split st. Ok (st\<lparr>ns_fallback := Some split\<rparr>)) (nsu_fallback u) st) (\<lambda>st.
            Ok (resp [], st))))
      | NsUpdateCodeId \<Rightarrow> Ok (resp [], st))"

section \<open>The invariant\<close>

text \<open>
  The receivers of a split configuration form a map: they arrive as one (\<open>BTreeMap\<close>), so the
  stored configurations are well-formed as soon as their shares are validated.
\<close>

definition ns_inv :: "ns_state \<Rightarrow> bool" where
  "ns_inv st \<longleftrightarrow> om_wf (ns_splits st) \<and> (\<forall>(dn, sc)\<in>set (ns_splits st). split_wf sc) \<and>
     (\<forall>fs. ns_fallback st = Some fs \<longrightarrow> split_wf fs)"

definition maps_wf :: "ns_instantiate_msg \<Rightarrow> bool" where
  "maps_wf msg \<longleftrightarrow> om_wf (nsi_splits msg) \<and> (\<forall>(dn, sc)\<in>set (nsi_splits msg). om_wf (receivers sc)) \<and>
     (\<forall>fs. nsi_fallback msg = Some fs \<longrightarrow> om_wf (receivers fs))"

lemma ns_save_fold:
  assumes "try_fold (ns_save_split d) m es = Ok m'" and "om_wf m" and "\<forall>(dn, sc)\<in>set m. split_wf sc"
    and "\<forall>(dn, sc)\<in>set es. om_wf (receivers sc)"
  shows "om_wf m' \<and> (\<forall>(dn, sc)\<in>set m'. split_wf sc)"
proof (rule try_fold_invariant [OF assms(1), where P = "\<lambda>m. om_wf m \<and> (\<forall>(dn, sc)\<in>set m. split_wf sc)"])
  show "om_wf m \<and> (\<forall>(dn, sc)\<in>set m. split_wf sc)" using assms by blast
  fix s x s'
  assume x: "x \<in> set es" and s: "om_wf s \<and> (\<forall>(dn, sc)\<in>set s. split_wf sc)" and ok: "ns_save_split d s x = Ok s'"
  obtain dn sc where "x = (dn, sc)" by (cases x)
  with ok x assms(4) have "s' = om_insert s dn sc" "split_wf sc"
    by (auto simp: ns_save_split_def result_simps intro: validated_wf)
  with s mem_om_insert [of s _ _ dn sc] show "om_wf s' \<and> (\<forall>(dn, sc)\<in>set s'. split_wf sc)"
    by (fastforce simp: om_wf_insert)
qed

lemma ns_instantiate_inv:
  assumes "ns_instantiate d msg = Ok (r, st)" and "maps_wf msg"
  shows "ns_inv st"
proof -
  from assms(1) obtain splits where s: "try_fold (ns_save_split d) [] (om_entries (nsi_splits msg)) = Ok splits"
    "ns_splits st = splits" "ns_fallback st = nsi_fallback msg"
    "\<And>fs. nsi_fallback msg = Some fs \<Longrightarrow> validate_shares_and_receiver_addresses d fs = Ok ()"
    by (auto simp: ns_instantiate_def result_simps split: option.splits)
  from assms(2) ns_save_fold [OF s(1)] have "om_wf splits \<and> (\<forall>(dn, sc)\<in>set splits. split_wf sc)"
    by (auto simp: maps_wf_def om_entries_def)
  with assms(2) s show ?thesis by (auto simp: ns_inv_def maps_wf_def intro: validated_wf)
qed

datatype ns_call = NsExec env message_info ns_execute_msg | NsMigrate ns_migrate_msg

fun ns_handle :: "deps \<Rightarrow> ns_call \<Rightarrow> ns_state \<Rightarrow> (response \<times> ns_state, ns_error) result" where
  "ns_handle d (NsExec env info msg) st = ns_execute d env info msg st"
| "ns_handle d (NsMigrate msg) st = map_err NsStd (ns_migrate d msg st)"

text \<open>Migrations of the splits are left out: they are stored unvalidated.\<close>

fun ns_valid :: "ns_call \<Rightarrow> bool" where
  "ns_valid (NsExec _ _ _) = True"
| "ns_valid (NsMigrate NsUpdateCodeId) = True"
| "ns_valid (NsMigrate (NsUpdateConfig u)) = (nsu_splits u = None \<and> nsu_fallback u = None)"

lemma ns_exec_state: "ns_execute d env info msg st = Ok (r, st') \<Longrightarrow> st' = st"
  by (auto simp: ns_execute_def ns_try_distribute_def ns_try_distribute_fallback_def result_simps
      split: ns_execute_msg.splits option.splits)

interpretation ns: contract_machine "ns_handle d" ns_valid ns_inv for d
proof
  fix c st r st'
  assume c: "ns_valid c" "ns_inv st" "ns_handle d c st = Ok (r, st')"
  show "ns_inv st'"
  proof (cases c)
    case (NsExec env info msg)
    with c show ?thesis by (auto dest: ns_exec_state)
  next
    case (NsMigrate msg)
    with c show ?thesis
      by (cases msg) (auto simp: ns_migrate_def result_simps upd_field_def ns_inv_def split: option.splits)
  qed
qed

section \<open>What a distribution pays\<close>

definition split_share :: "split_config \<Rightarrow> string \<Rightarrow> nat \<Rightarrow> nat" where
  "split_share sc a amount = (case om_get (receivers sc) a of None \<Rightarrow> 0 | Some s \<Rightarrow> amount * dec_val s div dec_unit)"

lemma ns_split_balance_Ok:
  assumes "multiply_ratio_spec d" and "split_wf sc"
  shows "\<exists>ms. ns_split_balance d sc c = Ok ms \<and>
    (\<forall>a. total_to a (coin_denom c) ms = split_share sc a (unat (coin_amount c))) \<and>
    (\<forall>a dn. dn \<noteq> coin_denom c \<longrightarrow> total_to a dn ms = 0 \<and> total_out dn ms = 0) \<and>
    total_out (coin_denom c) ms \<le> unat (coin_amount c) \<and>
    unat (coin_amount c) - total_out (coin_denom c) ms < length (receivers sc)"
proof -
  from assms(2) have wf: "om_wf (receivers sc)" "total_shares sc = dec_unit" by (simp_all add: split_wf_def)
  note dust = split_dust [OF wf(2), of "coin_amount c"]
  show ?thesis
  proof (cases "coin_amount c = 0")
    case True
    with dust show ?thesis by (simp add: ns_split_balance_def split_share_def split: option.splits)
  next
    case False
    obtain ms where ms: "get_transfer_messages d sc (coin_amount c) (coin_denom c) None = Ok ms"
      using get_transfer_messages_succeeds [OF assms] by blast
    from get_transfer_messages_sums [OF assms(1) wf(1) ms] get_transfer_messages_other [OF assms(1) ms] dust False ms
    show ?thesis by (auto simp: ns_split_balance_def split_share_def)
  qed
qed

text \<open>What a batch of splits pays in one denomination.\<close>

definition paid_as_split :: "deps \<Rightarrow> addr \<Rightarrow> (denom \<times> split_config) list \<Rightarrow> cosmos_msg list \<Rightarrow> bool" where
  "paid_as_split d self es ms \<longleftrightarrow>
     (\<forall>dn. case map_of es dn of
        None \<Rightarrow> total_out dn ms = 0 \<and> (\<forall>a. total_to a dn ms = 0)
      | Some sc \<Rightarrow> (\<forall>a. total_to a dn ms = split_share sc a (balance_of d self dn)) \<and>
          total_out dn ms \<le> balance_of d self dn \<and>
          balance_of d self dn - total_out dn ms < length (receivers sc))"

lemma ns_distribute_entries:
  assumes "multiply_ratio_spec d" and "query_balance_spec d" and "distinct (map fst es)"
    and "\<forall>(dn, sc)\<in>set es. split_wf sc \<and> (\<exists>c. query_balance d self dn = Ok c)"
  shows "\<exists>mss. try_map (\<lambda>(dn, config). and_then (map_err NsStd (query_balance d self dn)) (ns_split_balance d config)) es
      = Ok mss \<and> paid_as_split d self es (concat mss)"
  using assms(3,4)
proof (induction es)
  case Nil
  then show ?case by (simp add: paid_as_split_def)
next
  case (Cons e es)
  obtain dn sc where e: "e = (dn, sc)" by (cases e)
  with Cons obtain mss where mss:
    "try_map (\<lambda>(dn, config). and_then (map_err NsStd (query_balance d self dn)) (ns_split_balance d config)) es = Ok mss"
    "paid_as_split d self es (concat mss)" by auto
  from Cons.prems e obtain c where c: "query_balance d self dn = Ok c" "split_wf sc" by auto
  from query_balance_specD(1) [OF assms(2) c(1)] have dn: "coin_denom c = dn" .
  from ns_split_balance_Ok [OF assms(1) c(2), of c] dn obtain ms where ms: "ns_split_balance d sc c = Ok ms"
    "\<And>a. total_to a dn ms = split_share sc a (unat (coin_amount c))"
    "\<And>a k. k \<noteq> dn \<Longrightarrow> total_to a k ms = 0 \<and> total_out k ms = 0"
    "total_out dn ms \<le> unat (coin_amount c)" "unat (coin_amount c) - total_out dn ms < length (receivers sc)" by auto
  have "map_of es dn = None" using Cons.prems(1) e by (simp add: map_of_eq_None_iff)
  with mss(2) have rest: "total_out dn (concat mss) = 0" "\<And>a. total_to a dn (concat mss) = 0"
    unfolding paid_as_split_def by (auto dest: spec [of _ dn])
  have bal: "balance_of d self dn = unat (coin_amount c)" using c(1) by (simp add: balance_of_def)
  have "paid_as_split d self ((dn, sc) # es) (ms @ concat mss)"
    unfolding paid_as_split_def
  proof
    fix k
    show "case map_of ((dn, sc) # es) k of None \<Rightarrow> total_out k (ms @ concat mss) = 0 \<and> (\<forall>a. total_to a k (ms @ concat mss) = 0)
      | Some sc \<Rightarrow> (\<forall>a. total_to a k (ms @ concat mss) = split_share sc a (balance_of d self k)) \<and>
          total_out k (ms @ concat mss) \<le> balance_of d self k \<and>
          balance_of d self k - total_out k (ms @ concat mss) < length (receivers sc)"
    proof (cases "k = dn")
      case True
      with ms rest bal show ?thesis by simp
    next
      case False
      from mss(2) have "case map_of es k of None \<Rightarrow> total_out k (concat mss) = 0 \<and> (\<forall>a. total_to a k (concat mss) = 0)
        | Some sc \<Rightarrow> (\<forall>a. total_to a k (concat mss) = split_share sc a (balance_of d self k)) \<and>
          total_out k (concat mss) \<le> balance_of d self k \<and>
          balance_of d self k - total_out k (concat mss) < length (receivers sc)"
        unfolding paid_as_split_def by blast
      with False ms(3) [of k] show ?thesis by (simp split: option.splits)
    qed
  qed
  with mss(1) ms(1) c(1) e show ?case by auto
qed

text \<open>
  The native splitter pays out what its splits say. In every state reachable from an
  instantiation (without migrating the splits), a tick of the clock succeeds whenever the
  balances can be read; in each configured denomination every receiver gets the floor of its
  share of the balance, no more than the balance leaves the contract, less than one unit per
  receiver stays behind, and other denominations are not touched.
\<close>

theorem ns_tick_pays_shares:
  assumes "multiply_ratio_spec d" and "query_balance_spec d" and "ns_instantiate d msg = Ok (r0, st0)"
    and "maps_wf msg" and "list_all ns_valid cs"
  defines "st \<equiv> run_calls (ns_handle d) st0 cs"
  assumes "ns_clock st = Some (sender info)"
    and "\<forall>dn\<in>fst ` set (ns_splits st). \<exists>c. query_balance d (contract_address env) dn = Ok c"
  shows "\<exists>r. ns_execute d env info NsTick st = Ok (r, st) \<and>
    paid_as_split d (contract_address env) (ns_splits st) (messages r)"
proof -
  have inv: "ns_inv st"
    unfolding st_def using assms(5) ns_instantiate_inv [OF assms(3,4)] by (rule ns.inv_run)
  then have "distinct (map fst (ns_splits st))" by (simp add: ns_inv_def om_wf_distinct)
  from ns_distribute_entries [OF assms(1,2) this, where self = "contract_address env"] inv assms(8) obtain mss where
    "try_map (\<lambda>(dn, config). and_then (map_err NsStd (query_balance d (contract_address env) dn)) (ns_split_balance d config))
      (ns_splits st) = Ok mss" "paid_as_split d (contract_address env) (ns_splits st) (concat mss)"
    by (force simp: ns_inv_def)
  with assms(7) show ?thesis
    by (simp add: ns_execute_def ns_try_distribute_def om_entries_def verify_clock_def)
qed

definition ex_ns_msg :: ns_instantiate_msg where
  "ex_ns_msg = \<lparr>nsi_clock = ''clock'', nsi_splits = [(''untrn'', thirds)], nsi_fallback = None\<rparr>"

definition ex_ns_deps :: deps where
  "ex_ns_deps = ref_deps (\<lambda>_ _. 100)"

definition ex_ns_env :: env where
  "ex_ns_env = \<lparr>env_block = \<lparr>block_height = 5, block_time = 7\<rparr>, contract_address = ''splitter''\<rparr>"

definition ex_ns_state :: ns_state where
  "ex_ns_state = \<lparr>ns_clock = Some ''clock'', ns_splits = [(''untrn'', thirds)], ns_fallback = None\<rparr>"

lemma ex_ns_instantiate: "ns_instantiate ex_ns_deps ex_ns_msg = Ok (resp [WasmExecute ''clock'' EnqueueMsg []], ex_ns_state)"
  using thirds_valid(2)
  by (simp add: ns_instantiate_def ex_ns_msg_def ex_ns_state_def ex_ns_deps_def ns_save_split_def om_entries_def enqueue_msg_def)

theorem ns_tick_pays_shares_witness:
  "\<exists>r. ns_execute ex_ns_deps ex_ns_env \<lparr>sender = ''clock'', funds = []\<rparr> NsTick ex_ns_state = Ok (r, ex_ns_state) \<and>
     total_to ''a'' ''untrn'' (messages r) = 33 \<and> total_out ''untrn'' (messages r) \<le> 100"
proof -
  have "multiply_ratio_spec ex_ns_deps" "query_balance_spec ex_ns_deps"
    unfolding ex_ns_deps_def by (rule ref_multiply_ratio_ok ref_query_balance_ok)+
  moreover have "maps_wf ex_ns_msg" using thirds_valid(1) by (simp add: maps_wf_def ex_ns_msg_def)
  ultimately have "\<exists>r. ns_execute ex_ns_deps ex_ns_env \<lparr>sender = ''clock'', funds = []\<rparr> NsTick ex_ns_state =
      Ok (r, ex_ns_state) \<and> paid_as_split ex_ns_deps ''splitter'' [(''untrn'', thirds)] (messages r)"
    using ns_tick_pays_shares [OF _ _ ex_ns_instantiate, where cs = "[]" and env = ex_ns_env
        and info = "\<lparr>sender = ''clock'', funds = []\<rparr>"]
    by (simp add: ex_ns_state_def ex_ns_env_def ex_ns_deps_def)
  then obtain r where r: "ns_execute ex_ns_deps ex_ns_env \<lparr>sender = ''clock'', funds = []\<rparr> NsTick ex_ns_state = Ok (r, ex_ns_state)"
    "paid_as_split ex_ns_deps ''splitter'' [(''untrn'', thirds)] (messages r)" by blast
  from r(2) have "total_to ''a'' ''untrn'' (messages r) = 33" "total_out ''untrn'' (messages r) \<le> 100"
    by (auto simp: paid_as_split_def split_share_def thirds_def om_get_def balance_of_def ex_ns_deps_def
        dest!: spec [of _ "''untrn''"])
  with r(1) show ?thesis by blast
qed

text \<open>
  A migration stores new splits without validating them, although its comment says
  each is validated: a configuration whose shares add up to two is refused at instantiation
  but accepted by the migration, and the next tick then tries to send out twice the balance.
\<close>

theorem ns_migrate_skips_validation:
  "(\<exists>e. ns_instantiate ex_ns_deps (ex_ns_msg\<lparr>nsi_splits := [(''untrn'', overfull)]\<rparr>) = Err e) \<and>
   (\<exists>r st'. ns_migrate ex_ns_deps (NsUpdateConfig \<lparr>nsu_clock = None, nsu_fallback = None,
        nsu_splits = Some [(''untrn'', overfull)]\<rparr>) ex_ns_state = Ok (r, st') \<and>
      (\<exists>r'. ns_execute ex_ns_deps ex_ns_env \<lparr>sender = ''clock'', funds = []\<rparr> NsTick st' = Ok (r', st') \<and>
        total_out ''untrn'' (messages r') = 200))"
proof
  have "validate_shares_and_receiver_addresses ex_ns_deps overfull = Err (GenericErr ''shares must add up to 1.0'')"
    by (simp add: validate_shares_and_receiver_addresses_def overfull_def ex_ns_deps_def om_entries_def dec_add_def
        add_or_panic_def dec_zero_def dec_one_def decimal_fractional_def)
  then show "\<exists>e. ns_instantiate ex_ns_deps (ex_ns_msg\<lparr>nsi_splits := [(''untrn'', overfull)]\<rparr>) = Err e"
    by (simp add: ns_instantiate_def ex_ns_msg_def om_entries_def ns_save_split_def) (simp add: ex_ns_deps_def)
  have "\<exists>ms. get_transfer_messages ex_ns_deps overfull 100 ''untrn'' None = Ok ms \<and> total_out ''untrn'' ms = 200"
    by (simp add: overfull_def get_transfer_messages_None transfer_message_def ref_multiply_ratio_def ex_ns_deps_def
        dec_is_zero_def dec_zero_def decimal_fractional_def)
  then obtain ms where ms: "get_transfer_messages ex_ns_deps overfull 100 ''untrn'' None = Ok ms"
    "total_out ''untrn'' ms = 200" by blast
  let ?st = "ex_ns_state\<lparr>ns_splits := [(''untrn'', overfull)]\<rparr>"
  have "query_balance ex_ns_deps a dn = Ok \<lparr>coin_denom = dn, coin_amount = 100\<rparr>" for a dn
    by (simp add: ex_ns_deps_def)
  with ms(1) have "ns_execute ex_ns_deps ex_ns_env \<lparr>sender = ''clock'', funds = []\<rparr> NsTick ?st = Ok (resp ms, ?st)"
    by (simp add: ns_execute_def ns_try_distribute_def ex_ns_state_def om_entries_def verify_clock_def
        ns_split_balance_def)
  moreover have "ns_migrate ex_ns_deps (NsUpdateConfig \<lparr>nsu_clock = None, nsu_fallback = None,
        nsu_splits = Some [(''untrn'', overfull)]\<rparr>) ex_ns_state = Ok (resp [], ?st)"
    by (simp add: ns_migrate_def om_entries_def)
  ultimately show "\<exists>r st'. ns_migrate ex_ns_deps (NsUpdateConfig \<lparr>nsu_clock = None, nsu_fallback = None,
        nsu_splits = Some [(''untrn'', overfull)]\<rparr>) ex_ns_state = Ok (r, st') \<and>
      (\<exists>r'. ns_execute ex_ns_deps ex_ns_env \<lparr>sender = ''clock'', funds = []\<rparr> NsTick st' = Ok (r', st') \<and>
        total_out ''untrn'' (messages r') = 200)"
    using ms(2) by simp
qed

end
