(* ===== verification/Native_Router.thy ===== *)
theory Native_Router
  imports Covenant_Utils Transactions
begin

text \<open>
  The native router (\<open>contracts/native-router\<close>): it forwards everything it holds in its target
  denominations to one receiver on the same chain. Ticks are open or restricted to privileged
  accounts; other denominations leave through the fallback distribution.
\<close>

section \<open>State and messages\<close>

datatype nr_error =
    NrStd std_error
  | NrOperation op_error
  | NrUnauthorizedDenomDistribution

text \<open>A set of denominations is stored in ascending order without repetitions.\<close>

record nr_state =
  nr_op_mode :: "op_mode option"
  nr_receiver :: "addr option"
  nr_denoms :: "denom list option"

record nr_instantiate_msg =
  nri_op_mode :: op_mode_config
  nri_receiver :: string
  nri_denoms :: "denom list"

datatype nr_execute_msg = NrTick | NrDistributeFallback "denom list"

datatype nr_query_msg = NrQReceiverConfig | NrQTargetDenoms | NrQOperationMode

datatype nr_query_reply = NrRAddr "addr option" | NrRDenoms "denom list option" | NrROpMode "op_mode option"

record nr_update_config =
  nru_op_mode :: "op_mode_config option"
  nru_receiver :: "string option"
  nru_denoms :: "denom list option"

datatype nr_migrate_msg = NrUpdateConfig nr_update_config | NrUpdateCodeId

section \<open>Entry points\<close>

definition nr_instantiate :: "deps \<Rightarrow> nr_instantiate_msg \<Rightarrow> (response \<times> nr_state, nr_error) result" where
  "nr_instantiate d msg =
     and_then (map_err NrStd (op_mode_try_init d (nri_op_mode msg))) (\<lambda>mode.
     and_then (map_err NrStd (addr_validate d (nri_receiver msg))) (\<lambda>receiver.
       Ok (resp [], \<lparr>nr_op_mode = Some mode, nr_receiver = Some receiver,
                     nr_denoms = Some (nri_denoms msg)\<rparr>)))"

definition bank_send_each :: "addr \<Rightarrow> coin list \<Rightarrow> cosmos_msg list" where
  "bank_send_each receiver coins = map (\<lambda>c. BankSend receiver [c]) coins"

definition nr_try_distribute_fallback ::
    "deps \<Rightarrow> env \<Rightarrow> denom list \<Rightarrow> nr_state \<Rightarrow> (response \<times> nr_state, nr_error) result" where
  "nr_try_distribute_fallback d env denoms st =
     and_then (map_err NrStd (load (nr_receiver st))) (\<lambda>receiver.
     and_then (map_err NrStd (load (nr_denoms st))) (\<lambda>explicit_denoms.
     and_then (map_err NrStd (fallback_balances d (contract_address env) (\<lambda>dn. dn \<in> set explicit_denoms) denoms))
       (\<lambda>available_balances. Ok (resp (bank_send_each receiver available_balances), st))))"

definition nr_try_route_balances ::
    "deps \<Rightarrow> env \<Rightarrow> nr_state \<Rightarrow> (response \<times> nr_state, nr_error) result" where
  "nr_try_route_balances d env st =
     and_then (map_err NrStd (load (nr_receiver st))) (\<lambda>receiver.
     and_then (map_err NrStd (load (nr_denoms st))) (\<lambda>denoms_to_route.
     and_then (map_err NrStd (denom_balances d (contract_address env) denoms_to_route)) (\<lambda>balances.
       if balances = [] then Ok (resp [], st)
       else Ok (resp (bank_send_each receiver balances), st))))"

definition nr_execute ::
    "deps \<Rightarrow> env \<Rightarrow> message_info \<Rightarrow> nr_execute_msg \<Rightarrow> nr_state \<Rightarrow> (response \<times> nr_state, nr_error) result" where
  "nr_execute d env info msg st =
     (case msg of
        NrTick \<Rightarrow>
          and_then (map_err NrStd (load (nr_op_mode st))) (\<lambda>mode.
          and_then (map_err NrOperation (verify_caller (sender info) mode)) (\<lambda>_.
            nr_try_route_balances d env st))
      | NrDistributeFallback denoms \<Rightarrow> nr_try_distribute_fallback d env denoms st)"

definition nr_query :: "nr_query_msg \<Rightarrow> nr_state \<Rightarrow> (nr_query_reply, std_error) result" where
  "nr_query msg st =
     (case msg of
        NrQReceiverConfig \<Rightarrow> Ok (NrRAddr (nr_receiver st))
      | NrQTargetDenoms \<Rightarrow> Ok (NrRDenoms (nr_denoms st))
      | NrQOperationMode \<Rightarrow> Ok (NrROpMode (nr_op_mode st)))"

definition nr_migrate :: "deps \<Rightarrow> nr_migrate_msg \<Rightarrow> nr_state \<Rightarrow> (response \<times> nr_state, nr_error) result" where
  "nr_migrate d msg st =
     (case msg of
        NrUpdateConfig u \<Rightarrow>
          and_then (upd_field (\<lambda>cfg st. and_then (map_err (\<lambda>_. NrStd (GenericErr ''op mode''))
                      (op_mode_try_init d cfg)) (\<lambda>m. Ok (st\<lparr>nr_op_mode := Some m\<rparr>))) (nru_op_mode u) st) (\<lambda>st.
          and_then (upd_field (\<lambda>denoms st. Ok (st\<lparr>nr_denoms := Some (remdups (sort denoms))\<rparr>))
                      (nru_denoms u) st) (\<lambda>st.
          and_then (upd_field (\<lambda>a st. and_then (map_err NrStd (addr_validate d a)) (\<lambda>v.
                      Ok (st\<lparr>nr_receiver := Some v\<rparr>))) (nru_receiver u) st) (\<lambda>st.
            Ok (resp [], st))))
      | NrUpdateCodeId \<Rightarrow> Ok (resp [], st))"

section \<open>Properties\<close>

lemma total_to_bank_send_each:
  "total_to a dn (bank_send_each receiver cs) = (if a = receiver then coins_in dn cs else 0)"
  by (induction cs) (auto simp: bank_send_each_def)

text \<open>
  A permitted tick of the native router sends the whole balance of every target
  denomination to the receiver, nothing to anybody else and nothing in other denominations,
  never sends an empty coin, and leaves the state alone; a caller that the operation mode
  does not allow is refused.
\<close>

theorem nr_tick_routes_everything:
  assumes "query_balance_spec d" and "nr_op_mode st = Some mode" and "nr_receiver st = Some a"
    and "nr_denoms st = Some denoms" and "distinct denoms"
    and "denom_balances d (contract_address env) denoms = Ok coins"
  shows "if op_allows mode (sender info)
    then \<exists>r. nr_execute d env info NrTick st = Ok (r, st) \<and>
      (\<forall>b dn. total_to b dn (messages r) =
        (if b = a \<and> dn \<in> set denoms then balance_of d (contract_address env) dn else 0)) \<and>
      (\<forall>m\<in>set (messages r). \<exists>c. m = BankSend a [c] \<and> coin_amount c \<noteq> 0)
    else nr_execute d env info NrTick st = Err (NrOperation OpUnauthorized)"
proof (cases "op_allows mode (sender info)")
  case True
  then have "verify_caller (sender info) mode = Ok ()" by (simp add: result_simps)
  with assms have ok: "nr_execute d env info NrTick st = Ok (resp (bank_send_each a coins), st)"
    by (simp add: nr_execute_def nr_try_route_balances_def bank_send_each_def)
  have "coins_in dn coins = (if dn \<in> set denoms then balance_of d (contract_address env) dn else 0)" for dn
    using denom_balances_total [OF assms(1,6,5)] .
  moreover have "\<forall>m\<in>set (bank_send_each a coins). \<exists>c. m = BankSend a [c] \<and> coin_amount c \<noteq> 0"
    using denom_balances_nonzero [OF assms(6)] by (auto simp: bank_send_each_def)
  ultimately show ?thesis using ok True by (simp add: total_to_bank_send_each)
next
  case False
  then have "verify_caller (sender info) mode = Err OpUnauthorized" by (simp add: result_simps)
  with assms False show ?thesis by (simp add: nr_execute_def)
qed

definition ex_nr_state :: nr_state where
  "ex_nr_state = \<lparr>nr_op_mode = Some (Permissioned [''clock'']), nr_receiver = Some ''party'',
     nr_denoms = Some [''uatom'', ''untrn'']\<rparr>"

definition ex_nr_env :: env where
  "ex_nr_env = \<lparr>env_block = \<lparr>block_height = 5, block_time = 0\<rparr>, contract_address = ''router''\<rparr>"

definition ex_nr_deps :: deps where
  "ex_nr_deps = ref_deps (\<lambda>a dn. if dn = ''uatom'' then 30 else 0)"

theorem nr_tick_routes_everything_witness:
  "\<exists>r. nr_execute ex_nr_deps ex_nr_env \<lparr>sender = ''clock'', funds = []\<rparr> NrTick ex_nr_state = Ok (r, ex_nr_state) \<and>
     total_to ''party'' ''uatom'' (messages r) = 30"
proof -
  have "query_balance_spec ex_nr_deps" unfolding ex_nr_deps_def by (rule ref_query_balance_ok)
  note tick = nr_tick_routes_everything [OF this, where st = ex_nr_state and env = ex_nr_env
      and mode = "Permissioned [''clock'']" and a = "''party''" and denoms = "[''uatom'', ''untrn'']"
      and info = "\<lparr>sender = ''clock'', funds = []\<rparr>" and coins = "[\<lparr>coin_denom = ''uatom'', coin_amount = 30\<rparr>]"]
  have "op_allows (Permissioned [''clock'']) (sender \<lparr>sender = ''clock'', funds = []\<rparr>)"
    by (simp add: op_allows_def)
  moreover have "denom_balances ex_nr_deps (contract_address ex_nr_env) [''uatom'', ''untrn''] =
      Ok [\<lparr>coin_denom = ''uatom'', coin_amount = 30\<rparr>]"
    by (simp add: denom_balances_def ex_nr_deps_def)
  ultimately obtain r where
    "nr_execute ex_nr_deps ex_nr_env \<lparr>sender = ''clock'', funds = []\<rparr> NrTick ex_nr_state = Ok (r, ex_nr_state)"
    "\<forall>b dn. total_to b dn (messages r) = (if b = ''party'' \<and> dn \<in> set [''uatom'', ''untrn'']
       then balance_of ex_nr_deps (contract_address ex_nr_env) dn else 0)"
    using tick by (auto simp only: ex_nr_state_def nr_state.simps if_True distinct.simps set_simps)
  moreover have "balance_of ex_nr_deps (contract_address ex_nr_env) ''uatom'' = 30"
    by (simp add: balance_of_def ex_nr_deps_def)
  ultimately show ?thesis by (intro exI [of _ r]) simp
qed

text \<open>
  The fallback distribution of the native router is open to everybody but cannot
  touch a target denomination. If any requested denomination is a target it fails; otherwise
  it sends exactly the requested balances to the receiver, empty ones included, since unlike
  the tick it does not filter them.
\<close>

theorem nr_fallback_spares_targets:
  assumes "nr_receiver st = Some a" and "nr_denoms st = Some denoms"
  shows "nr_execute d env info (NrDistributeFallback ds) st = Ok (r, st') \<longleftrightarrow>
    (\<forall>dn\<in>set ds. dn \<notin> set denoms) \<and> st' = st \<and>
    (\<exists>coins. try_map (query_balance d (contract_address env)) ds = Ok coins \<and>
       r = resp (map (\<lambda>c. BankSend a [c]) coins))"
proof -
  have "(\<forall>dn\<in>set ds. \<not> explicit dn) \<Longrightarrow> fallback_balances d a' explicit ds = try_map (query_balance d a') ds"
    for explicit a'
    unfolding fallback_balances_def by (induction ds) auto
  with assms show ?thesis
    by (auto simp: nr_execute_def nr_try_distribute_fallback_def result_simps bank_send_each_def
        dest: fallback_balances_Ok)
qed

theorem nr_fallback_spares_targets_witness:
  "\<exists>r. nr_execute ex_nr_deps ex_nr_env \<lparr>sender = ''anyone'', funds = []\<rparr> (NrDistributeFallback [''uosmo'']) ex_nr_state =
     Ok (r, ex_nr_state)"
  using nr_fallback_spares_targets [where st = ex_nr_state and a = "''party''" and denoms = "[''uatom'', ''untrn'']"
      and d = ex_nr_deps and env = ex_nr_env and ds = "[''uosmo'']" and st' = ex_nr_state
      and info = "\<lparr>sender = ''anyone'', funds = []\<rparr>"]
  by (simp add: ex_nr_state_def ex_nr_deps_def)

end
