(* ===== verification/Interchain_Router.thy ===== *)
theory Interchain_Router
  imports Destination Transactions
begin

text \<open>
  The interchain router (\<open>contracts/interchain-router\<close>): on each tick of the clock it sends its
  target denominations over IBC to the party's chain; other denominations leave through the
  fallback distribution, for which the caller pays the IBC fees.
\<close>

section \<open>State and messages\<close>

record ir_state =
  ir_clock :: "addr option"
  ir_destination :: "destination_config option"
  ir_denoms :: "denom list option"

record ir_instantiate_msg =
  iri_clock :: string
  iri_destination :: destination_config
  iri_denoms :: "denom list"

datatype ir_execute_msg = IrTick | IrDistributeFallback "denom list"

datatype ir_query_msg = IrQReceiverConfig | IrQClockAddress | IrQTargetDenoms

datatype ir_query_reply =
  IrRDestination "destination_config option" | IrRAddr "addr option" | IrRDenoms "denom list option"

record ir_update_config =
  iru_clock :: "string option"
  iru_destination :: "destination_config option"
  iru_denoms :: "denom list option"

datatype ir_migrate_msg = IrUpdateConfig ir_update_config | IrUpdateCodeId

section \<open>Entry points\<close>

definition ir_instantiate :: "deps \<Rightarrow> ir_instantiate_msg \<Rightarrow> (response \<times> ir_state, std_error) result" where
  "ir_instantiate d msg =
     and_then (addr_validate d (iri_clock msg)) (\<lambda>clock_address.
     and_then (soft_validate_remote_chain_addr d (destination_receiver (iri_destination msg))) (\<lambda>_.
     and_then (enqueue_msg (iri_clock msg)) (\<lambda>enqueue.
       Ok (resp [enqueue],
           \<lparr>ir_clock = Some clock_address, ir_destination = Some (iri_destination msg),
            ir_denoms = Some (iri_denoms msg)\<rparr>))))"

definition ir_try_distribute_fallback ::
    "deps \<Rightarrow> env \<Rightarrow> message_info \<Rightarrow> denom list \<Rightarrow> ir_state \<Rightarrow> (response \<times> ir_state, std_error) result" where
  "ir_try_distribute_fallback d env info denoms st =
     and_then (load (ir_destination st)) (\<lambda>destination.
     and_then (load (ir_denoms st)) (\<lambda>explicit_denoms.
     and_then (query_ibc_fee d) (\<lambda>fee_config.
     and_then (assert_ibc_fee_coverage d info (total_ntrn_fee fee_config) (of_nat (length denoms))) (\<lambda>_.
     and_then (fallback_balances d (contract_address env) (\<lambda>dn. dn \<in> set explicit_denoms) denoms)
       (\<lambda>available_balances.
     and_then (get_ibc_transfer_messages_for_coins destination available_balances
                 (block_time (env_block env)) (contract_address env) (fee_config_fee fee_config)) (\<lambda>msgs.
       Ok (resp msgs, st)))))))"

definition ir_try_route_balances :: "deps \<Rightarrow> env \<Rightarrow> ir_state \<Rightarrow> (response \<times> ir_state, std_error) result" where
  "ir_try_route_balances d env st =
     and_then (load (ir_destination st)) (\<lambda>destination.
     and_then (load (ir_denoms st)) (\<lambda>denoms_to_route.
     and_then (denom_balances d (contract_address env) denoms_to_route) (\<lambda>balances.
       if balances = [] then Ok (resp [], st)
       else
         and_then (query_min_ibc_fee d) (\<lambda>min_fee.
         and_then (get_ibc_transfer_messages_for_coins destination balances
                     (block_time (env_block env)) (contract_address env) min_fee) (\<lambda>msgs.
           Ok (resp msgs, st))))))"

definition ir_execute ::
    "deps \<Rightarrow> env \<Rightarrow> message_info \<Rightarrow> ir_execute_msg \<Rightarrow> ir_state \<Rightarrow> (response \<times> ir_state, std_error) result" where
  "ir_execute d env info msg st =
     (case msg of
        IrTick \<Rightarrow>
          and_then (load (ir_clock st)) (\<lambda>clock_addr.
          and_then (verify_clock (sender info) clock_addr) (\<lambda>_.
            ir_try_route_balances d env st))
      | IrDistributeFallback denoms \<Rightarrow> ir_try_distribute_fallback d env info denoms st)"

definition ir_query :: "ir_query_msg \<Rightarrow> ir_state \<Rightarrow> (ir_query_reply, std_error) result" where
  "ir_query msg st =
     (case msg of
        IrQReceiverConfig \<Rightarrow> Ok (IrRDestination (ir_destination st))
      | IrQClockAddress \<Rightarrow> Ok (IrRAddr (ir_clock st))
      | IrQTargetDenoms \<Rightarrow> Ok (IrRDenoms (ir_denoms st)))"

definition ir_migrate :: "deps \<Rightarrow> ir_migrate_msg \<Rightarrow> ir_state \<Rightarrow> (response \<times> ir_state, std_error) result" where
  "ir_migrate d msg st =
     (case msg of
        IrUpdateConfig u \<Rightarrow>
          and_then (upd_field (\<lambda>a st. and_then (addr_validate d a) (\<lambda>v.
                      Ok (st\<lparr>ir_clock := Some v\<rparr>))) (iru_clock u) st) (\<lambda>st.
          and_then (upd_field (\<lambda>denoms st. Ok (st\<lparr>ir_denoms := Some (remdups (sort denoms))\<rparr>))
                      (iru_denoms u) st) (\<lambda>st.
          and_then (upd_field (\<lambda>c st. Ok (st\<lparr>ir_destination := Some c\<rparr>)) (iru_destination u) st) (\<lambda>st.
            Ok (resp [], st))))
      | IrUpdateCodeId \<Rightarrow> Ok (resp [], st))"

section \<open>Properties\<close>

text \<open>
  A tick of the interchain router sends the whole balance of every target
  denomination other than the chain's own token towards the destination, nothing in any other
  denomination, and keeps enough of the chain's own token to pay the IBC fee of every
  transfer it issues whenever it sends some of it.
\<close>

theorem ir_tick_routes_balances:
  assumes "query_balance_spec d" and "ir_destination st = Some cfg" and "ir_denoms st = Some denoms"
    and "distinct denoms" and "length denoms < 2 ^ 64" and "query_min_ibc_fee d = Ok fee"
    and "ir_execute d env info IrTick st = Ok (r, st')"
  shows "st' = st \<and> ir_clock st = Some (sender info) \<and>
    (\<forall>m\<in>set (messages r). routed_to cfg (contract_address env) fee m) \<and>
    (\<forall>dn. dn \<noteq> ''untrn'' \<longrightarrow> ibc_out dn (messages r) =
       (if dn \<in> set denoms then balance_of d (contract_address env) dn else 0)) \<and>
    (0 < ibc_out ''untrn'' (messages r) \<longrightarrow>
       ibc_out ''untrn'' (messages r) + length (messages r) * fee_total fee \<le> balance_of d (contract_address env) ''untrn'')"
proof -
  from assms(2,3,7) obtain coins where coins: "denom_balances d (contract_address env) denoms = Ok coins"
    and st: "st' = st" "ir_clock st = Some (sender info)"
    by (auto simp: ir_execute_def ir_try_route_balances_def result_simps split: if_splits)
  note total = denom_balances_total [OF assms(1) coins assms(4)]
  have len: "length coins < 2 ^ 64"
  proof -
    from coins obtain cs where "try_map (query_balance d (contract_address env)) denoms = Ok cs"
      "coins = filter (\<lambda>c. coin_amount c \<noteq> 0) cs" by (auto simp: denom_balances_def result_simps)
    then have "length coins \<le> length denoms" using length_try_map length_filter_le by metis
    with assms(5) show ?thesis by linarith
  qed
  show ?thesis
  proof (cases "coins = []")
    case True
    with assms coins st have "messages r = []"
      by (auto simp: ir_execute_def ir_try_route_balances_def result_simps)
    with total st True show ?thesis by auto
  next
    case False
    with assms coins st have "get_ibc_transfer_messages_for_coins cfg coins (block_time (env_block env))
        (contract_address env) fee = Ok (messages r)"
      by (auto simp: ir_execute_def ir_try_route_balances_def result_simps)
    from ibc_batch_reserves [OF this len] total st show ?thesis
      by (auto split: if_splits)
  qed
qed

definition ex_ir_state :: ir_state where
  "ex_ir_state = \<lparr>ir_clock = Some ''clock'', ir_destination = Some ex_destination,
     ir_denoms = Some [''ibc/osmo'', ''untrn'']\<rparr>"

definition ex_ir_env :: env where
  "ex_ir_env = \<lparr>env_block = \<lparr>block_height = 5, block_time = 7\<rparr>, contract_address = ''router''\<rparr>"

definition ex_ir_deps :: deps where
  "ex_ir_deps = (ref_deps (\<lambda>a dn. if dn = ''ibc/osmo'' then 50 else 1000))\<lparr>query_min_ibc_fee := Ok ex_fee\<rparr>"

lemma ex_ir_balance: "query_balance_spec ex_ir_deps"
  using ref_query_balance_ok by (simp add: ex_ir_deps_def query_balance_spec_def)

lemma ex_ir_tick:
  "\<exists>r. ir_execute ex_ir_deps ex_ir_env \<lparr>sender = ''clock'', funds = []\<rparr> IrTick ex_ir_state = Ok (r, ex_ir_state) \<and>
     ibc_out ''untrn'' (messages r) = 400"
  by (simp add: ir_execute_def ir_try_route_balances_def ex_ir_state_def verify_clock_def denom_balances_def
      ex_ir_deps_def get_ibc_transfer_messages_for_coins_def flatten_ibc_fee_total_amount_def sum_coins_def ex_fee_def
      push_transfer_def send_coin_def add_or_panic_def mul_or_panic_def sub_or_panic_def transfer_for_coin_def
      plus_seconds_def ex_destination_def ibc_out_def om_get_def ex_ir_env_def)

theorem ir_tick_routes_balances_witness:
  "\<exists>r. ir_execute ex_ir_deps ex_ir_env \<lparr>sender = ''clock'', funds = []\<rparr> IrTick ex_ir_state = Ok (r, ex_ir_state) \<and>
     ibc_out ''ibc/osmo'' (messages r) = 50 \<and>
     ibc_out ''untrn'' (messages r) + length (messages r) * fee_total ex_fee \<le> 1000"
proof -
  obtain r where r: "ir_execute ex_ir_deps ex_ir_env \<lparr>sender = ''clock'', funds = []\<rparr> IrTick ex_ir_state = Ok (r, ex_ir_state)"
    "ibc_out ''untrn'' (messages r) = 400" using ex_ir_tick by blast
  have "balance_of ex_ir_deps a ''ibc/osmo'' = 50" "balance_of ex_ir_deps a ''untrn'' = 1000" for a
    by (simp_all add: balance_of_def ex_ir_deps_def)
  with ir_tick_routes_balances [OF ex_ir_balance _ _ _ _ _ r(1), where cfg = ex_destination and fee = ex_fee
      and denoms = "[''ibc/osmo'', ''untrn'']"] r show ?thesis
    by (simp add: ex_ir_state_def ex_ir_deps_def)
qed

text \<open>
  The fallback distribution of the interchain router is paid by its caller and
  cannot touch the target denominations. If it succeeds, none of the requested denominations
  is a target, the caller attached at least the IBC fee once per requested denomination, and
  everything requested except the chain's own token is sent in full.
\<close>

theorem ir_fallback_paid_by_caller:
  assumes "ir_destination st = Some cfg" and "ir_denoms st = Some denoms" and "length ds < 2 ^ 64"
    and "query_min_ibc_fee d = Ok fee"
    and "ir_execute d env info (IrDistributeFallback ds) st = Ok (r, st')"
  shows "st' = st \<and> (\<forall>dn\<in>set ds. dn \<notin> set denoms) \<and>
    (\<exists>amt. must_pay d info ''untrn'' = Ok amt \<and> length ds * fee_total fee \<le> unat amt) \<and>
    (\<exists>coins. try_map (query_balance d (contract_address env)) ds = Ok coins \<and>
      (\<forall>dn. dn \<noteq> ''untrn'' \<longrightarrow> ibc_out dn (messages r) = coins_in dn coins)) \<and>
    (\<forall>m\<in>set (messages r). routed_to cfg (contract_address env) fee m)"
proof -
  from assms(1,2,4,5) obtain fc coins where c: "query_ibc_fee d = Ok fc"
    "assert_ibc_fee_coverage d info (total_ntrn_fee fc) (of_nat (length ds)) = Ok ()"
    "fallback_balances d (contract_address env) (\<lambda>dn. dn \<in> set denoms) ds = Ok coins"
    "get_ibc_transfer_messages_for_coins cfg coins (block_time (env_block env)) (contract_address env) (fee_config_fee fc)
       = Ok (messages r)" "st' = st"
    by (auto simp: ir_execute_def ir_try_distribute_fallback_def result_simps)
  from c(1) assms(4) have fc: "fee_config_fee fc = fee" "unat (total_ntrn_fee fc) = fee_total fee"
    by (auto simp: query_ibc_fee_def result_simps dest: flatten_Ok)
  note coins = fallback_balances_Ok [OF c(3)]
  from assms(3) have len: "length coins < 2 ^ 64" "unat (of_nat (length ds) :: u128) = length ds"
    using length_try_map [OF coins(2)] by (simp_all add: unat_of_nat)
  from c(2) obtain amt where "must_pay d info ''untrn'' = Ok amt" "length ds * fee_total fee \<le> unat amt"
    using fc(2) len(2) by (auto simp: assert_ibc_fee_coverage_def result_simps arith_simps word_less_unat not_less
        mult.commute split: result.splits if_splits)
  with ibc_batch_reserves [OF c(4) len(1)] coins c(5) fc show ?thesis by auto
qed

theorem ir_fallback_paid_by_caller_witness:
  "\<exists>r. ir_execute ex_ir_deps ex_ir_env \<lparr>sender = ''anyone'', funds = [\<lparr>coin_denom = ''untrn'', coin_amount = 200\<rparr>]\<rparr>
       (IrDistributeFallback [''stray'']) ex_ir_state = Ok (r, ex_ir_state) \<and>
     ibc_out ''stray'' (messages r) = 1000"
proof -
  let ?info = "\<lparr>sender = ''anyone'', funds = [\<lparr>coin_denom = ''untrn'', coin_amount = 200\<rparr>]\<rparr>"
  have "\<exists>r. ir_execute ex_ir_deps ex_ir_env ?info (IrDistributeFallback [''stray'']) ex_ir_state = Ok (r, ex_ir_state)"
    by (simp add: ir_execute_def ir_try_distribute_fallback_def ex_ir_state_def fallback_balances_def query_ibc_fee_def
      assert_ibc_fee_coverage_def ref_must_pay_def checked_mul_def
      ex_ir_deps_def get_ibc_transfer_messages_for_coins_def flatten_ibc_fee_total_amount_def sum_coins_def ex_fee_def
      push_transfer_def send_coin_def add_or_panic_def mul_or_panic_def sub_or_panic_def transfer_for_coin_def
      plus_seconds_def ex_destination_def om_get_def ex_ir_env_def)
  then obtain r where r: "ir_execute ex_ir_deps ex_ir_env ?info (IrDistributeFallback [''stray'']) ex_ir_state = Ok (r, ex_ir_state)" by blast
  from ir_fallback_paid_by_caller [OF _ _ _ _ r, where cfg = ex_destination and fee = ex_fee
      and denoms = "[''ibc/osmo'', ''untrn'']"] r show ?thesis
    by (auto simp: ex_ir_state_def ex_ir_deps_def)
qed

end
