(* ===== verification/Ica.thy ===== *)
theory Ica
  imports Destination Transactions
begin

text \<open>
  Interchain accounts (\<open>packages/covenant-utils/src/ica.rs\<close>). The contracts that own an account
  on a remote chain share the handling of its life cycle: the functions here are generic in an
  \<open>IcaStateHelper\<close>, the interface to the contract's storage, which is a record of operations.

  \<open>ica_store\<close> is the part of the storage the helpers of the three contracts work on; each
  contract extends it with its own items. The locale \<open>ica_controller\<close> states what a helper
  promises about the phase and the account of a contract, and derives what the callbacks of the
  chain (acknowledged handshake, timeout, reply) do to any such contract.
\<close>

section \<open>Data\<close>

record remote_chain_info =
  rci_connection_id :: string
  rci_channel_id :: string
  rci_denom :: denom
  rci_ibc_transfer_timeout :: u64
  rci_ica_timeout :: u64

record sudo_payload =
  payload_message :: string
  payload_port_id :: string

record request_packet =
  req_sequence :: "u64 option"
  req_source_channel :: "string option"

datatype sudo_msg =
    SudoResponse request_packet string
  | SudoError request_packet string
  | SudoTimeout request_packet
  | SudoOpenAck string string string string
  | SudoOther

record reply =
  reply_id :: u64
  reply_result :: "(string option, string) result"

datatype ica_contract_state = IcaInstantiated | IcaCreated

definition interchain_account_id :: string where
  "interchain_account_id = ''valence-ica''"

section \<open>The storage interface\<close>

record 's ica_state_helper =
  h_reset_state :: "'s \<Rightarrow> ('s, std_error) result"
  h_clear_ica :: "'s \<Rightarrow> ('s, std_error) result"
  h_save_ica :: "string \<Rightarrow> addr \<Rightarrow> string \<Rightarrow> 's \<Rightarrow> ('s, std_error) result"
  h_save_state_ica_created :: "'s \<Rightarrow> ('s, std_error) result"
  h_save_reply_payload :: "sudo_payload \<Rightarrow> 's \<Rightarrow> ('s, std_error) result"
  h_read_reply_payload :: "'s \<Rightarrow> (sudo_payload, std_error) result"
  h_save_sudo_payload :: "string \<Rightarrow> u64 \<Rightarrow> sudo_payload \<Rightarrow> 's \<Rightarrow> ('s, std_error) result"
  h_get_ica :: "string \<Rightarrow> 's \<Rightarrow> (addr \<times> string, std_error) result"

section \<open>The generic handlers\<close>

definition sudo_timeout :: "'s ica_state_helper \<Rightarrow> 's \<Rightarrow> (response \<times> 's, std_error) result" where
  "sudo_timeout h st =
     and_then (h_reset_state h st) (\<lambda>st.
     and_then (h_clear_ica h st) (\<lambda>st.
       Ok (resp [], st)))"

definition check_request :: "request_packet \<Rightarrow> (unit, std_error) result" where
  "check_request request =
     and_then (ok_or (GenericErr ''sequence not found'') (req_sequence request)) (\<lambda>_.
     and_then (ok_or (GenericErr ''channel_id not found'') (req_source_channel request)) (\<lambda>_.
       Ok ()))"

definition sudo_response :: "request_packet \<Rightarrow> string \<Rightarrow> 's \<Rightarrow> (response \<times> 's, std_error) result" where
  "sudo_response request data st = and_then (check_request request) (\<lambda>_. Ok (resp [], st))"

definition sudo_error :: "request_packet \<Rightarrow> string \<Rightarrow> 's \<Rightarrow> (response \<times> 's, std_error) result" where
  "sudo_error request details st = and_then (check_request request) (\<lambda>_. Ok (resp [], st))"

definition sudo_open_ack ::
    "deps \<Rightarrow> 's ica_state_helper \<Rightarrow> string \<Rightarrow> string \<Rightarrow> 's \<Rightarrow> (response \<times> 's, std_error) result" where
  "sudo_open_ack d h port_id counterparty_version st =
     (case parse_open_ack d counterparty_version of
        None \<Rightarrow> Err (GenericErr ''Can't parse counterparty_version'')
      | Some version \<Rightarrow>
          and_then (h_save_ica h port_id (ack_address version) (ack_controller_connection_id version) st) (\<lambda>st.
          and_then (h_save_state_ica_created h st) (\<lambda>st.
            Ok (resp [], st))))"

definition prepare_sudo_payload ::
    "deps \<Rightarrow> 's ica_state_helper \<Rightarrow> reply \<Rightarrow> 's \<Rightarrow> (response \<times> 's, std_error) result" where
  "prepare_sudo_payload d h msg st =
     and_then (h_read_reply_payload h st) (\<lambda>payload.
     and_then (map_err GenericErr (reply_result msg)) (\<lambda>data_opt.
     and_then (ok_or (GenericErr ''no result'') data_opt) (\<lambda>bytes.
     and_then (ok_or (GenericErr ''failed to parse response'') (parse_submit_tx_response d bytes)) (\<lambda>(seq_id, channel_id).
     and_then (h_save_sudo_payload h channel_id seq_id payload st) (\<lambda>st.
       Ok (resp [], st))))))"

definition get_ica ::
    "deps \<Rightarrow> 's ica_state_helper \<Rightarrow> addr \<Rightarrow> string \<Rightarrow> 's \<Rightarrow> (addr \<times> string, std_error) result" where
  "get_ica d h contract_addr ica_id st = h_get_ica h (get_port_id d contract_addr ica_id) st"

definition msg_with_sudo_callback ::
    "'s ica_state_helper \<Rightarrow> cosmos_msg \<Rightarrow> sudo_payload \<Rightarrow> u64 \<Rightarrow> 's \<Rightarrow> (submsg \<times> 's, std_error) result" where
  "msg_with_sudo_callback h msg payload rid st =
     and_then (h_save_reply_payload h payload st) (\<lambda>st.
       Ok (\<lparr>sub_msg = msg, sub_id = rid, sub_gas_limit = None, sub_reply_on = ReplyOnSuccess\<rparr>, st))"

definition query_ica_registration_fee :: "deps \<Rightarrow> (coin list, std_error) result" where
  "query_ica_registration_fee d = query_register_fee d"

text \<open>The dispatch of the callbacks, the same in the three contracts.\<close>

definition ica_sudo :: "deps \<Rightarrow> 's ica_state_helper \<Rightarrow> sudo_msg \<Rightarrow> 's \<Rightarrow> (response \<times> 's, std_error) result" where
  "ica_sudo d h msg st =
     (case msg of
        SudoResponse request data \<Rightarrow> sudo_response request data st
      | SudoError request details \<Rightarrow> sudo_error request details st
      | SudoTimeout _ \<Rightarrow> sudo_timeout h st
      | SudoOpenAck port_id _ _ version \<Rightarrow> sudo_open_ack d h port_id version st
      | SudoOther \<Rightarrow> Ok (resp [], st))"

definition sudo_payload_reply_id :: u64 where
  "sudo_payload_reply_id = 1"

definition ica_reply :: "deps \<Rightarrow> 's ica_state_helper \<Rightarrow> reply \<Rightarrow> 's \<Rightarrow> (response \<times> 's, std_error) result" where
  "ica_reply d h msg st =
     (if reply_id msg = sudo_payload_reply_id then prepare_sudo_payload d h msg st
      else Err (GenericErr ''unsupported reply message id''))"

section \<open>The shared storage\<close>

text \<open>
  \<open>INTERCHAIN_ACCOUNTS\<close> maps a port to nothing (no request yet), an empty entry (requested) or
  the account. Payloads are stored as JSON, which reads back as what was written.
\<close>

record ica_store =
  ica_phase :: "ica_contract_state option"
  ica_accounts :: "(string, (addr \<times> string) option) omap"
  ica_reply_payload :: "sudo_payload option"
  ica_sudo_payloads :: "((string \<times> u64) \<times> sudo_payload) list"

definition store_reset_state :: "'a ica_store_scheme \<Rightarrow> ('a ica_store_scheme, std_error) result" where
  "store_reset_state st = Ok (st\<lparr>ica_phase := Some IcaInstantiated\<rparr>)"

definition store_clear_ica :: "'a ica_store_scheme \<Rightarrow> ('a ica_store_scheme, std_error) result" where
  "store_clear_ica st = Ok (st\<lparr>ica_accounts := []\<rparr>)"

definition store_save_ica ::
    "string \<Rightarrow> addr \<Rightarrow> string \<Rightarrow> 'a ica_store_scheme \<Rightarrow> ('a ica_store_scheme, std_error) result" where
  "store_save_ica port_id address conn st =
     Ok (st\<lparr>ica_accounts := om_insert (ica_accounts st) port_id (Some (address, conn))\<rparr>)"

definition store_save_state_ica_created :: "'a ica_store_scheme \<Rightarrow> ('a ica_store_scheme, std_error) result" where
  "store_save_state_ica_created st = Ok (st\<lparr>ica_phase := Some IcaCreated\<rparr>)"

definition store_save_reply_payload ::
    "sudo_payload \<Rightarrow> 'a ica_store_scheme \<Rightarrow> ('a ica_store_scheme, std_error) result" where
  "store_save_reply_payload payload st = Ok (st\<lparr>ica_reply_payload := Some payload\<rparr>)"

definition store_read_reply_payload :: "'a ica_store_scheme \<Rightarrow> (sudo_payload, std_error) result" where
  "store_read_reply_payload st = load (ica_reply_payload st)"

definition store_save_sudo_payload ::
    "string \<Rightarrow> u64 \<Rightarrow> sudo_payload \<Rightarrow> 'a ica_store_scheme \<Rightarrow> ('a ica_store_scheme, std_error) result" where
  "store_save_sudo_payload channel_id seq_id payload st =
     Ok (st\<lparr>ica_sudo_payloads :=
       ((channel_id, seq_id), payload) # filter (\<lambda>p. fst p \<noteq> (channel_id, seq_id)) (ica_sudo_payloads st)\<rparr>)"

definition store_get_ica :: "string \<Rightarrow> 'a ica_store_scheme \<Rightarrow> (addr \<times> string, std_error) result" where
  "store_get_ica key st =
     and_then (load (om_get (ica_accounts st) key)) (\<lambda>entry.
       ok_or (GenericErr ''Interchain account is not created yet'') entry)"

lemmas store_defs = store_reset_state_def store_clear_ica_def store_save_ica_def store_save_state_ica_created_def
  store_save_reply_payload_def store_read_reply_payload_def store_save_sudo_payload_def store_get_ica_def

section \<open>Operations the contracts share\<close>

text \<open>
  The forwarder and the remote-chain splitter have the same error type and the same text for
  requesting the account and for the fallback distribution; both are parametrised here by the
  contract's configuration items and its helper.
\<close>

datatype ica_error =
    IcaStd std_error
  | IcaOperation op_error
  | IcaMissingFallbackAddress
  | IcaUnauthorizedDenomDistribution
  | IcaDuplicateDenomDistribution

datatype fallback_update = ExplicitAddress string | DisableFallback

definition register_ica ::
    "deps \<Rightarrow> env \<Rightarrow> remote_chain_info option \<Rightarrow> 'a ica_store_scheme \<Rightarrow> (response \<times> 'a ica_store_scheme, std_error) result" where
  "register_ica d env rci_item st =
     and_then (load rci_item) (\<lambda>rci.
     and_then (query_ica_registration_fee d) (\<lambda>fee.
     let key = get_port_id d (contract_address env) interchain_account_id in
       Ok (resp [RegisterInterchainAccount (rci_connection_id rci) interchain_account_id (Some fee)],
           st\<lparr>ica_accounts := om_insert (ica_accounts st) key None\<rparr>)))"

text \<open>The coins of a fallback distribution: neither the target denomination nor a repeated one.\<close>

definition fallback_coin ::
    "denom \<Rightarrow> denom list \<times> coin list \<Rightarrow> coin \<Rightarrow> (denom list \<times> coin list, ica_error) result" where
  "fallback_coin target acc c =
     (case acc of (encountered, coins) \<Rightarrow>
        and_then (ensure (coin_denom c \<noteq> target) IcaUnauthorizedDenomDistribution) (\<lambda>_.
        and_then (ensure (coin_denom c \<notin> set encountered) IcaDuplicateDenomDistribution) (\<lambda>_.
          Ok (coin_denom c # encountered, coins @ [c]))))"

definition distribute_fallback ::
    "deps \<Rightarrow> 'a ica_store_scheme ica_state_helper \<Rightarrow> string option \<Rightarrow> remote_chain_info option \<Rightarrow> env \<Rightarrow> message_info
     \<Rightarrow> coin list \<Rightarrow> 'a ica_store_scheme \<Rightarrow> (response \<times> 'a ica_store_scheme, ica_error) result" where
  "distribute_fallback d h fallback_item rci_item env info coins st =
     and_then (ok_or IcaMissingFallbackAddress fallback_item) (\<lambda>destination.
     and_then (map_err IcaStd (load rci_item)) (\<lambda>rci.
     and_then (map_err IcaStd (query_ibc_fee d)) (\<lambda>fee_config.
     and_then (map_err IcaStd (assert_ibc_fee_coverage d info (total_ntrn_fee fee_config) 1)) (\<lambda>_.
     and_then (try_fold (fallback_coin (rci_denom rci)) ([], []) coins) (\<lambda>(_, proto_coins).
     let port_id = get_port_id d (contract_address env) interchain_account_id in
     (case om_get (ica_accounts st) port_id of
        Some (Some (address, controller_conn_id)) \<Rightarrow>
          and_then (map_err IcaStd (msg_with_sudo_callback h
              (SubmitTx controller_conn_id interchain_account_id
                [MsgMultiSend [(address, proto_coins)] [(destination, proto_coins)]] []
                (rci_ica_timeout rci) (fee_config_fee fee_config))
              \<lparr>payload_message = ''distribute_fallback_multisend'', payload_port_id = port_id\<rparr>
              sudo_payload_reply_id st)) (\<lambda>(sm, st').
            Ok (\<lparr>submessages = [sm]\<rparr>, st'))
      | _ \<Rightarrow> Err (IcaStd (GenericErr ''no ica found''))))))))"

section \<open>The life cycle of an account\<close>

text \<open>
  \<open>phase\<close> and \<open>account\<close> are what a contract shows of its storage, \<open>wf\<close> is the well-formedness
  of its account map, and \<open>known\<close> says that a contract that believes its account exists knows it.
\<close>

locale ica_controller =
  fixes h :: "'s ica_state_helper"
    and phase :: "'s \<Rightarrow> ica_contract_state option"
    and account :: "'s \<Rightarrow> string \<Rightarrow> (addr \<times> string) option option"
    and wf :: "'s \<Rightarrow> bool"
    and known :: "string \<Rightarrow> 's \<Rightarrow> bool"
  assumes reset: "\<exists>s'. h_reset_state h s = Ok s' \<and> phase s' = Some IcaInstantiated \<and>
        account s' = account s \<and> (wf s \<longrightarrow> wf s')"
    and clear: "\<exists>s'. h_clear_ica h s = Ok s' \<and> phase s' = phase s \<and> account s' = (\<lambda>_. None) \<and> wf s'"
    and save: "wf s \<Longrightarrow> \<exists>s'. h_save_ica h port a conn s = Ok s' \<and> phase s' = phase s \<and>
        account s' = (account s)(port \<mapsto> Some (a, conn)) \<and> wf s'"
    and created: "\<exists>s'. h_save_state_ica_created h s = Ok s' \<and> phase s' = Some IcaCreated \<and>
        account s' = account s \<and> (wf s \<longrightarrow> wf s')"
    and keep_sudo: "h_save_sudo_payload h ch n p s = Ok s' \<Longrightarrow>
        phase s' = phase s \<and> account s' = account s \<and> (wf s \<longrightarrow> wf s')"
    and keep_reply: "h_save_reply_payload h p s = Ok s' \<Longrightarrow>
        phase s' = phase s \<and> account s' = account s \<and> (wf s \<longrightarrow> wf s')"
    and get: "h_get_ica h port s = Ok x \<longleftrightarrow> account s port = Some (Some x)"
    and known_iff: "known port s \<longleftrightarrow> wf s \<and> (phase s = Some IcaCreated \<longrightarrow> (\<exists>x. account s port = Some (Some x)))"
begin

lemma timeout_resets:
  "\<exists>s'. sudo_timeout h s = Ok (resp [], s') \<and> phase s' = Some IcaInstantiated \<and> account s' = (\<lambda>_. None) \<and> wf s'"
proof -
  obtain s1 where s1: "h_reset_state h s = Ok s1" "phase s1 = Some IcaInstantiated" using reset by blast
  obtain s2 where "h_clear_ica h s1 = Ok s2" "phase s2 = phase s1" "account s2 = (\<lambda>_. None)" "wf s2"
    using clear by blast
  with s1 show ?thesis by (simp add: sudo_timeout_def)
qed

lemma open_ack_creates:
  assumes "parse_open_ack d version = Some v" and "wf s"
  shows "\<exists>s'. sudo_open_ack d h port version s = Ok (resp [], s') \<and> phase s' = Some IcaCreated \<and>
    account s' = (account s)(port \<mapsto> Some (ack_address v, ack_controller_connection_id v)) \<and> wf s' \<and>
    h_get_ica h port s' = Ok (ack_address v, ack_controller_connection_id v)"
proof -
  obtain s1 where s1: "h_save_ica h port (ack_address v) (ack_controller_connection_id v) s = Ok s1" "wf s1"
    "account s1 = (account s)(port \<mapsto> Some (ack_address v, ack_controller_connection_id v))"
    using save [OF assms(2)] by blast
  obtain s2 where "h_save_state_ica_created h s1 = Ok s2" "phase s2 = Some IcaCreated" "account s2 = account s1"
    "wf s2" using created s1(2) by blast
  with s1 assms(1) show ?thesis by (simp add: sudo_open_ack_def get)
qed

lemma sudo_known:
  assumes "ica_sudo d h msg s = Ok (r, s')" and "known port s"
    and "\<And>p ch cch v. msg = SudoOpenAck p ch cch v \<Longrightarrow> p = port"
  shows "known port s'"
proof (cases msg)
  case (SudoTimeout req)
  with assms timeout_resets [of s] show ?thesis by (auto simp: ica_sudo_def known_iff)
next
  case (SudoOpenAck p ch cch version)
  with assms obtain v where "parse_open_ack d version = Some v" "sudo_open_ack d h port version s = Ok (r, s')"
    by (auto simp: ica_sudo_def sudo_open_ack_def split: option.splits)
  with open_ack_creates [of d version v s port] assms(2) show ?thesis by (auto simp: known_iff)
qed (use assms in \<open>auto simp: ica_sudo_def sudo_response_def sudo_error_def result_simps\<close>)

lemma reply_known:
  assumes "ica_reply d h msg s = Ok (r, s')" and "known port s"
  shows "known port s'"
  using assms by (auto simp: ica_reply_def prepare_sudo_payload_def result_simps known_iff
      dest!: keep_sudo split: if_splits)

lemma callback_known:
  assumes "msg_with_sudo_callback h m p rid s = Ok (sm, s')" and "known port s"
  shows "known port s'" and "phase s' = phase s"
  using assms by (auto simp: msg_with_sudo_callback_def result_simps known_iff dest!: keep_reply)

end

section \<open>The shared storage as a controller\<close>

definition store_account :: "'a ica_store_scheme \<Rightarrow> string \<Rightarrow> (addr \<times> string) option option" where
  "store_account st = om_get (ica_accounts st)"

definition store_wf :: "'a ica_store_scheme \<Rightarrow> bool" where
  "store_wf st \<longleftrightarrow> om_wf (ica_accounts st)"

definition store_known :: "string \<Rightarrow> 'a ica_store_scheme \<Rightarrow> bool" where
  "store_known port st \<longleftrightarrow> om_wf (ica_accounts st) \<and>
     (ica_phase st = Some IcaCreated \<longrightarrow> (\<exists>x. om_get (ica_accounts st) port = Some (Some x)))"

text \<open>A helper made of the storage operations satisfies the laws, whatever the storage is extended with.\<close>

definition store_helper :: "'a ica_store_scheme ica_state_helper \<Rightarrow> bool" where
  "store_helper h \<longleftrightarrow> h = \<lparr>h_reset_state = store_reset_state, h_clear_ica = store_clear_ica,
     h_save_ica = store_save_ica, h_save_state_ica_created = store_save_state_ica_created,
     h_save_reply_payload = store_save_reply_payload, h_read_reply_payload = store_read_reply_payload,
     h_save_sudo_payload = store_save_sudo_payload, h_get_ica = store_get_ica\<rparr>"

lemma store_controller:
  assumes "store_helper h"
  shows "ica_controller h ica_phase store_account store_wf store_known"
  using assms
  by unfold_locales (auto simp: store_helper_def store_defs store_account_def store_wf_def store_known_def result_simps)

section \<open>The shared operations on a known account\<close>

text \<open>
  The port of a contract. The chain reports opened channels of a contract's own port; the calls
  that satisfy \<open>own_sudo\<close> are those.
\<close>

definition own_port :: "deps \<Rightarrow> addr \<Rightarrow> string" where
  "own_port d self = get_port_id d self interchain_account_id"

fun own_sudo :: "string \<Rightarrow> sudo_msg \<Rightarrow> bool" where
  "own_sudo port (SudoOpenAck p _ _ _) = (p = port)"
| "own_sudo port _ = True"

lemma store_knownD:
  assumes "store_known (own_port d (contract_address env)) st" and "ica_phase st = Some IcaCreated"
  obtains a conn where
    "om_get (ica_accounts st) (get_port_id d (contract_address env) interchain_account_id) = Some (Some (a, conn))"
  using assms by (auto simp: store_known_def own_port_def)

lemma register_ica_known:
  assumes "register_ica d env rci_item st = Ok (r, st')" and "ica_phase st = Some IcaInstantiated"
    and "store_known port st"
  shows "store_known port st'"
  using assms by (auto simp: register_ica_def result_simps Let_def store_known_def)

lemma store_callback:
  assumes "store_helper h"
  shows "msg_with_sudo_callback h m p rid st =
    Ok (\<lparr>sub_msg = m, sub_id = rid, sub_gas_limit = None, sub_reply_on = ReplyOnSuccess\<rparr>,
        st\<lparr>ica_reply_payload := Some p\<rparr>)"
  using assms by (simp add: msg_with_sudo_callback_def store_helper_def store_save_reply_payload_def)

lemma store_known_payload [simp]: "store_known port (st\<lparr>ica_reply_payload := p\<rparr>) = store_known port st"
  by (simp add: store_known_def)

lemma fallback_coin_fold:
  "try_fold (fallback_coin target) (seen, acc) coins = Ok res \<longleftrightarrow>
     target \<notin> coin_denom ` set coins \<and> distinct (map coin_denom coins) \<and>
     coin_denom ` set coins \<inter> set seen = {} \<and> res = (rev (map coin_denom coins) @ seen, acc @ coins)"
  by (induction coins arbitrary: seen acc) (auto simp: fallback_coin_def result_simps)

text \<open>
  A fallback distribution that succeeds has the account send exactly the listed coins to the
  fallback address, none of them the target denomination and none twice; the caller has covered
  the fees, and only the reply payload changes.
\<close>

lemma distribute_fallback_Ok:
  assumes "distribute_fallback d h fallback_item rci_item env info coins st = Ok (r, st')" and "store_helper h"
  obtains rci fee address conn destination p where
    "fallback_item = Some destination" "rci_item = Some rci" "query_ibc_fee d = Ok fee"
    "assert_ibc_fee_coverage d info (total_ntrn_fee fee) 1 = Ok ()"
    "rci_denom rci \<notin> coin_denom ` set coins" "distinct (map coin_denom coins)"
    "om_get (ica_accounts st) (get_port_id d (contract_address env) interchain_account_id) = Some (Some (address, conn))"
    "messages r = [SubmitTx conn interchain_account_id [MsgMultiSend [(address, coins)] [(destination, coins)]] []
       (rci_ica_timeout rci) (fee_config_fee fee)]"
    "st' = st\<lparr>ica_reply_payload := Some p\<rparr>"
proof -
  from assms obtain destination rci fee where *: "fallback_item = Some destination" "rci_item = Some rci"
    "query_ibc_fee d = Ok fee" "assert_ibc_fee_coverage d info (total_ntrn_fee fee) 1 = Ok ()"
    "rci_denom rci \<notin> coin_denom ` set coins" "distinct (map coin_denom coins)"
    by (auto simp: distribute_fallback_def result_simps fallback_coin_fold)
  from * have f: "try_fold (fallback_coin (rci_denom rci)) ([], []) coins = Ok (rev (map coin_denom coins), coins)"
    by (simp add: fallback_coin_fold)
  show thesis
  proof (cases "om_get (ica_accounts st) (get_port_id d (contract_address env) interchain_account_id)")
    case (Some entry)
    show thesis
    proof (cases entry)
      case (Some x)
      obtain a b where "x = (a, b)" by (cases x)
      with * f Some \<open>_ = Some entry\<close> assms(1) show thesis
        by (intro that [of destination rci fee a b])
          (auto simp: distribute_fallback_def store_callback [OF assms(2)] messages_def)
    qed (use * f Some assms in \<open>simp add: distribute_fallback_def\<close>)
  qed (use * f assms in \<open>simp add: distribute_fallback_def\<close>)
qed

lemma distribute_fallback_known:
  assumes "distribute_fallback d h fallback_item rci_item env info coins st = Ok (r, st')" and "store_helper h"
    and "store_known port st"
  shows "store_known port st'"
  using assms by (auto elim: distribute_fallback_Ok)

end
