(* ===== verification/Ibc_Forwarder.thy ===== *)
theory Ibc_Forwarder
  imports Ica
begin

text \<open>
  The IBC forwarder (\<open>contracts/ibc-forwarder\<close>): it opens an interchain account on the remote
  chain, and from then on each tick has that account transfer the configured amount to the
  deposit address of the next contract. Other coins on the account can be sent to a fallback
  address.
\<close>

section \<open>State and messages\<close>

record fw_state = ica_store +
  fw_op_mode :: "op_mode option"
  fw_transfer_amount :: "u128 option"
  fw_next_contract :: "addr option"
  fw_remote_chain :: "remote_chain_info option"
  fw_fallback :: "string option"

record fw_instantiate_msg =
  fwi_op_mode :: op_mode_config
  fwi_next_contract :: string
  fwi_connection_id :: string
  fwi_channel_id :: string
  fwi_denom :: denom
  fwi_amount :: u128
  fwi_ibc_transfer_timeout :: u64
  fwi_ica_timeout :: u64
  fwi_fallback :: "string option"

datatype fw_execute_msg = FwTick | FwDistributeFallback "coin list"

record fw_update_config =
  fwu_op_mode :: "op_mode_config option"
  fwu_next_contract :: "string option"
  fwu_remote_chain :: "remote_chain_info option"
  fwu_transfer_amount :: "u128 option"
  fwu_fallback :: "fallback_update option"

datatype fw_migrate_msg = FwUpdateConfig fw_update_config | FwUpdateCodeId

datatype fw_query_msg =
    FwQDepositAddress | FwQIcaAddress | FwQRemoteChainInfo | FwQContractState | FwQFallbackAddress | FwQOperationMode

datatype fw_query_reply =
    FwRMaybeAddr "addr option" | FwRAddr addr | FwRRemoteChain "remote_chain_info option"
  | FwRState "ica_contract_state option" | FwROpMode "op_mode option"

text \<open>The contract's implementation of the storage interface.\<close>

definition fw_ica_helper :: "fw_state ica_state_helper" where
  "fw_ica_helper = \<lparr>h_reset_state = store_reset_state, h_clear_ica = store_clear_ica,
     h_save_ica = store_save_ica, h_save_state_ica_created = store_save_state_ica_created,
     h_save_reply_payload = store_save_reply_payload, h_read_reply_payload = store_read_reply_payload,
     h_save_sudo_payload = store_save_sudo_payload, h_get_ica = store_get_ica\<rparr>"

section \<open>Entry points\<close>

definition fw_instantiate :: "deps \<Rightarrow> fw_instantiate_msg \<Rightarrow> (response \<times> fw_state, ica_error) result" where
  "fw_instantiate d msg =
     and_then (map_err IcaStd (addr_validate d (fwi_next_contract msg))) (\<lambda>next_contract.
     and_then (map_err IcaStd (op_mode_try_init d (fwi_op_mode msg))) (\<lambda>mode.
       Ok (resp [],
           \<lparr>ica_phase = Some IcaInstantiated, ica_accounts = [], ica_reply_payload = None, ica_sudo_payloads = [],
            fw_op_mode = Some mode, fw_transfer_amount = Some (fwi_amount msg),
            fw_next_contract = Some next_contract,
            fw_remote_chain = Some \<lparr>rci_connection_id = fwi_connection_id msg, rci_channel_id = fwi_channel_id msg,
              rci_denom = fwi_denom msg, rci_ibc_transfer_timeout = fwi_ibc_transfer_timeout msg,
              rci_ica_timeout = fwi_ica_timeout msg\<rparr>,
            fw_fallback = fwi_fallback msg\<rparr>)))"

definition fw_try_distribute_fallback ::
    "deps \<Rightarrow> env \<Rightarrow> message_info \<Rightarrow> coin list \<Rightarrow> fw_state \<Rightarrow> (response \<times> fw_state, ica_error) result" where
  "fw_try_distribute_fallback d env info coins st =
     distribute_fallback d fw_ica_helper (fw_fallback st) (fw_remote_chain st) env info coins st"

definition fw_try_register_ica :: "deps \<Rightarrow> env \<Rightarrow> fw_state \<Rightarrow> (response \<times> fw_state, ica_error) result" where
  "fw_try_register_ica d env st = map_err IcaStd (register_ica d env (fw_remote_chain st) st)"

definition get_next_memo :: "deps \<Rightarrow> addr \<Rightarrow> (string, std_error) result" where
  "get_next_memo d a =
     (case query_next_memo d a of
        Ok memo \<Rightarrow> if memo = [] then Err (GenericErr ''NextMemo query returned empty string'') else Ok memo
      | Err _ \<Rightarrow> Ok []
      | Panic \<Rightarrow> Panic)"

definition fw_try_forward_funds :: "deps \<Rightarrow> env \<Rightarrow> fw_state \<Rightarrow> (response \<times> fw_state, ica_error) result" where
  "fw_try_forward_funds d env st =
     and_then (map_err IcaStd (load (fw_next_contract st))) (\<lambda>next_contract.
     and_then (map_err IcaStd (query_deposit_address d next_contract)) (\<lambda>deposit.
     and_then (ok_or (IcaStd (NotFound ''Next contract is not ready for receiving the funds yet'')) deposit)
       (\<lambda>deposit_address.
     and_then (map_err IcaStd (query_ibc_fee d)) (\<lambda>fee_config.
     let port_id = get_port_id d (contract_address env) interchain_account_id in
     and_then (map_err IcaStd (load (om_get (ica_accounts st) port_id))) (\<lambda>interchain_account.
     case interchain_account of
       Some (address, controller_conn_id) \<Rightarrow>
         and_then (map_err IcaStd (load (fw_remote_chain st))) (\<lambda>rci.
         and_then (map_err IcaStd (load (fw_transfer_amount st))) (\<lambda>amount.
         and_then (map_err IcaStd (get_next_memo d next_contract)) (\<lambda>memo.
         and_then (map_err IcaStd (plus_seconds (block_time (env_block env)) (rci_ica_timeout rci))) (\<lambda>t1.
         and_then (map_err IcaStd (plus_seconds t1 (rci_ibc_transfer_timeout rci))) (\<lambda>timeout.
         and_then (map_err IcaStd (msg_with_sudo_callback fw_ica_helper
             (SubmitTx controller_conn_id interchain_account_id
               [MsgTransfer \<lparr>rt_source_port = ''transfer'', rt_source_channel = rci_channel_id rci,
                  rt_token = \<lparr>coin_denom = rci_denom rci, coin_amount = amount\<rparr>, rt_sender = address,
                  rt_receiver = deposit_address, rt_timeout_timestamp = timeout, rt_memo = memo\<rparr>] []
               (rci_ica_timeout rci) (fee_config_fee fee_config))
             \<lparr>payload_message = ''try_forward_funds'', payload_port_id = port_id\<rparr>
             sudo_payload_reply_id st)) (\<lambda>(sm, st').
           Ok (\<lparr>submessages = [sm]\<rparr>, st')))))))
     | None \<Rightarrow> Ok (resp [], st\<lparr>ica_phase := Some IcaInstantiated\<rparr>))))))"

definition fw_try_tick ::
    "deps \<Rightarrow> env \<Rightarrow> message_info \<Rightarrow> fw_state \<Rightarrow> (response \<times> fw_state, ica_error) result" where
  "fw_try_tick d env info st =
     and_then (map_err IcaStd (load (fw_op_mode st))) (\<lambda>mode.
     and_then (map_err IcaOperation (verify_caller (sender info) mode)) (\<lambda>_.
     and_then (map_err IcaStd (load (ica_phase st))) (\<lambda>current_state.
       case current_state of
         IcaInstantiated \<Rightarrow> fw_try_register_ica d env st
       | IcaCreated \<Rightarrow> fw_try_forward_funds d env st)))"

definition fw_execute ::
    "deps \<Rightarrow> env \<Rightarrow> message_info \<Rightarrow> fw_execute_msg \<Rightarrow> fw_state \<Rightarrow> (response \<times> fw_state, ica_error) result" where
  "fw_execute d env info msg st =
     (case msg of
        FwDistributeFallback coins \<Rightarrow> fw_try_distribute_fallback d env info coins st
      | FwTick \<Rightarrow> fw_try_tick d env info st)"

definition fw_query :: "deps \<Rightarrow> env \<Rightarrow> fw_query_msg \<Rightarrow> fw_state \<Rightarrow> (fw_query_reply, std_error) result" where
  "fw_query d env msg st =
     (case msg of
        FwQDepositAddress \<Rightarrow>
          Ok (FwRMaybeAddr (case om_get (ica_accounts st) (get_port_id d (contract_address env) interchain_account_id) of
                Some entry \<Rightarrow> (case entry of Some (a, _) \<Rightarrow> Some a | None \<Rightarrow> None)
              | None \<Rightarrow> None))
      | FwQIcaAddress \<Rightarrow>
          and_then (get_ica d fw_ica_helper (contract_address env) interchain_account_id st) (\<lambda>(a, _). Ok (FwRAddr a))
      | FwQRemoteChainInfo \<Rightarrow> Ok (FwRRemoteChain (fw_remote_chain st))
      | FwQContractState \<Rightarrow> Ok (FwRState (ica_phase st))
      | FwQFallbackAddress \<Rightarrow> Ok (FwRMaybeAddr (fw_fallback st))
      | FwQOperationMode \<Rightarrow> Ok (FwROpMode (fw_op_mode st)))"

definition fw_sudo :: "deps \<Rightarrow> sudo_msg \<Rightarrow> fw_state \<Rightarrow> (response \<times> fw_state, std_error) result" where
  "fw_sudo d msg st = ica_sudo d fw_ica_helper msg st"

definition fw_reply :: "deps \<Rightarrow> reply \<Rightarrow> fw_state \<Rightarrow> (response \<times> fw_state, std_error) result" where
  "fw_reply d msg st = ica_reply d fw_ica_helper msg st"

definition fw_migrate :: "deps \<Rightarrow> fw_migrate_msg \<Rightarrow> fw_state \<Rightarrow> (response \<times> fw_state, std_error) result" where
  "fw_migrate d msg st =
     (case msg of
        FwUpdateConfig u \<Rightarrow>
          and_then (upd_field (\<lambda>cfg st. and_then (map_err (\<lambda>_. GenericErr ''op mode'') (op_mode_try_init d cfg)) (\<lambda>m.
                      Ok (st\<lparr>fw_op_mode := Some m\<rparr>))) (fwu_op_mode u) st) (\<lambda>st.
          and_then (upd_field (\<lambda>a st. and_then (addr_validate d a) (\<lambda>v.
                      Ok (st\<lparr>fw_next_contract := Some v\<rparr>))) (fwu_next_contract u) st) (\<lambda>st.
          and_then (upd_field (\<lambda>c st. Ok (st\<lparr>fw_remote_chain := Some c\<rparr>)) (fwu_remote_chain u) st) (\<lambda>st.
          and_then (upd_field (\<lambda>a st. Ok (st\<lparr>fw_transfer_amount := Some a\<rparr>)) (fwu_transfer_amount u) st) (\<lambda>st.
          and_then (upd_field (\<lambda>c st. Ok (st\<lparr>fw_fallback := (case c of ExplicitAddress a \<Rightarrow> Some a
                      | DisableFallback \<Rightarrow> None)\<rparr>)) (fwu_fallback u) st) (\<lambda>st.
            Ok (resp [], st))))))
      | FwUpdateCodeId \<Rightarrow> Ok (resp [], st))"

section \<open>The account of a running forwarder\<close>

interpretation fw_ica: ica_controller fw_ica_helper ica_phase store_account store_wf store_known
  by (rule store_controller) (simp add: store_helper_def fw_ica_helper_def)

datatype fw_call =
    FwExec env message_info fw_execute_msg
  | FwSudo sudo_msg
  | FwReply reply
  | FwMigrate fw_migrate_msg

fun fw_handle :: "deps \<Rightarrow> fw_call \<Rightarrow> fw_state \<Rightarrow> (response \<times> fw_state, ica_error) result" where
  "fw_handle d (FwExec env info msg) st = fw_execute d env info msg st"
| "fw_handle d (FwSudo msg) st = map_err IcaStd (fw_sudo d msg st)"
| "fw_handle d (FwReply msg) st = map_err IcaStd (fw_reply d msg st)"
| "fw_handle d (FwMigrate msg) st = map_err IcaStd (fw_migrate d msg st)"

text \<open>
  The calls of one contract instance: executions run at its own address, and the chain reports
  opened channels for its own port.
\<close>

fun fw_valid :: "deps \<Rightarrow> addr \<Rightarrow> fw_call \<Rightarrow> bool" where
  "fw_valid d self (FwExec env _ _) = (contract_address env = self)"
| "fw_valid d self (FwSudo msg) = own_sudo (own_port d self) msg"
| "fw_valid d self _ = True"

lemma fw_keep_fields [simp]:
  "store_known port (st\<lparr>fw_op_mode := a\<rparr>) = store_known port (st :: fw_state)"
  "store_known port (st\<lparr>fw_next_contract := b\<rparr>) = store_known port st"
  "store_known port (st\<lparr>fw_remote_chain := c\<rparr>) = store_known port st"
  "store_known port (st\<lparr>fw_transfer_amount := e\<rparr>) = store_known port st"
  "store_known port (st\<lparr>fw_fallback := f\<rparr>) = store_known port st"
  by (simp_all add: store_known_def)

lemma fw_migrate_known:
  assumes "fw_migrate d msg st = Ok (r, st')" and "store_known port st"
  shows "store_known port st'"
proof (cases msg)
  case (FwUpdateConfig u)
  have "store_known port st \<longrightarrow> store_known port st'"
    using assms(1) unfolding FwUpdateConfig fw_migrate_def fw_migrate_msg.case
    by (elim upd_field_chain [where R = "\<lambda>a b. store_known port a \<longrightarrow> store_known port b"])
      (auto simp: result_simps)
  with assms(2) show ?thesis by blast
qed (use assms in \<open>simp add: fw_migrate_def\<close>)

lemma fw_store_helper: "store_helper fw_ica_helper"
  by (simp add: store_helper_def fw_ica_helper_def)

lemmas fw_callback = store_callback [OF fw_store_helper]

lemma fw_exec_known:
  assumes "fw_execute d env info msg st = Ok (r, st')" and "store_known (own_port d (contract_address env)) st"
  shows "store_known (own_port d (contract_address env)) st'"
proof (cases msg)
  case (FwDistributeFallback coins)
  with assms show ?thesis
    by (auto simp: fw_execute_def fw_try_distribute_fallback_def intro: distribute_fallback_known [OF _ fw_store_helper])
next
  case FwTick
  with assms(1) obtain ph where ph: "ica_phase st = Some ph" by (auto simp: fw_execute_def fw_try_tick_def result_simps)
  show ?thesis
  proof (cases ph)
    case IcaInstantiated
    with assms FwTick ph show ?thesis
      by (auto simp: fw_execute_def fw_try_tick_def fw_try_register_ica_def result_simps intro: register_ica_known)
  next
    case IcaCreated
    with assms FwTick ph have f: "fw_try_forward_funds d env st = Ok (r, st')"
      by (auto simp: fw_execute_def fw_try_tick_def result_simps)
    from assms(2) ph IcaCreated obtain a b where
      "om_get (ica_accounts st) (get_port_id d (contract_address env) interchain_account_id) = Some (Some (a, b))"
      by (auto elim: store_knownD)
    with f assms(2) show ?thesis
      by (auto simp: fw_try_forward_funds_def result_simps fw_callback)
  qed
qed

lemma fw_handle_known:
  assumes "fw_valid d self c" and "store_known (own_port d self) st" and "fw_handle d c st = Ok (r, st')"
  shows "store_known (own_port d self) st'"
proof (cases c)
  case (FwExec env info msg)
  with assms fw_exec_known show ?thesis by auto
next
  case (FwSudo msg)
  with assms show ?thesis
    by (intro fw_ica.sudo_known [of d msg st r st' "own_port d self"]) (auto simp: fw_sudo_def result_simps)
next
  case (FwReply msg)
  with assms show ?thesis
    by (intro fw_ica.reply_known [of d msg st r st']) (auto simp: fw_reply_def result_simps)
next
  case (FwMigrate msg)
  with assms show ?thesis by (auto simp: result_simps intro: fw_migrate_known)
qed

interpretation fw: contract_machine "fw_handle d" "fw_valid d self" "store_known (own_port d self)"
  for d self
  by unfold_locales (rule fw_handle_known)

section \<open>Properties\<close>

lemma fw_instantiate_known: "fw_instantiate d msg = Ok (r, st) \<Longrightarrow> store_known port st"
  by (auto simp: fw_instantiate_def result_simps store_known_def)

text \<open>
  Claim C28: after any history of executions, chain callbacks, replies and migrations, a forwarder
  in the state \<open>IcaCreated\<close> knows its interchain account: it answers the address query and
  publishes the same address as its deposit address. The branch of \<open>try_forward_funds\<close> that the
  comment calls unreachable is indeed never taken.
\<close>

theorem fw_created_knows_account:
  assumes "fw_instantiate d imsg = Ok (r0, st0)" and "list_all (fw_valid d (contract_address env)) cs"
    and "st = run_calls (fw_handle d) st0 cs" and "ica_phase st = Some IcaCreated"
  shows "\<exists>a. fw_query d env FwQIcaAddress st = Ok (FwRAddr a) \<and>
    fw_query d env FwQDepositAddress st = Ok (FwRMaybeAddr (Some a)) \<and>
    (\<forall>info r st'. fw_execute d env info FwTick st = Ok (r, st') \<longrightarrow> ica_phase st' = Some IcaCreated)"
proof -
  from assms have "store_known (own_port d (contract_address env)) st"
    by (simp add: fw.inv_run fw_instantiate_known)
  with assms(4) obtain a b where
    "om_get (ica_accounts st) (get_port_id d (contract_address env) interchain_account_id) = Some (Some (a, b))"
    by (auto simp: store_known_def own_port_def)
  with assms(4) show ?thesis
    by (auto simp: fw_query_def get_ica_def fw_ica_helper_def store_defs fw_execute_def fw_try_tick_def
        fw_try_forward_funds_def msg_with_sudo_callback_def result_simps)
qed

definition ex_fw_msg :: fw_instantiate_msg where
  "ex_fw_msg = \<lparr>fwi_op_mode = PermissionlessCfg, fwi_next_contract = ''holder'', fwi_connection_id = ''connection-0'',
     fwi_channel_id = ''channel-1'', fwi_denom = ''uatom'', fwi_amount = 100, fwi_ibc_transfer_timeout = 60,
     fwi_ica_timeout = 30, fwi_fallback = Some ''fallback''\<rparr>"

definition ex_fw_env :: env where
  "ex_fw_env = \<lparr>env_block = \<lparr>block_height = 5, block_time = 7\<rparr>, contract_address = ''forwarder''\<rparr>"

definition ex_fw_info :: message_info where
  "ex_fw_info = \<lparr>sender = ''anyone'', funds = []\<rparr>"

definition ex_fw_calls :: "fw_call list" where
  "ex_fw_calls = [FwExec ex_fw_env ex_fw_info FwTick,
     FwSudo (SudoOpenAck ''icacontroller-forwarder.valence-ica'' ''channel-7'' ''channel-8'' ''cosmos1ica'')]"

lemmas ex_fw_defs = ex_fw_msg_def ex_fw_env_def ex_fw_info_def ex_fw_calls_def

lemmas fw_defs = fw_execute_def fw_try_tick_def fw_try_register_ica_def register_ica_def fw_try_forward_funds_def fw_sudo_def
  ica_sudo_def sudo_open_ack_def sudo_timeout_def fw_ica_helper_def store_defs msg_with_sudo_callback_def
  query_ica_registration_fee_def

definition ex_fw_state :: fw_state where
  "ex_fw_state = \<lparr>ica_phase = Some IcaCreated,
     ica_accounts = [(''icacontroller-forwarder.valence-ica'', Some (''cosmos1ica'', ''connection-0''))],
     ica_reply_payload = None, ica_sudo_payloads = [], fw_op_mode = Some Permissionless,
     fw_transfer_amount = Some 100, fw_next_contract = Some ''holder'',
     fw_remote_chain = Some \<lparr>rci_connection_id = ''connection-0'', rci_channel_id = ''channel-1'',
       rci_denom = ''uatom'', rci_ibc_transfer_timeout = 60, rci_ica_timeout = 30\<rparr>,
     fw_fallback = Some ''fallback''\<rparr>"

lemma ex_fw_run:
  "fw_instantiate (ref_deps (\<lambda>_ _. 0)) ex_fw_msg = Ok (resp [],
     ex_fw_state\<lparr>ica_phase := Some IcaInstantiated, ica_accounts := []\<rparr>)"
  "run_calls (fw_handle (ref_deps (\<lambda>_ _. 0))) (ex_fw_state\<lparr>ica_phase := Some IcaInstantiated, ica_accounts := []\<rparr>)
     ex_fw_calls = ex_fw_state"
  "list_all (fw_valid (ref_deps (\<lambda>_ _. 0)) ''forwarder'') ex_fw_calls"
  by (simp_all add: fw_instantiate_def ex_fw_defs ex_fw_state_def fw_defs own_port_def interchain_account_id_def)

theorem fw_created_knows_account_witness:
  "\<exists>a. fw_query (ref_deps (\<lambda>_ _. 0)) ex_fw_env FwQIcaAddress ex_fw_state = Ok (FwRAddr a) \<and>
    fw_query (ref_deps (\<lambda>_ _. 0)) ex_fw_env FwQDepositAddress ex_fw_state = Ok (FwRMaybeAddr (Some a))"
  using fw_created_knows_account [OF ex_fw_run(1), of ex_fw_env ex_fw_calls ex_fw_state]
  by (simp add: ex_fw_run(2,3) ex_fw_env_def) (simp add: ex_fw_state_def, blast)

text \<open>
  Claim C29: once its account is open, a tick of the forwarder has that account, and nobody else,
  transfer exactly the configured amount of the configured denomination, over the configured
  channel, to the address the next contract publishes, in a transaction that expires after the
  account's and the transfer's timeouts together; the minimum fees the chain asks for are
  attached, and the storage changes only in the payload kept for the reply.
\<close>

theorem fw_tick_forwards:
  assumes "store_known (own_port d (contract_address env)) st" and "ica_phase st = Some IcaCreated"
    and "fw_execute d env info FwTick st = Ok (r, st')"
  shows "\<exists>account conn target nxt rci amount memo fee timeout.
    fw_query d env FwQIcaAddress st = Ok (FwRAddr account) \<and>
    fw_next_contract st = Some nxt \<and> query_deposit_address d nxt = Ok (Some target) \<and>
    fw_remote_chain st = Some rci \<and> fw_transfer_amount st = Some amount \<and> query_min_ibc_fee d = Ok fee \<and>
    unat timeout = unat (block_time (env_block env)) +
      (unat (rci_ica_timeout rci) + unat (rci_ibc_transfer_timeout rci)) * 10 ^ 9 \<and>
    messages r = [SubmitTx conn interchain_account_id
      [MsgTransfer \<lparr>rt_source_port = ''transfer'', rt_source_channel = rci_channel_id rci,
         rt_token = \<lparr>coin_denom = rci_denom rci, coin_amount = amount\<rparr>, rt_sender = account,
         rt_receiver = target, rt_timeout_timestamp = timeout, rt_memo = memo\<rparr>] []
      (rci_ica_timeout rci) fee] \<and>
    (memo = [] \<longrightarrow> (\<exists>e. query_next_memo d nxt = Err e)) \<and> (memo \<noteq> [] \<longrightarrow> query_next_memo d nxt = Ok memo) \<and>
    (\<exists>p. st' = st\<lparr>ica_reply_payload := Some p\<rparr>)"
proof -
  from assms(1,2) obtain a b where acc:
    "om_get (ica_accounts st) (get_port_id d (contract_address env) interchain_account_id) = Some (Some (a, b))"
    by (auto simp: store_known_def own_port_def)
  from assms(2,3) have "fw_try_forward_funds d env st = Ok (r, st')"
    by (auto simp: fw_execute_def fw_try_tick_def result_simps)
  with acc obtain nxt target fee rci amount memo t1 timeout where *:
    "fw_next_contract st = Some nxt" "query_deposit_address d nxt = Ok (Some target)" "query_ibc_fee d = Ok fee"
    "fw_remote_chain st = Some rci" "fw_transfer_amount st = Some amount" "get_next_memo d nxt = Ok memo"
    "plus_seconds (block_time (env_block env)) (rci_ica_timeout rci) = Ok t1"
    "plus_seconds t1 (rci_ibc_transfer_timeout rci) = Ok timeout"
    by (auto simp: fw_try_forward_funds_def result_simps)
  with acc \<open>fw_try_forward_funds d env st = Ok (r, st')\<close> have out:
    "messages r = [SubmitTx b interchain_account_id
      [MsgTransfer \<lparr>rt_source_port = ''transfer'', rt_source_channel = rci_channel_id rci,
         rt_token = \<lparr>coin_denom = rci_denom rci, coin_amount = amount\<rparr>, rt_sender = a,
         rt_receiver = target, rt_timeout_timestamp = timeout, rt_memo = memo\<rparr>] []
      (rci_ica_timeout rci) (fee_config_fee fee)]" "\<exists>p. st' = st\<lparr>ica_reply_payload := Some p\<rparr>"
    by (auto simp: fw_try_forward_funds_def msg_with_sudo_callback_def fw_ica_helper_def store_defs messages_def)
  from *(7,8) have "unat timeout = unat (block_time (env_block env)) +
      (unat (rci_ica_timeout rci) + unat (rci_ibc_transfer_timeout rci)) * 10 ^ 9"
    by (auto simp: plus_seconds_def result_simps arith_simps)
  moreover from *(3) have "query_min_ibc_fee d = Ok (fee_config_fee fee)"
    by (auto simp: query_ibc_fee_def result_simps)
  moreover from *(6) have "(memo = [] \<longrightarrow> (\<exists>e. query_next_memo d nxt = Err e)) \<and>
      (memo \<noteq> [] \<longrightarrow> query_next_memo d nxt = Ok memo)"
    by (auto simp: get_next_memo_def split: result.splits if_splits)
  moreover from acc have "fw_query d env FwQIcaAddress st = Ok (FwRAddr a)"
    by (simp add: fw_query_def get_ica_def fw_ica_helper_def store_defs)
  ultimately show ?thesis using * out by blast
qed

lemma ex_fw_known: "store_known (own_port (ref_deps (\<lambda>_ _. 0)) (contract_address ex_fw_env)) ex_fw_state"
  by (simp add: store_known_def own_port_def ex_fw_state_def ex_fw_env_def interchain_account_id_def om_wf_def om_get_def)

lemma ex_fw_tick:
  "is_ok (fw_execute (ref_deps (\<lambda>_ _. 0)) ex_fw_env ex_fw_info FwTick ex_fw_state)"
  by (simp add: fw_defs ex_fw_state_def ex_fw_env_def ex_fw_info_def interchain_account_id_def query_ibc_fee_def
      flatten_ibc_fee_total_amount_def sum_coins_def get_next_memo_def plus_seconds_def mul_or_panic_def
      add_or_panic_def om_get_def Let_def)

theorem fw_tick_forwards_witness:
  "\<exists>r st' conn t. fw_execute (ref_deps (\<lambda>_ _. 0)) ex_fw_env ex_fw_info FwTick ex_fw_state = Ok (r, st') \<and>
     messages r = [SubmitTx conn interchain_account_id [MsgTransfer t] [] 30
       \<lparr>recv_fee = [], ack_fee = [], timeout_fee = []\<rparr>] \<and>
     rt_token t = \<lparr>coin_denom = ''uatom'', coin_amount = 100\<rparr> \<and> rt_receiver t = ''holder''"
proof -
  obtain r st' where run: "fw_execute (ref_deps (\<lambda>_ _. 0)) ex_fw_env ex_fw_info FwTick ex_fw_state = Ok (r, st')"
    using ex_fw_tick by (auto simp: is_ok_iff)
  have "ica_phase ex_fw_state = Some IcaCreated" by (simp add: ex_fw_state_def)
  from fw_tick_forwards [OF ex_fw_known this run] run show ?thesis
    by (auto simp: ex_fw_state_def)
qed

text \<open>
  Claim C30: a timed-out packet closes the channel and the forwarder recovers from it: whatever
  state it was in, after the timeout a tick requests the account again, and the chain's
  acknowledgement of the new channel brings it back to \<open>IcaCreated\<close> with the account the
  acknowledgement names, its configuration untouched.
\<close>

theorem fw_timeout_recovery:
  assumes "fw_op_mode st = Some mode" and "op_allows mode (sender info)" and "fw_remote_chain st = Some rci"
    and "query_register_fee d = Ok fee" and "parse_open_ack d version = Some v"
    and "port = own_port d (contract_address env)"
    and "cs = [FwSudo (SudoTimeout req), FwExec env info FwTick, FwSudo (SudoOpenAck port ch cch version)]"
  shows "run_out (fw_handle d) st cs =
      [RegisterInterchainAccount (rci_connection_id rci) interchain_account_id (Some fee)] \<and>
    run_calls (fw_handle d) st cs =
      st\<lparr>ica_phase := Some IcaCreated,
         ica_accounts := [(port, Some (ack_address v, ack_controller_connection_id v))]\<rparr>"
proof -
  let ?s1 = "st\<lparr>ica_phase := Some IcaInstantiated, ica_accounts := []\<rparr>"
  let ?s2 = "st\<lparr>ica_phase := Some IcaInstantiated, ica_accounts := [(port, None)]\<rparr>"
  have 1: "fw_handle d (FwSudo (SudoTimeout req)) st = Ok (resp [], ?s1)"
    by (simp add: fw_defs)
  have "verify_caller (sender info) mode = Ok ()"
    using assms(2) by (cases mode) (simp_all add: op_allows_def is_privileged_def)
  with assms have 2: "fw_handle d (FwExec env info FwTick) ?s1 =
      Ok (resp [RegisterInterchainAccount (rci_connection_id rci) interchain_account_id (Some fee)], ?s2)"
    by (simp add: fw_defs own_port_def)
  have 3: "fw_handle d (FwSudo (SudoOpenAck port ch cch version)) ?s2 = Ok (resp [], st\<lparr>ica_phase := Some IcaCreated,
         ica_accounts := [(port, Some (ack_address v, ack_controller_connection_id v))]\<rparr>)"
    using assms(5) by (simp add: fw_defs)
  show "run_out (fw_handle d) st cs =
      [RegisterInterchainAccount (rci_connection_id rci) interchain_account_id (Some fee)] \<and>
    run_calls (fw_handle d) st cs =
      st\<lparr>ica_phase := Some IcaCreated,
         ica_accounts := [(port, Some (ack_address v, ack_controller_connection_id v))]\<rparr>"
    by (simp add: assms(7) 1 2 3 del: fw_handle.simps)
qed

theorem fw_timeout_recovery_witness:
  "run_calls (fw_handle (ref_deps (\<lambda>_ _. 0))) ex_fw_state
     [FwSudo (SudoTimeout \<lparr>req_sequence = Some 1, req_source_channel = None\<rparr>), FwExec ex_fw_env ex_fw_info FwTick,
      FwSudo (SudoOpenAck ''icacontroller-forwarder.valence-ica'' ''channel-9'' ''channel-8'' ''cosmos1new'')] =
   ex_fw_state\<lparr>ica_accounts := [(''icacontroller-forwarder.valence-ica'', Some (''cosmos1new'', ''connection-0''))]\<rparr>"
proof -
  have "fw_op_mode ex_fw_state = Some Permissionless" "op_allows Permissionless (sender ex_fw_info)"
    "query_register_fee (ref_deps (\<lambda>_ _. 0)) = Ok []"
    "''icacontroller-forwarder.valence-ica'' = own_port (ref_deps (\<lambda>_ _. 0)) (contract_address ex_fw_env)"
    by (simp_all add: ex_fw_state_def op_allows_def own_port_def ex_fw_env_def interchain_account_id_def)
  note fw_timeout_recovery [OF this(1,2) _ this(3) _ this(4) refl,
      of _ "''cosmos1new''" "\<lparr>ack_address = ''cosmos1new'', ack_controller_connection_id = ''connection-0''\<rparr>"]
  then show ?thesis by (simp add: ex_fw_state_def)
qed

end
