(* ===== verification/Remote_Chain_Splitter.thy ===== *)
theory Remote_Chain_Splitter
  imports Ica Split
begin

text \<open>
  The remote-chain splitter (\<open>contracts/remote-chain-splitter\<close>): it owns an interchain account
  and, on each tick, has it divide the configured amount among the deposit addresses of the
  receivers of the split, in one multi-send.
\<close>

section \<open>State and messages\<close>

record rcs_state = ica_store +
  rcs_op_mode :: "op_mode option"
  rcs_transfer_amount :: "u128 option"
  rcs_splits :: "(denom, split_config) omap"
  rcs_remote_chain :: "remote_chain_info option"
  rcs_fallback :: "string option"

record rcs_instantiate_msg =
  rcsi_op_mode :: op_mode_config
  rcsi_connection_id :: string
  rcsi_channel_id :: string
  rcsi_denom :: denom
  rcsi_amount :: u128
  rcsi_splits :: "(denom, split_config) omap"
  rcsi_ica_timeout :: u64
  rcsi_ibc_transfer_timeout :: u64
  rcsi_fallback :: "string option"

datatype rcs_execute_msg = RcsTick | RcsDistributeFallback "coin list"

record rcs_update_config =
  rcsu_op_mode :: "op_mode_config option"
  rcsu_remote_chain :: "remote_chain_info option"
  rcsu_splits :: "(denom, split_config) omap option"
  rcsu_fallback :: "fallback_update option"

datatype rcs_migrate_msg = RcsUpdateConfig rcs_update_config | RcsUpdateCodeId

datatype rcs_query_msg =
    RcsQContractState | RcsQDepositAddress | RcsQRemoteChainInfo | RcsQSplitConfig | RcsQTransferAmount
  | RcsQIcaAddress | RcsQFallbackAddress | RcsQOperationMode

datatype rcs_query_reply =
    RcsRState "ica_contract_state option" | RcsRMaybeAddr "addr option" | RcsRRemoteChain "remote_chain_info option"
  | RcsRSplits "(denom \<times> split_config) list" | RcsRAmount "u128 option" | RcsRAddr addr
  | RcsROpMode "op_mode option"

definition rcs_ica_helper :: "rcs_state ica_state_helper" where
  "rcs_ica_helper = \<lparr>h_reset_state = store_reset_state, h_clear_ica = store_clear_ica,
     h_save_ica = store_save_ica, h_save_state_ica_created = store_save_state_ica_created,
     h_save_reply_payload = store_save_reply_payload, h_read_reply_payload = store_read_reply_payload,
     h_save_sudo_payload = store_save_sudo_payload, h_get_ica = store_get_ica\<rparr>"

section \<open>Entry points\<close>

definition rcs_save_split ::
    "deps \<Rightarrow> (denom, split_config) omap \<Rightarrow> denom \<times> split_config \<Rightarrow> ((denom, split_config) omap, std_error) result" where
  "rcs_save_split d m = (\<lambda>(dn, split).
     and_then (validate_shares_and_receiver_addresses d split) (\<lambda>_. Ok (om_insert m dn split)))"

definition rcs_instantiate :: "deps \<Rightarrow> rcs_instantiate_msg \<Rightarrow> (response \<times> rcs_state, ica_error) result" where
  "rcs_instantiate d msg =
     and_then (map_err IcaStd (op_mode_try_init d (rcsi_op_mode msg))) (\<lambda>mode.
     and_then (case rcsi_fallback msg of
                 Some addr \<Rightarrow> map_err IcaStd (soft_validate_remote_chain_addr d addr)
               | None \<Rightarrow> Ok ()) (\<lambda>_.
     and_then (map_err IcaStd (try_fold (rcs_save_split d) [] (om_entries (rcsi_splits msg)))) (\<lambda>splits.
       Ok (resp [],
           \<lparr>ica_phase = Some IcaInstantiated, ica_accounts = [], ica_reply_payload = None, ica_sudo_payloads = [],
            rcs_op_mode = Some mode, rcs_transfer_amount = Some (rcsi_amount msg), rcs_splits = splits,
            rcs_remote_chain = Some \<lparr>rci_connection_id = rcsi_connection_id msg, rci_channel_id = rcsi_channel_id msg,
              rci_denom = rcsi_denom msg, rci_ibc_transfer_timeout = rcsi_ibc_transfer_timeout msg,
              rci_ica_timeout = rcsi_ica_timeout msg\<rparr>,
            rcs_fallback = rcsi_fallback msg\<rparr>))))"

definition rcs_try_distribute_fallback ::
    "deps \<Rightarrow> env \<Rightarrow> message_info \<Rightarrow> coin list \<Rightarrow> rcs_state \<Rightarrow> (response \<times> rcs_state, ica_error) result" where
  "rcs_try_distribute_fallback d env info coins st =
     distribute_fallback d rcs_ica_helper (rcs_fallback st) (rcs_remote_chain st) env info coins st"

definition rcs_try_register_ica :: "deps \<Rightarrow> env \<Rightarrow> rcs_state \<Rightarrow> (response \<times> rcs_state, ica_error) result" where
  "rcs_try_register_ica d env st = map_err IcaStd (register_ica d env (rcs_remote_chain st) st)"

text \<open>One round of the loop over the receivers: the output for the receiver and the running total.\<close>

definition split_output ::
    "deps \<Rightarrow> u128 \<Rightarrow> denom \<Rightarrow> (addr \<times> coin list) list \<times> u128 \<Rightarrow> string \<times> decimal
     \<Rightarrow> ((addr \<times> coin list) list \<times> u128, std_error) result" where
  "split_output d amount dn acc rs =
     (case acc of (outputs, total_allocated) \<Rightarrow> case rs of (split_receiver, share) \<Rightarrow>
        and_then (query_deposit_address d split_receiver) (\<lambda>forwarder_deposit_address.
        and_then (ok_or (NotFound ''forwarder ica not created'') forwarder_deposit_address) (\<lambda>receiver_ica.
        and_then (map_err (\<lambda>_. GenericErr ''checked multiply ratio'')
                    (checked_multiply_ratio d amount (atomics share) decimal_fractional)) (\<lambda>amt.
        and_then (add_or_panic total_allocated amt) (\<lambda>total'.
          Ok (outputs @ [(receiver_ica, [\<lparr>coin_denom = dn, coin_amount = amt\<rparr>])], total'))))))"

text \<open>The leftover goes to the first receiver; \<open>output.coins[0]\<close> panics on an output without coins.\<close>

definition add_leftover ::
    "u128 \<Rightarrow> u128 \<Rightarrow> (addr \<times> coin list) list \<Rightarrow> ((addr \<times> coin list) list, std_error) result" where
  "add_leftover amount total_allocated outputs =
     (case outputs of
        [] \<Rightarrow> Ok []
      | (a, coins) # rest \<Rightarrow>
          (case coins of
             [] \<Rightarrow> Panic
           | c # cs \<Rightarrow>
               and_then (sub_or_panic amount total_allocated) (\<lambda>leftover.
               and_then (add_or_panic (coin_amount c) leftover) (\<lambda>first.
                 Ok ((a, c\<lparr>coin_amount := first\<rparr> # cs) # rest)))))"

definition rcs_try_split_funds :: "deps \<Rightarrow> env \<Rightarrow> rcs_state \<Rightarrow> (response \<times> rcs_state, ica_error) result" where
  "rcs_try_split_funds d env st =
     (let port_id = get_port_id d (contract_address env) interchain_account_id in
      and_then (map_err IcaStd (load (om_get (ica_accounts st) port_id))) (\<lambda>interchain_account.
      and_then (map_err IcaStd (load (rcs_transfer_amount st))) (\<lambda>amount.
      and_then (map_err IcaStd (query_min_ibc_fee d)) (\<lambda>min_fee.
      case interchain_account of
        Some (address, controller_conn_id) \<Rightarrow>
          and_then (map_err IcaStd (load (rcs_remote_chain st))) (\<lambda>rci.
          and_then (map_err IcaStd (load (om_get (rcs_splits st) (rci_denom rci)))) (\<lambda>split.
          and_then (map_err IcaStd (try_fold (split_output d amount (rci_denom rci)) ([], 0)
                      (om_entries (receivers split)))) (\<lambda>(outputs, total_allocated).
          and_then (map_err IcaStd (add_leftover amount total_allocated outputs)) (\<lambda>outputs.
          and_then (map_err IcaStd (msg_with_sudo_callback rcs_ica_helper
              (SubmitTx controller_conn_id interchain_account_id
                [MsgMultiSend [(address, [\<lparr>coin_denom = rci_denom rci, coin_amount = amount\<rparr>])] outputs] []
                (rci_ica_timeout rci) min_fee)
              \<lparr>payload_message = ''split_funds_msg'', payload_port_id = port_id\<rparr>
              sudo_payload_reply_id st)) (\<lambda>(sm, st').
            Ok (\<lparr>submessages = [sm]\<rparr>, st'))))))
      | None \<Rightarrow> Ok (resp [], st\<lparr>ica_phase := Some IcaInstantiated\<rparr>)))))"

definition rcs_try_tick ::
    "deps \<Rightarrow> env \<Rightarrow> message_info \<Rightarrow> rcs_state \<Rightarrow> (response \<times> rcs_state, ica_error) result" where
  "rcs_try_tick d env info st =
     and_then (map_err IcaStd (load (rcs_op_mode st))) (\<lambda>mode.
     and_then (map_err IcaOperation (verify_caller (sender info) mode)) (\<lambda>_.
     and_then (map_err IcaStd (load (ica_phase st))) (\<lambda>current_state.
       case current_state of
         IcaInstantiated \<Rightarrow> rcs_try_register_ica d env st
       | IcaCreated \<Rightarrow> rcs_try_split_funds d env st)))"

definition rcs_execute ::
    "deps \<Rightarrow> env \<Rightarrow> message_info \<Rightarrow> rcs_execute_msg \<Rightarrow> rcs_state \<Rightarrow> (response \<times> rcs_state, ica_error) result" where
  "rcs_execute d env info msg st =
     (case msg of
        RcsTick \<Rightarrow> rcs_try_tick d env info st
      | RcsDistributeFallback coins \<Rightarrow> rcs_try_distribute_fallback d env info coins st)"

definition rcs_query_deposit_address :: "deps \<Rightarrow> env \<Rightarrow> rcs_state \<Rightarrow> addr option" where
  "rcs_query_deposit_address d env st =
     (let key = get_port_id d (contract_address env) interchain_account_id in
      case om_get (ica_accounts st) key of
        Some entry \<Rightarrow> map_option fst entry
      | None \<Rightarrow> None)"

definition rcs_query :: "deps \<Rightarrow> env \<Rightarrow> rcs_query_msg \<Rightarrow> rcs_state \<Rightarrow> (rcs_query_reply, std_error) result" where
  "rcs_query d env msg st =
     (case msg of
        RcsQContractState \<Rightarrow> Ok (RcsRState (ica_phase st))
      | RcsQDepositAddress \<Rightarrow> Ok (RcsRMaybeAddr (rcs_query_deposit_address d env st))
      | RcsQRemoteChainInfo \<Rightarrow> Ok (RcsRRemoteChain (rcs_remote_chain st))
      | RcsQSplitConfig \<Rightarrow> Ok (RcsRSplits (om_entries (rcs_splits st)))
      | RcsQTransferAmount \<Rightarrow> Ok (RcsRAmount (rcs_transfer_amount st))
      | RcsQIcaAddress \<Rightarrow>
          and_then (get_ica d rcs_ica_helper (contract_address env) interchain_account_id st) (\<lambda>(a, _). Ok (RcsRAddr a))
      | RcsQFallbackAddress \<Rightarrow> Ok (RcsRMaybeAddr (rcs_fallback st))
      | RcsQOperationMode \<Rightarrow> Ok (RcsROpMode (rcs_op_mode st)))"

definition rcs_sudo :: "deps \<Rightarrow> sudo_msg \<Rightarrow> rcs_state \<Rightarrow> (response \<times> rcs_state, std_error) result" where
  "rcs_sudo d msg st = ica_sudo d rcs_ica_helper msg st"

definition rcs_reply :: "deps \<Rightarrow> reply \<Rightarrow> rcs_state \<Rightarrow> (response \<times> rcs_state, std_error) result" where
  "rcs_reply d msg st = ica_reply d rcs_ica_helper msg st"

definition update_split ::
    "deps \<Rightarrow> denom list \<times> (denom, split_config) omap \<Rightarrow> denom \<times> split_config
     \<Rightarrow> (denom list \<times> (denom, split_config) omap, std_error) result" where
  "update_split d acc entry =
     (case acc of (encountered, m) \<Rightarrow> case entry of (dn, split) \<Rightarrow>
        if dn \<notin> set encountered
        then and_then (rcs_save_split d m (dn, split)) (\<lambda>m'. Ok (dn # encountered, m'))
        else Err (GenericErr ''multiple entries''))"

definition rcs_migrate :: "deps \<Rightarrow> rcs_migrate_msg \<Rightarrow> rcs_state \<Rightarrow> (response \<times> rcs_state, std_error) result" where
  "rcs_migrate d msg st =
     (case msg of
        RcsUpdateConfig u \<Rightarrow>
          and_then (upd_field (\<lambda>cfg st. and_then (map_err (\<lambda>_. GenericErr ''op mode'') (op_mode_try_init d cfg)) (\<lambda>m.
                      Ok (st\<lparr>rcs_op_mode := Some m\<rparr>))) (rcsu_op_mode u) st) (\<lambda>st.
          and_then (upd_field (\<lambda>c st. Ok (st\<lparr>rcs_remote_chain := Some c\<rparr>)) (rcsu_remote_chain u) st) (\<lambda>st.
          and_then (upd_field (\<lambda>splits st.
                      and_then (try_fold (update_split d) ([], rcs_splits st) (om_entries splits)) (\<lambda>(_, m).
                        Ok (st\<lparr>rcs_splits := m\<rparr>))) (rcsu_splits u) st) (\<lambda>st.
          and_then (upd_field (\<lambda>c st. Ok (st\<lparr>rcs_fallback := (case c of ExplicitAddress a \<Rightarrow> Some a
                      | DisableFallback \<Rightarrow> None)\<rparr>)) (rcsu_fallback u) st) (\<lambda>st.
            Ok (resp [], st)))))
      | RcsUpdateCodeId \<Rightarrow> Ok (resp [], st))"

section \<open>The invariant\<close>

interpretation rcs_ica: ica_controller rcs_ica_helper ica_phase store_account store_wf store_known
  by (rule store_controller) (simp add: store_helper_def rcs_ica_helper_def)

lemma rcs_store_helper: "store_helper rcs_ica_helper"
  by (simp add: store_helper_def rcs_ica_helper_def)

lemmas rcs_callback = store_callback [OF rcs_store_helper]

datatype rcs_call =
    RcsExec env message_info rcs_execute_msg
  | RcsSudo sudo_msg
  | RcsReply reply
  | RcsMigrate rcs_migrate_msg

fun rcs_handle :: "deps \<Rightarrow> rcs_call \<Rightarrow> rcs_state \<Rightarrow> (response \<times> rcs_state, ica_error) result" where
  "rcs_handle d (RcsExec env info msg) st = rcs_execute d env info msg st"
| "rcs_handle d (RcsSudo msg) st = map_err IcaStd (rcs_sudo d msg st)"
| "rcs_handle d (RcsReply msg) st = map_err IcaStd (rcs_reply d msg st)"
| "rcs_handle d (RcsMigrate msg) st = map_err IcaStd (rcs_migrate d msg st)"

text \<open>The receivers of the splits in a message form maps (\<open>BTreeMap\<close>).\<close>

definition receivers_wf :: "(denom, split_config) omap \<Rightarrow> bool" where
  "receivers_wf m \<longleftrightarrow> (\<forall>(dn, sc)\<in>set m. om_wf (receivers sc))"

fun rcs_valid :: "deps \<Rightarrow> addr \<Rightarrow> rcs_call \<Rightarrow> bool" where
  "rcs_valid d self (RcsExec env _ _) = (contract_address env = self)"
| "rcs_valid d self (RcsSudo msg) = own_sudo (own_port d self) msg"
| "rcs_valid d self (RcsReply _) = True"
| "rcs_valid d self (RcsMigrate RcsUpdateCodeId) = True"
| "rcs_valid d self (RcsMigrate (RcsUpdateConfig u)) = (\<forall>m. rcsu_splits u = Some m \<longrightarrow> receivers_wf m)"

definition rcs_inv :: "deps \<Rightarrow> addr \<Rightarrow> rcs_state \<Rightarrow> bool" where
  "rcs_inv d self st \<longleftrightarrow> store_known (own_port d self) st \<and> split_map_wf (rcs_splits st) \<and>
     rcs_op_mode st \<noteq> None \<and> rcs_remote_chain st \<noteq> None \<and> rcs_transfer_amount st \<noteq> None"

lemma rcs_save_split_wf:
  assumes "rcs_save_split d m (dn, sc) = Ok m'" and "split_map_wf m" and "om_wf (receivers sc)"
  shows "split_map_wf m'"
  using assms by (auto simp: rcs_save_split_def result_simps intro: split_map_wf_insert validated_wf)

lemma rcs_instantiate_inv:
  assumes "rcs_instantiate d msg = Ok (r, st)" and "receivers_wf (rcsi_splits msg)"
  shows "rcs_inv d self st"
proof -
  from assms(1) obtain splits where s: "try_fold (rcs_save_split d) [] (om_entries (rcsi_splits msg)) = Ok splits"
    "rcs_splits st = splits" "ica_phase st = Some IcaInstantiated" "ica_accounts st = []"
    "rcs_op_mode st \<noteq> None" "rcs_remote_chain st \<noteq> None" "rcs_transfer_amount st \<noteq> None"
    by (auto simp: rcs_instantiate_def result_simps split: option.splits)
  have "split_map_wf splits"
  proof (rule try_fold_invariant [OF s(1), where P = split_map_wf])
    fix m x m'
    assume "x \<in> set (om_entries (rcsi_splits msg))" "split_map_wf m" "rcs_save_split d m x = Ok m'"
    with assms(2) show "split_map_wf m'"
      by (cases x) (auto simp: receivers_wf_def om_entries_def intro: rcs_save_split_wf)
  qed (simp add: split_map_wf_def)
  with s show ?thesis by (simp add: rcs_inv_def store_known_def)
qed

lemma update_splits_wf:
  assumes "try_fold (update_split d) ([], m) es = Ok (enc, m')" and "split_map_wf m" and "receivers_wf es"
  shows "split_map_wf m'"
proof -
  have "split_map_wf (snd (enc, m'))"
  proof (rule try_fold_invariant [OF assms(1), where P = "\<lambda>a. split_map_wf (snd a)"])
    fix a x a'
    assume "x \<in> set es" "split_map_wf (snd a)" "update_split d a x = Ok a'"
    with assms(3) show "split_map_wf (snd a')"
      by (cases x; cases a) (auto simp: receivers_wf_def update_split_def result_simps
        intro: rcs_save_split_wf split: if_splits)
  qed (use assms in simp)
  then show ?thesis by simp
qed

lemma rcs_migrate_inv:
  assumes "rcs_migrate d msg st = Ok (r, st')" and "rcs_inv d self st" and "rcs_valid d self (RcsMigrate msg)"
  shows "rcs_inv d self st'"
proof (cases msg)
  case (RcsUpdateConfig u)
  have "rcs_inv d self st \<longrightarrow> rcs_inv d self st'"
    using assms(1) unfolding RcsUpdateConfig rcs_migrate_def rcs_migrate_msg.case
  proof (elim upd_field_chain [where R = "\<lambda>a b. rcs_inv d self a \<longrightarrow> rcs_inv d self b"])
    fix s1 :: rcs_state and m s
    assume m: "rcsu_splits u = Some m" and
      "and_then (try_fold (update_split d) ([], rcs_splits s1) (om_entries m)) (\<lambda>(_, m). Ok (s1\<lparr>rcs_splits := m\<rparr>)) = Ok s"
    then obtain enc m' where "try_fold (update_split d) ([], rcs_splits s1) m = Ok (enc, m')" "s = s1\<lparr>rcs_splits := m'\<rparr>"
      by (auto simp: result_simps om_entries_def)
    with m assms(3) RcsUpdateConfig show "rcs_inv d self s1 \<longrightarrow> rcs_inv d self s"
      by (auto simp: rcs_inv_def store_known_def intro: update_splits_wf)
  qed (auto simp: result_simps rcs_inv_def store_known_def)
  with assms(2) show ?thesis by blast
qed (use assms in \<open>simp add: rcs_migrate_def\<close>)

text \<open>The chain's callbacks touch only the account part of the storage.\<close>

lemma rcs_callbacks_keep:
  assumes "ica_sudo d rcs_ica_helper msg st = Ok (r, st') \<or> ica_reply d rcs_ica_helper rep st = Ok (r, st')"
  shows "rcs_splits st' = rcs_splits st \<and> rcs_op_mode st' = rcs_op_mode st \<and>
    rcs_remote_chain st' = rcs_remote_chain st \<and> rcs_transfer_amount st' = rcs_transfer_amount st"
  using assms
proof
  assume "ica_sudo d rcs_ica_helper msg st = Ok (r, st')"
  then show ?thesis
    by (cases msg) (auto simp: ica_sudo_def sudo_response_def sudo_error_def sudo_timeout_def sudo_open_ack_def
        rcs_ica_helper_def store_defs result_simps split: option.splits)
next
  assume "ica_reply d rcs_ica_helper rep st = Ok (r, st')"
  then show ?thesis
    by (auto simp: ica_reply_def prepare_sudo_payload_def rcs_ica_helper_def store_defs result_simps split: if_splits)
qed

lemma rcs_exec_state:
  assumes "rcs_execute d env info msg st = Ok (r, st')" and "rcs_inv d (contract_address env) st"
  shows "rcs_inv d (contract_address env) st'"
proof (cases msg)
  case (RcsDistributeFallback coins)
  with assms(1) have "distribute_fallback d rcs_ica_helper (rcs_fallback st) (rcs_remote_chain st) env info coins st = Ok (r, st')"
    by (simp add: rcs_execute_def rcs_try_distribute_fallback_def)
  then obtain p where "st' = st\<lparr>ica_reply_payload := Some p\<rparr>" by (rule distribute_fallback_Ok [OF _ rcs_store_helper])
  with assms(2) show ?thesis by (simp add: rcs_inv_def)
next
  case RcsTick
  with assms(1) obtain ph where ph: "ica_phase st = Some ph" by (auto simp: rcs_execute_def rcs_try_tick_def result_simps)
  show ?thesis
  proof (cases ph)
    case IcaInstantiated
    with assms RcsTick ph have "register_ica d env (rcs_remote_chain st) st = Ok (r, st')"
      by (auto simp: rcs_execute_def rcs_try_tick_def rcs_try_register_ica_def result_simps)
    moreover from this have "rcs_splits st' = rcs_splits st \<and> rcs_op_mode st' = rcs_op_mode st \<and>
        rcs_remote_chain st' = rcs_remote_chain st \<and> rcs_transfer_amount st' = rcs_transfer_amount st"
      by (auto simp: register_ica_def result_simps Let_def)
    ultimately show ?thesis using assms(2) ph IcaInstantiated by (auto simp: rcs_inv_def intro: register_ica_known)
  next
    case IcaCreated
    with assms RcsTick ph have f: "rcs_try_split_funds d env st = Ok (r, st')"
      by (auto simp: rcs_execute_def rcs_try_tick_def result_simps)
    from assms(2) ph IcaCreated obtain a b where
      "om_get (ica_accounts st) (get_port_id d (contract_address env) interchain_account_id) = Some (Some (a, b))"
      by (auto simp: rcs_inv_def elim: store_knownD)
    with f assms(2) show ?thesis
      by (auto simp: rcs_try_split_funds_def result_simps rcs_callback rcs_inv_def)
  qed
qed

interpretation rcs: contract_machine "rcs_handle d" "rcs_valid d self" "rcs_inv d self" for d self
proof
  fix c st r st'
  assume c: "rcs_valid d self c" "rcs_inv d self st" "rcs_handle d c st = Ok (r, st')"
  show "rcs_inv d self st'"
  proof (cases c)
    case (RcsExec env info msg)
    with c rcs_exec_state show ?thesis by auto
  next
    case (RcsSudo msg)
    with c have s: "ica_sudo d rcs_ica_helper msg st = Ok (r, st')" by (simp add: rcs_sudo_def result_simps)
    with c RcsSudo have "store_known (own_port d self) st'"
      by (intro rcs_ica.sudo_known [OF s]) (auto simp: rcs_inv_def)
    with c(2) rcs_callbacks_keep [OF disjI1 [OF s]] show ?thesis by (simp add: rcs_inv_def)
  next
    case (RcsReply rep)
    with c have s: "ica_reply d rcs_ica_helper rep st = Ok (r, st')" by (simp add: rcs_reply_def result_simps)
    with c have "store_known (own_port d self) st'"
      by (intro rcs_ica.reply_known [OF s]) (auto simp: rcs_inv_def)
    with c(2) rcs_callbacks_keep [OF disjI2 [OF s]] show ?thesis by (simp add: rcs_inv_def)
  next
    case (RcsMigrate msg)
    with c show ?thesis by (auto simp: result_simps intro: rcs_migrate_inv)
  qed
qed

section \<open>What a tick pays\<close>

text \<open>The output of one receiver: its deposit address and a single coin.\<close>

definition output_for :: "deps \<Rightarrow> denom \<Rightarrow> nat \<Rightarrow> string \<Rightarrow> addr \<times> coin list \<Rightarrow> bool" where
  "output_for d dn n receiver out \<longleftrightarrow> query_deposit_address d receiver = Ok (Some (fst out)) \<and>
     (\<exists>c. snd out = [c] \<and> coin_denom c = dn \<and> unat (coin_amount c) = n)"

definition floor_share :: "u128 \<Rightarrow> string \<times> decimal \<Rightarrow> nat" where
  "floor_share amount p = unat amount * dec_val (snd p) div dec_unit"

definition outputs_total :: "denom \<Rightarrow> (addr \<times> coin list) list \<Rightarrow> nat" where
  "outputs_total dn outs = (\<Sum>out\<leftarrow>outs. coins_in dn (snd out))"

lemma split_output_fold:
  assumes "multiply_ratio_spec d"
    and "\<forall>p\<in>set ps. \<exists>a. query_deposit_address d (fst p) = Ok (Some a)"
    and "unat tot + (\<Sum>p\<leftarrow>ps. floor_share amount p) \<le> unat amount"
  shows "\<exists>os tot'. try_fold (split_output d amount dn) (outs, tot) ps = Ok (outs @ os, tot') \<and>
    unat tot' = unat tot + (\<Sum>p\<leftarrow>ps. floor_share amount p) \<and>
    list_all2 (\<lambda>p. output_for d dn (floor_share amount p) (fst p)) ps os"
  using assms(2,3)
proof (induction ps arbitrary: outs tot)
  case (Cons p ps)
  obtain rcv share where p: "p = (rcv, share)" by (cases p)
  with Cons.prems obtain a where a: "query_deposit_address d rcv = Ok (Some a)" by auto
  define e :: u128 where "e = of_nat (floor_share amount p)"
  define t where "t = tot + e"
  from Cons.prems(2) unat_word_lt [of amount] have e: "unat e = floor_share amount p"
    by (simp add: e_def unat_of_nat)
  with Cons.prems(2) unat_word_lt [of amount] have t: "unat t = unat tot + floor_share amount p"
    by (simp add: t_def unat_plus_nowrap)
  from e p have m: "checked_multiply_ratio d amount (atomics share) decimal_fractional = Ok e"
    by (auto simp: multiply_ratio_specD(1) [OF assms(1)] floor_share_def dec_val_def decimal_fractional_def)
  have add: "add_or_panic tot e = (Ok t :: (u128, std_error) result)" using t e by (simp add: arith_simps)
  let ?o = "(a, [\<lparr>coin_denom = dn, coin_amount = e\<rparr>])"
  have step: "split_output d amount dn (outs, tot) p = Ok (outs @ [?o], t)"
    using a m add p by (simp add: split_output_def)
  from Cons.IH [of t "outs @ [?o]"] Cons.prems t obtain os tot' where
    "try_fold (split_output d amount dn) (outs @ [?o], t) ps = Ok ((outs @ [?o]) @ os, tot')"
    "unat tot' = unat t + (\<Sum>p\<leftarrow>ps. floor_share amount p)"
    "list_all2 (\<lambda>p. output_for d dn (floor_share amount p) (fst p)) ps os" by auto
  moreover have "output_for d dn (floor_share amount p) (fst p) ?o" using a e p by (simp add: output_for_def)
  ultimately show ?case using step t
    by (intro exI [of _ "?o # os"] exI [of _ tot']) auto
qed simp

text \<open>Whenever the outputs are produced, each goes to the deposit address of its receiver.\<close>

lemma split_output_addresses:
  assumes "try_fold (split_output d amount dn) (outs, tot) ps = Ok (outs', tot')"
  shows "\<exists>os. outs' = outs @ os \<and> list_all2 (\<lambda>p out. query_deposit_address d (fst p) = Ok (Some (fst out))) ps os"
  using assms
proof (induction ps arbitrary: outs tot)
  case (Cons p ps)
  then obtain s where s: "split_output d amount dn (outs, tot) p = Ok s"
    "try_fold (split_output d amount dn) s ps = Ok (outs', tot')" by (auto simp: result_simps)
  from s(1) obtain a e t where a: "query_deposit_address d (fst p) = Ok (Some a)"
    "s = (outs @ [(a, [\<lparr>coin_denom = dn, coin_amount = e\<rparr>])], t)"
    by (cases p) (auto simp: split_output_def result_simps)
  with Cons.IH [of "outs @ [(a, [\<lparr>coin_denom = dn, coin_amount = e\<rparr>])]" t] s(2) obtain os where
    "outs' = (outs @ [(a, [\<lparr>coin_denom = dn, coin_amount = e\<rparr>])]) @ os"
    "list_all2 (\<lambda>p out. query_deposit_address d (fst p) = Ok (Some (fst out))) ps os" by auto
  with a(1) show ?case by (intro exI [of _ "(a, [\<lparr>coin_denom = dn, coin_amount = e\<rparr>]) # os"]) simp
qed simp

lemma add_leftover_addresses:
  assumes "add_leftover amount tot os = Ok outs"
  shows "map fst outs = map fst os"
  using assms by (auto simp: add_leftover_def result_simps split: list.splits)

lemma rcs_tick_addresses:
  assumes "rcs_inv d (contract_address env) st" and "ica_phase st = Some IcaCreated"
    and "rcs_execute d env info RcsTick st = Ok (r, st')"
  shows "\<exists>rci sc conn inputs outs t fee. rcs_remote_chain st = Some rci \<and> om_get (rcs_splits st) (rci_denom rci) = Some sc \<and>
    messages r = [SubmitTx conn interchain_account_id [MsgMultiSend inputs outs] [] t fee] \<and>
    list_all2 (\<lambda>p out. query_deposit_address d (fst p) = Ok (Some (fst out))) (receivers sc) outs"
proof -
  from assms(2,3) have run: "rcs_try_split_funds d env st = Ok (r, st')"
    by (auto simp: rcs_execute_def rcs_try_tick_def result_simps)
  from assms(1,2) obtain a b where acc:
    "om_get (ica_accounts st) (get_port_id d (contract_address env) interchain_account_id) = Some (Some (a, b))"
    by (auto simp: rcs_inv_def elim: store_knownD)
  from run acc obtain amount fee rci sc os tot outs where *: "rcs_transfer_amount st = Some amount"
    "query_min_ibc_fee d = Ok fee" "rcs_remote_chain st = Some rci" "om_get (rcs_splits st) (rci_denom rci) = Some sc"
    "try_fold (split_output d amount (rci_denom rci)) ([], 0) (receivers sc) = Ok (os, tot)"
    "add_leftover amount tot os = Ok outs"
    by (auto simp: rcs_try_split_funds_def result_simps om_entries_def)
  with run acc have "messages r = [SubmitTx b interchain_account_id
      [MsgMultiSend [(a, [\<lparr>coin_denom = rci_denom rci, coin_amount = amount\<rparr>])] outs] [] (rci_ica_timeout rci) fee]"
    by (auto simp: rcs_try_split_funds_def rcs_callback om_entries_def messages_def)
  moreover have "list_all2 (\<lambda>p out. query_deposit_address d (fst p) = Ok (Some (fst out))) (receivers sc) outs"
    using split_output_addresses [OF *(5)] add_leftover_addresses [OF *(6)]
      list_all2_map2 [of "\<lambda>p a. query_deposit_address d (fst p) = Ok (Some a)" "receivers sc" fst] by (metis append_Nil)
  ultimately show ?thesis using * by blast
qed

lemma outputs_total_list:
  "list_all2 (\<lambda>p. output_for d dn (f p) (g p)) ps os \<Longrightarrow> outputs_total dn os = (\<Sum>p\<leftarrow>ps. f p)"
  by (induction rule: list_all2_induct) (auto simp: outputs_total_def output_for_def)

text \<open>The outputs of a well-formed split: floor shares, with the leftover added to the first.\<close>

lemma split_outputs_exact:
  assumes "multiply_ratio_spec d" and "split_wf sc"
    and "\<forall>p\<in>set (receivers sc). \<exists>a. query_deposit_address d (fst p) = Ok (Some a)"
  shows "\<exists>p ps os tot out outs left. receivers sc = p # ps \<and>
    try_fold (split_output d amount dn) ([], 0) (receivers sc) = Ok (os, tot) \<and>
    add_leftover amount tot os = Ok (out # outs) \<and> outputs_total dn (out # outs) = unat amount \<and>
    output_for d dn (floor_share amount p + left) (fst p) out \<and> left < length (receivers sc) \<and>
    list_all2 (\<lambda>p. output_for d dn (floor_share amount p) (fst p)) ps outs"
proof -
  from assms(2) have total: "total_shares sc = dec_unit" by (simp add: split_wf_def)
  then obtain p ps where ps: "receivers sc = p # ps" by (cases "receivers sc") (auto simp: total_shares_def)
  let ?paid = "\<Sum>p\<leftarrow>receivers sc. floor_share amount p"
  have dust: "?paid \<le> unat amount" "unat amount - ?paid < length (receivers sc)"
    using split_dust [OF total, of amount] by (simp_all add: floor_share_def)
  from split_output_fold [OF assms(1,3), of 0 amount dn "[]"] dust(1) obtain os tot where os:
    "try_fold (split_output d amount dn) ([], 0) (receivers sc) = Ok (os, tot)" "unat tot = ?paid"
    "list_all2 (\<lambda>p. output_for d dn (floor_share amount p) (fst p)) (receivers sc) os" by auto
  with ps obtain a c outs where o: "os = (a, [c]) # outs" "output_for d dn (floor_share amount p) (fst p) (a, [c])"
    "list_all2 (\<lambda>p. output_for d dn (floor_share amount p) (fst p)) ps outs"
    by (auto simp: list_all2_Cons1 output_for_def)
  define first where "first = coin_amount c + (amount - tot)"
  have sub: "unat (amount - tot) = unat amount - ?paid"
    using dust os(2) by (simp add: unat_minus_nowrap word_le_unat)
  have c: "unat (coin_amount c) = floor_share amount p" "coin_denom c = dn" using o(2) by (auto simp: output_for_def)
  have "floor_share amount p \<le> ?paid" by (simp add: ps)
  with c dust sub unat_word_lt [of amount] have first: "unat first = floor_share amount p + (unat amount - ?paid)"
    unfolding first_def by (subst unat_plus_nowrap) auto
  have "sub_or_panic amount tot = (Ok (amount - tot) :: (u128, std_error) result)"
    using sub os(2) dust by (simp add: arith_simps)
  moreover have "add_or_panic (coin_amount c) (amount - tot) = (Ok first :: (u128, std_error) result)"
    using first c sub by (simp add: arith_simps)
  ultimately have "add_leftover amount tot os = Ok ((a, [c\<lparr>coin_amount := first\<rparr>]) # outs)"
    using o(1) by (simp add: add_leftover_def)
  moreover have "outputs_total dn ((a, [c\<lparr>coin_amount := first\<rparr>]) # outs) = unat amount"
    using outputs_total_list [OF o(3)] first c dust(1) by (simp add: outputs_total_def ps)
  moreover have "output_for d dn (floor_share amount p + (unat amount - ?paid)) (fst p) (a, [c\<lparr>coin_amount := first\<rparr>])"
    using o(2) first c by (auto simp: output_for_def)
  ultimately show ?thesis using ps os(1) o(3) dust(2) by blast
qed

section \<open>Properties\<close>

text \<open>
  Claim C27: the remote-chain splitter divides the configured amount exactly. In every state it
  reaches from an instantiation (over executions, chain callbacks, replies and migrations), once
  its account is open and the receivers publish deposit addresses, a permitted tick succeeds: the
  account sends the whole amount in one multi-send whose outputs add up to the amount, each
  receiver gets the floor of its share at its deposit address, and the first one also gets what
  rounding left over, less than one unit per receiver.
\<close>

theorem rcs_tick_splits_exactly:
  assumes "multiply_ratio_spec d" and "rcs_instantiate d imsg = Ok (r0, st0)" and "receivers_wf (rcsi_splits imsg)"
    and "list_all (rcs_valid d (contract_address env)) cs" and "st = run_calls (rcs_handle d) st0 cs"
    and "ica_phase st = Some IcaCreated" and "rcs_op_mode st = Some mode" and "op_allows mode (sender info)"
    and "rcs_remote_chain st = Some rci" and "om_get (rcs_splits st) (rci_denom rci) = Some sc"
    and "\<forall>p\<in>set (receivers sc). \<exists>a. query_deposit_address d (fst p) = Ok (Some a)"
    and "query_min_ibc_fee d = Ok fee"
  shows "\<exists>r st' account conn amount out outs p ps left. rcs_execute d env info RcsTick st = Ok (r, st') \<and>
    rcs_query d env RcsQIcaAddress st = Ok (RcsRAddr account) \<and> rcs_transfer_amount st = Some amount \<and>
    messages r = [SubmitTx conn interchain_account_id
      [MsgMultiSend [(account, [\<lparr>coin_denom = rci_denom rci, coin_amount = amount\<rparr>])] (out # outs)] []
      (rci_ica_timeout rci) fee] \<and>
    outputs_total (rci_denom rci) (out # outs) = unat amount \<and> receivers sc = p # ps \<and>
    output_for d (rci_denom rci) (floor_share amount p + left) (fst p) out \<and> left < length (receivers sc) \<and>
    list_all2 (\<lambda>p. output_for d (rci_denom rci) (floor_share amount p) (fst p)) ps outs"
proof -
  have inv: "rcs_inv d (contract_address env) st"
    unfolding assms(5) by (rule rcs.inv_run [OF assms(4) rcs_instantiate_inv [OF assms(2,3)]])
  then obtain amount where amount: "rcs_transfer_amount st = Some amount" and "split_wf sc"
    using assms(10) by (auto simp: rcs_inv_def intro: split_map_wf_get)
  from inv assms(6) obtain a b where acc:
    "om_get (ica_accounts st) (get_port_id d (contract_address env) interchain_account_id) = Some (Some (a, b))"
    by (auto simp: rcs_inv_def elim: store_knownD)
  have caller: "verify_caller (sender info) mode = Ok ()"
    using assms(8) by (cases mode) (simp_all add: op_allows_def is_privileged_def)
  from split_outputs_exact [OF assms(1) \<open>split_wf sc\<close> assms(11), of amount "rci_denom rci"]
  obtain p ps os tot out outs left where *: "receivers sc = p # ps"
    "try_fold (split_output d amount (rci_denom rci)) ([], 0) (receivers sc) = Ok (os, tot)"
    "add_leftover amount tot os = Ok (out # outs)" "outputs_total (rci_denom rci) (out # outs) = unat amount"
    "output_for d (rci_denom rci) (floor_share amount p + left) (fst p) out" "left < length (receivers sc)"
    "list_all2 (\<lambda>p. output_for d (rci_denom rci) (floor_share amount p) (fst p)) ps outs" by blast
  have "rcs_query d env RcsQIcaAddress st = Ok (RcsRAddr a)"
    using acc by (simp add: rcs_query_def get_ica_def rcs_ica_helper_def store_defs)
  moreover obtain r st' where "rcs_execute d env info RcsTick st = Ok (r, st')" "messages r = [SubmitTx b interchain_account_id
      [MsgMultiSend [(a, [\<lparr>coin_denom = rci_denom rci, coin_amount = amount\<rparr>])] (out # outs)] []
      (rci_ica_timeout rci) fee]"
    using assms(6-12) caller acc amount *(2,3)
    by (simp add: rcs_execute_def rcs_try_tick_def rcs_try_split_funds_def rcs_callback om_entries_def messages_def)
  ultimately show ?thesis using amount *(1,4-7) by blast
qed

definition ex_rcs_msg :: rcs_instantiate_msg where
  "ex_rcs_msg = \<lparr>rcsi_op_mode = PermissionlessCfg, rcsi_connection_id = ''connection-0'', rcsi_channel_id = ''channel-1'',
     rcsi_denom = ''uatom'', rcsi_amount = 100, rcsi_splits = [(''uatom'', thirds)], rcsi_ica_timeout = 30,
     rcsi_ibc_transfer_timeout = 60, rcsi_fallback = None\<rparr>"

definition ex_rcs_env :: env where
  "ex_rcs_env = \<lparr>env_block = \<lparr>block_height = 5, block_time = 7\<rparr>, contract_address = ''splitter''\<rparr>"

definition ex_rcs_info :: message_info where
  "ex_rcs_info = \<lparr>sender = ''anyone'', funds = []\<rparr>"

definition ex_rcs_calls :: "rcs_call list" where
  "ex_rcs_calls = [RcsExec ex_rcs_env ex_rcs_info RcsTick,
     RcsSudo (SudoOpenAck ''icacontroller-splitter.valence-ica'' ''channel-7'' ''channel-8'' ''cosmos1ica'')]"

definition ex_rcs_state :: rcs_state where
  "ex_rcs_state = \<lparr>ica_phase = Some IcaCreated,
     ica_accounts = [(''icacontroller-splitter.valence-ica'', Some (''cosmos1ica'', ''connection-0''))],
     ica_reply_payload = None, ica_sudo_payloads = [], rcs_op_mode = Some Permissionless,
     rcs_transfer_amount = Some 100, rcs_splits = [(''uatom'', thirds)],
     rcs_remote_chain = Some \<lparr>rci_connection_id = ''connection-0'', rci_channel_id = ''channel-1'',
       rci_denom = ''uatom'', rci_ibc_transfer_timeout = 60, rci_ica_timeout = 30\<rparr>,
     rcs_fallback = None\<rparr>"

lemma ex_rcs_run:
  "rcs_instantiate (ref_deps (\<lambda>_ _. 0)) ex_rcs_msg = Ok (resp [],
     ex_rcs_state\<lparr>ica_phase := Some IcaInstantiated, ica_accounts := []\<rparr>)"
  "run_calls (rcs_handle (ref_deps (\<lambda>_ _. 0))) (ex_rcs_state\<lparr>ica_phase := Some IcaInstantiated, ica_accounts := []\<rparr>)
     ex_rcs_calls = ex_rcs_state"
  "list_all (rcs_valid (ref_deps (\<lambda>_ _. 0)) (contract_address ex_rcs_env)) ex_rcs_calls"
  "receivers_wf (rcsi_splits ex_rcs_msg)"
  by (simp_all add: rcs_instantiate_def ex_rcs_msg_def ex_rcs_state_def ex_rcs_calls_def ex_rcs_env_def ex_rcs_info_def
      rcs_save_split_def thirds_valid receivers_wf_def rcs_execute_def rcs_try_tick_def rcs_try_register_ica_def
      register_ica_def query_ica_registration_fee_def rcs_sudo_def ica_sudo_def sudo_open_ack_def rcs_ica_helper_def
      store_defs own_port_def interchain_account_id_def om_entries_def)

theorem rcs_tick_splits_exactly_witness:
  "\<exists>r st' conn out outs. rcs_execute (ref_deps (\<lambda>_ _. 0)) ex_rcs_env ex_rcs_info RcsTick ex_rcs_state = Ok (r, st') \<and>
     messages r = [SubmitTx conn interchain_account_id
       [MsgMultiSend [(''cosmos1ica'', [\<lparr>coin_denom = ''uatom'', coin_amount = 100\<rparr>])] (out # outs)] [] 30
       \<lparr>recv_fee = [], ack_fee = [], timeout_fee = []\<rparr>] \<and>
     outputs_total ''uatom'' (out # outs) = 100"
proof -
  have q: "rcs_query (ref_deps (\<lambda>_ _. 0)) ex_rcs_env RcsQIcaAddress ex_rcs_state = Ok (RcsRAddr ''cosmos1ica'')"
    by (simp add: rcs_query_def get_ica_def rcs_ica_helper_def store_defs ex_rcs_state_def ex_rcs_env_def
        interchain_account_id_def om_get_def)
  have "op_allows Permissionless (sender ex_rcs_info)" by (simp add: op_allows_def)
  from rcs_tick_splits_exactly [OF ref_multiply_ratio_ok ex_rcs_run(1,4,3) ex_rcs_run(2) [symmetric] _ _ this, of _ thirds]
  show ?thesis unfolding q by (fastforce simp: ex_rcs_state_def om_get_def)
qed

end
