(* ===== verification/Stride_Staker.thy ===== *)
theory Stride_Staker
  imports Ica
begin

text \<open>
  The Stride liquid staker (\<open>contracts/stride-liquid-staker\<close>): it owns an interchain account on
  Stride. The clock makes it open the account; anybody may then have the account transfer an
  amount of the liquid-staked denomination to the deposit address of the next contract.
\<close>

section \<open>State and messages\<close>

datatype ls_error = LsStd std_error | LsNotClock

record ls_state = ica_store +
  ls_clock :: "addr option"
  ls_next_contract :: "addr option"
  ls_remote_chain :: "remote_chain_info option"

record ls_instantiate_msg =
  lsi_clock :: string
  lsi_channel_id :: string
  lsi_connection_id :: string
  lsi_next_contract :: string
  lsi_ls_denom :: denom
  lsi_ica_timeout :: u64
  lsi_ibc_transfer_timeout :: u64

datatype ls_execute_msg = LsTick | LsTransfer u128

record ls_update_config =
  lsu_clock :: "string option"
  lsu_next_contract :: "string option"
  lsu_remote_chain :: "remote_chain_info option"

datatype ls_migrate_msg = LsUpdateConfig ls_update_config | LsUpdateCodeId

text \<open>The autopilot memo of Stride, which the queries return as JSON text.\<close>

record stakeibc =
  stakeibc_action :: string
  stride_address :: addr

record autopilot =
  autopilot_receiver :: addr
  autopilot_stakeibc :: stakeibc

datatype ls_query_msg =
    LsQClockAddress | LsQIcaAddress | LsQContractState | LsQDepositAddress | LsQRemoteChainInfo | LsQNextMemo

datatype ls_query_reply =
    LsRMaybeAddr "addr option" | LsRAddr addr | LsRState "ica_contract_state option" | LsRAutopilot autopilot
  | LsRRemoteChain "remote_chain_info option"

definition ls_ica_helper :: "ls_state ica_state_helper" where
  "ls_ica_helper = \<lparr>h_reset_state = store_reset_state, h_clear_ica = store_clear_ica,
     h_save_ica = store_save_ica, h_save_state_ica_created = store_save_state_ica_created,
     h_save_reply_payload = store_save_reply_payload, h_read_reply_payload = store_read_reply_payload,
     h_save_sudo_payload = store_save_sudo_payload, h_get_ica = store_get_ica\<rparr>"

section \<open>Entry points\<close>

definition ls_instantiate :: "deps \<Rightarrow> ls_instantiate_msg \<Rightarrow> (response \<times> ls_state, ls_error) result" where
  "ls_instantiate d msg =
     and_then (map_err LsStd (addr_validate d (lsi_clock msg))) (\<lambda>clock_addr.
     and_then (map_err LsStd (addr_validate d (lsi_next_contract msg))) (\<lambda>next_contract.
     and_then (map_err LsStd (enqueue_msg clock_addr)) (\<lambda>enqueue.
       Ok (resp [enqueue],
           \<lparr>ica_phase = Some IcaInstantiated, ica_accounts = [], ica_reply_payload = None, ica_sudo_payloads = [],
            ls_clock = Some clock_addr, ls_next_contract = Some next_contract,
            ls_remote_chain = Some \<lparr>rci_connection_id = lsi_connection_id msg, rci_channel_id = lsi_channel_id msg,
              rci_denom = lsi_ls_denom msg, rci_ibc_transfer_timeout = lsi_ibc_transfer_timeout msg,
              rci_ica_timeout = lsi_ica_timeout msg\<rparr>\<rparr>))))"

definition try_register_stride_ica :: "deps \<Rightarrow> env \<Rightarrow> ls_state \<Rightarrow> (response \<times> ls_state, ls_error) result" where
  "try_register_stride_ica d env st = map_err LsStd (register_ica d env (ls_remote_chain st) st)"

definition ls_try_tick :: "deps \<Rightarrow> env \<Rightarrow> message_info \<Rightarrow> ls_state \<Rightarrow> (response \<times> ls_state, ls_error) result" where
  "ls_try_tick d env info st =
     and_then (map_err LsStd (load (ls_clock st))) (\<lambda>clock_addr.
     and_then (map_err (\<lambda>_. LsNotClock) (verify_clock (sender info) clock_addr)) (\<lambda>_.
     and_then (map_err LsStd (load (ica_phase st))) (\<lambda>current_state.
       case current_state of
         IcaInstantiated \<Rightarrow> try_register_stride_ica d env st
       | IcaCreated \<Rightarrow> Ok (resp [], st))))"

definition try_execute_transfer :: "deps \<Rightarrow> env \<Rightarrow> u128 \<Rightarrow> ls_state \<Rightarrow> (response \<times> ls_state, ls_error) result" where
  "try_execute_transfer d env amount st =
     and_then (map_err LsStd (load (ls_next_contract st))) (\<lambda>next_contract.
     and_then (map_err LsStd (query_deposit_address d next_contract)) (\<lambda>deposit.
     and_then (ok_or (LsStd (NotFound ''Next contract is not ready for receiving the funds yet'')) deposit)
       (\<lambda>deposit_address.
     let port_id = get_port_id d (contract_address env) interchain_account_id in
     and_then (map_err LsStd (load (om_get (ica_accounts st) port_id))) (\<lambda>interchain_account.
     and_then (map_err LsStd (query_min_ibc_fee d)) (\<lambda>min_fee.
     case interchain_account of
       Some (address, controller_conn_id) \<Rightarrow>
         and_then (map_err LsStd (load (ls_remote_chain st))) (\<lambda>rci.
         and_then (map_err LsStd (plus_seconds (block_time (env_block env)) (rci_ica_timeout rci))) (\<lambda>t1.
         and_then (map_err LsStd (plus_seconds t1 (rci_ibc_transfer_timeout rci))) (\<lambda>timeout.
         and_then (map_err LsStd (msg_with_sudo_callback ls_ica_helper
             (SubmitTx controller_conn_id interchain_account_id
               [MsgTransfer \<lparr>rt_source_port = ''transfer'', rt_source_channel = rci_channel_id rci,
                  rt_token = \<lparr>coin_denom = rci_denom rci, coin_amount = amount\<rparr>, rt_sender = address,
                  rt_receiver = deposit_address, rt_timeout_timestamp = timeout, rt_memo = []\<rparr>] []
               (rci_ica_timeout rci) min_fee)
             \<lparr>payload_message = ''permisionless_transfer'', payload_port_id = port_id\<rparr>
             sudo_payload_reply_id st)) (\<lambda>(sm, st').
           Ok (\<lparr>submessages = [sm]\<rparr>, st')))))
     | None \<Rightarrow> Ok (resp [], st\<lparr>ica_phase := Some IcaInstantiated\<rparr>))))))"

definition ls_execute ::
    "deps \<Rightarrow> env \<Rightarrow> message_info \<Rightarrow> ls_execute_msg \<Rightarrow> ls_state \<Rightarrow> (response \<times> ls_state, ls_error) result" where
  "ls_execute d env info msg st =
     (case msg of
        LsTick \<Rightarrow> ls_try_tick d env info st
      | LsTransfer amount \<Rightarrow>
          (case get_ica d ls_ica_helper (contract_address env) interchain_account_id st of
             Ok _ \<Rightarrow> try_execute_transfer d env amount st
           | Err _ \<Rightarrow> Ok (resp [], st)
           | Panic \<Rightarrow> Panic))"

text \<open>\<open>DepositAddress\<close> and \<open>NextMemo\<close> build the same memo around the account's address.\<close>

definition ls_autopilot :: "deps \<Rightarrow> env \<Rightarrow> ls_state \<Rightarrow> (ls_query_reply, std_error) result" where
  "ls_autopilot d env st =
     and_then (get_ica d ls_ica_helper (contract_address env) interchain_account_id st) (\<lambda>(ica, _).
       Ok (LsRAutopilot \<lparr>autopilot_receiver = ica,
         autopilot_stakeibc = \<lparr>stakeibc_action = ''LiquidStake'', stride_address = ica\<rparr>\<rparr>))"

definition ls_query :: "deps \<Rightarrow> env \<Rightarrow> ls_query_msg \<Rightarrow> ls_state \<Rightarrow> (ls_query_reply, std_error) result" where
  "ls_query d env msg st =
     (case msg of
        LsQClockAddress \<Rightarrow> Ok (LsRMaybeAddr (ls_clock st))
      | LsQIcaAddress \<Rightarrow>
          and_then (get_ica d ls_ica_helper (contract_address env) interchain_account_id st) (\<lambda>(a, _). Ok (LsRAddr a))
      | LsQContractState \<Rightarrow> Ok (LsRState (ica_phase st))
      | LsQDepositAddress \<Rightarrow> ls_autopilot d env st
      | LsQRemoteChainInfo \<Rightarrow> Ok (LsRRemoteChain (ls_remote_chain st))
      | LsQNextMemo \<Rightarrow> ls_autopilot d env st)"

definition ls_sudo :: "deps \<Rightarrow> sudo_msg \<Rightarrow> ls_state \<Rightarrow> (response \<times> ls_state, std_error) result" where
  "ls_sudo d msg st = ica_sudo d ls_ica_helper msg st"

definition ls_reply :: "deps \<Rightarrow> reply \<Rightarrow> ls_state \<Rightarrow> (response \<times> ls_state, std_error) result" where
  "ls_reply d msg st = ica_reply d ls_ica_helper msg st"

definition ls_migrate :: "deps \<Rightarrow> ls_migrate_msg \<Rightarrow> ls_state \<Rightarrow> (response \<times> ls_state, std_error) result" where
  "ls_migrate d msg st =
     (case msg of
        LsUpdateConfig u \<Rightarrow>
          and_then (upd_field (\<lambda>a st. and_then (addr_validate d a) (\<lambda>v.
                      Ok (st\<lparr>ls_clock := Some v\<rparr>))) (lsu_clock u) st) (\<lambda>st.
          and_then (upd_field (\<lambda>a st. and_then (addr_validate d a) (\<lambda>v.
                      Ok (st\<lparr>ls_next_contract := Some v\<rparr>))) (lsu_next_contract u) st) (\<lambda>st.
          and_then (upd_field (\<lambda>c st. Ok (st\<lparr>ls_remote_chain := Some c\<rparr>)) (lsu_remote_chain u) st) (\<lambda>st.
            Ok (resp [], st))))
      | LsUpdateCodeId \<Rightarrow> Ok (resp [], st))"

section \<open>Histories\<close>

interpretation ls_ica: ica_controller ls_ica_helper ica_phase store_account store_wf store_known
  by (rule store_controller) (simp add: store_helper_def ls_ica_helper_def)

lemma ls_store_helper: "store_helper ls_ica_helper"
  by (simp add: store_helper_def ls_ica_helper_def)

lemmas ls_callback = store_callback [OF ls_store_helper]

datatype ls_call =
    LsExec env message_info ls_execute_msg
  | LsSudo sudo_msg
  | LsReply reply
  | LsMigrate ls_migrate_msg

fun ls_handle :: "deps \<Rightarrow> ls_call \<Rightarrow> ls_state \<Rightarrow> (response \<times> ls_state, ls_error) result" where
  "ls_handle d (LsExec env info msg) st = ls_execute d env info msg st"
| "ls_handle d (LsSudo msg) st = map_err LsStd (ls_sudo d msg st)"
| "ls_handle d (LsReply msg) st = map_err LsStd (ls_reply d msg st)"
| "ls_handle d (LsMigrate msg) st = map_err LsStd (ls_migrate d msg st)"

text \<open>Calls that leave the next contract and the remote chain as configured.\<close>

fun ls_keeps_route :: "ls_call \<Rightarrow> bool" where
  "ls_keeps_route (LsMigrate (LsUpdateConfig u)) = (lsu_next_contract u = None \<and> lsu_remote_chain u = None)"
| "ls_keeps_route _ = True"

definition ls_route :: "addr \<Rightarrow> remote_chain_info \<Rightarrow> ls_state \<Rightarrow> bool" where
  "ls_route nxt rci st \<longleftrightarrow> ls_next_contract st = Some nxt \<and> ls_remote_chain st = Some rci"

lemma get_ica_Ok:
  "get_ica d ls_ica_helper self ica_id st = Ok (a, conn) \<longleftrightarrow>
     om_get (ica_accounts st) (get_port_id d self ica_id) = Some (Some (a, conn))"
  by (auto simp: get_ica_def ls_ica_helper_def store_defs result_simps)

lemma ls_transfer_Ok:
  assumes "ls_execute d env info (LsTransfer amount) st = Ok (r, st')"
  shows "(is_ok (get_ica d ls_ica_helper (contract_address env) interchain_account_id st) \<and>
      (\<exists>a conn nxt target rci timeout fee p.
        get_ica d ls_ica_helper (contract_address env) interchain_account_id st = Ok (a, conn) \<and>
        ls_next_contract st = Some nxt \<and> query_deposit_address d nxt = Ok (Some target) \<and>
        ls_remote_chain st = Some rci \<and> query_min_ibc_fee d = Ok fee \<and>
        messages r = [SubmitTx conn interchain_account_id
          [MsgTransfer \<lparr>rt_source_port = ''transfer'', rt_source_channel = rci_channel_id rci,
             rt_token = \<lparr>coin_denom = rci_denom rci, coin_amount = amount\<rparr>, rt_sender = a,
             rt_receiver = target, rt_timeout_timestamp = timeout, rt_memo = []\<rparr>] []
          (rci_ica_timeout rci) fee] \<and>
        st' = st\<lparr>ica_reply_payload := Some p\<rparr>)) \<or>
    (\<not> is_ok (get_ica d ls_ica_helper (contract_address env) interchain_account_id st) \<and> r = resp [] \<and> st' = st)"
proof (cases "get_ica d ls_ica_helper (contract_address env) interchain_account_id st")
  case (Ok x)
  obtain a conn where x: "x = (a, conn)" by (cases x)
  with Ok have acc: "om_get (ica_accounts st) (get_port_id d (contract_address env) interchain_account_id) = Some (Some (a, conn))"
    by (simp add: get_ica_Ok)
  from assms Ok have "try_execute_transfer d env amount st = Ok (r, st')" by (simp add: ls_execute_def)
  with acc Ok x show ?thesis
    by (auto simp: try_execute_transfer_def result_simps ls_callback messages_def)
qed (use assms in \<open>auto simp: ls_execute_def\<close>)

lemma ls_tick_Ok:
  assumes "ls_execute d env info LsTick st = Ok (r, st')"
  shows "register_ica d env (ls_remote_chain st) st = Ok (r, st') \<or> r = resp [] \<and> st' = st"
proof -
  from assms obtain ph where "ica_phase st = Some ph" by (auto simp: ls_execute_def ls_try_tick_def result_simps)
  with assms show ?thesis
    by (cases ph) (auto simp: ls_execute_def ls_try_tick_def try_register_stride_ica_def result_simps)
qed

lemma ls_route_keep:
  assumes "ls_keeps_route c" and "ls_route nxt rci st" and "ls_handle d c st = Ok (r, st')"
  shows "ls_route nxt rci st'"
proof (cases c)
  case (LsExec env info msg)
  show ?thesis
  proof (cases msg)
    case LsTick
    with LsExec assms show ?thesis
      by (auto simp: register_ica_def result_simps Let_def ls_route_def dest!: ls_tick_Ok)
  next
    case (LsTransfer amount)
    with LsExec assms ls_transfer_Ok [of d env info amount st r st'] show ?thesis by (auto simp: ls_route_def)
  qed
next
  case (LsSudo msg)
  with assms show ?thesis
    by (cases msg) (auto simp: ls_sudo_def ica_sudo_def sudo_response_def sudo_error_def sudo_timeout_def
        sudo_open_ack_def ls_ica_helper_def store_defs result_simps ls_route_def split: option.splits)
next
  case (LsReply rep)
  with assms show ?thesis
    by (auto simp: ls_reply_def ica_reply_def prepare_sudo_payload_def ls_ica_helper_def store_defs result_simps
        ls_route_def split: if_splits)
next
  case (LsMigrate msg)
  with assms show ?thesis
    by (cases msg) (auto simp: ls_migrate_def result_simps upd_field_def ls_route_def split: option.splits)
qed

interpretation ls: contract_machine "ls_handle d" ls_keeps_route "ls_route nxt rci" for d nxt rci
  by unfold_locales (rule ls_route_keep)

text \<open>The messages of the staker: account requests, and transfers of the configured denomination along the route.\<close>

fun routed :: "deps \<Rightarrow> addr \<Rightarrow> remote_chain_info \<Rightarrow> cosmos_msg \<Rightarrow> bool" where
  "routed d nxt rci (RegisterInterchainAccount conn ica_id _) =
     (conn = rci_connection_id rci \<and> ica_id = interchain_account_id)"
| "routed d nxt rci (SubmitTx _ ica_id [MsgTransfer t] _ _ _) =
     (ica_id = interchain_account_id \<and> coin_denom (rt_token t) = rci_denom rci \<and>
      rt_source_channel t = rci_channel_id rci \<and> query_deposit_address d nxt = Ok (Some (rt_receiver t)))"
| "routed d nxt rci _ = False"

lemma ls_message_routed:
  assumes "ls_route nxt rci st" and "ls_handle d c st = Ok (r, st')" and "m \<in> set (messages r)"
  shows "routed d nxt rci m"
proof (cases c)
  case (LsExec env info msg)
  show ?thesis
  proof (cases msg)
    case LsTick
    with LsExec assms show ?thesis
      by (auto simp: register_ica_def result_simps Let_def ls_route_def dest!: ls_tick_Ok)
  next
    case (LsTransfer amount)
    with LsExec assms ls_transfer_Ok [of d env info amount st r st'] show ?thesis by (auto simp: ls_route_def)
  qed
next
  case (LsSudo msg)
  with assms show ?thesis
    by (cases msg) (auto simp: ls_sudo_def ica_sudo_def sudo_response_def sudo_error_def sudo_timeout_def
        sudo_open_ack_def result_simps split: option.splits)
next
  case (LsReply rep)
  with assms show ?thesis
    by (auto simp: ls_reply_def ica_reply_def prepare_sudo_payload_def result_simps split: if_splits)
next
  case (LsMigrate msg)
  with assms show ?thesis by (cases msg) (auto simp: ls_migrate_def result_simps)
qed

section \<open>Properties\<close>

lemma ls_instantiate_route:
  assumes "ls_instantiate d msg = Ok (r, st)"
  shows "\<exists>nxt rci. ls_route nxt rci st \<and> addr_validate d (lsi_next_contract msg) = Ok nxt \<and>
    rci_denom rci = lsi_ls_denom msg"
  using assms by (auto simp: ls_instantiate_def result_simps ls_route_def)

text \<open>
  Although anybody may ask the Stride liquid staker to transfer, its account's funds
  only ever move along the configured route: over any history of executions, chain callbacks,
  replies and migrations that keep the route, each message it sends either requests its account
  or is a transfer of the liquid-staked denomination to the address that the next contract,
  validated at instantiation, publishes.
\<close>

theorem ls_funds_reach_next:
  assumes "ls_instantiate d msg = Ok (r0, st0)" and "list_all ls_keeps_route cs"
  shows "\<exists>nxt rci. addr_validate d (lsi_next_contract msg) = Ok nxt \<and> rci_denom rci = lsi_ls_denom msg \<and>
    list_all (routed d nxt rci) (run_out (ls_handle d) st0 cs)"
proof -
  from ls_instantiate_route [OF assms(1)] obtain nxt rci where
    *: "ls_route nxt rci st0" "addr_validate d (lsi_next_contract msg) = Ok nxt" "rci_denom rci = lsi_ls_denom msg" by blast
  have "routed d nxt rci m" if "m \<in> set (run_out (ls_handle d) st0 cs)" for m
    by (rule ls.out_run [OF ls_message_routed assms(2) *(1) that])
  with * show ?thesis by (auto simp: list_all_iff)
qed

definition ex_ls_msg :: ls_instantiate_msg where
  "ex_ls_msg = \<lparr>lsi_clock = ''clock'', lsi_channel_id = ''channel-1'', lsi_connection_id = ''connection-0'',
     lsi_next_contract = ''pooler'', lsi_ls_denom = ''stuatom'', lsi_ica_timeout = 30, lsi_ibc_transfer_timeout = 60\<rparr>"

definition ex_ls_env :: env where
  "ex_ls_env = \<lparr>env_block = \<lparr>block_height = 5, block_time = 7\<rparr>, contract_address = ''staker''\<rparr>"

definition ex_ls_state :: ls_state where
  "ex_ls_state = \<lparr>ica_phase = Some IcaInstantiated, ica_accounts = [], ica_reply_payload = None, ica_sudo_payloads = [],
     ls_clock = Some ''clock'', ls_next_contract = Some ''pooler'',
     ls_remote_chain = Some \<lparr>rci_connection_id = ''connection-0'', rci_channel_id = ''channel-1'',
       rci_denom = ''stuatom'', rci_ibc_transfer_timeout = 60, rci_ica_timeout = 30\<rparr>\<rparr>"

definition ex_ls_calls :: "ls_call list" where
  "ex_ls_calls = [LsExec ex_ls_env \<lparr>sender = ''clock'', funds = []\<rparr> LsTick,
     LsSudo (SudoOpenAck ''icacontroller-staker.valence-ica'' ''channel-7'' ''channel-8'' ''stride1ica''),
     LsExec ex_ls_env \<lparr>sender = ''anyone'', funds = []\<rparr> (LsTransfer 500)]"

lemma ex_ls_run:
  "ls_instantiate (ref_deps (\<lambda>_ _. 0)) ex_ls_msg = Ok (resp [WasmExecute ''clock'' EnqueueMsg []], ex_ls_state)"
  "list_all ls_keeps_route ex_ls_calls"
  "run_out (ls_handle (ref_deps (\<lambda>_ _. 0))) ex_ls_state ex_ls_calls =
     [RegisterInterchainAccount ''connection-0'' ''valence-ica'' (Some []),
      SubmitTx ''connection-0'' ''valence-ica'' [MsgTransfer \<lparr>rt_source_port = ''transfer'',
        rt_source_channel = ''channel-1'', rt_token = \<lparr>coin_denom = ''stuatom'', coin_amount = 500\<rparr>,
        rt_sender = ''stride1ica'', rt_receiver = ''pooler'', rt_timeout_timestamp = 90000000007, rt_memo = []\<rparr>]
        [] 30 \<lparr>recv_fee = [], ack_fee = [], timeout_fee = []\<rparr>]"
  by (simp_all add: ls_instantiate_def enqueue_msg_def ex_ls_msg_def ex_ls_state_def ex_ls_calls_def ex_ls_env_def
      ls_execute_def ls_try_tick_def try_register_stride_ica_def register_ica_def query_ica_registration_fee_def
      ls_sudo_def ica_sudo_def sudo_open_ack_def ls_ica_helper_def store_defs interchain_account_id_def
      try_execute_transfer_def get_ica_def plus_seconds_def mul_or_panic_def add_or_panic_def om_get_def Let_def
      verify_clock_def msg_with_sudo_callback_def messages_def resp_def plain_msg_def)

theorem ls_funds_reach_next_witness:
  "\<exists>rci. rci_denom rci = ''stuatom'' \<and>
     list_all (routed (ref_deps (\<lambda>_ _. 0)) ''pooler'' rci) (run_out (ls_handle (ref_deps (\<lambda>_ _. 0))) ex_ls_state ex_ls_calls) \<and>
     length (run_out (ls_handle (ref_deps (\<lambda>_ _. 0))) ex_ls_state ex_ls_calls) = 2"
proof -
  have "length (run_out (ls_handle (ref_deps (\<lambda>_ _. 0))) ex_ls_state ex_ls_calls) = 2" by (simp add: ex_ls_run(3))
  with ls_funds_reach_next [OF ex_ls_run(1,2)] show ?thesis by (auto simp: ex_ls_msg_def)
qed

end
