(* ===== verification/Osmo_Pooler.thy ===== *)
theory Osmo_Pooler
  imports Destination Transactions
begin

text \<open>
  The liquid pooler for Osmosis (\<open>contracts/osmo-liquid-pooler\<close>). It owns an account on the
  Osmosis chain (the proxy) that it controls through a Polytone note: it creates the proxy,
  sends the deposits there, lets the proxy enter a pool through the outpost contract, and on
  the holder's request leaves the pool and brings the coins back.

  The remote chain answers by callbacks. A callback carries binaries; the model carries what
  the contract decodes from them, with a value for a binary that does not decode. The map
  \<open>POLYTONE_CALLBACKS\<close> is a log of callbacks that no handler reads; its keys combine a label
  and a block height, or are the logged data itself.
\<close>

section \<open>State and messages\<close>

datatype os_error =
    OsStd std_error
  | OsCheckedMultiply
  | OsNotHolder
  | OsUnauthorized
  | OsPolytoneError string

datatype os_contract_state =
    OsInstantiated
  | OsProxyCreated
  | OsProxyFunded expiration
  | OsActive
  | OsDistributing "coin list"
  | OsPendingWithdrawal decimal

record forward_metadata =
  fm_receiver :: string
  fm_port :: string
  fm_channel :: string

record party_chain_info =
  neutron_to_party_chain_channel :: string
  party_chain_to_neutron_channel :: string
  outwards_pfm :: "forward_metadata option"
  inwards_pfm :: "forward_metadata option"
  pci_ibc_timeout :: u64

record party_denom_info =
  osmosis_coin :: coin
  local_denom :: denom

record os_ibc_config =
  party_1_chain_info :: party_chain_info
  party_2_chain_info :: party_chain_info
  osmo_to_neutron_channel_id :: string
  osmo_ibc_timeout :: u64

record os_lp_config =
  latest_balances :: "(denom, coin) omap"
  party_1_denom_info :: party_denom_info
  party_2_denom_info :: party_denom_info
  os_pool_id :: u64
  outpost :: string
  lp_token_denom :: denom
  os_slippage_tolerance :: "decimal option"
  os_pool_price_config :: pool_price_config
  funding_duration :: duration
  os_single_side_lp_limits :: single_side_lp_limits

text \<open>The execution results of a callback: events with their attributes, and response data.\<close>

record remote_event =
  ev_type :: string
  ev_attributes :: "(string \<times> string) list"

record submsg_response =
  sr_events :: "remote_event list"
  sr_data :: "string option"

datatype cb_key = CbAt string u64 | CbData string

text \<open>A balance response: absent, or a denomination with an amount that may not be a number.\<close>

datatype balance_binary =
    BadBinary
  | BalanceResponse "(denom \<times> u128 option) option"

datatype cb_value =
    CbMsg note_msg
  | CbExec "submsg_response list"
  | CbBalance balance_binary
  | CbText string

record os_state =
  os_phase :: "os_contract_state option"
  os_clock :: "addr option"
  os_holder :: "addr option"
  os_note :: "addr option"
  os_proxy :: "string option"
  os_lp_config :: "os_lp_config option"
  os_ibc_config :: "os_ibc_config option"
  os_callbacks :: "cb_key \<Rightarrow> cb_value option"

record os_instantiate_msg =
  osi_clock :: string
  osi_holder :: string
  osi_note :: string
  osi_pool_id :: u64
  osi_osmo_ibc_timeout :: u64
  osi_party_1_chain :: party_chain_info
  osi_party_2_chain :: party_chain_info
  osi_osmo_to_neutron :: string
  osi_party_1_denom :: party_denom_info
  osi_party_2_denom :: party_denom_info
  osi_outpost :: string
  osi_lp_token_denom :: denom
  osi_slippage_tolerance :: "decimal option"
  osi_price_config :: pool_price_config
  osi_funding_duration :: duration
  osi_limits :: single_side_lp_limits

datatype callback_result =
    CallbackQuery "(balance_binary list, string) result"
  | CallbackExecute "(submsg_response list, string) result"
  | CallbackFatalError string

text \<open>The initiator message is the callback id, \<open>None\<close> when it does not decode.\<close>

record callback_message =
  cm_result :: callback_result
  cm_initiator_msg :: "u8 option"

datatype os_execute_msg =
    OsTick
  | OsCallback callback_message
  | OsWithdraw "decimal option"

datatype os_query_msg =
    OsQContractState | OsQHolderAddress | OsQLpConfig | OsQIbcConfig | OsQProxyAddress | OsQCallbacks
  | OsQClockAddress | OsQDepositAddress

datatype os_query_reply =
    OsRState "os_contract_state option" | OsRAddr "addr option" | OsRLpConfig "os_lp_config option"
  | OsRIbcConfig "os_ibc_config option" | OsRCallbacks "cb_key \<Rightarrow> cb_value option"

record os_update_config =
  osu_clock :: "string option"
  osu_holder :: "string option"
  osu_note :: "string option"
  osu_ibc_config :: "os_ibc_config option"
  osu_lp_config :: "os_lp_config option"

datatype os_migrate_msg = OsUpdateConfig os_update_config | OsUpdateCodeId

definition provide_liquidity_callback_id :: u8 where "provide_liquidity_callback_id = 1"
definition proxy_balances_query_callback_id :: u8 where "proxy_balances_query_callback_id = 2"
definition create_proxy_callback_id :: u8 where "create_proxy_callback_id = 3"
definition withdraw_liquidity_callback_id :: u8 where "withdraw_liquidity_callback_id = 4"

lemmas callback_ids = provide_liquidity_callback_id_def proxy_balances_query_callback_id_def
  create_proxy_callback_id_def withdraw_liquidity_callback_id_def

section \<open>The liquidity configuration\<close>

definition party_1_proxy_balance :: "os_lp_config \<Rightarrow> coin option" where
  "party_1_proxy_balance c = om_get (latest_balances c) (coin_denom (osmosis_coin (party_1_denom_info c)))"

definition party_2_proxy_balance :: "os_lp_config \<Rightarrow> coin option" where
  "party_2_proxy_balance c = om_get (latest_balances c) (coin_denom (osmosis_coin (party_2_denom_info c)))"

definition lp_token_proxy_balance :: "os_lp_config \<Rightarrow> coin option" where
  "lp_token_proxy_balance c = om_get (latest_balances c) (lp_token_denom c)"

definition option_list :: "'a option \<Rightarrow> 'a list" where
  "option_list x = (case x of Some v \<Rightarrow> [v] | None \<Rightarrow> [])"

definition get_osmo_outpost_provide_liquidity_message :: "os_lp_config \<Rightarrow> note_msg" where
  "get_osmo_outpost_provide_liquidity_message c =
     OutpostProvideLiquidity (outpost c)
       \<lparr>opc_pool_id = os_pool_id c,
        opc_expected_spot_price = expected_spot_price (os_pool_price_config c),
        opc_acceptable_price_spread = acceptable_price_spread (os_pool_price_config c),
        opc_slippage_tolerance = (case os_slippage_tolerance c of Some s \<Rightarrow> s | None \<Rightarrow> dec_zero),
        opc_asset_1_limit = asset_a_limit (os_single_side_lp_limits c),
        opc_asset_2_limit = asset_b_limit (os_single_side_lp_limits c)\<rparr>
       (option_list (party_1_proxy_balance c) @ option_list (party_2_proxy_balance c))"

definition reset_latest_proxy_balances :: "os_lp_config \<Rightarrow> os_lp_config" where
  "reset_latest_proxy_balances c =
     c\<lparr>latest_balances :=
        om_remove (om_remove (om_remove (latest_balances c)
          (coin_denom (osmosis_coin (party_1_denom_info c))))
          (coin_denom (osmosis_coin (party_2_denom_info c)))) (lp_token_denom c)\<rparr>"

definition get_proxy_balances :: "os_lp_config \<Rightarrow> (coin \<times> coin \<times> coin) option" where
  "get_proxy_balances c =
     (case (party_1_proxy_balance c, party_2_proxy_balance c, lp_token_proxy_balance c) of
        (Some p1, Some p2, Some lp) \<Rightarrow> Some (p1, p2, lp)
      | _ \<Rightarrow> None)"

definition proxy_received_party_contributions :: "os_lp_config \<Rightarrow> coin \<Rightarrow> coin \<Rightarrow> bool" where
  "proxy_received_party_contributions c p1_coin p2_coin \<longleftrightarrow>
     coin_amount p1_coin \<ge> coin_amount (osmosis_coin (party_1_denom_info c)) \<and>
     coin_amount p2_coin \<ge> coin_amount (osmosis_coin (party_2_denom_info c))"

section \<open>Messages through the note\<close>

definition get_note_execute_neutron_msg ::
    "note_msg list \<Rightarrow> u64 \<Rightarrow> addr \<Rightarrow> callback_request option \<Rightarrow> cosmos_msg" where
  "get_note_execute_neutron_msg msgs timeout note_address callback =
     WasmExecute note_address (PolytoneExecute msgs callback timeout) []"

definition get_proxy_query_balances_message ::
    "env \<Rightarrow> string \<Rightarrow> addr \<Rightarrow> os_lp_config \<Rightarrow> os_ibc_config \<Rightarrow> u8 \<Rightarrow> cosmos_msg" where
  "get_proxy_query_balances_message env proxy note_address lp_config ibc_config callback_id =
     WasmExecute note_address
       (PolytoneQuery
          [(proxy, coin_denom (osmosis_coin (party_1_denom_info lp_config))),
           (proxy, coin_denom (osmosis_coin (party_2_denom_info lp_config))),
           (proxy, lp_token_denom lp_config)]
          \<lparr>cb_receiver = contract_address env, cb_id = callback_id\<rparr> (osmo_ibc_timeout ibc_config)) []"

definition get_ibc_transfer_message ::
    "party_chain_info \<Rightarrow> env \<Rightarrow> coin \<Rightarrow> string \<Rightarrow> ibc_fee \<Rightarrow> (cosmos_msg, std_error) result" where
  "get_ibc_transfer_message info env c proxy fee =
     and_then (plus_seconds (block_time (env_block env)) (pci_ibc_timeout info)) (\<lambda>timeout.
       Ok (IbcTransfer
         (case outwards_pfm info of
            Some forward \<Rightarrow>
              \<lparr>source_port = ''transfer'', source_channel = neutron_to_party_chain_channel info, token = c,
               transfer_sender = contract_address env, transfer_receiver = fm_receiver forward,
               timeout_timestamp = timeout,
               transfer_memo = MemoForward proxy (fm_port forward) (fm_channel forward), transfer_fee = fee\<rparr>
          | None \<Rightarrow>
              \<lparr>source_port = ''transfer'', source_channel = neutron_to_party_chain_channel info, token = c,
               transfer_sender = contract_address env, transfer_receiver = proxy,
               timeout_timestamp = timeout, transfer_memo = MemoText '''', transfer_fee = fee\<rparr>)))"

section \<open>Entry points\<close>

definition os_instantiate :: "deps \<Rightarrow> os_instantiate_msg \<Rightarrow> (response \<times> os_state, os_error) result" where
  "os_instantiate d msg =
     and_then (map_err OsStd (addr_validate d (osi_clock msg))) (\<lambda>clock_addr.
     and_then (map_err OsStd (addr_validate d (osi_holder msg))) (\<lambda>holder_addr.
     and_then (map_err OsStd (addr_validate d (osi_note msg))) (\<lambda>note_addr.
     and_then (map_err OsStd (enqueue_msg clock_addr)) (\<lambda>enqueue.
       Ok (resp [enqueue],
           \<lparr>os_phase = Some OsInstantiated, os_clock = Some clock_addr, os_holder = Some holder_addr,
            os_note = Some note_addr, os_proxy = None,
            os_lp_config = Some
              \<lparr>latest_balances = [], party_1_denom_info = osi_party_1_denom msg,
               party_2_denom_info = osi_party_2_denom msg, os_pool_id = osi_pool_id msg,
               outpost = osi_outpost msg, lp_token_denom = osi_lp_token_denom msg,
               os_slippage_tolerance = osi_slippage_tolerance msg,
               os_pool_price_config = osi_price_config msg,
               funding_duration = osi_funding_duration msg, os_single_side_lp_limits = osi_limits msg\<rparr>,
            os_ibc_config = Some
              \<lparr>party_1_chain_info = osi_party_1_chain msg, party_2_chain_info = osi_party_2_chain msg,
               osmo_to_neutron_channel_id = osi_osmo_to_neutron msg,
               osmo_ibc_timeout = osi_osmo_ibc_timeout msg\<rparr>,
            os_callbacks = Map.empty\<rparr>)))))"

definition os_try_initiate_withdrawal ::
    "message_info \<Rightarrow> decimal option \<Rightarrow> os_state \<Rightarrow> (response \<times> os_state, os_error) result" where
  "os_try_initiate_withdrawal info percentage st =
     and_then (map_err OsStd (load (os_holder st))) (\<lambda>holder.
     and_then (ensure (sender info = holder) OsNotHolder) (\<lambda>_.
     let withdraw_share = (case percentage of Some p \<Rightarrow> p | None \<Rightarrow> dec_one) in
     and_then (ensure (withdraw_share \<le> dec_one \<and> withdraw_share > dec_zero)
                 (OsStd (GenericErr ''withdraw percentage must be in range (0, 1]''))) (\<lambda>_.
     and_then (map_err OsStd (load (os_lp_config st))) (\<lambda>lp_config.
       Ok (resp [], st\<lparr>os_phase := Some (OsPendingWithdrawal withdraw_share),
                      os_lp_config := Some (reset_latest_proxy_balances lp_config)\<rparr>)))))"

definition withdraw_party_denoms ::
    "coin \<Rightarrow> coin \<Rightarrow> os_state \<Rightarrow> (response \<times> os_state, os_error) result" where
  "withdraw_party_denoms p1 p2 st =
     (let withdraw_coins = filter (\<lambda>c. coin_amount c > 0) [p1, p2] in
      if withdraw_coins = [] then
        and_then (map_err OsStd (load (os_holder st))) (\<lambda>holder.
          Ok (resp [WasmExecute holder WithdrawFailedMsg []], st\<lparr>os_phase := Some OsActive\<rparr>))
      else Ok (resp [], st\<lparr>os_phase := Some (OsDistributing withdraw_coins)\<rparr>))"

definition os_try_withdraw ::
    "deps \<Rightarrow> env \<Rightarrow> decimal \<Rightarrow> coin \<times> coin \<times> coin \<Rightarrow> os_lp_config \<Rightarrow> os_state
     \<Rightarrow> (response \<times> os_state, os_error) result" where
  "os_try_withdraw d env share bals lp_config st =
     (case bals of (party_1_bal, party_2_bal, lp_bal) \<Rightarrow>
     and_then (map_err OsStd (load (os_note st))) (\<lambda>note_address.
     and_then (map_err OsStd (load (os_ibc_config st))) (\<lambda>ibc_config.
     if coin_amount lp_bal = 0 then withdraw_party_denoms party_1_bal party_2_bal st
     else
       and_then (map_err (\<lambda>_. OsCheckedMultiply)
                   (checked_multiply_ratio d (coin_amount lp_bal) (atomics share) decimal_fractional)) (\<lambda>lp_redeem_amount.
       let exit_pool_message =
         OutpostWithdrawLiquidity (outpost lp_config) (os_pool_id lp_config)
           [\<lparr>coin_denom = lp_token_denom lp_config, coin_amount = lp_redeem_amount\<rparr>] in
       Ok (resp [WasmExecute note_address
                   (PolytoneExecute [exit_pool_message]
                      (Some \<lparr>cb_receiver = contract_address env, cb_id = withdraw_liquidity_callback_id\<rparr>)
                      (osmo_ibc_timeout ibc_config)) []],
           st\<lparr>os_callbacks := (os_callbacks st)
                (CbAt ''neutron_try_withdraw_liquidity'' (block_height (env_block env)) \<mapsto> CbMsg exit_pool_message)\<rparr>)))))"

definition try_sync_proxy_balances :: "env \<Rightarrow> os_state \<Rightarrow> (response \<times> os_state, os_error) result" where
  "try_sync_proxy_balances env st =
     and_then (map_err OsStd (load (os_note st))) (\<lambda>note_address.
     and_then (map_err OsStd (load (os_ibc_config st))) (\<lambda>ibc_config.
     and_then (map_err OsStd (load (os_lp_config st))) (\<lambda>lp_config.
     and_then (map_err OsStd (load (os_proxy st))) (\<lambda>proxy.
       Ok (resp [get_proxy_query_balances_message env proxy note_address lp_config ibc_config
                   proxy_balances_query_callback_id],
           st\<lparr>os_lp_config := Some (reset_latest_proxy_balances lp_config)\<rparr>)))))"

definition try_create_proxy :: "env \<Rightarrow> os_state \<Rightarrow> (response \<times> os_state, os_error) result" where
  "try_create_proxy env st =
     and_then (map_err OsStd (load (os_note st))) (\<lambda>note_address.
     and_then (map_err OsStd (load (os_ibc_config st))) (\<lambda>ibc_config.
       Ok (resp [WasmExecute note_address
                   (PolytoneExecute [] (Some \<lparr>cb_receiver = contract_address env, cb_id = create_proxy_callback_id\<rparr>)
                      (osmo_ibc_timeout ibc_config)) []], st)))"

definition query_proxy_balances :: "env \<Rightarrow> os_state \<Rightarrow> (response \<times> os_state, os_error) result" where
  "query_proxy_balances env st =
     and_then (map_err OsStd (load (os_note st))) (\<lambda>note_address.
     and_then (map_err OsStd (load (os_ibc_config st))) (\<lambda>ibc_config.
     and_then (map_err OsStd (load (os_proxy st))) (\<lambda>proxy.
     and_then (map_err OsStd (load (os_lp_config st))) (\<lambda>lp_config.
       Ok (resp [get_proxy_query_balances_message env proxy note_address lp_config ibc_config
                   proxy_balances_query_callback_id], st)))))"

text \<open>A transfer of a coin, none when its amount is zero.\<close>

definition transfer_nonzero ::
    "party_chain_info \<Rightarrow> env \<Rightarrow> coin \<Rightarrow> string \<Rightarrow> ibc_fee \<Rightarrow> (cosmos_msg list, std_error) result" where
  "transfer_nonzero info env c proxy fee =
     (if coin_amount c > 0 then and_then (get_ibc_transfer_message info env c proxy fee) (\<lambda>m. Ok [m]) else Ok [])"

definition try_fund_proxy :: "deps \<Rightarrow> env \<Rightarrow> os_state \<Rightarrow> (response \<times> os_state, os_error) result" where
  "try_fund_proxy d env st =
     and_then (map_err OsStd (load (os_lp_config st))) (\<lambda>lp_config.
     and_then (map_err OsStd (load (os_proxy st))) (\<lambda>proxy.
     and_then (map_err OsStd (load (os_ibc_config st))) (\<lambda>ibc_config.
     and_then (map_err OsStd (query_balance d (contract_address env) (local_denom (party_1_denom_info lp_config)))) (\<lambda>coin_1_bal.
     and_then (map_err OsStd (query_balance d (contract_address env) (local_denom (party_2_denom_info lp_config)))) (\<lambda>coin_2_bal.
     if coin_amount (osmosis_coin (party_1_denom_info lp_config)) > coin_amount coin_1_bal \<or>
        coin_amount (osmosis_coin (party_2_denom_info lp_config)) > coin_amount coin_2_bal
     then Ok (resp [], st\<lparr>os_lp_config := Some (reset_latest_proxy_balances lp_config)\<rparr>)
     else
       and_then (map_err OsStd (query_min_ibc_fee d)) (\<lambda>min_fee.
       and_then (map_err OsStd (transfer_nonzero (party_1_chain_info ibc_config) env coin_1_bal proxy min_fee)) (\<lambda>msgs_1.
       and_then (map_err OsStd (transfer_nonzero (party_2_chain_info ibc_config) env coin_2_bal proxy min_fee)) (\<lambda>msgs_2.
         Ok (resp (msgs_1 @ msgs_2), st)))))))))"

definition try_deliver_funds :: "deps \<Rightarrow> env \<Rightarrow> os_state \<Rightarrow> (response \<times> os_state, os_error) result" where
  "try_deliver_funds d env st =
     and_then (map_err OsStd (load (os_lp_config st))) (\<lambda>lp_config.
       case (party_1_proxy_balance lp_config, party_2_proxy_balance lp_config) of
         (Some p1_coin, Some p2_coin) \<Rightarrow>
           if proxy_received_party_contributions lp_config p1_coin p2_coin
           then Ok (resp [], st\<lparr>os_phase :=
                  Some (OsProxyFunded (duration_after d (funding_duration lp_config) (env_block env)))\<rparr>)
           else try_fund_proxy d env st
       | _ \<Rightarrow> query_proxy_balances env (st\<lparr>os_lp_config := Some (reset_latest_proxy_balances lp_config)\<rparr>))"

definition os_try_provide_liquidity :: "env \<Rightarrow> os_state \<Rightarrow> (response \<times> os_state, os_error) result" where
  "os_try_provide_liquidity env st =
     and_then (map_err OsStd (load (os_note st))) (\<lambda>note_address.
     and_then (map_err OsStd (load (os_ibc_config st))) (\<lambda>ibc_config.
     and_then (map_err OsStd (load (os_lp_config st))) (\<lambda>lp_config.
     and_then (map_err OsStd (load (os_proxy st))) (\<lambda>proxy.
       Ok (resp [get_note_execute_neutron_msg [get_osmo_outpost_provide_liquidity_message lp_config]
                   (osmo_ibc_timeout ibc_config) note_address
                   (Some \<lparr>cb_receiver = contract_address env, cb_id = provide_liquidity_callback_id\<rparr>),
                 get_proxy_query_balances_message env proxy note_address lp_config ibc_config
                   proxy_balances_query_callback_id],
           st\<lparr>os_lp_config := Some (reset_latest_proxy_balances lp_config)\<rparr>)))))"

text \<open>What was withdrawn of one denomination, zero when it is not among the coins.\<close>

definition find_withdrawn :: "denom \<Rightarrow> coin list \<Rightarrow> coin" where
  "find_withdrawn dn coins =
     (case find (\<lambda>c. coin_denom c = dn) coins of
        Some c \<Rightarrow> c
      | None \<Rightarrow> \<lparr>coin_denom = dn, coin_amount = 0\<rparr>)"

text \<open>The message by which the proxy sends one coin home; both timeouts are doubled.\<close>

definition withdraw_coin_message ::
    "env \<Rightarrow> os_ibc_config \<Rightarrow> party_chain_info \<Rightarrow> string \<Rightarrow> coin \<Rightarrow> (note_msg, std_error) result" where
  "withdraw_coin_message env ibc_config info proxy c =
     and_then (mul_or_panic 2 (osmo_ibc_timeout ibc_config)) (\<lambda>seconds.
     and_then (plus_seconds (block_time (env_block env)) seconds) (\<lambda>timeout.
       Ok (case inwards_pfm info of
             Some forward \<Rightarrow>
               NoteMsgTransfer (fm_channel forward) proxy (fm_receiver forward) c timeout
                 (MemoForward (contract_address env) (fm_port forward) (party_chain_to_neutron_channel info))
           | None \<Rightarrow> NoteIbcTransfer (osmo_to_neutron_channel_id ibc_config) (contract_address env) c timeout)))"

definition withdraw_missing ::
    "env \<Rightarrow> os_ibc_config \<Rightarrow> party_chain_info \<Rightarrow> string \<Rightarrow> bool \<Rightarrow> coin \<Rightarrow> (note_msg list, std_error) result" where
  "withdraw_missing env ibc_config info proxy arrived c =
     (if \<not> arrived \<and> coin_amount c \<noteq> 0
      then and_then (withdraw_coin_message env ibc_config info proxy c) (\<lambda>m. Ok [m])
      else Ok [])"

definition os_try_distribute ::
    "deps \<Rightarrow> env \<Rightarrow> coin list \<Rightarrow> os_state \<Rightarrow> (response \<times> os_state, os_error) result" where
  "os_try_distribute d env coins st =
     and_then (map_err OsStd (load (os_lp_config st))) (\<lambda>lp_config.
     and_then (map_err OsStd (query_balance d (contract_address env) (local_denom (party_1_denom_info lp_config)))) (\<lambda>denom_1_balance.
     and_then (map_err OsStd (query_balance d (contract_address env) (local_denom (party_2_denom_info lp_config)))) (\<lambda>denom_2_balance.
     let withdrawn_1 = find_withdrawn (coin_denom (osmosis_coin (party_1_denom_info lp_config))) coins;
         withdrawn_2 = find_withdrawn (coin_denom (osmosis_coin (party_2_denom_info lp_config))) coins;
         arrived_1 = (coin_amount denom_1_balance \<ge> coin_amount withdrawn_1);
         arrived_2 = (coin_amount denom_2_balance \<ge> coin_amount withdrawn_2) in
     if arrived_1 \<and> arrived_2 then
       and_then (map_err OsStd (load (os_holder st))) (\<lambda>holder_addr.
         Ok (resp [WasmExecute holder_addr DistributeMsg [denom_1_balance, denom_2_balance]],
             st\<lparr>os_phase := Some OsActive, os_lp_config := Some (reset_latest_proxy_balances lp_config)\<rparr>))
     else
       and_then (map_err OsStd (load (os_ibc_config st))) (\<lambda>ibc_config.
       and_then (map_err OsStd (load (os_note st))) (\<lambda>note_address.
       and_then (map_err OsStd (load (os_proxy st))) (\<lambda>proxy.
       and_then (map_err OsStd (withdraw_missing env ibc_config (party_1_chain_info ibc_config) proxy arrived_1 withdrawn_1)) (\<lambda>msgs_1.
       and_then (map_err OsStd (withdraw_missing env ibc_config (party_2_chain_info ibc_config) proxy arrived_2 withdrawn_2)) (\<lambda>msgs_2.
         if msgs_1 @ msgs_2 \<noteq> []
         then Ok (resp [get_note_execute_neutron_msg (msgs_1 @ msgs_2) (osmo_ibc_timeout ibc_config) note_address None], st)
         else Ok (resp [], st)))))))))"

definition os_try_tick :: "deps \<Rightarrow> env \<Rightarrow> message_info \<Rightarrow> os_state \<Rightarrow> (response \<times> os_state, os_error) result" where
  "os_try_tick d env info st =
     and_then (map_err OsStd (load (os_clock st))) (\<lambda>clock_addr.
     and_then (map_err OsStd (verify_clock (sender info) clock_addr)) (\<lambda>_.
     and_then (map_err OsStd (load (os_phase st))) (\<lambda>phase.
       case phase of
         OsInstantiated \<Rightarrow> try_create_proxy env st
       | OsProxyCreated \<Rightarrow> try_deliver_funds d env st
       | OsProxyFunded funding_expiration \<Rightarrow>
           if is_expired d funding_expiration (env_block env)
           then Ok (resp [], st\<lparr>os_phase := Some OsActive\<rparr>)
           else os_try_provide_liquidity env st
       | OsActive \<Rightarrow> try_sync_proxy_balances env st
       | OsPendingWithdrawal share \<Rightarrow>
           and_then (map_err OsStd (load (os_lp_config st))) (\<lambda>lp_config.
             case get_proxy_balances lp_config of
               Some bals \<Rightarrow> os_try_withdraw d env share bals lp_config st
             | None \<Rightarrow> try_sync_proxy_balances env st)
       | OsDistributing coins \<Rightarrow> os_try_distribute d env coins st)))"

section \<open>Callbacks\<close>

definition log_callback :: "cb_key \<Rightarrow> cb_value \<Rightarrow> os_state \<Rightarrow> os_state" where
  "log_callback k v st = st\<lparr>os_callbacks := (os_callbacks st)(k \<mapsto> v)\<rparr>"

definition log_response_data :: "submsg_response \<Rightarrow> os_state \<Rightarrow> os_state" where
  "log_response_data r st = (case sr_data r of Some b \<Rightarrow> log_callback (CbData b) (CbText b) st | None \<Rightarrow> st)"

text \<open>
  The refund attribute of a withdrawal: its value is parsed as coins (none when it does not
  parse) and the contract moves to distributing them.
\<close>

definition handle_refund_attr :: "deps \<Rightarrow> env \<Rightarrow> string \<times> string \<Rightarrow> os_state \<Rightarrow> os_state" where
  "handle_refund_attr d env attr st =
     (if fst attr = ''refund_tokens'' then
        let height = block_height (env_block env);
            (refunded_coins, st1) =
              (case parse_coins d (snd attr) of
                 Some coins \<Rightarrow> (coins, st)
               | None \<Rightarrow> ([], log_callback (CbAt ''withdraw_liquidity_callback_REFUND_TOKENS_error'' height)
                                (CbText ''parse error'') st)) in
        log_callback (CbAt ''withdraw_liquidity_callback_REFUND_TOKENS'' height) (CbText (snd attr))
          (st1\<lparr>os_phase := Some (OsDistributing refunded_coins)\<rparr>)
      else st)"

definition handle_refund_event :: "deps \<Rightarrow> env \<Rightarrow> remote_event \<Rightarrow> os_state \<Rightarrow> os_state" where
  "handle_refund_event d env e st =
     (if ev_type e = ''wasm'' then fold (handle_refund_attr d env) (ev_attributes e) st else st)"

definition handle_refunds :: "deps \<Rightarrow> env \<Rightarrow> submsg_response list \<Rightarrow> os_state \<Rightarrow> os_state" where
  "handle_refunds d env rs st = fold (\<lambda>r st. fold (handle_refund_event d env) (sr_events r) st) rs st"

definition process_execute_callback ::
    "deps \<Rightarrow> env \<Rightarrow> (submsg_response list, string) result \<Rightarrow> u8 option \<Rightarrow> os_state
     \<Rightarrow> (response \<times> os_state, os_error) result" where
  "process_execute_callback d env execute_result initiator_msg st =
     and_then (ok_or (OsStd (GenericErr ''parse error'')) initiator_msg) (\<lambda>initiator.
     and_then (map_err OsPolytoneError execute_result) (\<lambda>results.
     let height = block_height (env_block env) in
     if initiator = provide_liquidity_callback_id then
       Ok (resp [], fold log_response_data results
             (log_callback (CbAt ''provide_liquidity_callback'' height) (CbExec results) st))
     else if initiator = create_proxy_callback_id then
       and_then (map_err OsStd (load (os_note st))) (\<lambda>note_address.
       and_then (map_err OsStd (query_remote_address d note_address (contract_address env))) (\<lambda>proxy_address.
       let st1 = log_callback (CbAt ''create_proxy_callback'' height) (CbExec results) st in
       case proxy_address of
         Some addr \<Rightarrow>
           and_then (map_err OsStd (load (os_phase st1))) (\<lambda>phase.
             Ok (resp [], st1\<lparr>os_proxy := Some addr,
                              os_phase := Some (if phase = OsInstantiated then OsProxyCreated else phase)\<rparr>))
       | None \<Rightarrow> Ok (resp [], st1)))
     else if initiator = withdraw_liquidity_callback_id then
       let st1 = log_callback (CbAt ''withdraw_liquidity_callback'' height) (CbExec results)
                   (handle_refunds d env results st) in
       and_then (map_err OsStd (load (os_phase st1))) (\<lambda>phase.
         case phase of
           OsDistributing _ \<Rightarrow> Ok (resp [], st1)
         | _ \<Rightarrow>
             and_then (map_err OsStd (load (os_holder st1))) (\<lambda>holder.
               Ok (resp [WasmExecute holder WithdrawFailedMsg []],
                   log_callback (CbAt ''withdraw_liquidity_callback'' height) (CbText ''non-distributing-state'') st1)))
     else Ok (resp [], st)))"

definition process_fatal_error_callback ::
    "env \<Rightarrow> string \<Rightarrow> os_state \<Rightarrow> (response \<times> os_state, os_error) result" where
  "process_fatal_error_callback env text st =
     Ok (resp [], log_callback (CbAt ''fatal_error'' (block_height (env_block env))) (CbText text) st)"

fun insert_balance :: "(denom, coin) omap \<Rightarrow> balance_binary \<Rightarrow> ((denom, coin) omap, std_error) result" where
  "insert_balance m BadBinary = Err (GenericErr ''parse error'')"
| "insert_balance m (BalanceResponse None) = Ok m"
| "insert_balance m (BalanceResponse (Some (dn, None))) = Err (GenericErr ''parse error'')"
| "insert_balance m (BalanceResponse (Some (dn, Some a))) =
     Ok (om_insert m dn \<lparr>coin_denom = dn, coin_amount = a\<rparr>)"

definition handle_proxy_balances_callback ::
    "env \<Rightarrow> (balance_binary list, string) result \<Rightarrow> os_state \<Rightarrow> (response \<times> os_state, os_error) result" where
  "handle_proxy_balances_callback env query_result st =
     and_then (map_err OsPolytoneError query_result) (\<lambda>response_binaries.
     let st1 = fold (\<lambda>b. log_callback (CbAt ''proxy_balances_callback'' (block_height (env_block env))) (CbBalance b))
                 response_binaries st in
     and_then (map_err OsStd (load (os_lp_config st1))) (\<lambda>lp_config.
     and_then (map_err OsStd (try_fold insert_balance (latest_balances lp_config) response_binaries)) (\<lambda>bals.
       Ok (resp [], st1\<lparr>os_lp_config := Some (lp_config\<lparr>latest_balances := bals\<rparr>)\<rparr>))))"

definition process_query_callback ::
    "env \<Rightarrow> (balance_binary list, string) result \<Rightarrow> u8 option \<Rightarrow> os_state
     \<Rightarrow> (response \<times> os_state, os_error) result" where
  "process_query_callback env query_result initiator_msg st =
     and_then (ok_or (OsStd (GenericErr ''parse error'')) initiator_msg) (\<lambda>initiator.
       if initiator = proxy_balances_query_callback_id then handle_proxy_balances_callback env query_result st
       else Err (OsPolytoneError ''unexpected callback id''))"

definition try_handle_callback ::
    "deps \<Rightarrow> env \<Rightarrow> message_info \<Rightarrow> callback_message \<Rightarrow> os_state \<Rightarrow> (response \<times> os_state, os_error) result" where
  "try_handle_callback d env info msg st =
     and_then (map_err OsStd (load (os_note st))) (\<lambda>note_address.
     and_then (ensure (sender info = note_address) OsUnauthorized) (\<lambda>_.
       case cm_result msg of
         CallbackQuery r \<Rightarrow> process_query_callback env r (cm_initiator_msg msg) st
       | CallbackExecute r \<Rightarrow> process_execute_callback d env r (cm_initiator_msg msg) st
       | CallbackFatalError t \<Rightarrow> process_fatal_error_callback env t st))"

definition os_execute ::
    "deps \<Rightarrow> env \<Rightarrow> message_info \<Rightarrow> os_execute_msg \<Rightarrow> os_state \<Rightarrow> (response \<times> os_state, os_error) result" where
  "os_execute d env info msg st =
     (case msg of
        OsTick \<Rightarrow> os_try_tick d env info st
      | OsCallback callback_msg \<Rightarrow> try_handle_callback d env info callback_msg st
      | OsWithdraw percentage \<Rightarrow> os_try_initiate_withdrawal info percentage st)"

definition os_query :: "env \<Rightarrow> os_query_msg \<Rightarrow> os_state \<Rightarrow> (os_query_reply, std_error) result" where
  "os_query env msg st =
     (case msg of
        OsQClockAddress \<Rightarrow> Ok (OsRAddr (os_clock st))
      | OsQContractState \<Rightarrow> Ok (OsRState (os_phase st))
      | OsQHolderAddress \<Rightarrow> Ok (OsRAddr (os_holder st))
      | OsQDepositAddress \<Rightarrow> Ok (OsRAddr (Some (contract_address env)))
      | OsQProxyAddress \<Rightarrow> Ok (OsRAddr (os_proxy st))
      | OsQIbcConfig \<Rightarrow> Ok (OsRIbcConfig (os_ibc_config st))
      | OsQLpConfig \<Rightarrow> Ok (OsRLpConfig (os_lp_config st))
      | OsQCallbacks \<Rightarrow> Ok (OsRCallbacks (os_callbacks st)))"

definition os_migrate :: "deps \<Rightarrow> os_migrate_msg \<Rightarrow> os_state \<Rightarrow> (response \<times> os_state, std_error) result" where
  "os_migrate d msg st =
     (case msg of
        OsUpdateConfig u \<Rightarrow>
          and_then (upd_field (\<lambda>a st. and_then (addr_validate d a) (\<lambda>v.
                      Ok (st\<lparr>os_clock := Some v\<rparr>))) (osu_clock u) st) (\<lambda>st.
          and_then (upd_field (\<lambda>a st. and_then (addr_validate d a) (\<lambda>v.
                      Ok (st\<lparr>os_holder := Some v\<rparr>))) (osu_holder u) st) (\<lambda>st.
          and_then (upd_field (\<lambda>c st. Ok (st\<lparr>os_ibc_config := Some c\<rparr>)) (osu_ibc_config u) st) (\<lambda>st.
          and_then (upd_field (\<lambda>a st. and_then (addr_validate d a) (\<lambda>v.
                      Ok (st\<lparr>os_note := Some v\<rparr>))) (osu_note u) st) (\<lambda>st.
          and_then (upd_field (\<lambda>c st. Ok (st\<lparr>os_lp_config := Some c\<rparr>)) (osu_lp_config u) st) (\<lambda>st.
            Ok (resp [], st))))))
      | OsUpdateCodeId \<Rightarrow> Ok (resp [], st))"

lemmas os_tick_defs = try_create_proxy_def try_deliver_funds_def try_fund_proxy_def query_proxy_balances_def
  os_try_provide_liquidity_def try_sync_proxy_balances_def os_try_withdraw_def withdraw_party_denoms_def
  os_try_distribute_def

end
