(* ===== verification/Osmo_Correct.thy ===== *)
theory Osmo_Correct
  imports Osmo_Pooler
begin

text \<open>
  Correctness of the Osmosis liquid pooler: the invariant of its reachable states and the
  order of its phases, what a tick does while withdrawn coins are on their way home, and two
  defects of the withdrawal protocol.
\<close>

section \<open>The invariant\<close>

text \<open>The latest balances are keyed by their own denominations.\<close>

definition os_lp_ok :: "os_lp_config \<Rightarrow> bool" where
  "os_lp_ok c \<longleftrightarrow> om_wf (latest_balances c) \<and> list_all (\<lambda>(dn, b). coin_denom b = dn) (latest_balances c)"

fun phase_ok :: "os_contract_state \<Rightarrow> string option \<Rightarrow> bool" where
  "phase_ok OsProxyCreated proxy = (proxy \<noteq> None)"
| "phase_ok (OsProxyFunded e) proxy = (proxy \<noteq> None)"
| "phase_ok (OsPendingWithdrawal share) proxy = (dec_zero < share \<and> share \<le> dec_one)"
| "phase_ok phase proxy = True"

definition os_inv :: "os_state \<Rightarrow> bool" where
  "os_inv st \<longleftrightarrow> os_clock st \<noteq> None \<and> os_holder st \<noteq> None \<and> os_note st \<noteq> None \<and> os_ibc_config st \<noteq> None \<and>
     (\<exists>c. os_lp_config st = Some c \<and> os_lp_ok c) \<and> (\<exists>p. os_phase st = Some p \<and> phase_ok p (os_proxy st))"

text \<open>How far the set-up has come.\<close>

fun phase_rank :: "os_contract_state \<Rightarrow> nat" where
  "phase_rank OsInstantiated = 0"
| "phase_rank OsProxyCreated = 1"
| "phase_rank (OsProxyFunded e) = 2"
| "phase_rank phase = 3"

definition os_rank :: "os_state \<Rightarrow> nat" where
  "os_rank st = (case os_phase st of Some p \<Rightarrow> phase_rank p | None \<Rightarrow> 0)"

text \<open>What every call preserves: the invariant, the progress of the set-up, and the proxy.\<close>

definition os_step :: "os_state \<Rightarrow> os_state \<Rightarrow> bool" where
  "os_step st st' \<longleftrightarrow> (os_inv st \<longrightarrow> os_inv st' \<and> os_rank st \<le> os_rank st' \<and> (os_proxy st \<noteq> None \<longrightarrow> os_proxy st' \<noteq> None))"

lemma os_step_refl [simp, intro]: "os_step st st"
  by (simp add: os_step_def)

lemma os_step_trans: "os_step a b \<Longrightarrow> os_step b c \<Longrightarrow> os_step a c"
  by (auto simp: os_step_def)

lemma phase_rank_le: "phase_rank p \<le> 3"
  by (cases p) auto

lemma os_lp_ok_reset: "os_lp_ok c \<Longrightarrow> os_lp_ok (reset_latest_proxy_balances c)"
  by (auto simp: os_lp_ok_def reset_latest_proxy_balances_def om_remove_def list_all_iff intro!: om_wf_filter)

lemma os_lp_ok_insert:
  assumes "try_fold insert_balance m bs = Ok m'" and "om_wf m" and "list_all (\<lambda>(dn, b). coin_denom b = dn) m"
  shows "om_wf m' \<and> list_all (\<lambda>(dn, b). coin_denom b = dn) m'"
proof -
  have "insert_balance m b = Ok m' \<Longrightarrow> om_wf m \<and> list_all (\<lambda>(dn, b). coin_denom b = dn) m \<Longrightarrow>
      om_wf m' \<and> list_all (\<lambda>(dn, b). coin_denom b = dn) m'" for m b m'
  proof (induction m b rule: insert_balance.induct)
    case (4 m dn a)
    have "om_wf m \<Longrightarrow> (k, v) \<in> set (om_insert m dn x) \<Longrightarrow> (k, v) = (dn, x) \<or> (k, v) \<in> set m" for k v x
      by (induction m dn x rule: om_insert.induct) (auto split: if_splits)
    with 4 show ?case by (fastforce simp: list_all_iff om_wf_insert)
  qed auto
  then show ?thesis
    using assms(2,3) by (intro try_fold_invariant [OF assms(1), where P = "\<lambda>m. om_wf m \<and> _ m"]) blast+
qed

lemma os_step_phase:
  assumes "phase_rank p = 3" and "phase_ok p (os_proxy st)"
  shows "os_step st (st\<lparr>os_phase := Some p\<rparr>)"
  using assms phase_rank_le by (auto simp: os_step_def os_inv_def os_rank_def split: option.splits)

lemma os_step_reset:
  "os_lp_config st = Some c \<Longrightarrow> os_step st (st\<lparr>os_lp_config := Some (reset_latest_proxy_balances c)\<rparr>)"
  by (auto simp: os_step_def os_inv_def os_rank_def os_lp_ok_reset)

lemma os_step_log: "os_step st (log_callback k v st)"
  by (auto simp: os_step_def os_inv_def os_rank_def log_callback_def)

lemma os_step_fold: "(\<And>x st. os_step st (f x st)) \<Longrightarrow> os_step st (fold f xs st)"
  by (induction xs arbitrary: st) (auto intro: os_step_trans)

lemmas os_steps = os_step_phase os_step_reset os_step_log os_step_fold

lemma tick_parts_step:
  "try_create_proxy env st = Ok (r, st') \<Longrightarrow> os_step st st'"
  "query_proxy_balances env st = Ok (r, st') \<Longrightarrow> os_step st st'"
  "try_sync_proxy_balances env st = Ok (r, st') \<Longrightarrow> os_step st st'"
  "os_try_provide_liquidity env st = Ok (r, st') \<Longrightarrow> os_step st st'"
  "withdraw_party_denoms p1 p2 st = Ok (r, st') \<Longrightarrow> os_step st st'"
  "try_fund_proxy d env st = Ok (r, st') \<Longrightarrow> os_step st st'"
  "os_try_withdraw d env share bals c st = Ok (r, st') \<Longrightarrow> os_step st st'"
proof -
  show "try_create_proxy env st = Ok (r, st') \<Longrightarrow> os_step st st'"
    by (auto simp: try_create_proxy_def result_simps)
  show "query_proxy_balances env st = Ok (r, st') \<Longrightarrow> os_step st st'"
    by (auto simp: query_proxy_balances_def result_simps)
  show "try_sync_proxy_balances env st = Ok (r, st') \<Longrightarrow> os_step st st'"
    by (auto simp: try_sync_proxy_balances_def result_simps intro: os_steps)
  show "os_try_provide_liquidity env st = Ok (r, st') \<Longrightarrow> os_step st st'"
    by (auto simp: os_try_provide_liquidity_def result_simps intro: os_steps)
  show w: "withdraw_party_denoms p1 p2 st = Ok (r, st') \<Longrightarrow> os_step st st'" for p1 p2
    by (auto simp: withdraw_party_denoms_def Let_def result_simps split: if_splits intro: os_steps)
  show "try_fund_proxy d env st = Ok (r, st') \<Longrightarrow> os_step st st'"
    by (auto simp: try_fund_proxy_def result_simps split: if_splits intro: os_steps)
  show "os_try_withdraw d env share bals c st = Ok (r, st') \<Longrightarrow> os_step st st'"
    by (auto simp: os_try_withdraw_def Let_def result_simps split: if_splits prod.splits dest: w
        intro: os_step_log [unfolded log_callback_def])
qed

lemma os_try_distribute_Ok [consumes 1, case_names arrived missing]:
  assumes "os_try_distribute d env coins st = Ok (r, st')"
  obtains c b1 b2 holder where
    "os_lp_config st = Some c"
    "query_balance d (contract_address env) (local_denom (party_1_denom_info c)) = Ok b1"
    "query_balance d (contract_address env) (local_denom (party_2_denom_info c)) = Ok b2"
    "coin_amount (find_withdrawn (coin_denom (osmosis_coin (party_1_denom_info c))) coins) \<le> coin_amount b1"
    "coin_amount (find_withdrawn (coin_denom (osmosis_coin (party_2_denom_info c))) coins) \<le> coin_amount b2"
    "os_holder st = Some holder" "messages r = [WasmExecute holder DistributeMsg [b1, b2]]"
    "st' = st\<lparr>os_phase := Some OsActive, os_lp_config := Some (reset_latest_proxy_balances c)\<rparr>"
  | c ibc nt proxy b1 b2 ms1 ms2 where
    "os_lp_config st = Some c" "os_ibc_config st = Some ibc" "os_note st = Some nt" "os_proxy st = Some proxy"
    "query_balance d (contract_address env) (local_denom (party_1_denom_info c)) = Ok b1"
    "query_balance d (contract_address env) (local_denom (party_2_denom_info c)) = Ok b2"
    "withdraw_missing env ibc (party_1_chain_info ibc) proxy
       (coin_amount b1 \<ge> coin_amount (find_withdrawn (coin_denom (osmosis_coin (party_1_denom_info c))) coins))
       (find_withdrawn (coin_denom (osmosis_coin (party_1_denom_info c))) coins) = Ok ms1"
    "withdraw_missing env ibc (party_2_chain_info ibc) proxy
       (coin_amount b2 \<ge> coin_amount (find_withdrawn (coin_denom (osmosis_coin (party_2_denom_info c))) coins))
       (find_withdrawn (coin_denom (osmosis_coin (party_2_denom_info c))) coins) = Ok ms2"
    "messages r = (if ms1 @ ms2 = [] then []
                   else [WasmExecute nt (PolytoneExecute (ms1 @ ms2) None (osmo_ibc_timeout ibc)) []])"
    "st' = st"
    "\<not> (coin_amount (find_withdrawn (coin_denom (osmosis_coin (party_1_denom_info c))) coins) \<le> coin_amount b1 \<and>
        coin_amount (find_withdrawn (coin_denom (osmosis_coin (party_2_denom_info c))) coins) \<le> coin_amount b2)"
proof -
  from assms obtain c b1 b2 where c: "os_lp_config st = Some c"
    "query_balance d (contract_address env) (local_denom (party_1_denom_info c)) = Ok b1"
    "query_balance d (contract_address env) (local_denom (party_2_denom_info c)) = Ok b2"
    by (auto simp: os_try_distribute_def result_simps)
  let ?w1 = "find_withdrawn (coin_denom (osmosis_coin (party_1_denom_info c))) coins"
  let ?w2 = "find_withdrawn (coin_denom (osmosis_coin (party_2_denom_info c))) coins"
  show thesis
  proof (cases "coin_amount ?w1 \<le> coin_amount b1 \<and> coin_amount ?w2 \<le> coin_amount b2")
    case True
    with assms c obtain holder where "os_holder st = Some holder"
      "r = resp [WasmExecute holder DistributeMsg [b1, b2]]"
      "st' = st\<lparr>os_phase := Some OsActive, os_lp_config := Some (reset_latest_proxy_balances c)\<rparr>"
      by (simp add: os_try_distribute_def Let_def result_simps) blast
    with True c show thesis by (intro that(1)) auto
  next
    case False
    with assms c obtain ibc nt proxy ms1 ms2 where
      "os_ibc_config st = Some ibc" "os_note st = Some nt" "os_proxy st = Some proxy"
      "withdraw_missing env ibc (party_1_chain_info ibc) proxy (coin_amount b1 \<ge> coin_amount ?w1) ?w1 = Ok ms1"
      "withdraw_missing env ibc (party_2_chain_info ibc) proxy (coin_amount b2 \<ge> coin_amount ?w2) ?w2 = Ok ms2"
      and last: "(if ms1 @ ms2 \<noteq> [] then Ok (resp [get_note_execute_neutron_msg (ms1 @ ms2) (osmo_ibc_timeout ibc) nt None], st)
         else Ok (resp [], st)) = (Ok (r, st') :: (response \<times> os_state, os_error) result)"
      by (simp add: os_try_distribute_def Let_def result_simps del: append_is_Nil_conv) blast
    with c False show thesis
      by (intro that(2) [of c ibc nt proxy b1 b2 ms1 ms2])
        (auto simp: get_note_execute_neutron_msg_def split: if_splits)
  qed
qed

lemma os_try_distribute_step: "os_try_distribute d env coins st = Ok (r, st') \<Longrightarrow> os_step st st'"
proof (erule os_try_distribute_Ok)
  fix c b1 b2 holder
  assume c: "os_lp_config st = Some c"
    and "st' = st\<lparr>os_phase := Some OsActive, os_lp_config := Some (reset_latest_proxy_balances c)\<rparr>"
  moreover have "os_step st (st\<lparr>os_phase := Some OsActive\<rparr>)" by (rule os_step_phase) simp_all
  moreover have "os_step (st\<lparr>os_phase := Some OsActive\<rparr>)
      (st\<lparr>os_phase := Some OsActive, os_lp_config := Some (reset_latest_proxy_balances c)\<rparr>)"
    using os_step_reset [of "st\<lparr>os_phase := Some OsActive\<rparr>" c] c by simp
  ultimately show "os_step st st'" by (auto intro: os_step_trans)
qed simp

lemma os_step_funded:
  assumes "os_phase st = Some OsProxyCreated"
  shows "os_step st (st\<lparr>os_phase := Some (OsProxyFunded e)\<rparr>)"
  using assms by (auto simp: os_step_def os_inv_def os_rank_def)

lemma try_deliver_funds_step:
  assumes "try_deliver_funds d env st = Ok (r, st')" and "os_phase st = Some OsProxyCreated"
  shows "os_step st st'"
proof -
  from assms(1) obtain c where c: "os_lp_config st = Some c" by (auto simp: try_deliver_funds_def result_simps)
  show ?thesis
  proof (cases "party_1_proxy_balance c = None \<or> party_2_proxy_balance c = None")
    case True
    with assms(1) c have "query_proxy_balances env (st\<lparr>os_lp_config := Some (reset_latest_proxy_balances c)\<rparr>) = Ok (r, st')"
      by (auto simp: try_deliver_funds_def split: option.splits)
    with os_step_reset [OF c] show ?thesis by (auto dest: tick_parts_step(2) intro: os_step_trans)
  next
    case False
    with assms c show ?thesis
      by (auto simp: try_deliver_funds_def split: if_splits dest: tick_parts_step(6) intro: os_step_funded)
  qed
qed

lemma os_try_tick_step:
  assumes "os_try_tick d env info st = Ok (r, st')"
  shows "os_step st st'"
proof -
  from assms obtain p where "os_phase st = Some p" by (auto simp: os_try_tick_def result_simps)
  with assms show ?thesis
    by (cases p) (auto simp: os_try_tick_def result_simps split: if_splits option.splits
        dest: tick_parts_step os_try_distribute_step try_deliver_funds_step intro: os_step_phase)
qed

lemma os_step_refunds: "os_step st (handle_refunds d env rs st)"
proof -
  have p: "os_step st (log_callback k v (st\<lparr>os_phase := Some (OsDistributing cs)\<rparr>))" for k v cs st
    by (rule os_step_trans [OF os_step_phase os_step_log]) simp_all
  have "os_step st (handle_refund_attr d env a st)" for a st
    by (auto simp: handle_refund_attr_def Let_def split: option.splits intro: p os_step_trans [OF os_step_log p])
  then show ?thesis
    by (auto simp: handle_refunds_def handle_refund_event_def intro!: os_step_fold)
qed

lemma os_step_created:
  assumes "os_phase st = Some p"
  shows "os_step st (st\<lparr>os_proxy := Some a, os_phase := Some (if p = OsInstantiated then OsProxyCreated else p)\<rparr>)"
  using assms by (cases p) (auto simp: os_step_def os_inv_def os_rank_def)

lemma execute_callback_step:
  assumes "process_execute_callback d env res i st = Ok (r, st')"
  shows "os_step st st'"
proof -
  from assms obtain id rs where i: "i = Some id" "res = Ok rs"
    by (auto simp: process_execute_callback_def result_simps)
  let ?log = "\<lambda>t. log_callback (CbAt t (block_height (env_block env))) (CbExec rs)"
  consider "id = provide_liquidity_callback_id" | "id = create_proxy_callback_id" | "id = withdraw_liquidity_callback_id"
    | "id \<notin> {provide_liquidity_callback_id, create_proxy_callback_id, withdraw_liquidity_callback_id}" by blast
  then show ?thesis
  proof cases
    case 1
    have "os_step st (log_response_data r st)" for r st
      by (auto simp: log_response_data_def os_step_log split: option.splits)
    then have "os_step st (fold log_response_data rs (?log ''provide_liquidity_callback'' st))"
      by (intro os_step_trans [OF os_step_log os_step_fold])
    with 1 assms i show ?thesis by (simp add: process_execute_callback_def Let_def)
  next
    case 2
    let ?st = "?log ''create_proxy_callback'' st"
    from 2 assms i obtain nt proxy where n: "os_note st = Some nt"
      "query_remote_address d nt (contract_address env) = Ok proxy"
      by (auto simp: process_execute_callback_def callback_ids Let_def result_simps)
    show ?thesis
    proof (cases proxy)
      case None
      with 2 assms i n show ?thesis
        by (auto simp: process_execute_callback_def callback_ids Let_def os_step_log)
    next
      case (Some a)
      with 2 assms i n obtain p where "os_phase ?st = Some p"
        "st' = ?st\<lparr>os_proxy := Some a, os_phase := Some (if p = OsInstantiated then OsProxyCreated else p)\<rparr>"
        by (auto simp: process_execute_callback_def callback_ids Let_def result_simps)
      with os_step_created [of ?st p a] show ?thesis by (metis os_step_trans [OF os_step_log])
    qed
  next
    case 3
    let ?st = "?log ''withdraw_liquidity_callback'' (handle_refunds d env rs st)"
    from 3 assms i obtain p where "os_phase ?st = Some p"
      by (auto simp: process_execute_callback_def callback_ids Let_def result_simps)
    with 3 assms i have "st' = ?st \<or> (\<exists>k v. st' = log_callback k v ?st)"
      by (cases p) (auto simp: process_execute_callback_def callback_ids Let_def result_simps)
    moreover have s: "os_step st ?st" by (rule os_step_trans [OF os_step_refunds os_step_log])
    ultimately show ?thesis using os_step_trans [OF s os_step_log] by (elim disjE exE) simp_all
  next
    case 4
    with assms i show ?thesis by (auto simp: process_execute_callback_def Let_def)
  qed
qed

lemma query_callback_step:
  assumes "process_query_callback env res i st = Ok (r, st')"
  shows "os_step st st'"
proof -
  from assms obtain bs where "handle_proxy_balances_callback env res st = Ok (r, st')" and bs: "res = Ok bs"
    by (auto simp: process_query_callback_def handle_proxy_balances_callback_def result_simps split: if_splits)
  let ?st = "fold (\<lambda>b. log_callback (CbAt ''proxy_balances_callback'' (block_height (env_block env))) (CbBalance b)) bs st"
  from \<open>handle_proxy_balances_callback env res st = Ok (r, st')\<close> bs obtain c m where
    c: "os_lp_config ?st = Some c" "try_fold insert_balance (latest_balances c) bs = Ok m"
      "st' = ?st\<lparr>os_lp_config := Some (c\<lparr>latest_balances := m\<rparr>)\<rparr>"
    by (auto simp: handle_proxy_balances_callback_def result_simps Let_def)
  have "os_step st ?st" by (intro os_step_fold os_step_log)
  moreover have "os_step ?st st'"
    using c os_lp_ok_insert [OF c(2)] by (auto simp: os_step_def os_inv_def os_rank_def os_lp_ok_def)
  ultimately show ?thesis by (rule os_step_trans)
qed

lemma os_execute_step:
  assumes "os_execute d env info msg st = Ok (r, st')"
  shows "os_step st st'"
proof (cases msg)
  case OsTick
  with assms show ?thesis by (auto simp: os_execute_def dest: os_try_tick_step)
next
  case (OsCallback m)
  with assms show ?thesis
    by (auto simp: os_execute_def try_handle_callback_def process_fatal_error_callback_def result_simps
        split: callback_result.splits dest: query_callback_step execute_callback_step intro: os_step_log)
next
  case (OsWithdraw p)
  with assms obtain c share where c: "os_lp_config st = Some c" "dec_zero < share" "share \<le> dec_one"
    "st' = st\<lparr>os_phase := Some (OsPendingWithdrawal share), os_lp_config := Some (reset_latest_proxy_balances c)\<rparr>"
    by (auto simp: os_execute_def os_try_initiate_withdrawal_def Let_def result_simps)
  have "os_step st (st\<lparr>os_phase := Some (OsPendingWithdrawal share)\<rparr>)" by (rule os_step_phase) (use c in simp_all)
  moreover have "os_step (st\<lparr>os_phase := Some (OsPendingWithdrawal share)\<rparr>) st'"
    using os_step_reset [of "st\<lparr>os_phase := Some (OsPendingWithdrawal share)\<rparr>" c] c by simp
  ultimately show ?thesis by (rule os_step_trans)
qed

section \<open>Histories\<close>

datatype os_call = OsExec env message_info os_execute_msg | OsMigrate os_migrate_msg

fun os_handle :: "deps \<Rightarrow> os_call \<Rightarrow> os_state \<Rightarrow> (response \<times> os_state, os_error) result" where
  "os_handle d (OsExec env info msg) st = os_execute d env info msg st"
| "os_handle d (OsMigrate msg) st = map_err OsStd (os_migrate d msg st)"

text \<open>A migration may replace the liquidity configuration; it is stored as it is.\<close>

fun os_valid :: "os_call \<Rightarrow> bool" where
  "os_valid (OsExec env info msg) = True"
| "os_valid (OsMigrate OsUpdateCodeId) = True"
| "os_valid (OsMigrate (OsUpdateConfig u)) = (case osu_lp_config u of Some c \<Rightarrow> os_lp_ok c | None \<Rightarrow> True)"

lemma os_migrate_step:
  assumes "os_migrate d msg st = Ok (r, st')" and "os_valid (OsMigrate msg)"
  shows "os_step st st'"
proof (cases msg)
  case OsUpdateCodeId
  with assms show ?thesis by (simp add: os_migrate_def)
next
  case (OsUpdateConfig u)
  have u: "os_step st (st\<lparr>os_clock := Some a\<rparr>)" "os_step st (st\<lparr>os_holder := Some a\<rparr>)"
    "os_step st (st\<lparr>os_note := Some a\<rparr>)" "os_step st (st\<lparr>os_ibc_config := Some i\<rparr>)"
    "os_lp_ok c \<Longrightarrow> os_step st (st\<lparr>os_lp_config := Some c\<rparr>)" for st :: os_state and a i c
    by (auto simp: os_step_def os_inv_def os_rank_def)
  from assms OsUpdateConfig show ?thesis
    unfolding os_migrate_def
    by (simp, elim upd_field_chain) (auto simp: result_simps intro: u os_step_trans)
qed

interpretation os: contract_phases "os_handle d" os_valid os_inv os_rank "(\<le>)" for d
proof
  fix c st r st'
  assume c: "os_valid c" "os_inv st" "os_handle d c st = Ok (r, st')"
  then have "os_step st st'"
    by (cases c) (auto simp: result_simps dest: os_execute_step os_migrate_step)
  with c(2) show "os_inv st'" "os_rank st \<le> os_rank st'" by (simp_all add: os_step_def)
qed auto

lemma os_instantiate_inv: "os_instantiate d msg = Ok (r, st) \<Longrightarrow> os_inv st"
  by (auto simp: os_instantiate_def result_simps os_inv_def os_lp_ok_def)


text \<open>Inputs for the witnesses: a pooler on the reference platform, in a given phase.\<close>

definition os_example_msg :: os_instantiate_msg where
  "os_example_msg =
     \<lparr>osi_clock = ''clock'', osi_holder = ''holder'', osi_note = ''note'', osi_pool_id = 1, osi_osmo_ibc_timeout = 100,
      osi_party_1_chain = \<lparr>neutron_to_party_chain_channel = ''ch-1'', party_chain_to_neutron_channel = ''ch-2'',
        outwards_pfm = None, inwards_pfm = None, pci_ibc_timeout = 100\<rparr>,
      osi_party_2_chain = \<lparr>neutron_to_party_chain_channel = ''ch-3'', party_chain_to_neutron_channel = ''ch-4'',
        outwards_pfm = None,
        inwards_pfm = Some \<lparr>fm_receiver = ''hop'', fm_port = ''transfer'', fm_channel = ''ch-5''\<rparr>, pci_ibc_timeout = 100\<rparr>,
      osi_osmo_to_neutron = ''ch-6'',
      osi_party_1_denom = \<lparr>osmosis_coin = \<lparr>coin_denom = ''osmo-a'', coin_amount = 10\<rparr>, local_denom = ''a''\<rparr>,
      osi_party_2_denom = \<lparr>osmosis_coin = \<lparr>coin_denom = ''osmo-b'', coin_amount = 10\<rparr>, local_denom = ''b''\<rparr>,
      osi_outpost = ''outpost'', osi_lp_token_denom = ''gamm'', osi_slippage_tolerance = None,
      osi_price_config = \<lparr>expected_spot_price = dec_one, acceptable_price_spread = dec_zero\<rparr>,
      osi_funding_duration = Height 10, osi_limits = \<lparr>asset_a_limit = 5, asset_b_limit = 5\<rparr>\<rparr>"

definition os_example_lp :: "(denom, coin) omap \<Rightarrow> os_lp_config" where
  "os_example_lp bals =
     \<lparr>latest_balances = bals, party_1_denom_info = osi_party_1_denom os_example_msg,
      party_2_denom_info = osi_party_2_denom os_example_msg, os_pool_id = 1, outpost = ''outpost'',
      lp_token_denom = ''gamm'', os_slippage_tolerance = None,
      os_pool_price_config = osi_price_config os_example_msg, funding_duration = Height 10,
      os_single_side_lp_limits = osi_limits os_example_msg\<rparr>"

definition os_example_ibc :: os_ibc_config where
  "os_example_ibc =
     \<lparr>party_1_chain_info = osi_party_1_chain os_example_msg, party_2_chain_info = osi_party_2_chain os_example_msg,
      osmo_to_neutron_channel_id = ''ch-6'', osmo_ibc_timeout = 100\<rparr>"

definition os_example :: "os_contract_state \<Rightarrow> string option \<Rightarrow> (denom, coin) omap \<Rightarrow> os_state" where
  "os_example phase proxy bals =
     \<lparr>os_phase = Some phase, os_clock = Some ''clock'', os_holder = Some ''holder'', os_note = Some ''note'',
      os_proxy = proxy, os_lp_config = Some (os_example_lp bals), os_ibc_config = Some os_example_ibc,
      os_callbacks = Map.empty\<rparr>"

definition os_example_env :: env where
  "os_example_env = \<lparr>env_block = \<lparr>block_height = 5, block_time = 1000\<rparr>, contract_address = ''pooler''\<rparr>"

abbreviation os_from :: "addr \<Rightarrow> message_info" where
  "os_from a \<equiv> \<lparr>sender = a, funds = []\<rparr>"

lemmas os_example_defs = os_example_def os_example_lp_def os_example_ibc_def os_example_env_def os_example_msg_def

lemma os_example_instantiate:
  "os_instantiate (ref_deps bals) os_example_msg =
     Ok (resp [WasmExecute ''clock'' EnqueueMsg []], os_example OsInstantiated None [])"
  by (simp add: os_instantiate_def os_example_defs enqueue_msg_def)


section \<open>Bringing the withdrawn coins home\<close>

text \<open>The coin a message of the proxy moves, and whether it ends at a given local account.\<close>

fun note_coins :: "note_msg \<Rightarrow> coin list" where
  "note_coins (OutpostProvideLiquidity a cfg cs) = cs"
| "note_coins (OutpostWithdrawLiquidity a p cs) = cs"
| "note_coins (NoteIbcTransfer ch a c t) = [c]"
| "note_coins (NoteMsgTransfer ch s a c t m) = [c]"

fun goes_home :: "addr \<Rightarrow> note_msg \<Rightarrow> bool" where
  "goes_home self (NoteIbcTransfer ch a c t) = (a = self)"
| "goes_home self (NoteMsgTransfer ch s a c t (MemoForward a' p ch')) = (a' = self)"
| "goes_home self m = False"

lemma withdraw_missing_Ok:
  assumes "withdraw_missing env ibc info proxy arrived c = Ok ms" and "\<not> arrived \<Longrightarrow> coin_amount c \<noteq> 0"
  shows "concat (map note_coins ms) = (if arrived then [] else [c]) \<and> list_all (goes_home (contract_address env)) ms"
  using assms by (auto simp: withdraw_missing_def withdraw_coin_message_def result_simps split: if_splits option.splits)

text \<open>The withdrawn coins of the two parties that have not arrived yet.\<close>

definition missing_coins :: "coin list \<Rightarrow> os_lp_config \<Rightarrow> coin \<Rightarrow> coin \<Rightarrow> coin list" where
  "missing_coins coins c b1 b2 =
     (let w1 = find_withdrawn (coin_denom (osmosis_coin (party_1_denom_info c))) coins;
          w2 = find_withdrawn (coin_denom (osmosis_coin (party_2_denom_info c))) coins in
      (if coin_amount w1 \<le> coin_amount b1 then [] else [w1]) @ (if coin_amount w2 \<le> coin_amount b2 then [] else [w2]))"

text \<open>
  A tick while withdrawn coins are being brought home. It succeeds only for the clock and it
  sends exactly one message. Once both coins have arrived on the pooler's own account, the
  message is the distribute call to the holder, with the whole balances of both denominations,
  and the pooler is active again. As long as something is missing, the state does not change
  and the message asks the proxy for exactly the missing coins, each addressed to the pooler.
\<close>

theorem os_distribution_tick:
  assumes "os_phase st = Some (OsDistributing coins)" and "os_lp_config st = Some c"
    and "os_execute d env info OsTick st = Ok (r, st')"
  shows "os_clock st = Some (sender info) \<and>
    (\<exists>b1 b2. query_balance d (contract_address env) (local_denom (party_1_denom_info c)) = Ok b1 \<and>
       query_balance d (contract_address env) (local_denom (party_2_denom_info c)) = Ok b2 \<and>
       (if missing_coins coins c b1 b2 = []
        then \<exists>holder. os_holder st = Some holder \<and> messages r = [WasmExecute holder DistributeMsg [b1, b2]] \<and>
               os_phase st' = Some OsActive
        else st' = st \<and> (\<exists>nt t ms. os_note st = Some nt \<and> messages r = [WasmExecute nt (PolytoneExecute ms None t) []] \<and>
               concat (map note_coins ms) = missing_coins coins c b1 b2 \<and>
               list_all (goes_home (contract_address env)) ms)))"
proof -
  from assms(1,3) have clk: "os_clock st = Some (sender info)" and t: "os_try_distribute d env coins st = Ok (r, st')"
    by (auto simp: os_execute_def os_try_tick_def result_simps)
  from t show ?thesis
  proof (cases rule: os_try_distribute_Ok)
    case (arrived c' b1 b2 holder)
    with assms(2) clk show ?thesis by (simp add: missing_coins_def)
  next
    case (missing c' ibc nt proxy b1 b2 ms1 ms2)
    let ?w1 = "find_withdrawn (coin_denom (osmosis_coin (party_1_denom_info c))) coins"
    let ?w2 = "find_withdrawn (coin_denom (osmosis_coin (party_2_denom_info c))) coins"
    from missing(1) assms(2) have [simp]: "c' = c" by simp
    have nz: "\<not> a \<le> b \<Longrightarrow> a \<noteq> 0" for a b :: u128 by auto
    note w = withdraw_missing_Ok [OF missing(7)] withdraw_missing_Ok [OF missing(8)]
    have "concat (map note_coins (ms1 @ ms2)) = missing_coins coins c b1 b2"
      "list_all (goes_home (contract_address env)) (ms1 @ ms2)"
      using w nz by (auto simp: missing_coins_def Let_def)
    moreover have "missing_coins coins c b1 b2 \<noteq> [] \<Longrightarrow> ms1 @ ms2 \<noteq> []"
      using calculation(1) by auto
    moreover have "missing_coins coins c b1 b2 \<noteq> []" using missing(11) by (auto simp: missing_coins_def Let_def)
    ultimately show ?thesis using missing clk by auto
  qed
qed

theorem os_distribution_tick_witness:
  "\<exists>st r. os_phase st = Some (OsDistributing [\<lparr>coin_denom = ''osmo-a'', coin_amount = 7\<rparr>, \<lparr>coin_denom = ''osmo-b'', coin_amount = 3\<rparr>]) \<and>
     os_execute (ref_deps (\<lambda>a dn. if dn = ''a'' then 9 else 0)) os_example_env (os_from ''clock'') OsTick st = Ok (r, st) \<and>
     (\<exists>t ms. messages r = [WasmExecute ''note'' (PolytoneExecute ms None t) []] \<and>
        concat (map note_coins ms) = [\<lparr>coin_denom = ''osmo-b'', coin_amount = 3\<rparr>])"
proof -
  let ?coins = "[\<lparr>coin_denom = ''osmo-a'', coin_amount = 7\<rparr>, \<lparr>coin_denom = ''osmo-b'', coin_amount = 3 :: u128\<rparr>]"
  let ?st = "os_example (OsDistributing ?coins) (Some ''proxy'') []"
  let ?d = "ref_deps (\<lambda>a dn. if dn = ''a'' then 9 else 0)"
  have "\<exists>r. os_execute ?d os_example_env (os_from ''clock'') OsTick ?st = Ok (r, ?st)"
    by (simp add: os_execute_def os_try_tick_def os_try_distribute_def os_example_defs Let_def find_withdrawn_def
        withdraw_missing_def withdraw_coin_message_def plus_seconds_def mul_or_panic_def add_or_panic_def verify_clock_def)
  then obtain r where r: "os_execute ?d os_example_env (os_from ''clock'') OsTick ?st = Ok (r, ?st)" by blast
  have st: "os_phase ?st = Some (OsDistributing ?coins)" "os_lp_config ?st = Some (os_example_lp [])" "os_note ?st = Some ''note''"
    by (simp_all add: os_example_def)
  from os_distribution_tick [OF st(1,2) r] st r show ?thesis
    by (intro exI [of _ ?st] exI [of _ r]) (auto simp: missing_coins_def find_withdrawn_def os_example_defs Let_def)
qed

section \<open>Defects of the withdrawal protocol\<close>

text \<open>
  A pending withdrawal is requested again by every tick until its callback arrives: the tick
  redeems the requested share of the last known liquidity tokens and neither moves to another
  phase nor forgets those balances, so the next tick redeems the same amount once more.
\<close>

theorem os_withdrawal_requested_again:
  assumes "os_phase st = Some (OsPendingWithdrawal share)" and "os_lp_config st = Some c"
    and "get_proxy_balances c = Some (p1, p2, lp)" and "coin_amount lp \<noteq> 0"
    and "os_execute d env info OsTick st = Ok (r, st')"
    and "contract_address env' = contract_address env"
  shows "\<exists>amount nt t cb st''.
     checked_multiply_ratio d (coin_amount lp) (atomics share) decimal_fractional = Ok amount \<and>
     messages r = [WasmExecute nt (PolytoneExecute [OutpostWithdrawLiquidity (outpost c) (os_pool_id c)
                     [\<lparr>coin_denom = lp_token_denom c, coin_amount = amount\<rparr>]] cb t) []] \<and>
     os_execute d env' info OsTick st' = Ok (r, st'')"
  using assms
  by (auto simp: os_execute_def os_try_tick_def os_try_withdraw_def Let_def result_simps)

theorem os_withdrawal_requested_again_witness:
  "\<exists>(r :: response) st' st'' t cb.
     os_execute (ref_deps (\<lambda>_ _. 0)) os_example_env (os_from ''clock'') OsTick
       (os_example (OsPendingWithdrawal (Decimal 500000000000000000)) (Some ''proxy'')
          [(''gamm'', \<lparr>coin_denom = ''gamm'', coin_amount = 100\<rparr>), (''osmo-a'', \<lparr>coin_denom = ''osmo-a'', coin_amount = 0\<rparr>),
           (''osmo-b'', \<lparr>coin_denom = ''osmo-b'', coin_amount = 0\<rparr>)]) = Ok (r, st') \<and>
     os_execute (ref_deps (\<lambda>_ _. 0)) os_example_env (os_from ''clock'') OsTick st' = Ok (r, st'') \<and>
     messages r = [WasmExecute ''note'' (PolytoneExecute [OutpostWithdrawLiquidity ''outpost'' 1
                     [\<lparr>coin_denom = ''gamm'', coin_amount = 50\<rparr>]] cb t) []]"
proof -
  let ?bals = "[(''gamm'', \<lparr>coin_denom = ''gamm'', coin_amount = 100\<rparr>), (''osmo-a'', \<lparr>coin_denom = ''osmo-a'', coin_amount = 0\<rparr>),
           (''osmo-b'', \<lparr>coin_denom = ''osmo-b'', coin_amount = 0 :: u128\<rparr>)]"
  let ?st = "os_example (OsPendingWithdrawal (Decimal 500000000000000000)) (Some ''proxy'') ?bals"
  let ?d = "ref_deps (\<lambda>_ _. 0)"
  have m: "ref_multiply_ratio 100 500000000000000000 decimal_fractional = Ok 50"
    by (simp add: ref_multiply_ratio_def decimal_fractional_def)
  have b: "get_proxy_balances (os_example_lp ?bals) =
      Some (\<lparr>coin_denom = ''osmo-a'', coin_amount = 0\<rparr>, \<lparr>coin_denom = ''osmo-b'', coin_amount = 0\<rparr>,
            \<lparr>coin_denom = ''gamm'', coin_amount = 100\<rparr>)"
    by (simp add: get_proxy_balances_def party_1_proxy_balance_def party_2_proxy_balance_def lp_token_proxy_balance_def
        os_example_lp_def os_example_msg_def om_get_def)
  have "\<exists>r st'. os_execute ?d os_example_env (os_from ''clock'') OsTick ?st = Ok (r, st')"
    using m b by (simp add: os_execute_def os_try_tick_def os_try_withdraw_def os_example_def Let_def verify_clock_def)
  then obtain r st' where r: "os_execute ?d os_example_env (os_from ''clock'') OsTick ?st = Ok (r, st')" by blast
  have "os_phase ?st = Some (OsPendingWithdrawal (Decimal 500000000000000000))" "os_lp_config ?st = Some (os_example_lp ?bals)"
    by (simp_all add: os_example_def)
  from os_withdrawal_requested_again [OF this b _ r refl] obtain nt t cb st'' where
    w: "messages r = [WasmExecute nt (PolytoneExecute [OutpostWithdrawLiquidity ''outpost'' 1
          [\<lparr>coin_denom = ''gamm'', coin_amount = 50\<rparr>]] cb t) []]"
      "os_execute ?d os_example_env (os_from ''clock'') OsTick st' = Ok (r, st'')"
    using m by (auto simp: os_example_lp_def)
  have "nt = ''note''"
    using r w(1) m b by (auto simp: os_execute_def os_try_tick_def os_try_withdraw_def os_example_def Let_def verify_clock_def)
  with r w show ?thesis by blast
qed

text \<open>A pending withdrawal without a proxy account to ask for balances.\<close>

definition os_stuck :: "os_state \<Rightarrow> bool" where
  "os_stuck st \<longleftrightarrow> (case os_phase st of Some (OsPendingWithdrawal _) \<Rightarrow> True | _ \<Rightarrow> False) \<and> os_proxy st = None \<and>
     (case os_lp_config st of Some c \<Rightarrow> get_proxy_balances c = None | None \<Rightarrow> False)"

text \<open>Calls other than callbacks of the note and migrations.\<close>

fun no_callback :: "os_call \<Rightarrow> bool" where
  "no_callback (OsExec env info OsTick) = True"
| "no_callback (OsExec env info (OsWithdraw p)) = True"
| "no_callback c = False"

lemma get_proxy_balances_reset: "get_proxy_balances (reset_latest_proxy_balances c) = None"
proof -
  have "party_1_proxy_balance (reset_latest_proxy_balances c) = None"
    by (auto simp: party_1_proxy_balance_def reset_latest_proxy_balances_def om_get_def om_remove_def
        map_of_eq_None_iff)
  then show ?thesis by (simp add: get_proxy_balances_def)
qed

lemma os_withdraw_Ok:
  assumes "os_execute d env info (OsWithdraw p) st = Ok (r, st')"
  shows "messages r = []" and "os_proxy st' = os_proxy st" and "os_proxy st = None \<Longrightarrow> os_stuck st'"
  using assms get_proxy_balances_reset
  by (auto simp: os_execute_def os_try_initiate_withdrawal_def Let_def result_simps os_stuck_def)

lemma os_stuck_tick: "os_stuck st \<Longrightarrow> os_execute d env info OsTick st \<noteq> Ok (r, st')"
  by (auto simp: os_stuck_def os_execute_def os_try_tick_def try_sync_proxy_balances_def result_simps
      split: option.splits os_contract_state.splits)

lemma os_stuck_step:
  assumes "no_callback c" and "os_stuck st" and "os_handle d c st = Ok (r, st')"
  shows "os_stuck st' \<and> messages r = []"
  using assms os_stuck_tick os_withdraw_Ok
  by (cases c rule: no_callback.cases) (auto simp: os_stuck_def)

interpretation os_stuck: contract_machine "os_handle d" no_callback os_stuck for d
  by unfold_locales (auto dest: os_stuck_step)

text \<open>
  A withdrawal that the holder requests before the proxy account exists blocks the pooler.
  It is accepted, but from then on, whatever ticks and further withdrawal requests follow, the
  pooler stays in the pending phase and sends no message at all: no balance query, no request
  to create the proxy, no coins and no failure notice to the holder.
\<close>

theorem os_withdraw_before_proxy_blocks:
  assumes "os_proxy st = None" and "os_execute d env info (OsWithdraw p) st = Ok (r, st')"
    and "list_all no_callback calls"
  shows "os_stuck (run_calls (os_handle d) st' calls) \<and> run_out (os_handle d) st' calls = []"
proof -
  from assms(1,2) have "os_stuck st'" using os_withdraw_Ok(3) by blast
  moreover from this have "set (run_out (os_handle d) st' calls) = {}"
    using os_stuck.out_run [where P = "\<lambda>_. False", OF _ assms(3)] os_stuck_step by fastforce
  ultimately show ?thesis using os_stuck.inv_run [OF assms(3)] by simp
qed

theorem os_withdraw_before_proxy_blocks_witness:
  "\<exists>r st'. os_execute (ref_deps (\<lambda>_ _. 0)) os_example_env (os_from ''holder'') (OsWithdraw None)
       (os_example OsInstantiated None []) = Ok (r, st') \<and>
     run_out (os_handle (ref_deps (\<lambda>_ _. 0))) st' (replicate 3 (OsExec os_example_env (os_from ''clock'') OsTick)) = []"
proof -
  have "\<exists>r st'. os_execute (ref_deps (\<lambda>_ _. 0)) os_example_env (os_from ''holder'') (OsWithdraw None)
       (os_example OsInstantiated None []) = Ok (r, st')"
    by (simp add: os_execute_def os_try_initiate_withdrawal_def os_example_def dec_less_iff)
  then obtain r st' where r: "os_execute (ref_deps (\<lambda>_ _. 0)) os_example_env (os_from ''holder'') (OsWithdraw None)
       (os_example OsInstantiated None []) = Ok (r, st')" by blast
  with os_withdraw_before_proxy_blocks [OF _ r, of "replicate 3 (OsExec os_example_env (os_from ''clock'') OsTick)"]
  show ?thesis by (auto simp: os_example_def list_all_iff)
qed

end
