(* ===== verification/Osmo_Outpost.thy ===== *)
theory Osmo_Outpost
  imports Covenant_Utils Transactions
begin

text \<open>
  The liquidity outpost on Osmosis (\<open>contracts/outpost-osmo-liquid-pooler\<close>): it joins and leaves
  pools for whoever calls it with coins, and sends everything that results back to the caller in
  the reply to the pool message.

  The pool module of the chain is the parameter \<open>osmosis\<close>. Amounts arrive as decimal strings;
  \<open>None\<close> stands for a string that is not a number of 128 bits. The attribute \<open>refund_tokens\<close>
  that the reply logs is read by the pooler on the other chain, so the reply handler returns it.
\<close>

section \<open>Data\<close>

datatype outpost_error =
    OpStd std_error
  | OpPaymentError
  | OpPoolRatioError
  | OpOsmosisPoolError string
  | OpLiquidityProvisionError
  | OpSlippageError
  | OpPriceRangeError
  | OpSingleSideLiquidityProvisionError
  | OpUnknownReplyId u64

record pool_asset =
  pa_token :: "(denom \<times> u128 option) option"
  pa_weight :: string

record osmo_pool =
  pool_id_of :: u64
  pool_assets :: "pool_asset list"
  total_shares_of :: "(denom \<times> u128 option) option"

text \<open>
  The pool module: a pool may be absent from the answer, and its encoding may not decode. The
  simulations of an exit and of the two ways to join return what the pool would pay out.
\<close>

record osmosis =
  query_pool :: "u64 \<Rightarrow> ((osmo_pool, string) result option, std_error) result"
  query_calc_exit :: "u64 \<Rightarrow> u128 \<Rightarrow> (coin list, std_error) result"
  query_calc_join_no_swap :: "u64 \<Rightarrow> coin list \<Rightarrow> (u128 option, std_error) result"
  query_calc_join :: "u64 \<Rightarrow> coin list \<Rightarrow> (u128 option, std_error) result"

record caller_context =
  ctx_sender :: addr
  ctx_pool_denom_1 :: denom
  ctx_pool_denom_2 :: denom
  ctx_gamm_denom :: denom

record op_state =
  pending_reply :: "caller_context option"

datatype op_execute_msg = OpProvideLiquidity outpost_provide_config | OpWithdrawLiquidity u64

definition osmo_pool_reply_id :: u64 where "osmo_pool_reply_id = 1"

section \<open>Pools\<close>

definition validate_pool_assets_length :: "osmo_pool \<Rightarrow> (unit, outpost_error) result" where
  "validate_pool_assets_length pool =
     (if length (pool_assets pool) = 2 then Ok () else Err (OpOsmosisPoolError ''pool must have 2 assets''))"

text \<open>Indexing a vector out of range panics.\<close>

definition validate_pool_asset_weights :: "osmo_pool \<Rightarrow> (unit, outpost_error) result" where
  "validate_pool_asset_weights pool =
     (case pool_assets pool of
        a # b # _ \<Rightarrow> if pa_weight a \<noteq> pa_weight b then Err OpPoolRatioError else Ok ()
      | _ \<Rightarrow> Panic)"

definition parse_uint128 :: "u128 option \<Rightarrow> (u128, outpost_error) result" where
  "parse_uint128 x = ok_or (OpStd (GenericErr ''parse error'')) x"

definition get_pool_cw_coins :: "osmo_pool \<Rightarrow> (coin list, outpost_error) result" where
  "get_pool_cw_coins pool =
     try_map (\<lambda>asset. case pa_token asset of
         Some (dn, amount) \<Rightarrow>
           and_then (parse_uint128 amount) (\<lambda>a. Ok \<lparr>coin_denom = dn, coin_amount = a\<rparr>)
       | None \<Rightarrow> Err (OpOsmosisPoolError ''failed to get pool token'')) (pool_assets pool)"

definition get_gamm_cw_coin :: "osmo_pool \<Rightarrow> (coin, outpost_error) result" where
  "get_gamm_cw_coin pool =
     (case total_shares_of pool of
        Some (dn, amount) \<Rightarrow> and_then (parse_uint128 amount) (\<lambda>a. Ok \<lparr>coin_denom = dn, coin_amount = a\<rparr>)
      | None \<Rightarrow> Err (OpOsmosisPoolError ''expected Some(total_shares), found None''))"

definition decode_osmo_pool_binary :: "(osmo_pool, string) result option \<Rightarrow> (osmo_pool, std_error) result" where
  "decode_osmo_pool_binary p =
     and_then (ok_or (NotFound ''shim not found'') p) (map_err OtherStdErr)"

definition get_paid_denom_amount :: "message_info \<Rightarrow> denom \<Rightarrow> (u128, std_error) result" where
  "get_paid_denom_amount info dn =
     (case find (\<lambda>c. coin_denom c = dn) (funds info) of
        Some c \<Rightarrow> Ok (coin_amount c)
      | None \<Rightarrow> Err (NotFound dn))"

text \<open>\<open>unwrap_or(Uint128::zero())\<close>.\<close>

definition paid_or_zero :: "message_info \<Rightarrow> denom \<Rightarrow> u128" where
  "paid_or_zero info dn = (case get_paid_denom_amount info dn of Ok a \<Rightarrow> a | _ \<Rightarrow> 0)"

definition apply_slippage :: "deps \<Rightarrow> decimal \<Rightarrow> coin \<Rightarrow> (coin, outpost_error) result" where
  "apply_slippage d slippage c =
     and_then (map_err (\<lambda>_. OpStd (GenericErr ''multiply ratio''))
                 (checked_multiply_ratio d (coin_amount c) (atomics slippage) decimal_fractional)) (\<lambda>applied.
     and_then (sub_or_panic (coin_amount c) applied) (\<lambda>amount.
       Ok \<lparr>coin_denom = coin_denom c, coin_amount = amount\<rparr>))"

section \<open>Entry points\<close>

definition op_instantiate :: "(response \<times> op_state, outpost_error) result" where
  "op_instantiate = Ok (resp [], \<lparr>pending_reply = None\<rparr>)"

definition pool_submsg :: "cosmos_msg \<Rightarrow> submsg" where
  "pool_submsg m = \<lparr>sub_msg = m, sub_id = osmo_pool_reply_id, sub_gas_limit = None, sub_reply_on = ReplyAlways\<rparr>"

definition op_try_withdraw_liquidity ::
    "deps \<Rightarrow> osmosis \<Rightarrow> env \<Rightarrow> message_info \<Rightarrow> u64 \<Rightarrow> op_state \<Rightarrow> (response \<times> op_state, outpost_error) result" where
  "op_try_withdraw_liquidity d ox env info pid st =
     and_then (map_err OpStd (query_pool ox pid)) (\<lambda>query_response.
     and_then (map_err OpStd (decode_osmo_pool_binary query_response)) (\<lambda>pool.
     and_then (ok_or (OpOsmosisPoolError ''no shares coin in pool'') (total_shares_of pool)) (\<lambda>shares_coin.
     and_then (map_err (\<lambda>_. OpPaymentError) (must_pay d info (fst shares_coin))) (\<lambda>shares_to_redeem.
     and_then (map_err OpStd (query_calc_exit ox pid shares_to_redeem)) (\<lambda>tokens_out.
     and_then (ensure (length tokens_out = 2) (OpOsmosisPoolError ''exit pool simulation must return 2 denoms'')) (\<lambda>_.
       Ok (\<lparr>submessages = [pool_submsg (ExitPool (contract_address env) pid shares_to_redeem tokens_out)]\<rparr>,
           st\<lparr>pending_reply := Some
                \<lparr>ctx_sender = sender info, ctx_pool_denom_1 = coin_denom (tokens_out ! 0),
                 ctx_pool_denom_2 = coin_denom (tokens_out ! 1), ctx_gamm_denom = fst shares_coin\<rparr>\<rparr>)))))))"

definition provide_double_sided_liquidity ::
    "deps \<Rightarrow> osmosis \<Rightarrow> env \<Rightarrow> osmo_pool \<Rightarrow> coin list \<Rightarrow> decimal \<Rightarrow> caller_context \<Rightarrow> op_state
     \<Rightarrow> (response \<times> op_state, outpost_error) result" where
  "provide_double_sided_liquidity d ox env pool assets_paid slippage ctx st =
     and_then (map_err OpStd (query_calc_join_no_swap ox (pool_id_of pool) assets_paid)) (\<lambda>shares_out.
     and_then (parse_uint128 shares_out) (\<lambda>shares.
     and_then (apply_slippage d slippage \<lparr>coin_denom = ctx_gamm_denom ctx, coin_amount = shares\<rparr>) (\<lambda>expected.
       Ok (\<lparr>submessages = [pool_submsg (JoinPool (contract_address env) (pool_id_of pool) (coin_amount expected) assets_paid)]\<rparr>,
           st\<lparr>pending_reply := Some ctx\<rparr>))))"

definition provide_single_sided_liquidity ::
    "deps \<Rightarrow> osmosis \<Rightarrow> osmo_pool \<Rightarrow> coin \<Rightarrow> addr \<Rightarrow> decimal \<Rightarrow> u128 \<Rightarrow> caller_context \<Rightarrow> op_state
     \<Rightarrow> (response \<times> op_state, outpost_error) result" where
  "provide_single_sided_liquidity d ox pool asset_paid self slippage limit ctx st =
     and_then (ensure (coin_amount asset_paid \<le> limit) OpSingleSideLiquidityProvisionError) (\<lambda>_.
     and_then (map_err OpStd (query_calc_join ox (pool_id_of pool) [asset_paid])) (\<lambda>share_out_amount.
     and_then (parse_uint128 share_out_amount) (\<lambda>shares.
     and_then (apply_slippage d slippage \<lparr>coin_denom = ctx_gamm_denom ctx, coin_amount = shares\<rparr>) (\<lambda>expected.
       Ok (\<lparr>submessages = [pool_submsg (JoinSwapExternAmountIn self (pool_id_of pool) asset_paid (coin_amount expected))]\<rparr>,
           st\<lparr>pending_reply := Some ctx\<rparr>)))))"

definition op_try_provide_liquidity ::
    "deps \<Rightarrow> osmosis \<Rightarrow> env \<Rightarrow> message_info \<Rightarrow> outpost_provide_config \<Rightarrow> op_state
     \<Rightarrow> (response \<times> op_state, outpost_error) result" where
  "op_try_provide_liquidity d ox env info config st =
     and_then (ensure (opc_slippage_tolerance config < dec_one) OpSlippageError) (\<lambda>_.
     and_then (map_err OpStd (query_pool ox (opc_pool_id config))) (\<lambda>query_response.
     and_then (map_err OpStd (decode_osmo_pool_binary query_response)) (\<lambda>pool.
     and_then (validate_pool_assets_length pool) (\<lambda>_.
     and_then (validate_pool_asset_weights pool) (\<lambda>_.
     and_then (get_pool_cw_coins pool) (\<lambda>assets.
     and_then (get_gamm_cw_coin pool) (\<lambda>gamm_shares_coin.
     and_then (dec_from_ratio d (coin_amount (assets ! 0)) (coin_amount (assets ! 1))) (\<lambda>pool_spot_price.
     and_then (dec_sub (opc_expected_spot_price config) (opc_acceptable_price_spread config)) (\<lambda>min_price.
     and_then (dec_add (opc_expected_spot_price config) (opc_acceptable_price_spread config)) (\<lambda>max_price.
     if min_price > pool_spot_price \<or> max_price < pool_spot_price then Err OpPriceRangeError
     else
       let asset_1 = \<lparr>coin_denom = coin_denom (assets ! 0), coin_amount = paid_or_zero info (coin_denom (assets ! 0))\<rparr>;
           asset_2 = \<lparr>coin_denom = coin_denom (assets ! 1), coin_amount = paid_or_zero info (coin_denom (assets ! 1))\<rparr>;
           ctx = \<lparr>ctx_sender = sender info, ctx_pool_denom_1 = coin_denom asset_1,
                  ctx_pool_denom_2 = coin_denom asset_2, ctx_gamm_denom = coin_denom gamm_shares_coin\<rparr> in
       case (coin_amount asset_1 \<noteq> 0, coin_amount asset_2 \<noteq> 0) of
         (True, True) \<Rightarrow>
           provide_double_sided_liquidity d ox env pool [asset_1, asset_2] (opc_slippage_tolerance config) ctx st
       | (True, False) \<Rightarrow>
           provide_single_sided_liquidity d ox pool asset_1 (contract_address env) (opc_slippage_tolerance config)
             (opc_asset_1_limit config) ctx st
       | (False, True) \<Rightarrow>
           provide_single_sided_liquidity d ox pool asset_2 (contract_address env) (opc_slippage_tolerance config)
             (opc_asset_2_limit config) ctx st
       | (False, False) \<Rightarrow> Err OpLiquidityProvisionError))))))))))"

definition op_execute ::
    "deps \<Rightarrow> osmosis \<Rightarrow> env \<Rightarrow> message_info \<Rightarrow> op_execute_msg \<Rightarrow> op_state \<Rightarrow> (response \<times> op_state, outpost_error) result" where
  "op_execute d ox env info msg st =
     (case msg of
        OpProvideLiquidity config \<Rightarrow> op_try_provide_liquidity d ox env info config st
      | OpWithdrawLiquidity pid \<Rightarrow> op_try_withdraw_liquidity d ox env info pid st)"

text \<open>The reply: everything held of the three denominations goes to the caller.\<close>

definition handle_pool_interaction_reply ::
    "deps \<Rightarrow> env \<Rightarrow> op_state \<Rightarrow> ((response \<times> coin list) \<times> op_state, outpost_error) result" where
  "handle_pool_interaction_reply d env st =
     and_then (map_err OpStd (load (pending_reply st))) (\<lambda>ctx.
     and_then (map_err OpStd (query_balance d (contract_address env) (ctx_gamm_denom ctx))) (\<lambda>available_gamm.
     and_then (map_err OpStd (query_balance d (contract_address env) (ctx_pool_denom_1 ctx))) (\<lambda>leftover_1.
     and_then (map_err OpStd (query_balance d (contract_address env) (ctx_pool_denom_2 ctx))) (\<lambda>leftover_2.
     let refund_tokens = filter (\<lambda>c. coin_amount c > 0) [available_gamm, leftover_1, leftover_2] in
       Ok ((resp (if refund_tokens \<noteq> [] then [BankSend (ctx_sender ctx) refund_tokens] else []), refund_tokens),
           st\<lparr>pending_reply := None\<rparr>)))))"

definition op_reply ::
    "deps \<Rightarrow> env \<Rightarrow> u64 \<Rightarrow> op_state \<Rightarrow> ((response \<times> coin list) \<times> op_state, outpost_error) result" where
  "op_reply d env rid st =
     (if rid = osmo_pool_reply_id then handle_pool_interaction_reply d env st else Err (OpUnknownReplyId rid))"

definition op_query :: "(unit, std_error) result" where
  "op_query = Err (NotFound ''not implemented'')"

definition op_migrate :: "op_state \<Rightarrow> (response \<times> op_state, std_error) result" where
  "op_migrate st = Ok (resp [], st)"

section \<open>Joining a pool\<close>

text \<open>What a pool message offers, and the shares it asks for at least (exactly, for a full join).\<close>

fun pool_offer :: "cosmos_msg \<Rightarrow> coin list \<times> u128" where
  "pool_offer (JoinPool s pid shares cs) = (cs, shares)"
| "pool_offer (JoinSwapExternAmountIn s pid c shares) = ([c], shares)"
| "pool_offer m = ([], 0)"

text \<open>The shares the pool simulates for an offer: without a swap for two coins, with one for a single coin.\<close>

definition simulated_shares :: "osmosis \<Rightarrow> u64 \<Rightarrow> coin list \<Rightarrow> (u128 option, std_error) result" where
  "simulated_shares ox pid cs =
     (if length cs = 2 then query_calc_join_no_swap ox pid cs else query_calc_join ox pid cs)"

lemma apply_slippage_Ok:
  assumes "multiply_ratio_spec d" and "apply_slippage d s c = Ok c'"
  shows "unat (coin_amount c') = unat (coin_amount c) - unat (coin_amount c) * dec_val s div dec_unit"
proof -
  from assms(2) obtain x where x: "checked_multiply_ratio d (coin_amount c) (atomics s) decimal_fractional = Ok x"
    "sub_or_panic (coin_amount c) x = (Ok (coin_amount c') :: (u128, outpost_error) result)"
    by (auto simp: apply_slippage_def result_simps)
  from x(1) assms(1) have "unat x = unat (coin_amount c) * dec_val s div dec_unit"
    by (simp add: multiply_ratio_spec_def dec_val_def decimal_fractional_def)
  with x(2) show ?thesis by (auto simp: arith_simps)
qed

lemma double_sided_Ok:
  assumes "multiply_ratio_spec d" and "provide_double_sided_liquidity d ox env pool cs s ctx st = Ok (r, st')"
  obtains m shares where "submessages r = [pool_submsg m]" "fst (pool_offer m) = cs"
    "query_calc_join_no_swap ox (pool_id_of pool) cs = Ok (Some shares)"
    "unat (snd (pool_offer m)) = unat shares - unat shares * dec_val s div dec_unit"
    "pending_reply st' = Some ctx"
proof -
  from assms(2) obtain shares e where
    "query_calc_join_no_swap ox (pool_id_of pool) cs = Ok (Some shares)"
    and e: "apply_slippage d s \<lparr>coin_denom = ctx_gamm_denom ctx, coin_amount = shares\<rparr> = Ok e"
    and "r = \<lparr>submessages = [pool_submsg (JoinPool (contract_address env) (pool_id_of pool) (coin_amount e) cs)]\<rparr>"
      "st' = st\<lparr>pending_reply := Some ctx\<rparr>"
    by (auto simp: provide_double_sided_liquidity_def parse_uint128_def result_simps)
  with apply_slippage_Ok [OF assms(1) e] that show thesis by force
qed

lemma single_sided_Ok:
  assumes "multiply_ratio_spec d" and "provide_single_sided_liquidity d ox pool c self s lim ctx st = Ok (r, st')"
  obtains m shares where "submessages r = [pool_submsg m]" "fst (pool_offer m) = [c]" "coin_amount c \<le> lim"
    "query_calc_join ox (pool_id_of pool) [c] = Ok (Some shares)"
    "unat (snd (pool_offer m)) = unat shares - unat shares * dec_val s div dec_unit"
    "pending_reply st' = Some ctx"
proof -
  from assms(2) obtain shares e where
    "query_calc_join ox (pool_id_of pool) [c] = Ok (Some shares)" "coin_amount c \<le> lim"
    and e: "apply_slippage d s \<lparr>coin_denom = ctx_gamm_denom ctx, coin_amount = shares\<rparr> = Ok e"
    and "r = \<lparr>submessages = [pool_submsg (JoinSwapExternAmountIn self (pool_id_of pool) c (coin_amount e))]\<rparr>"
      "st' = st\<lparr>pending_reply := Some ctx\<rparr>"
    by (auto simp: provide_single_sided_liquidity_def parse_uint128_def result_simps)
  with apply_slippage_Ok [OF assms(1) e] that show thesis by force
qed

text \<open>The pool a call works on: two assets of equal weight.\<close>

definition balanced_pool :: "osmosis \<Rightarrow> u64 \<Rightarrow> osmo_pool \<Rightarrow> coin \<Rightarrow> coin \<Rightarrow> bool" where
  "balanced_pool ox pid pool a b \<longleftrightarrow>
     query_pool ox pid = Ok (Some (Ok pool)) \<and> get_pool_cw_coins pool = Ok [a, b] \<and>
     (\<exists>x y. pool_assets pool = [x, y] \<and> pa_weight x = pa_weight y)"

lemma decode_pool_Ok: "decode_osmo_pool_binary p = Ok pool \<longleftrightarrow> p = Some (Ok pool)"
  by (auto simp: decode_osmo_pool_binary_def result_simps)

text \<open>The coin a caller has paid of a pool asset, and the context of the call.\<close>

definition paid_coin :: "message_info \<Rightarrow> coin \<Rightarrow> coin" where
  "paid_coin info a = \<lparr>coin_denom = coin_denom a, coin_amount = paid_or_zero info (coin_denom a)\<rparr>"

definition provide_context :: "message_info \<Rightarrow> coin \<Rightarrow> coin \<Rightarrow> coin \<Rightarrow> caller_context" where
  "provide_context info a b gamm =
     \<lparr>ctx_sender = sender info, ctx_pool_denom_1 = coin_denom a, ctx_pool_denom_2 = coin_denom b,
      ctx_gamm_denom = coin_denom gamm\<rparr>"

text \<open>The last step of a provide call.\<close>

definition provide_branch ::
    "deps \<Rightarrow> osmosis \<Rightarrow> env \<Rightarrow> message_info \<Rightarrow> outpost_provide_config \<Rightarrow> osmo_pool \<Rightarrow> coin \<Rightarrow> coin \<Rightarrow> coin \<Rightarrow> op_state
     \<Rightarrow> (response \<times> op_state, outpost_error) result" where
  "provide_branch d ox env info config pool a b gamm st =
     (case (coin_amount (paid_coin info a) \<noteq> 0, coin_amount (paid_coin info b) \<noteq> 0) of
        (True, True) \<Rightarrow> provide_double_sided_liquidity d ox env pool [paid_coin info a, paid_coin info b]
            (opc_slippage_tolerance config) (provide_context info a b gamm) st
      | (True, False) \<Rightarrow> provide_single_sided_liquidity d ox pool (paid_coin info a) (contract_address env)
            (opc_slippage_tolerance config) (opc_asset_1_limit config) (provide_context info a b gamm) st
      | (False, True) \<Rightarrow> provide_single_sided_liquidity d ox pool (paid_coin info b) (contract_address env)
            (opc_slippage_tolerance config) (opc_asset_2_limit config) (provide_context info a b gamm) st
      | (False, False) \<Rightarrow> Err OpLiquidityProvisionError)"

lemma op_try_provide_eq:
  "op_try_provide_liquidity d ox env info config st =
     and_then (ensure (opc_slippage_tolerance config < dec_one) OpSlippageError) (\<lambda>_.
     and_then (map_err OpStd (query_pool ox (opc_pool_id config))) (\<lambda>query_response.
     and_then (map_err OpStd (decode_osmo_pool_binary query_response)) (\<lambda>pool.
     and_then (validate_pool_assets_length pool) (\<lambda>_.
     and_then (validate_pool_asset_weights pool) (\<lambda>_.
     and_then (get_pool_cw_coins pool) (\<lambda>assets.
     and_then (get_gamm_cw_coin pool) (\<lambda>gamm.
     and_then (dec_from_ratio d (coin_amount (assets ! 0)) (coin_amount (assets ! 1))) (\<lambda>price.
     and_then (dec_sub (opc_expected_spot_price config) (opc_acceptable_price_spread config)) (\<lambda>lo.
     and_then (dec_add (opc_expected_spot_price config) (opc_acceptable_price_spread config)) (\<lambda>hi.
     if lo > price \<or> hi < price then Err OpPriceRangeError
     else provide_branch d ox env info config pool (assets ! 0) (assets ! 1) gamm st))))))))))"
  unfolding op_try_provide_liquidity_def provide_branch_def paid_coin_def provide_context_def Let_def coin.select_convs
  by (rule refl)

lemma provide_view:
  assumes "op_try_provide_liquidity d ox env info config st = Ok (r, st')"
  obtains pool a b price lo hi gamm where
    "balanced_pool ox (opc_pool_id config) pool a b"
    "dec_from_ratio d (coin_amount a) (coin_amount b) = (Ok price :: (decimal, outpost_error) result)"
    "dec_val (opc_expected_spot_price config) = dec_val (opc_acceptable_price_spread config) + dec_val lo"
    "dec_val hi = dec_val (opc_expected_spot_price config) + dec_val (opc_acceptable_price_spread config)"
    "lo \<le> price" "price \<le> hi" "get_gamm_cw_coin pool = Ok gamm"
    "provide_branch d ox env info config pool a b gamm st = Ok (r, st')"
proof -
  from assms obtain pool as price lo hi gamm where
    p: "query_pool ox (opc_pool_id config) = Ok (Some (Ok pool))" "validate_pool_assets_length pool = Ok ()"
      "validate_pool_asset_weights pool = Ok ()" "get_pool_cw_coins pool = Ok as" "get_gamm_cw_coin pool = Ok gamm"
    and q: "dec_from_ratio d (coin_amount (as ! 0)) (coin_amount (as ! 1)) = (Ok price :: (decimal, outpost_error) result)"
      "dec_sub (opc_expected_spot_price config) (opc_acceptable_price_spread config) = (Ok lo :: (decimal, outpost_error) result)"
      "dec_add (opc_expected_spot_price config) (opc_acceptable_price_spread config) = (Ok hi :: (decimal, outpost_error) result)"
      "\<not> (lo > price \<or> hi < price)"
    and last: "provide_branch d ox env info config pool (as ! 0) (as ! 1) gamm st = Ok (r, st')"
    unfolding op_try_provide_eq by (auto simp: result_simps decode_pool_Ok split: if_splits)
  from p(2,3) obtain x y where xy: "pool_assets pool = [x, y]" "pa_weight x = pa_weight y"
    by (auto simp: validate_pool_assets_length_def validate_pool_asset_weights_def length_Suc_conv numeral_2_eq_2
        split: if_splits)
  with length_try_map [OF p(4) [unfolded get_pool_cw_coins_def]] have "length as = 2" by simp
  then obtain a b where "as = [a, b]" by (auto simp: length_Suc_conv numeral_2_eq_2)
  with p q xy last show thesis by (intro that [of pool a b price lo hi gamm]) (auto simp: balanced_pool_def arith_simps)
qed

lemma provide_branch_Ok:
  assumes "multiply_ratio_spec d" and "provide_branch d ox env info config pool a b gamm st = Ok (r, st')"
  obtains m shares where
    "submessages r = [pool_submsg m]" "fst (pool_offer m) \<noteq> []"
    "fst (pool_offer m) = filter (\<lambda>c. coin_amount c \<noteq> 0) [paid_coin info a, paid_coin info b]"
    "\<And>c. fst (pool_offer m) = [c] \<Longrightarrow>
       coin_amount c \<le> (if coin_amount (paid_coin info b) = 0 then opc_asset_1_limit config else opc_asset_2_limit config)"
    "simulated_shares ox (pool_id_of pool) (fst (pool_offer m)) = Ok (Some shares)"
    "unat (snd (pool_offer m)) = unat shares - unat shares * dec_val (opc_slippage_tolerance config) div dec_unit"
    "pending_reply st' = Some (provide_context info a b gamm)"
proof -
  consider (both) "coin_amount (paid_coin info a) \<noteq> 0" "coin_amount (paid_coin info b) \<noteq> 0"
    | (first) "coin_amount (paid_coin info a) \<noteq> 0" "coin_amount (paid_coin info b) = 0"
    | (second) "coin_amount (paid_coin info a) = 0" "coin_amount (paid_coin info b) \<noteq> 0"
    using assms(2) by (auto simp: provide_branch_def split: bool.splits)
  then show thesis
  proof cases
    case both
    with assms(2) have "provide_double_sided_liquidity d ox env pool [paid_coin info a, paid_coin info b]
          (opc_slippage_tolerance config) (provide_context info a b gamm) st = Ok (r, st')" by (simp add: provide_branch_def)
    from double_sided_Ok [OF assms(1) this] obtain m shares where
      "submessages r = [pool_submsg m]" "fst (pool_offer m) = [paid_coin info a, paid_coin info b]"
      "query_calc_join_no_swap ox (pool_id_of pool) [paid_coin info a, paid_coin info b] = Ok (Some shares)"
      "unat (snd (pool_offer m)) = unat shares - unat shares * dec_val (opc_slippage_tolerance config) div dec_unit"
      "pending_reply st' = Some (provide_context info a b gamm)" .
    with both show thesis by (intro that [of m shares]) (simp_all add: simulated_shares_def)
  next
    case first
    with assms(2) have "provide_single_sided_liquidity d ox pool (paid_coin info a) (contract_address env)
          (opc_slippage_tolerance config) (opc_asset_1_limit config) (provide_context info a b gamm) st = Ok (r, st')"
      by (simp add: provide_branch_def)
    from assms(1) this show thesis
      by (rule single_sided_Ok) (use first in \<open>auto intro!: that simp: simulated_shares_def\<close>)
  next
    case second
    with assms(2) have "provide_single_sided_liquidity d ox pool (paid_coin info b) (contract_address env)
          (opc_slippage_tolerance config) (opc_asset_2_limit config) (provide_context info a b gamm) st = Ok (r, st')"
      by (simp add: provide_branch_def)
    from assms(1) this show thesis
      by (rule single_sided_Ok) (use second in \<open>auto intro!: that simp: simulated_shares_def\<close>)
  qed
qed


text \<open>Inputs for the witnesses: a pool of 1000:1000, simulations of 100 shares and of 10 tokens each.\<close>

definition ref_osmosis :: osmosis where
  "ref_osmosis =
     \<lparr>query_pool = (\<lambda>pid. Ok (Some (Ok \<lparr>pool_id_of = pid,
        pool_assets = [\<lparr>pa_token = Some (''osmo-a'', Some 1000), pa_weight = ''1''\<rparr>,
                       \<lparr>pa_token = Some (''osmo-b'', Some 1000), pa_weight = ''1''\<rparr>],
        total_shares_of = Some (''gamm'', Some 500)\<rparr>))),
      query_calc_exit = (\<lambda>pid s. Ok [\<lparr>coin_denom = ''osmo-a'', coin_amount = 10\<rparr>, \<lparr>coin_denom = ''osmo-b'', coin_amount = 10\<rparr>]),
      query_calc_join_no_swap = (\<lambda>pid cs. Ok (Some 100)), query_calc_join = (\<lambda>pid cs. Ok (Some 100))\<rparr>"

definition op_example_config :: outpost_provide_config where
  "op_example_config =
     \<lparr>opc_pool_id = 1, opc_expected_spot_price = dec_one, opc_acceptable_price_spread = dec_zero,
      opc_slippage_tolerance = dec_zero, opc_asset_1_limit = 5, opc_asset_2_limit = 5\<rparr>"

definition op_example_info :: message_info where
  "op_example_info = \<lparr>sender = ''proxy'', funds = [\<lparr>coin_denom = ''osmo-b'', coin_amount = 4\<rparr>]\<rparr>"

definition op_example_env :: env where
  "op_example_env = \<lparr>env_block = \<lparr>block_height = 5, block_time = 1000\<rparr>, contract_address = ''outpost''\<rparr>"

lemma op_example_ratios:
  "ref_multiply_ratio 1000 1000000000000000000 1000 = Ok 1000000000000000000"
  "ref_multiply_ratio 100 0 1000000000000000000 = Ok 0"
  by (simp_all add: ref_multiply_ratio_def)

lemma op_example_provide:
  "op_execute (ref_deps (\<lambda>_ _. 0)) ref_osmosis op_example_env op_example_info (OpProvideLiquidity op_example_config) \<lparr>pending_reply = None\<rparr>
   = Ok (\<lparr>submessages = [pool_submsg (JoinSwapExternAmountIn ''outpost'' 1 \<lparr>coin_denom = ''osmo-b'', coin_amount = 4\<rparr> 100)]\<rparr>,
         \<lparr>pending_reply = Some \<lparr>ctx_sender = ''proxy'', ctx_pool_denom_1 = ''osmo-a'', ctx_pool_denom_2 = ''osmo-b'',
                                ctx_gamm_denom = ''gamm''\<rparr>\<rparr>)"
  by (simp add: op_execute_def op_try_provide_liquidity_def ref_osmosis_def op_example_config_def op_example_info_def
      op_example_env_def decode_osmo_pool_binary_def validate_pool_assets_length_def validate_pool_asset_weights_def
      get_pool_cw_coins_def parse_uint128_def get_gamm_cw_coin_def dec_from_ratio_def dec_sub_def dec_add_def
      dec_one_def dec_zero_def decimal_fractional_def op_example_ratios sub_or_panic_def add_or_panic_def
      less_decimal_def paid_or_zero_def get_paid_denom_amount_def provide_single_sided_liquidity_def apply_slippage_def)


section \<open>Returning the result\<close>

text \<open>
  The outpost keeps nothing. The reply to a pool message sends the caller everything the
  outpost holds of the pool's two assets and of its share token, and nothing else to anybody;
  the pending call is closed, and the coins it reports are exactly those it sent.
\<close>

theorem op_reply_returns_everything:
  assumes "query_balance_spec d" and "pending_reply st = Some ctx"
    and "distinct [ctx_gamm_denom ctx, ctx_pool_denom_1 ctx, ctx_pool_denom_2 ctx]"
    and "op_reply d env osmo_pool_reply_id st = Ok ((r, refund), st')"
  shows "pending_reply st' = None \<and>
     (\<forall>dn. total_to (ctx_sender ctx) dn (messages r) = total_out dn (messages r) \<and>
           total_out dn (messages r) = coins_in dn refund \<and>
           coins_in dn refund =
             (if dn \<in> {ctx_gamm_denom ctx, ctx_pool_denom_1 ctx, ctx_pool_denom_2 ctx}
              then balance_of d (contract_address env) dn else 0))"
proof -
  let ?self = "contract_address env"
  from assms(2,4) obtain g l1 l2 where b:
    "query_balance d ?self (ctx_gamm_denom ctx) = Ok g" "query_balance d ?self (ctx_pool_denom_1 ctx) = Ok l1"
    "query_balance d ?self (ctx_pool_denom_2 ctx) = Ok l2"
    and out: "refund = filter (\<lambda>c. coin_amount c > 0) [g, l1, l2]"
      "messages r = (if refund \<noteq> [] then [BankSend (ctx_sender ctx) refund] else [])" "st' = st\<lparr>pending_reply := None\<rparr>"
    unfolding op_reply_def handle_pool_interaction_reply_def Let_def
    by (auto simp: and_then_eq_Ok map_err_eq load_eq simp del: filter.simps)
  have "try_map (query_balance d ?self) [ctx_gamm_denom ctx, ctx_pool_denom_1 ctx, ctx_pool_denom_2 ctx] = Ok [g, l1, l2]"
    using b by simp
  from coins_in_queried [OF assms(1) this assms(3)]
  have "coins_in dn refund = (if dn \<in> {ctx_gamm_denom ctx, ctx_pool_denom_1 ctx, ctx_pool_denom_2 ctx}
      then balance_of d ?self dn else 0)" for dn
    using coins_in_filter_nonzero [of dn "[g, l1, l2]"] unfolding out(1) word_neq_0_conv by simp
  moreover have "total_to (ctx_sender ctx) dn (messages r) = coins_in dn refund"
    "total_out dn (messages r) = coins_in dn refund" for dn
    using out(2) by (cases refund; simp)+
  ultimately show ?thesis using out(3) by simp
qed

theorem op_reply_returns_everything_witness:
  "\<exists>r refund st'. op_reply (ref_deps (\<lambda>a dn. if dn = ''gamm'' then 100 else 0)) op_example_env osmo_pool_reply_id
       \<lparr>pending_reply = Some \<lparr>ctx_sender = ''proxy'', ctx_pool_denom_1 = ''osmo-a'', ctx_pool_denom_2 = ''osmo-b'',
                              ctx_gamm_denom = ''gamm''\<rparr>\<rparr> = Ok ((r, refund), st') \<and>
     total_to ''proxy'' ''gamm'' (messages r) = 100"
proof -
  let ?d = "ref_deps (\<lambda>a dn. if dn = ''gamm'' then 100 else 0)"
  let ?ctx = "\<lparr>ctx_sender = ''proxy'', ctx_pool_denom_1 = ''osmo-a'', ctx_pool_denom_2 = ''osmo-b'', ctx_gamm_denom = ''gamm''\<rparr>"
  have "\<exists>r refund st'. op_reply ?d op_example_env osmo_pool_reply_id \<lparr>pending_reply = Some ?ctx\<rparr> = Ok ((r, refund), st')"
    by (simp add: op_reply_def handle_pool_interaction_reply_def Let_def)
  then obtain r refund st' where r: "op_reply ?d op_example_env osmo_pool_reply_id \<lparr>pending_reply = Some ?ctx\<rparr> = Ok ((r, refund), st')"
    by blast
  from op_reply_returns_everything [OF ref_query_balance_ok _ _ r, of ?ctx] r show ?thesis
    by (auto simp: balance_of_def)
qed

end
