(* ===== verification/Deployment.thy ===== *)
theory Deployment
  imports Clock Native_Splitter Native_Router Interchain_Router Swap_Holder Two_Party_Holder Single_Party_Holder
    Ibc_Forwarder Remote_Chain_Splitter Stride_Staker Astroport_Pooler Osmo_Pooler
begin

text \<open>
  What the three covenant contracts share: the address helper of
  \<open>packages/covenant-utils/src/instantiate2_helper.rs\<close>, the party configurations (\<open>lib.rs\<close> and the
  \<open>msg.rs\<close> of the covenants), the instantiate and migrate messages they send, and the deployment
  itself: the clock first, then every other contract in the order of the messages, each of them
  possibly enqueueing itself at the clock from its \<open>instantiate\<close>.
\<close>

section \<open>Predicted addresses\<close>

record instantiate2_helper_config =
  i2h_addr :: addr
  i2h_code :: u64
  i2h_salt :: "nat list"

definition get_precomputed_address ::
    "deps \<Rightarrow> u64 \<Rightarrow> nat list \<Rightarrow> nat list \<Rightarrow> (addr, std_error) result" where
  "get_precomputed_address d code_id creator salt =
     and_then (query_wasm_code_info d code_id) (\<lambda>checksum.
       case instantiate2_address d checksum creator salt of
         Ok a \<Rightarrow> addr_humanize d a
       | Err e \<Rightarrow> Err (GenericErr e)
       | Panic \<Rightarrow> Panic)"

definition generate_contract_salt :: "deps \<Rightarrow> string \<Rightarrow> nat list" where
  "generate_contract_salt d salt_str = sha256 d (map of_char salt_str)"

definition get_instantiate2_salt_and_address ::
    "deps \<Rightarrow> string \<Rightarrow> nat list \<Rightarrow> u64 \<Rightarrow> (instantiate2_helper_config, std_error) result" where
  "get_instantiate2_salt_and_address d salt_bytes creator code_id =
     (let salt_binary = generate_contract_salt d salt_bytes in
      and_then (get_precomputed_address d code_id creator salt_binary) (\<lambda>a.
        Ok \<lparr>i2h_addr = a, i2h_code = code_id, i2h_salt = salt_binary\<rparr>))"

section \<open>Messages of a covenant\<close>

text \<open>The instantiate messages of the contracts of a covenant.\<close>

datatype init_msg =
    ClockInit clock_instantiate_msg
  | NativeSplitterInit ns_instantiate_msg
  | NativeRouterInit nr_instantiate_msg
  | InterchainRouterInit ir_instantiate_msg
  | SwapHolderInit sw_instantiate_msg
  | TwoPartyHolderInit tp_instantiate_msg
  | SinglePartyHolderInit sp_instantiate_msg
  | ForwarderInit fw_instantiate_msg
  | RemoteSplitterInit rcs_instantiate_msg
  | StakerInit ls_instantiate_msg
  | AstroportInit ap_instantiate_msg
  | OsmosisInit os_instantiate_msg

record instantiate2_msg =
  i2_admin :: "string option"
  i2_code_id :: u64
  i2_label :: string
  i2_msg :: init_msg
  i2_funds :: "coin list"
  i2_salt :: "nat list"

definition to_instantiate2_msg :: "init_msg \<Rightarrow> instantiate2_helper_config \<Rightarrow> string \<Rightarrow> string \<Rightarrow> instantiate2_msg" where
  "to_instantiate2_msg m helper admin label =
     \<lparr>i2_admin = Some admin, i2_code_id = i2h_code helper, i2_label = label, i2_msg = m, i2_funds = [],
      i2_salt = i2h_salt helper\<rparr>"

definition clock_to_instantiate2_msg ::
    "clock_instantiate_msg \<Rightarrow> u64 \<Rightarrow> nat list \<Rightarrow> string \<Rightarrow> string \<Rightarrow> instantiate2_msg" where
  "clock_to_instantiate2_msg m code_id salt admin label =
     \<lparr>i2_admin = Some admin, i2_code_id = code_id, i2_label = label, i2_msg = ClockInit m, i2_funds = [], i2_salt = salt\<rparr>"

datatype migration =
    ClockMigration clock_migrate_msg
  | NativeSplitterMigration ns_migrate_msg
  | NativeRouterMigration nr_migrate_msg
  | InterchainRouterMigration ir_migrate_msg
  | SwapHolderMigration sw_migrate_msg
  | TwoPartyHolderMigration tp_migrate_msg
  | SinglePartyHolderMigration sp_migrate_msg
  | ForwarderMigration fw_migrate_msg
  | RemoteSplitterMigration rcs_migrate_msg
  | StakerMigration ls_migrate_msg
  | AstroportMigration ap_migrate_msg
  | OsmosisMigration os_migrate_msg

record wasm_migrate =
  wm_contract_addr :: addr
  wm_new_code_id :: u64
  wm_msg :: migration

text \<open>
  The migrations of a covenant: for each requested one, in order, a message to the stored address
  of the contract with its current code id. A contract that is not stored is an error.
\<close>

fun migrate_all :: "(addr option \<times> u64 \<times> migration option) list \<Rightarrow> (wasm_migrate list, std_error) result" where
  "migrate_all [] = Ok []"
| "migrate_all ((item, code, None) # rest) = migrate_all rest"
| "migrate_all ((item, code, Some m) # rest) =
     and_then (load item) (\<lambda>a.
     and_then (migrate_all rest) (\<lambda>ms.
       Ok (\<lparr>wm_contract_addr = a, wm_new_code_id = code, wm_msg = m\<rparr> # ms)))"

section \<open>Parties\<close>

record interchain_covenant_party =
  icp_receiver :: string
  icp_connection_id :: string
  icp_ibc_transfer_timeout :: u64
  icp_party_to_host_channel :: string
  icp_host_to_party_channel :: string
  icp_remote_chain_denom :: denom
  icp_addr :: string
  icp_native_denom :: denom
  icp_contribution :: coin
  icp_pfm_map :: "(denom, pfm_config) omap"
  icp_fallback_address :: "string option"

record native_covenant_party =
  ncp_receiver :: string
  ncp_native_denom :: denom
  ncp_addr :: string
  ncp_contribution :: coin

datatype covenant_party_config =
    InterchainParty interchain_covenant_party
  | NativeParty native_covenant_party

definition party_destination :: "interchain_covenant_party \<Rightarrow> destination_config" where
  "party_destination p =
     \<lparr>local_to_destination_channel = icp_host_to_party_channel p, destination_receiver = icp_receiver p,
      ibc_transfer_timeout = icp_ibc_transfer_timeout p, denom_to_pfm_map = icp_pfm_map p\<rparr>"

fun to_receiver_config :: "covenant_party_config \<Rightarrow> receiver_config" where
  "to_receiver_config (InterchainParty p) = IbcReceiver (party_destination p)"
| "to_receiver_config (NativeParty p) = NativeReceiver (ncp_receiver p)"

fun get_final_receiver_address :: "covenant_party_config \<Rightarrow> string" where
  "get_final_receiver_address (InterchainParty p) = icp_receiver p"
| "get_final_receiver_address (NativeParty p) = ncp_receiver p"

fun to_covenant_party :: "covenant_party_config \<Rightarrow> covenant_party" where
  "to_covenant_party (InterchainParty p) =
     \<lparr>party_addr = icp_addr p, native_denom = icp_native_denom p, receiver_cfg = to_receiver_config (InterchainParty p)\<rparr>"
| "to_covenant_party (NativeParty p) =
     \<lparr>party_addr = ncp_addr p, native_denom = ncp_native_denom p, receiver_cfg = to_receiver_config (NativeParty p)\<rparr>"

fun get_native_denom :: "covenant_party_config \<Rightarrow> denom" where
  "get_native_denom (InterchainParty p) = icp_native_denom p"
| "get_native_denom (NativeParty p) = ncp_native_denom p"

fun get_contribution :: "covenant_party_config \<Rightarrow> coin" where
  "get_contribution (InterchainParty p) = icp_contribution p"
| "get_contribution (NativeParty p) = ncp_contribution p"

fun is_native :: "covenant_party_config \<Rightarrow> bool" where
  "is_native (InterchainParty p) = False"
| "is_native (NativeParty p) = True"

text \<open>The router of a party: an interchain one, ticked by the clock it names, or a native one.\<close>

fun router_init :: "covenant_party_config \<Rightarrow> addr \<Rightarrow> denom list \<Rightarrow> init_msg" where
  "router_init (InterchainParty p) clock_addr denoms =
     InterchainRouterInit \<lparr>iri_clock = clock_addr, iri_destination = party_destination p, iri_denoms = denoms\<rparr>"
| "router_init (NativeParty p) clock_addr denoms =
     NativeRouterInit \<lparr>nri_op_mode = PermissionedCfg [clock_addr], nri_receiver = ncp_receiver p, nri_denoms = denoms\<rparr>"

record timeouts =
  ica_timeout_of :: u64
  ibc_transfer_timeout_of :: u64

text \<open>The forwarder that brings the contribution of an interchain party to \<open>next\<close>.\<close>

definition forwarder_init ::
    "interchain_covenant_party \<Rightarrow> timeouts \<Rightarrow> addr \<Rightarrow> addr \<Rightarrow> string option \<Rightarrow> init_msg" where
  "forwarder_init p ts clock_addr next_addr fallback =
     ForwarderInit \<lparr>fwi_op_mode = PermissionedCfg [clock_addr], fwi_next_contract = next_addr,
       fwi_connection_id = icp_connection_id p, fwi_channel_id = icp_party_to_host_channel p,
       fwi_denom = icp_remote_chain_denom p, fwi_amount = coin_amount (icp_contribution p),
       fwi_ibc_transfer_timeout = ibc_transfer_timeout_of ts, fwi_ica_timeout = ica_timeout_of ts,
       fwi_fallback = fallback\<rparr>"

definition default_timeout :: u64 where "default_timeout = 60 * 60 * 5"

definition default_timeouts :: timeouts where
  "default_timeouts = \<lparr>ica_timeout_of = default_timeout, ibc_transfer_timeout_of = default_timeout\<rparr>"

datatype router_migrate_msg =
    RouterInterchain ir_migrate_msg
  | RouterNative nr_migrate_msg

fun router_migration :: "router_migrate_msg \<Rightarrow> migration" where
  "router_migration (RouterInterchain m) = InterchainRouterMigration m"
| "router_migration (RouterNative m) = NativeRouterMigration m"

text \<open>The address one party deposits to: the account its forwarder reports, or the holder.\<close>

definition deposit_address_of :: "deps \<Rightarrow> addr option \<Rightarrow> addr option \<Rightarrow> (addr option, std_error) result" where
  "deposit_address_of d forwarder holder =
     (case forwarder of Some a \<Rightarrow> query_deposit_address d a | None \<Rightarrow> Ok holder)"

section \<open>Liquid pooler configurations\<close>

record osmosis_lp_config =
  olc_note_address :: string
  olc_pool_id :: u64
  olc_osmo_ibc_timeout :: u64
  olc_osmo_outpost :: string
  olc_party_1_chain_info :: party_chain_info
  olc_party_2_chain_info :: party_chain_info
  olc_lp_token_denom :: denom
  olc_osmo_to_neutron_channel_id :: string
  olc_party_1_denom_info :: party_denom_info
  olc_party_2_denom_info :: party_denom_info
  olc_funding_duration :: duration
  olc_single_side_lp_limits :: single_side_lp_limits

definition osmosis_to_instantiate_msg ::
    "osmosis_lp_config \<Rightarrow> string \<Rightarrow> string \<Rightarrow> pool_price_config \<Rightarrow> os_instantiate_msg" where
  "osmosis_to_instantiate_msg c clock_addr holder_addr price =
     \<lparr>osi_clock = clock_addr, osi_holder = holder_addr, osi_note = olc_note_address c, osi_pool_id = olc_pool_id c,
      osi_osmo_ibc_timeout = olc_osmo_ibc_timeout c, osi_party_1_chain = olc_party_1_chain_info c,
      osi_party_2_chain = olc_party_2_chain_info c, osi_osmo_to_neutron = olc_osmo_to_neutron_channel_id c,
      osi_party_1_denom = olc_party_1_denom_info c, osi_party_2_denom = olc_party_2_denom_info c,
      osi_outpost = olc_osmo_outpost c, osi_lp_token_denom = olc_lp_token_denom c, osi_slippage_tolerance = None,
      osi_price_config = price, osi_funding_duration = olc_funding_duration c, osi_limits = olc_single_side_lp_limits c\<rparr>"

record astroport_lp_config =
  alc_pool_pair_type :: pair_type
  alc_pool_address :: string
  alc_asset_a_denom :: denom
  alc_asset_b_denom :: denom
  alc_single_side_lp_limits :: single_side_lp_limits

definition astroport_to_instantiate_msg ::
    "astroport_lp_config \<Rightarrow> string \<Rightarrow> pool_price_config \<Rightarrow> op_mode_config \<Rightarrow> ap_instantiate_msg" where
  "astroport_to_instantiate_msg c holder_addr price op_mode =
     \<lparr>api_pool_address = alc_pool_address c, api_slippage_tolerance = None,
      api_assets = \<lparr>asset_a_denom = alc_asset_a_denom c, asset_b_denom = alc_asset_b_denom c\<rparr>,
      api_limits = alc_single_side_lp_limits c, api_price_config = price, api_pair_type = alc_pool_pair_type c,
      api_holder = holder_addr, api_op_mode = op_mode\<rparr>"

datatype liquid_pooler_config =
    OsmosisPooler osmosis_lp_config
  | AstroportPooler astroport_lp_config

fun pooler_init :: "liquid_pooler_config \<Rightarrow> addr \<Rightarrow> addr \<Rightarrow> pool_price_config \<Rightarrow> init_msg" where
  "pooler_init (OsmosisPooler c) clock_addr holder_addr price =
     OsmosisInit (osmosis_to_instantiate_msg c clock_addr holder_addr price)"
| "pooler_init (AstroportPooler c) clock_addr holder_addr price =
     AstroportInit (astroport_to_instantiate_msg c holder_addr price (PermissionedCfg [clock_addr]))"

definition pooler_to_instantiate2_msg ::
    "liquid_pooler_config \<Rightarrow> instantiate2_helper_config \<Rightarrow> string \<Rightarrow> string \<Rightarrow> addr \<Rightarrow> addr \<Rightarrow> pool_price_config
     \<Rightarrow> instantiate2_msg" where
  "pooler_to_instantiate2_msg c helper admin label clock_addr holder_addr price =
     to_instantiate2_msg (pooler_init c clock_addr holder_addr price) helper admin label"

datatype liquid_pooler_migrate_msg =
    PoolerOsmosis os_migrate_msg
  | PoolerAstroport ap_migrate_msg

fun pooler_migration :: "liquid_pooler_migrate_msg \<Rightarrow> migration" where
  "pooler_migration (PoolerOsmosis m) = OsmosisMigration m"
| "pooler_migration (PoolerAstroport m) = AstroportMigration m"

section \<open>Deployment\<close>

text \<open>
  The messages the \<open>instantiate\<close> of a created contract sends. The exchange of the Astroport
  pooler is a parameter.
\<close>

definition sent :: "(response \<times> 's, 'e) result \<Rightarrow> cosmos_msg list option" where
  "sent r = (case r of Ok (m, _) \<Rightarrow> Some (messages m) | _ \<Rightarrow> None)"

definition child_init :: "deps \<Rightarrow> astroport \<Rightarrow> env \<Rightarrow> init_msg \<Rightarrow> cosmos_msg list option" where
  "child_init d ax env m =
     (case m of
        ClockInit i \<Rightarrow> sent (clock_instantiate d i)
      | NativeSplitterInit i \<Rightarrow> sent (ns_instantiate d i)
      | NativeRouterInit i \<Rightarrow> sent (nr_instantiate d i)
      | InterchainRouterInit i \<Rightarrow> sent (ir_instantiate d i)
      | SwapHolderInit i \<Rightarrow> sent (sw_instantiate d env i)
      | TwoPartyHolderInit i \<Rightarrow> sent (tp_instantiate d env i)
      | SinglePartyHolderInit i \<Rightarrow> sent (sp_instantiate d env i)
      | ForwarderInit i \<Rightarrow> sent (fw_instantiate d i)
      | RemoteSplitterInit i \<Rightarrow> sent (rcs_instantiate d i)
      | StakerInit i \<Rightarrow> sent (ls_instantiate d i)
      | AstroportInit i \<Rightarrow> sent (ap_instantiate d ax i)
      | OsmosisInit i \<Rightarrow> sent (os_instantiate d i))"

text \<open>The clock a contract enqueues itself at when it is created, if it does.\<close>

fun enqueues_at :: "init_msg \<Rightarrow> addr option" where
  "enqueues_at (NativeSplitterInit i) = Some (nsi_clock i)"
| "enqueues_at (InterchainRouterInit i) = Some (iri_clock i)"
| "enqueues_at (SwapHolderInit i) = Some (swi_clock i)"
| "enqueues_at (TwoPartyHolderInit i) = Some (tpi_clock i)"
| "enqueues_at (StakerInit i) = Some (lsi_clock i)"
| "enqueues_at (OsmosisInit i) = Some (osi_clock i)"
| "enqueues_at m = None"

lemma pooler_init_enqueues:
  "enqueues_at (pooler_init c ca ha price) = (case c of OsmosisPooler _ \<Rightarrow> Some ca | AstroportPooler _ \<Rightarrow> None)"
  by (cases c) (simp_all add: osmosis_to_instantiate_msg_def)

lemma sent_Some: "sent r = Some ms \<longleftrightarrow> (\<exists>m s. r = Ok (m, s) \<and> ms = messages m)"
  by (auto simp: sent_def split: result.splits)

lemma child_init_enqueues:
  assumes "addr_validate_spec d" and "child_init d ax env m = Some ms"
  shows "ms = (case enqueues_at m of Some a \<Rightarrow> [WasmExecute a EnqueueMsg []] | None \<Rightarrow> [])"
  using assms(2) addr_validate_specD(1) [OF assms(1)]
  by (cases m)
    (auto simp: child_init_def sent_Some result_simps Let_def enqueue_msg_def
      clock_instantiate_def ns_instantiate_def nr_instantiate_def ir_instantiate_def sw_instantiate_def
      tp_instantiate_def sp_instantiate_def fw_instantiate_def rcs_instantiate_def ls_instantiate_def
      ap_instantiate_def os_instantiate_def split: if_splits)

text \<open>
  A deployment runs the instantiate messages in order. The chain creates each contract at the
  address that follows from its code, the creator and the salt; the messages the new contract
  sends run before the next one is created, and the enqueue messages go to the clock. Any
  failure undoes the whole deployment.
\<close>

datatype deploy_error = AddressFailed std_error | NoClockFirst | ChildFailed addr | ClockFailed clock_error

definition clock_receive :: "deps \<Rightarrow> addr \<Rightarrow> addr \<Rightarrow> clock_state \<Rightarrow> cosmos_msg \<Rightarrow> (clock_state, deploy_error) result" where
  "clock_receive d clock from st m =
     (if m = WasmExecute clock EnqueueMsg []
      then and_then (map_err ClockFailed (clock_execute d \<lparr>sender = from, funds = []\<rparr> CkEnqueue st)) (\<lambda>(r, st'). Ok st')
      else Ok st)"

definition deploy_child ::
    "deps \<Rightarrow> astroport \<Rightarrow> env \<Rightarrow> addr \<Rightarrow> clock_state \<Rightarrow> addr \<times> init_msg \<Rightarrow> (clock_state, deploy_error) result" where
  "deploy_child d ax env clock st = (\<lambda>(a, m).
     and_then (ok_or (ChildFailed a) (child_init d ax (env\<lparr>contract_address := a\<rparr>) m)) (\<lambda>ms.
       try_fold (clock_receive d clock a) st ms))"

definition child_address :: "deps \<Rightarrow> nat list \<Rightarrow> instantiate2_msg \<Rightarrow> (addr \<times> init_msg, std_error) result" where
  "child_address d creator m =
     and_then (get_precomputed_address d (i2_code_id m) creator (i2_salt m)) (\<lambda>a. Ok (a, i2_msg m))"

definition deploy ::
    "deps \<Rightarrow> astroport \<Rightarrow> env \<Rightarrow> instantiate2_msg list \<Rightarrow> (clock_state, deploy_error) result" where
  "deploy d ax env msgs =
     and_then (map_err AddressFailed (addr_canonicalize d (contract_address env))) (\<lambda>creator.
     and_then (map_err AddressFailed (try_map (child_address d creator) msgs)) (\<lambda>children.
       case children of
         (clock, ClockInit ci) # rest \<Rightarrow>
           and_then (map_err ClockFailed (clock_instantiate d ci)) (\<lambda>(r, st).
             try_fold (deploy_child d ax env clock) st rest)
       | _ \<Rightarrow> Err NoClockFirst))"

text \<open>The contracts among the children that enqueue themselves, in order.\<close>

definition enqueuers :: "(addr \<times> init_msg) list \<Rightarrow> addr list" where
  "enqueuers cs = map fst (filter (\<lambda>(a, m). enqueues_at m \<noteq> None) cs)"

definition children_ok :: "deps \<Rightarrow> astroport \<Rightarrow> env \<Rightarrow> (addr \<times> init_msg) list \<Rightarrow> bool" where
  "children_ok d ax env cs = list_all (\<lambda>(a, m). child_init d ax (env\<lparr>contract_address := a\<rparr>) m \<noteq> None) cs"

lemma enqueuers_simps [simp]:
  "enqueuers [] = []"
  "enqueuers ((a, m) # cs) = (if enqueues_at m \<noteq> None then [a] else []) @ enqueuers cs"
  "enqueuers (cs @ ds) = enqueuers cs @ enqueuers ds"
  by (simp_all add: enqueuers_def)

lemma deploy_child_none:
  assumes "addr_validate_spec d" and "children_ok d ax env [(a, m)]" and "enqueues_at m = None"
  shows "deploy_child d ax env clock st (a, m) = Ok st"
  using assms child_init_enqueues [OF assms(1), of ax "env\<lparr>contract_address := a\<rparr>" m]
  by (auto simp: deploy_child_def children_ok_def)

lemma deploy_child_enqueue:
  assumes "addr_validate_spec d" and "children_ok d ax env [(a, m)]" and "enqueues_at m = Some clock"
  shows "deploy_child d ax env clock st (a, m) =
    and_then (map_err ClockFailed (clock_execute d \<lparr>sender = a, funds = []\<rparr> CkEnqueue st)) (\<lambda>(r, st'). Ok st')"
  using assms child_init_enqueues [OF assms(1), of ax "env\<lparr>contract_address := a\<rparr>" m]
  by (cases "clock_execute d \<lparr>sender = a, funds = []\<rparr> CkEnqueue st")
    (auto simp: deploy_child_def children_ok_def clock_receive_def)

text \<open>A running clock with a given whitelist and queue.\<close>

definition clock_runs :: "addr list \<Rightarrow> addr list \<Rightarrow> clock_state \<Rightarrow> bool" where
  "clock_runs w q st \<longleftrightarrow> fifo_inv (ck_queue st) \<and> ck_paused st = Some False \<and> ck_whitelist st = Some w \<and>
     fifo_elems (ck_queue st) = q"

lemma clock_enqueue_runs:
  assumes "clock_runs w q st" and "a \<in> set w" and "a \<notin> set q" and "0 < fifo_room (ck_queue st)"
    and "query_wasm_contract_info d a = Ok ()"
  shows "\<exists>st'. clock_execute d \<lparr>sender = a, funds = []\<rparr> CkEnqueue st = Ok (resp [], st') \<and>
     clock_runs w (q @ [a]) st' \<and> fifo_room (ck_queue st) = Suc (fifo_room (ck_queue st'))"
proof -
  from assms(1) have inv: "fifo_inv (ck_queue st)" by (simp add: clock_runs_def)
  from fifo.enq_ok [OF inv, of a] fifo.has_iff [OF inv, of a] assms show ?thesis
    by (auto simp: clock_execute_def clock_enqueue_def clock_runs_def)
qed

text \<open>
  The deployment works out when every contract that enqueues itself is whitelisted and none of
  them is in the initial queue: the queue is then the initial queue, followed by those contracts.
\<close>

lemma deploy_children:
  assumes "addr_validate_spec d" and "children_ok d ax env cs"
    and "clock_runs w q st" and "distinct (q @ enqueuers cs)" and "set (enqueuers cs) \<subseteq> set w"
    and "\<forall>(a, m)\<in>set cs. enqueues_at m \<in> {None, Some clock}" and "length (enqueuers cs) \<le> fifo_room (ck_queue st)"
    and "\<forall>a. query_wasm_contract_info d a = Ok ()"
  shows "\<exists>st'. try_fold (deploy_child d ax env clock) st cs = Ok st' \<and> clock_runs w (q @ enqueuers cs) st' \<and>
     fifo_room (ck_queue st) = length (enqueuers cs) + fifo_room (ck_queue st')"
  using assms(2-7)
proof (induction cs arbitrary: st q)
  case Nil
  then show ?case by simp
next
  case (Cons c cs)
  obtain a m where c: "c = (a, m)" by (cases c)
  from Cons.prems(1) c have ok: "children_ok d ax env [(a, m)]" "children_ok d ax env cs"
    by (auto simp: children_ok_def)
  show ?case
  proof (cases "enqueues_at m")
    case None
    with c Cons.prems ok have IH: "\<exists>st'. try_fold (deploy_child d ax env clock) st cs = Ok st' \<and>
        clock_runs w (q @ enqueuers cs) st' \<and> fifo_room (ck_queue st) = length (enqueuers cs) + fifo_room (ck_queue st')"
      by (intro Cons.IH) auto
    with None c deploy_child_none [OF assms(1) ok(1) None] show ?thesis by simp
  next
    case (Some x)
    with Cons.prems(5) c have x: "enqueues_at m = Some clock" by auto
    from clock_enqueue_runs [of w q st a d] Cons.prems c Some assms(8) obtain st1 where
      st1: "clock_execute d \<lparr>sender = a, funds = []\<rparr> CkEnqueue st = Ok (resp [], st1)" "clock_runs w (q @ [a]) st1"
        "fifo_room (ck_queue st) = Suc (fifo_room (ck_queue st1))" by auto
    have "\<exists>st'. try_fold (deploy_child d ax env clock) st1 cs = Ok st' \<and>
        clock_runs w ((q @ [a]) @ enqueuers cs) st' \<and> fifo_room (ck_queue st1) = length (enqueuers cs) + fifo_room (ck_queue st')"
      using Cons.prems c Some ok st1 by (intro Cons.IH) auto
    with st1 c Some deploy_child_enqueue [OF assms(1) ok(1) x] show ?thesis by auto
  qed
qed

text \<open>A contract that is in the queue already and enqueues itself again fails the deployment.\<close>

lemma deploy_child_queue:
  assumes "addr_validate_spec d" and "clock_runs w q st" and "deploy_child d ax env clock st (a, m) = Ok st'"
    and "enqueues_at m \<in> {None, Some clock}"
  shows "\<exists>q'. clock_runs w q' st' \<and> set q \<subseteq> set q' \<and> (enqueues_at m = Some clock \<longrightarrow> a \<notin> set q)"
proof -
  from assms(3) have ok: "children_ok d ax env [(a, m)]"
    by (auto simp: deploy_child_def children_ok_def result_simps)
  show ?thesis
  proof (cases "enqueues_at m = None")
    case True
    with deploy_child_none [OF assms(1) ok] assms show ?thesis by auto
  next
    case False
    with assms(4) have x: "enqueues_at m = Some clock" by auto
    from assms(2) have inv: "fifo_inv (ck_queue st)" by (simp add: clock_runs_def)
    from assms(3) deploy_child_enqueue [OF assms(1) ok x] obtain r where
      "clock_execute d \<lparr>sender = a, funds = []\<rparr> CkEnqueue st = Ok (r, st')"
      by (auto simp: result_simps)
    with assms(2) obtain qq where qq: "fifo_enqueue (ck_queue st) a = Ok qq" "st' = st\<lparr>ck_queue := qq\<rparr>"
      "\<not> fifo_has (ck_queue st) a"
      by (auto simp: clock_execute_def clock_enqueue_def clock_runs_def result_simps split: if_splits)
    with fifo.has_iff [OF inv, of a] have na: "a \<notin> set (fifo_elems (ck_queue st))" by simp
    from fifo.enq_inv [OF inv na qq(1)] qq assms(2) na show ?thesis
      by (auto simp: clock_runs_def)
  qed
qed

lemma deploy_enqueued_fails:
  assumes "addr_validate_spec d" and "clock_runs w q st" and "a \<in> set q" and "(a, m) \<in> set cs"
    and "enqueues_at m = Some clock" and "\<forall>(a, m)\<in>set cs. enqueues_at m \<in> {None, Some clock}"
  shows "try_fold (deploy_child d ax env clock) st cs \<noteq> Ok st'"
  using assms(2-6)
proof (induction cs arbitrary: st q)
  case Nil
  then show ?case by simp
next
  case (Cons c cs)
  obtain b n where c: "c = (b, n)" by (cases c)
  show ?case
  proof
    assume "try_fold (deploy_child d ax env clock) st (c # cs) = Ok st'"
    then obtain st1 where st1: "deploy_child d ax env clock st (b, n) = Ok st1"
      "try_fold (deploy_child d ax env clock) st1 cs = Ok st'"
      by (auto simp: c result_simps)
    from deploy_child_queue [OF assms(1) Cons.prems(1) st1(1)] Cons.prems(5) c obtain q' where
      q': "clock_runs w q' st1" "set q \<subseteq> set q'" "enqueues_at n = Some clock \<longrightarrow> b \<notin> set q" by auto
    from Cons.prems(2-4) q'(3) c have "(a, m) \<in> set cs" by auto
    with Cons.IH [OF q'(1), of] Cons.prems q'(2) st1(2) c show False by auto
  qed
qed

lemma clock_instantiate_runs:
  assumes "addr_validate_spec d" and "clock_instantiate d msg = Ok (r, st)"
    and "distinct (cki_initial_queue msg)" and "length (cki_initial_queue msg) < 2 ^ 64"
  shows "clock_runs (cki_whitelist msg) (cki_initial_queue msg) st \<and>
     fifo_room (ck_queue st) = 2 ^ 64 - 1 - length (cki_initial_queue msg)"
proof -
  from assms(2) obtain w i where wi: "try_map (addr_validate d) (cki_whitelist msg) = Ok w"
    "try_map (addr_validate d) (cki_initial_queue msg) = Ok i"
    by (auto simp: clock_instantiate_def result_simps)
  note [simp] = wi [THEN try_map_addr_validate [OF assms(1)]]
  from assms(1,2) wi obtain q where
    q: "try_fold fifo_enqueue fifo_new (cki_initial_queue msg) = Ok q"
    and st: "ck_queue st = q" "ck_paused st = Some False" "ck_whitelist st = Some (cki_whitelist msg)"
    by (auto simp: clock_instantiate_def Let_def result_simps)
  from fifo.enq_all [of fifo_new "cki_initial_queue msg"] assms(3,4) q
  have "fifo_inv q" "fifo_elems q = cki_initial_queue msg"
    "fifo_room fifo_new = length (cki_initial_queue msg) + fifo_room q" by auto
  with st show ?thesis by (simp add: clock_runs_def)
qed

text \<open>What the deployment of a covenant comes to, given the addresses of its contracts.\<close>

lemma deploy_succeeds:
  assumes "addr_validate_spec d" and "addr_canonicalize d (contract_address env) = Ok creator"
    and "try_map (child_address d creator) msgs = Ok ((clock, ClockInit ci) # cs)"
    and "children_ok d ax env ((clock, ClockInit ci) # cs)"
    and "distinct (cki_initial_queue ci @ enqueuers cs)" and "set (enqueuers cs) \<subseteq> set (cki_whitelist ci)"
    and "\<forall>(a, m)\<in>set cs. enqueues_at m \<in> {None, Some clock}"
    and "length (cki_initial_queue ci @ enqueuers cs) < 2 ^ 64"
    and "\<forall>a. query_wasm_contract_info d a = Ok ()"
  shows "\<exists>st. deploy d ax env msgs = Ok st \<and> clock_runs (cki_whitelist ci) (cki_initial_queue ci @ enqueuers cs) st"
proof -
  from assms(4) obtain r st0 where st0: "clock_instantiate d ci = Ok (r, st0)"
    by (auto simp: children_ok_def child_init_def sent_Some)
  from clock_instantiate_runs [OF assms(1) st0] assms(5,8) have
    runs: "clock_runs (cki_whitelist ci) (cki_initial_queue ci) st0" "length (enqueuers cs) \<le> fifo_room (ck_queue st0)"
    by auto
  have "children_ok d ax env cs" using assms(4) by (simp add: children_ok_def)
  from deploy_children [OF assms(1) this runs(1) assms(5,6,7) runs(2) assms(9)] st0 assms(2,3)
  show ?thesis by (auto simp: deploy_def)
qed

lemma deploy_fails:
  assumes "addr_validate_spec d" and "addr_canonicalize d (contract_address env) = Ok creator"
    and "try_map (child_address d creator) msgs = Ok ((clock, ClockInit ci) # cs)"
    and "distinct (cki_initial_queue ci)" and "length (cki_initial_queue ci) < 2 ^ 64"
    and "a \<in> set (cki_initial_queue ci)" and "(a, m) \<in> set cs" and "enqueues_at m = Some clock"
    and "\<forall>(a, m)\<in>set cs. enqueues_at m \<in> {None, Some clock}"
  shows "deploy d ax env msgs \<noteq> Ok st"
proof
  assume "deploy d ax env msgs = Ok st"
  with assms(2,3) obtain r st0 where st0: "clock_instantiate d ci = Ok (r, st0)"
    "try_fold (deploy_child d ax env clock) st0 cs = Ok st"
    by (auto simp: deploy_def result_simps)
  from clock_instantiate_runs [OF assms(1) st0(1) assms(4,5)] have
    "clock_runs (cki_whitelist ci) (cki_initial_queue ci) st0" by simp
  from deploy_enqueued_fails [OF assms(1) this assms(6-9)] st0(2) show False by blast
qed

section \<open>Migrations\<close>

lemma migrate_all_Ok:
  "migrate_all plan = Ok ms \<longleftrightarrow>
     list_all (\<lambda>(item, code, m). m \<noteq> None \<longrightarrow> item \<noteq> None) plan \<and>
     ms = map (\<lambda>(item, code, m). \<lparr>wm_contract_addr = the item, wm_new_code_id = code, wm_msg = the m\<rparr>)
            (filter (\<lambda>(item, code, m). m \<noteq> None) plan)"
  by (induction plan arbitrary: ms rule: migrate_all.induct) (auto simp: result_simps)

lemma migrate_all_no_panic: "migrate_all plan \<noteq> Panic"
  by (induction plan rule: migrate_all.induct) (auto simp: result_simps)

text \<open>Any number of migrations, failing ones included.\<close>

fun run_migrations :: "('m \<Rightarrow> 's \<Rightarrow> ('r \<times> 's, 'e) result) \<Rightarrow> 's \<Rightarrow> 'm list \<Rightarrow> 's" where
  "run_migrations migrate s [] = s"
| "run_migrations migrate s (m # ms) = run_migrations migrate (commit s (migrate m s)) ms"

text \<open>
  The contract of every covenant after its instantiation: it has no execute messages, only
  migrations. A migration follows a plan (stored address, code id, requested message), leaves
  the stored addresses alone and saves new code ids before it uses them.
\<close>

locale covenant_registry =
  fixes migrate :: "'m \<Rightarrow> 's \<Rightarrow> (wasm_migrate list \<times> 's, std_error) result"
    and plan :: "'m \<Rightarrow> 's \<Rightarrow> (addr option \<times> u64 \<times> migration option) list"
    and registered :: "'s \<Rightarrow> addr option list"
  assumes migrate_plan: "migrate m s = Ok (ms, s') \<Longrightarrow> migrate_all (plan m s') = Ok ms \<and> registered s' = registered s"
    and plan_registered: "(item, code, x) \<in> set (plan m s) \<Longrightarrow> item \<in> set (registered s)"
begin

lemma targets_registered:
  assumes "migrate m s = Ok (ms, s')" and "w \<in> set ms"
  shows "Some (wm_contract_addr w) \<in> set (registered s)"
proof -
  from migrate_plan [OF assms(1)] have p: "migrate_all (plan m s') = Ok ms" "registered s' = registered s" by auto
  from p(1) assms(2) obtain item code x where
    "(item, code, x) \<in> set (plan m s')" "item \<noteq> None" "wm_contract_addr w = the item"
    by (auto simp: migrate_all_Ok list_all_iff)
  with plan_registered [of item code x m s'] p(2) show ?thesis by auto
qed

lemma registered_fixed: "registered (run_migrations migrate s ms) = registered s"
proof (induction ms arbitrary: s)
  case (Cons m ms)
  have "registered (commit s (migrate m s)) = registered s"
    by (rule commit_cases) (auto dest: migrate_plan)
  with Cons show ?case by simp
qed simp

end

section \<open>Shared parts of the covenants\<close>

text \<open>The forwarder of a party, if it is an interchain one: its helper and its message.\<close>

definition forwarder_part ::
    "deps \<Rightarrow> nat list \<Rightarrow> string \<Rightarrow> u64 \<Rightarrow> covenant_party_config \<Rightarrow> timeouts \<Rightarrow> addr \<Rightarrow> addr \<Rightarrow> string option
     \<Rightarrow> string \<Rightarrow> string \<Rightarrow> ((instantiate2_helper_config \<times> instantiate2_msg) option, std_error) result" where
  "forwarder_part d creator salt code p ts clock_addr holder fallback admin label =
     (case p of
        InterchainParty cfg \<Rightarrow>
          and_then (get_instantiate2_salt_and_address d salt creator code) (\<lambda>h.
            Ok (Some (h, to_instantiate2_msg (forwarder_init cfg ts clock_addr holder fallback) h admin label)))
      | NativeParty _ \<Rightarrow> Ok None)"

lemma helper_Ok:
  assumes "get_instantiate2_salt_and_address d salt creator code = Ok h"
  shows "i2h_code h = code" and "i2h_salt h = generate_contract_salt d salt"
    and "get_precomputed_address d code creator (i2h_salt h) = Ok (i2h_addr h)"
  using assms by (auto simp: get_instantiate2_salt_and_address_def Let_def result_simps)

text \<open>A message made from a helper creates its contract at the address of the helper.\<close>

lemma child_address_helper:
  assumes "get_instantiate2_salt_and_address d salt creator code = Ok h"
  shows "child_address d creator (to_instantiate2_msg m h admin label) = Ok (i2h_addr h, m)"
    and "child_address d creator (clock_to_instantiate2_msg ci (i2h_code h) (i2h_salt h) admin label) = Ok (i2h_addr h, ClockInit ci)"
  using helper_Ok [OF assms]
  by (simp_all add: child_address_def to_instantiate2_msg_def clock_to_instantiate2_msg_def)

text \<open>
  Documented behaviour of \<open>instantiate2\<close>: the address is a collision-free function of the code's
  checksum, the creator and the salt, so that different salts give different addresses.
\<close>

definition unique_addresses :: "deps \<Rightarrow> bool" where
  "unique_addresses d \<longleftrightarrow>
     (\<forall>creator s1 s2 c1 c2 h1 h2.
        get_instantiate2_salt_and_address d s1 creator c1 = Ok h1 \<and>
        get_instantiate2_salt_and_address d s2 creator c2 = Ok h2 \<and> i2h_addr h1 = i2h_addr h2 \<longrightarrow> s1 = s2)"

lemma unique_addressesD:
  assumes "unique_addresses d" and "get_instantiate2_salt_and_address d s1 creator c1 = Ok h1"
    and "get_instantiate2_salt_and_address d s2 creator c2 = Ok h2" and "s1 \<noteq> s2"
  shows "i2h_addr h1 \<noteq> i2h_addr h2"
  using assms unfolding unique_addresses_def by blast

text \<open>Contracts predicted from different salts have different addresses.\<close>

definition predicted :: "deps \<Rightarrow> nat list \<Rightarrow> string \<times> addr \<Rightarrow> bool" where
  "predicted d creator = (\<lambda>(salt, a). \<exists>code h. get_instantiate2_salt_and_address d salt creator code = Ok h \<and> i2h_addr h = a)"

lemma predictedI: "get_instantiate2_salt_and_address d salt creator code = Ok h \<Longrightarrow> predicted d creator (salt, i2h_addr h)"
  by (auto simp: predicted_def)

lemma predicted_distinct:
  assumes "unique_addresses d" and "list_all (predicted d creator) xs" and "distinct (map fst xs)"
  shows "distinct (map snd xs)"
  using assms(2,3)
proof (induction xs)
  case (Cons x xs)
  have "snd x \<noteq> snd y" if "y \<in> set xs" for y
  proof
    assume "snd x = snd y"
    moreover from Cons.prems(1) that have "predicted d creator x" "predicted d creator y" by (auto simp: list_all_iff)
    ultimately have "fst x = fst y"
      by (auto simp: predicted_def split_beta dest: unique_addressesD [OF assms(1)])
    with Cons.prems(2) that show False by auto
  qed
  with Cons show ?case by auto
qed simp

text \<open>The contract a forwarder part creates.\<close>

definition forwarder_children ::
    "covenant_party_config \<Rightarrow> addr option \<Rightarrow> timeouts \<Rightarrow> addr \<Rightarrow> addr \<Rightarrow> string option \<Rightarrow> (addr \<times> init_msg) list" where
  "forwarder_children p fa ts clock_addr holder fallback =
     (case (p, fa) of
        (InterchainParty cfg, Some a) \<Rightarrow> [(a, forwarder_init cfg ts clock_addr holder fallback)]
      | _ \<Rightarrow> [])"

lemma forwarder_part_Ok:
  assumes "forwarder_part d creator salt code p ts clock_addr holder fallback admin label = Ok f"
  shows "(is_native p \<and> f = None) \<or>
    (\<not> is_native p \<and> (\<exists>h. get_instantiate2_salt_and_address d salt creator code = Ok h \<and>
      map_option (\<lambda>(h, m). i2h_addr h) f = Some (i2h_addr h)))"
    and "try_map (child_address d creator) (option_list (map_option snd f)) =
      Ok (forwarder_children p (map_option (\<lambda>(h, m). i2h_addr h) f) ts clock_addr holder fallback)"
  using assms
  by (auto simp: forwarder_part_def forwarder_children_def option_list_def result_simps child_address_helper
      split: covenant_party_config.splits)

lemma forwarder_part_predicted:
  assumes "forwarder_part d creator salt code p ts clock_addr holder fallback admin label = Ok f"
  shows "list_all (predicted d creator) (map (Pair salt) (option_list (map_option (\<lambda>(h, m). i2h_addr h) f)))"
  using forwarder_part_Ok(1) [OF assms] by (auto simp: option_list_def intro: predictedI)

lemma forwarder_children_mem:
  "(is_native p \<longleftrightarrow> fa = None) \<Longrightarrow> p = InterchainParty cfg \<Longrightarrow>
   \<exists>f. fa = Some f \<and> (f, forwarder_init cfg ts ca h fb) \<in> set (forwarder_children p fa ts ca h fb)"
  by (auto simp: forwarder_children_def)

lemma forwarder_children_simps:
  "enqueuers (forwarder_children p fa ts ca h fb) = []"
  "(a, m) \<in> set (forwarder_children p fa ts ca h fb) \<Longrightarrow> enqueues_at m = None"
  "is_native p \<longleftrightarrow> fa = None \<Longrightarrow> map fst (forwarder_children p fa ts ca h fb) = option_list fa"
  by (auto simp: forwarder_children_def forwarder_init_def option_list_def
      split: covenant_party_config.splits option.splits elim: is_native.elims)

lemma router_init_enqueues: "enqueues_at (router_init p ca dns) = (if is_native p then None else Some ca)"
  by (cases p) auto

section \<open>A reference chain\<close>

text \<open>Addresses are the salts themselves: the reference platform with readable addresses.\<close>

definition ref_chain :: "(addr \<Rightarrow> denom \<Rightarrow> u128) \<Rightarrow> deps" where
  "ref_chain bals = (ref_deps bals)\<lparr>addr_humanize := (\<lambda>bs. Ok (map char_of bs))\<rparr>"

lemma ref_chain_address:
  "get_instantiate2_salt_and_address (ref_chain bals) salt creator code =
     Ok \<lparr>i2h_addr = salt, i2h_code = code, i2h_salt = map of_char salt\<rparr>"
  by (simp add: get_instantiate2_salt_and_address_def generate_contract_salt_def get_precomputed_address_def
      ref_chain_def comp_def)

lemma ref_chain_child: "child_address (ref_chain bals) creator m = Ok (map char_of (i2_salt m), i2_msg m)"
  by (simp add: child_address_def get_precomputed_address_def ref_chain_def)

lemma ref_chain_ok:
  "unique_addresses (ref_chain bals)" "addr_validate_spec (ref_chain bals)"
  "query_wasm_contract_info (ref_chain bals) a = Ok ()" "addr_canonicalize (ref_chain bals) s = Ok (map of_char s)"
  "addr_validate (ref_chain bals) s = Ok s" "soft_validate_remote_chain_addr (ref_chain bals) s = Ok ()"
  "is_expired (ref_chain bals) = ref_is_expired" "expiration_cmp (ref_chain bals) = ref_expiration_cmp"
  by (auto simp: unique_addresses_def ref_chain_address addr_validate_spec_def soft_validate_remote_chain_addr_def)
    (simp_all add: ref_chain_def)

text \<open>Parts of the example covenants: the two kinds of poolers and half a share.\<close>

definition astroport_example :: liquid_pooler_config where
  "astroport_example = AstroportPooler \<lparr>alc_pool_pair_type = Xyk, alc_pool_address = ''pool'', alc_asset_a_denom = ''uatom'',
     alc_asset_b_denom = ''untrn'', alc_single_side_lp_limits = \<lparr>asset_a_limit = 100, asset_b_limit = 100\<rparr>\<rparr>"

definition osmosis_example :: liquid_pooler_config where
  "osmosis_example =
     (let chain = \<lparr>neutron_to_party_chain_channel = ''ch-1'', party_chain_to_neutron_channel = ''ch-2'', outwards_pfm = None,
                   inwards_pfm = None, pci_ibc_timeout = 100\<rparr>;
          denom_info = (\<lambda>o_dn dn. \<lparr>osmosis_coin = \<lparr>coin_denom = o_dn, coin_amount = 10\<rparr>, local_denom = dn\<rparr>) in
      OsmosisPooler \<lparr>olc_note_address = ''note'', olc_pool_id = 1, olc_osmo_ibc_timeout = 100, olc_osmo_outpost = ''outpost'',
        olc_party_1_chain_info = chain, olc_party_2_chain_info = chain, olc_lp_token_denom = ''gamm'',
        olc_osmo_to_neutron_channel_id = ''ch-3'', olc_party_1_denom_info = denom_info ''osmo-a'' ''uatom'',
        olc_party_2_denom_info = denom_info ''osmo-b'' ''untrn'', olc_funding_duration = Height 10,
        olc_single_side_lp_limits = \<lparr>asset_a_limit = 100, asset_b_limit = 100\<rparr>\<rparr>)"

definition half_share :: decimal where "half_share = Decimal 500000000000000000"

lemma half_share_arith:
  "dec_add half_share half_share = Ok dec_one" "dec_add dec_zero half_share = Ok half_share"
  "dec_checked_sub dec_one half_share = Ok half_share" "dec_checked_add dec_one half_share = Ok (Decimal 1500000000000000000)"
  by (simp_all add: half_share_def arith_simps)

end
