(* ===== verification/Swap_Covenant.thy ===== *)
theory Swap_Covenant
  imports Deployment
begin

text \<open>
  The swap covenant (\<open>contracts/swap-covenant\<close>): it creates the clock, the swap holder, the
  native splitter, a router per party and a forwarder per interchain party, and wires them
  together by their predicted addresses. Afterwards it answers queries and forwards migrations.
\<close>

section \<open>State and messages\<close>

datatype sc_error =
    ScStd std_error
  | ScDenomMisconfigurationError denom

record sc_code_ids =
  sci_ibc_forwarder :: u64
  sci_interchain_router :: u64
  sci_native_router :: u64
  sci_splitter :: u64
  sci_holder :: u64
  sci_clock :: u64

record sc_codes =
  scc_clock :: u64
  scc_holder :: u64
  scc_party_a_router :: u64
  scc_party_b_router :: u64
  scc_party_a_forwarder :: u64
  scc_party_b_forwarder :: u64
  scc_splitter :: u64

record sc_state =
  sc_clock :: "addr option"
  sc_splitter :: "addr option"
  sc_holder :: "addr option"
  sc_party_a_forwarder :: "addr option"
  sc_party_b_forwarder :: "addr option"
  sc_party_a_router :: "addr option"
  sc_party_b_router :: "addr option"
  sc_codes_item :: "sc_codes option"

record sc_instantiate_msg =
  scm_label :: string
  scm_timeouts :: timeouts
  scm_contract_codes :: sc_code_ids
  scm_clock_tick_max_gas :: "u64 option"
  scm_lockup_config :: expiration
  scm_party_a :: covenant_party_config
  scm_party_b :: covenant_party_config
  scm_splits :: "(denom, split_config) omap"
  scm_fallback_split :: "split_config option"
  scm_fallback_address :: "string option"

record sc_update_covenant =
  scu_codes :: "sc_codes option"
  scu_clock :: "clock_migrate_msg option"
  scu_holder :: "sw_migrate_msg option"
  scu_splitter :: "ns_migrate_msg option"
  scu_party_a_router :: "router_migrate_msg option"
  scu_party_b_router :: "router_migrate_msg option"
  scu_party_a_forwarder :: "fw_migrate_msg option"
  scu_party_b_forwarder :: "fw_migrate_msg option"

datatype sc_migrate_msg = ScUpdateCovenant sc_update_covenant | ScUpdateCodeId

datatype sc_query_msg =
    ScQClock | ScQHolder | ScQSplitter | ScQRouter string | ScQForwarder string
  | ScQPartyDeposit string | ScQCodes

datatype sc_query_reply = ScRAddr "addr option" | ScRCodes sc_codes

fun get_router_code_id :: "covenant_party_config \<Rightarrow> sc_code_ids \<Rightarrow> u64" where
  "get_router_code_id (InterchainParty p) codes = sci_interchain_router codes"
| "get_router_code_id (NativeParty p) codes = sci_native_router codes"

definition to_covenant_codes_config :: "sc_code_ids \<Rightarrow> u64 \<Rightarrow> u64 \<Rightarrow> sc_codes" where
  "to_covenant_codes_config ids router_a router_b =
     \<lparr>scc_clock = sci_clock ids, scc_holder = sci_holder ids, scc_party_a_router = router_a,
      scc_party_b_router = router_b, scc_party_a_forwarder = sci_ibc_forwarder ids,
      scc_party_b_forwarder = sci_ibc_forwarder ids, scc_splitter = sci_splitter ids\<rparr>"

definition get_router_instantiate2_wasm_msg ::
    "covenant_party_config \<Rightarrow> string \<Rightarrow> string \<Rightarrow> addr \<Rightarrow> denom list \<Rightarrow> instantiate2_helper_config \<Rightarrow> instantiate2_msg" where
  "get_router_instantiate2_wasm_msg p label admin clock_addr denoms helper =
     to_instantiate2_msg (router_init p clock_addr denoms) helper admin label"

section \<open>Entry points\<close>

definition sc_holder_init :: "sc_instantiate_msg \<Rightarrow> addr \<Rightarrow> addr \<Rightarrow> addr \<Rightarrow> addr \<Rightarrow> sw_instantiate_msg" where
  "sc_holder_init msg clock splitter ra rb =
     \<lparr>swi_clock = clock, swi_next_contract = splitter, swi_lockup = scm_lockup_config msg,
      swi_parties = \<lparr>cp_party_a = to_covenant_party (scm_party_a msg), cp_party_b = to_covenant_party (scm_party_b msg)\<rparr>,
      swi_terms = TokenSwap \<lparr>party_a_amount = coin_amount (get_contribution (scm_party_a msg)),
                             party_b_amount = coin_amount (get_contribution (scm_party_b msg))\<rparr>,
      swi_refund = \<lparr>party_a_refund_address = ra, party_b_refund_address = rb\<rparr>\<rparr>"

definition sc_instantiate ::
    "deps \<Rightarrow> env \<Rightarrow> sc_instantiate_msg \<Rightarrow> (instantiate2_msg list \<times> sc_state, sc_error) result" where
  "sc_instantiate d env msg =
     (let self = contract_address env; codes = scm_contract_codes msg; a = scm_party_a msg; b = scm_party_b msg;
          label = scm_label msg; denoms = map fst (om_entries (scm_splits msg)) in
     and_then (map_err ScStd (addr_canonicalize d self)) (\<lambda>creator.
     and_then (map_err ScStd (get_instantiate2_salt_and_address d ''party_a_router'' creator (get_router_code_id a codes))) (\<lambda>router_a.
     and_then (map_err ScStd (get_instantiate2_salt_and_address d ''party_b_router'' creator (get_router_code_id b codes))) (\<lambda>router_b.
     and_then (map_err ScStd (get_instantiate2_salt_and_address d ''clock'' creator (sci_clock codes))) (\<lambda>clock.
     and_then (map_err ScStd (get_instantiate2_salt_and_address d ''holder'' creator (sci_holder codes))) (\<lambda>holder.
     and_then (map_err ScStd (get_instantiate2_salt_and_address d ''splitter'' creator (sci_splitter codes))) (\<lambda>splitter.
     let clock_whitelist = [i2h_addr holder, i2h_addr splitter] @
           (if is_native a then [] else [i2h_addr router_a]) @ (if is_native b then [] else [i2h_addr router_b]);
         clock_initial_queue =
           (if is_native a then [i2h_addr router_a] else []) @ (if is_native b then [i2h_addr router_b] else []);
         router_a_msg = get_router_instantiate2_wasm_msg a (label @ ''_party_a_router'') self (i2h_addr clock) denoms router_a;
         router_b_msg = get_router_instantiate2_wasm_msg b (label @ ''_party_b_router'') self (i2h_addr clock) denoms router_b in
     and_then (ensure (om_contains (scm_splits msg) (get_native_denom a)) (ScDenomMisconfigurationError (get_native_denom a))) (\<lambda>_.
     and_then (ensure (om_contains (scm_splits msg) (get_native_denom b)) (ScDenomMisconfigurationError (get_native_denom b))) (\<lambda>_.
     and_then (map_err ScStd (remap_splits (scm_splits msg) (get_final_receiver_address a, i2h_addr router_a)
                 (get_final_receiver_address b, i2h_addr router_b))) (\<lambda>splits.
     and_then (case scm_fallback_split msg of
                 Some config \<Rightarrow> and_then (map_err ScStd (remap_receivers_to_routers config (get_final_receiver_address a)
                   (i2h_addr router_a) (get_final_receiver_address b) (i2h_addr router_b))) (\<lambda>s. Ok (Some s))
               | None \<Rightarrow> Ok None) (\<lambda>fallback.
     let splitter_msg = to_instantiate2_msg
           (NativeSplitterInit \<lparr>nsi_clock = i2h_addr clock, nsi_splits = splits, nsi_fallback = fallback\<rparr>)
           splitter self (label @ ''_interchain_splitter'');
         holder_msg = to_instantiate2_msg
           (SwapHolderInit (sc_holder_init msg (i2h_addr clock) (i2h_addr splitter) (i2h_addr router_a) (i2h_addr router_b)))
           holder self (label @ ''_swap_holder'') in
     and_then (map_err ScStd (forwarder_part d creator ''party_a_ibc_forwarder'' (sci_ibc_forwarder codes) a (scm_timeouts msg)
                 (i2h_addr clock) (i2h_addr holder) (scm_fallback_address msg) self (label @ ''_party_a_ibc_forwarder''))) (\<lambda>forwarder_a.
     and_then (map_err ScStd (forwarder_part d creator ''party_b_ibc_forwarder'' (sci_ibc_forwarder codes) b (scm_timeouts msg)
                 (i2h_addr clock) (i2h_addr holder) (scm_fallback_address msg) self (label @ ''_party_b_ibc_forwarder''))) (\<lambda>forwarder_b.
     let forwarder_addr = map_option (\<lambda>(h, m). i2h_addr h);
         clock_msg = clock_to_instantiate2_msg
           \<lparr>cki_tick_max_gas = scm_clock_tick_max_gas msg, cki_whitelist = clock_whitelist,
            cki_initial_queue = clock_initial_queue @ option_list (forwarder_addr forwarder_a) @ option_list (forwarder_addr forwarder_b)\<rparr>
           (i2h_code clock) (i2h_salt clock) self (label @ ''-clock'') in
       Ok ([clock_msg, holder_msg, router_a_msg, router_b_msg, splitter_msg] @
             option_list (map_option snd forwarder_a) @ option_list (map_option snd forwarder_b),
           \<lparr>sc_clock = Some (i2h_addr clock), sc_splitter = Some (i2h_addr splitter), sc_holder = Some (i2h_addr holder),
            sc_party_a_forwarder = forwarder_addr forwarder_a, sc_party_b_forwarder = forwarder_addr forwarder_b,
            sc_party_a_router = Some (i2h_addr router_a), sc_party_b_router = Some (i2h_addr router_b),
            sc_codes_item = Some (to_covenant_codes_config codes (i2h_code router_a) (i2h_code router_b))\<rparr>))))))))))))))"

definition sc_query :: "deps \<Rightarrow> sc_query_msg \<Rightarrow> sc_state \<Rightarrow> (sc_query_reply, std_error) result" where
  "sc_query d msg st =
     (case msg of
        ScQClock \<Rightarrow> Ok (ScRAddr (sc_clock st))
      | ScQHolder \<Rightarrow> Ok (ScRAddr (sc_holder st))
      | ScQSplitter \<Rightarrow> Ok (ScRAddr (sc_splitter st))
      | ScQRouter party \<Rightarrow>
          if party = ''party_a'' then Ok (ScRAddr (sc_party_a_router st))
          else if party = ''party_b'' then Ok (ScRAddr (sc_party_b_router st))
          else Err (NotFound ''unknown party'')
      | ScQForwarder party \<Rightarrow>
          if party = ''party_a'' then Ok (ScRAddr (sc_party_a_forwarder st))
          else if party = ''party_b'' then Ok (ScRAddr (sc_party_b_forwarder st))
          else Err (NotFound ''unknown party'')
      | ScQPartyDeposit party \<Rightarrow>
          if party = ''party_a''
          then and_then (deposit_address_of d (sc_party_a_forwarder st) (sc_holder st)) (\<lambda>a. Ok (ScRAddr a))
          else if party = ''party_b''
          then and_then (deposit_address_of d (sc_party_b_forwarder st) (sc_holder st)) (\<lambda>a. Ok (ScRAddr a))
          else Err (NotFound ''unknown party'')
      | ScQCodes \<Rightarrow> and_then (load (sc_codes_item st)) (\<lambda>c. Ok (ScRCodes c)))"

definition sc_migrate :: "sc_migrate_msg \<Rightarrow> sc_state \<Rightarrow> (wasm_migrate list \<times> sc_state, std_error) result" where
  "sc_migrate msg st =
     (case msg of
        ScUpdateCovenant u \<Rightarrow>
          let st1 = (case scu_codes u of Some c \<Rightarrow> st\<lparr>sc_codes_item := Some c\<rparr> | None \<Rightarrow> st) in
          and_then (load (sc_codes_item st1)) (\<lambda>codes.
          and_then (migrate_all
              [(sc_clock st1, scc_clock codes, map_option ClockMigration (scu_clock u)),
               (sc_party_a_router st1, scc_party_a_router codes, map_option router_migration (scu_party_a_router u)),
               (sc_party_b_router st1, scc_party_b_router codes, map_option router_migration (scu_party_b_router u)),
               (sc_party_a_forwarder st1, scc_party_a_forwarder codes, map_option ForwarderMigration (scu_party_a_forwarder u)),
               (sc_party_b_forwarder st1, scc_party_b_forwarder codes, map_option ForwarderMigration (scu_party_b_forwarder u)),
               (sc_holder st1, scc_holder codes, map_option SwapHolderMigration (scu_holder u)),
               (sc_splitter st1, scc_splitter codes, map_option NativeSplitterMigration (scu_splitter u))]) (\<lambda>msgs.
            Ok (msgs, st1)))
      | ScUpdateCodeId \<Rightarrow> Ok ([], st))"

section \<open>What an instantiation creates\<close>

text \<open>The clock's parameters and the contracts of a swap covenant, from their addresses.\<close>

definition sc_clock_init ::
    "sc_instantiate_msg \<Rightarrow> addr \<Rightarrow> addr \<Rightarrow> addr \<Rightarrow> addr \<Rightarrow> addr option \<Rightarrow> addr option \<Rightarrow> clock_instantiate_msg" where
  "sc_clock_init msg holder splitter ra rb fa fb =
     \<lparr>cki_tick_max_gas = scm_clock_tick_max_gas msg,
      cki_whitelist = [holder, splitter] @
        (if is_native (scm_party_a msg) then [] else [ra]) @ (if is_native (scm_party_b msg) then [] else [rb]),
      cki_initial_queue = ((if is_native (scm_party_a msg) then [ra] else []) @
        (if is_native (scm_party_b msg) then [rb] else [])) @ option_list fa @ option_list fb\<rparr>"

definition sc_children ::
    "sc_instantiate_msg \<Rightarrow> addr \<Rightarrow> addr \<Rightarrow> addr \<Rightarrow> addr \<Rightarrow> addr \<Rightarrow> addr option \<Rightarrow> addr option \<Rightarrow> ns_instantiate_msg
     \<Rightarrow> (addr \<times> init_msg) list" where
  "sc_children msg clock holder splitter ra rb fa fb si =
     (let denoms = map fst (om_entries (scm_splits msg)) in
      [(holder, SwapHolderInit (sc_holder_init msg clock splitter ra rb)),
       (ra, router_init (scm_party_a msg) clock denoms), (rb, router_init (scm_party_b msg) clock denoms),
       (splitter, NativeSplitterInit si)] @
      forwarder_children (scm_party_a msg) fa (scm_timeouts msg) clock holder (scm_fallback_address msg) @
      forwarder_children (scm_party_b msg) fb (scm_timeouts msg) clock holder (scm_fallback_address msg))"

lemma sc_instantiate_view:
  assumes "sc_instantiate d env msg = Ok (ms, st)"
  obtains creator clock holder splitter ra rb fa fb splits fallback where
    "addr_canonicalize d (contract_address env) = Ok creator"
    "try_map (child_address d creator) ms =
       Ok ((clock, ClockInit (sc_clock_init msg holder splitter ra rb fa fb)) #
           sc_children msg clock holder splitter ra rb fa fb
             \<lparr>nsi_clock = clock, nsi_splits = splits, nsi_fallback = fallback\<rparr>)"
    "sc_clock st = Some clock" "sc_holder st = Some holder" "sc_splitter st = Some splitter"
    "sc_party_a_router st = Some ra" "sc_party_b_router st = Some rb"
    "sc_party_a_forwarder st = fa" "sc_party_b_forwarder st = fb"
    "is_native (scm_party_a msg) \<longleftrightarrow> fa = None" "is_native (scm_party_b msg) \<longleftrightarrow> fb = None"
    "unique_addresses d \<Longrightarrow> distinct ([clock, holder, splitter, ra, rb] @ option_list fa @ option_list fb)"
    "remap_splits (scm_splits msg) (get_final_receiver_address (scm_party_a msg), ra)
       (get_final_receiver_address (scm_party_b msg), rb) = Ok splits"
    "om_contains (scm_splits msg) (get_native_denom (scm_party_a msg))"
    "om_contains (scm_splits msg) (get_native_denom (scm_party_b msg))"
proof -
  let ?self = "contract_address env" and ?codes = "scm_contract_codes msg"
  let ?a = "scm_party_a msg" and ?b = "scm_party_b msg" and ?addr = "map_option (\<lambda>(h, m). i2h_addr h)"
  from assms obtain creator ha hb hc hh hs splits fallback fa fb where
    c: "addr_canonicalize d ?self = Ok creator"
    and h: "get_instantiate2_salt_and_address d ''party_a_router'' creator (get_router_code_id ?a ?codes) = Ok ha"
      "get_instantiate2_salt_and_address d ''party_b_router'' creator (get_router_code_id ?b ?codes) = Ok hb"
      "get_instantiate2_salt_and_address d ''clock'' creator (sci_clock ?codes) = Ok hc"
      "get_instantiate2_salt_and_address d ''holder'' creator (sci_holder ?codes) = Ok hh"
      "get_instantiate2_salt_and_address d ''splitter'' creator (sci_splitter ?codes) = Ok hs"
    and s: "om_contains (scm_splits msg) (get_native_denom ?a)" "om_contains (scm_splits msg) (get_native_denom ?b)"
      "remap_splits (scm_splits msg) (get_final_receiver_address ?a, i2h_addr ha) (get_final_receiver_address ?b, i2h_addr hb) = Ok splits"
    and f: "forwarder_part d creator ''party_a_ibc_forwarder'' (sci_ibc_forwarder ?codes) ?a (scm_timeouts msg)
        (i2h_addr hc) (i2h_addr hh) (scm_fallback_address msg) ?self (scm_label msg @ ''_party_a_ibc_forwarder'') = Ok fa"
      "forwarder_part d creator ''party_b_ibc_forwarder'' (sci_ibc_forwarder ?codes) ?b (scm_timeouts msg)
        (i2h_addr hc) (i2h_addr hh) (scm_fallback_address msg) ?self (scm_label msg @ ''_party_b_ibc_forwarder'') = Ok fb"
    and ms: "ms = [clock_to_instantiate2_msg (sc_clock_init msg (i2h_addr hh) (i2h_addr hs) (i2h_addr ha) (i2h_addr hb) (?addr fa) (?addr fb))
           (i2h_code hc) (i2h_salt hc) ?self (scm_label msg @ ''-clock''),
         to_instantiate2_msg (SwapHolderInit (sc_holder_init msg (i2h_addr hc) (i2h_addr hs) (i2h_addr ha) (i2h_addr hb)))
           hh ?self (scm_label msg @ ''_swap_holder''),
         to_instantiate2_msg (router_init ?a (i2h_addr hc) (map fst (om_entries (scm_splits msg)))) ha ?self (scm_label msg @ ''_party_a_router''),
         to_instantiate2_msg (router_init ?b (i2h_addr hc) (map fst (om_entries (scm_splits msg)))) hb ?self (scm_label msg @ ''_party_b_router''),
         to_instantiate2_msg (NativeSplitterInit \<lparr>nsi_clock = i2h_addr hc, nsi_splits = splits, nsi_fallback = fallback\<rparr>)
           hs ?self (scm_label msg @ ''_interchain_splitter'')] @ option_list (map_option snd fa) @ option_list (map_option snd fb)"
    and st: "sc_clock st = Some (i2h_addr hc)" "sc_holder st = Some (i2h_addr hh)" "sc_splitter st = Some (i2h_addr hs)"
      "sc_party_a_router st = Some (i2h_addr ha)" "sc_party_b_router st = Some (i2h_addr hb)"
      "sc_party_a_forwarder st = ?addr fa" "sc_party_b_forwarder st = ?addr fb"
    unfolding sc_instantiate_def Let_def get_router_instantiate2_wasm_msg_def sc_clock_init_def
    by (auto simp: and_then_eq_Ok map_err_eq ensure_eq)
  note fa = forwarder_part_Ok [OF f(1)] and fb = forwarder_part_Ok [OF f(2)]
  have "distinct ([i2h_addr hc, i2h_addr hh, i2h_addr hs, i2h_addr ha, i2h_addr hb] @ option_list (?addr fa) @ option_list (?addr fb))"
    if u: "unique_addresses d"
  proof -
    let ?xs = "[(''clock'', i2h_addr hc), (''holder'', i2h_addr hh), (''splitter'', i2h_addr hs), (''party_a_router'', i2h_addr ha),
        (''party_b_router'', i2h_addr hb)] @ map (Pair ''party_a_ibc_forwarder'') (option_list (?addr fa)) @
        map (Pair ''party_b_ibc_forwarder'') (option_list (?addr fb))"
    have "list_all (predicted d creator) ?xs"
      using h [THEN predictedI] forwarder_part_predicted [OF f(1)] forwarder_part_predicted [OF f(2)] by simp
    moreover have "distinct (map fst ?xs)" by (auto simp: option_list_def split: option.splits)
    ultimately have "distinct (map snd ?xs)" by (rule predicted_distinct [OF u])
    then show ?thesis by (simp add: comp_def)
  qed
  moreover have "try_map (child_address d creator) ms =
       Ok ((i2h_addr hc, ClockInit (sc_clock_init msg (i2h_addr hh) (i2h_addr hs) (i2h_addr ha) (i2h_addr hb) (?addr fa) (?addr fb))) #
           sc_children msg (i2h_addr hc) (i2h_addr hh) (i2h_addr hs) (i2h_addr ha) (i2h_addr hb) (?addr fa) (?addr fb)
             \<lparr>nsi_clock = i2h_addr hc, nsi_splits = splits, nsi_fallback = fallback\<rparr>)"
    using fa(2) fb(2) h unfolding ms
    by (simp add: try_map_append child_address_helper sc_children_def Let_def)
  moreover have "is_native ?a \<longleftrightarrow> ?addr fa = None" "is_native ?b \<longleftrightarrow> ?addr fb = None"
    using fa(1) fb(1) by auto
  ultimately show thesis using c s st by (intro that) auto
qed

section \<open>Properties\<close>

text \<open>The contracts a covenant has created besides its clock.\<close>

definition sc_contracts :: "sc_state \<Rightarrow> addr list" where
  "sc_contracts st = concat (map option_list
     [sc_holder st, sc_splitter st, sc_party_a_router st, sc_party_b_router st,
      sc_party_a_forwarder st, sc_party_b_forwarder st])"

text \<open>
  Claim C16: a swap covenant comes up complete. If the instantiation succeeds and every created contract
  accepts its own parameters, the whole deployment succeeds: each contract that enqueues itself
  when it is created is whitelisted by the clock and not queued before, and in the end the
  clock's queue holds every contract of the covenant exactly once, so that each of them is
  ticked.
\<close>

theorem sc_deploys:
  assumes "addr_validate_spec d" and "unique_addresses d" and "\<forall>a. query_wasm_contract_info d a = Ok ()"
    and "sc_instantiate d env msg = Ok (ms, st)" and "addr_canonicalize d (contract_address env) = Ok creator"
    and "try_map (child_address d creator) ms = Ok children" and "children_ok d ax env children"
  shows "\<exists>ck. deploy d ax env ms = Ok ck \<and> fifo_inv (ck_queue ck) \<and>
     distinct (fifo_elems (ck_queue ck)) \<and> set (fifo_elems (ck_queue ck)) = set (sc_contracts st)"
  using assms(4)
proof (rule sc_instantiate_view)
  fix creator' clock holder splitter ra rb fa fb splits fallback
  assume c: "addr_canonicalize d (contract_address env) = Ok creator'"
    and ch: "try_map (child_address d creator') ms =
       Ok ((clock, ClockInit (sc_clock_init msg holder splitter ra rb fa fb)) #
           sc_children msg clock holder splitter ra rb fa fb
             \<lparr>nsi_clock = clock, nsi_splits = splits, nsi_fallback = fallback\<rparr>)"
    and st: "sc_holder st = Some holder" "sc_splitter st = Some splitter" "sc_party_a_router st = Some ra"
      "sc_party_b_router st = Some rb" "sc_party_a_forwarder st = fa" "sc_party_b_forwarder st = fb"
    and n: "is_native (scm_party_a msg) \<longleftrightarrow> fa = None" "is_native (scm_party_b msg) \<longleftrightarrow> fb = None"
    and dist: "unique_addresses d \<Longrightarrow> distinct ([clock, holder, splitter, ra, rb] @ option_list fa @ option_list fb)"
  let ?ci = "sc_clock_init msg holder splitter ra rb fa fb"
  let ?cs = "sc_children msg clock holder splitter ra rb fa fb \<lparr>nsi_clock = clock, nsi_splits = splits, nsi_fallback = fallback\<rparr>"
  have len: "length (option_list fa) \<le> 1" "length (option_list fb) \<le> 1"
    by (simp_all add: option_list_def split: option.splits)
  have enq: "enqueuers ?cs = holder # (if is_native (scm_party_a msg) then [] else [ra]) @
      (if is_native (scm_party_b msg) then [] else [rb]) @ [splitter]"
    by (simp add: sc_children_def Let_def forwarder_children_simps(1) router_init_enqueues)
  from c assms(5,6) ch have children: "children = (clock, ClockInit ?ci) # ?cs" by simp
  have "\<exists>ck. deploy d ax env ms = Ok ck \<and> clock_runs (cki_whitelist ?ci) (cki_initial_queue ?ci @ enqueuers ?cs) ck"
  proof (rule deploy_succeeds [OF assms(1) c ch])
    show "children_ok d ax env ((clock, ClockInit ?ci) # ?cs)" using assms(7) children by simp
    show "distinct (cki_initial_queue ?ci @ enqueuers ?cs)"
      using dist [OF assms(2)] by (auto simp: sc_clock_init_def enq)
    show "set (enqueuers ?cs) \<subseteq> set (cki_whitelist ?ci)" by (auto simp: sc_clock_init_def enq)
    show "\<forall>(a, m)\<in>set ?cs. enqueues_at m \<in> {None, Some clock}"
      by (auto simp: sc_children_def Let_def sc_holder_init_def router_init_enqueues dest: forwarder_children_simps(2))
    show "length (cki_initial_queue ?ci @ enqueuers ?cs) < 2 ^ 64" using len by (simp add: sc_clock_init_def enq)
  qed (use assms(3) in blast)
  then obtain ck where ck: "deploy d ax env ms = Ok ck" "clock_runs (cki_whitelist ?ci) (cki_initial_queue ?ci @ enqueuers ?cs) ck"
    by blast
  moreover have "distinct (cki_initial_queue ?ci @ enqueuers ?cs)"
    using dist [OF assms(2)] by (auto simp: sc_clock_init_def enq)
  moreover have "set (cki_initial_queue ?ci @ enqueuers ?cs) = set (sc_contracts st)"
    using st n by (auto simp: sc_clock_init_def enq sc_contracts_def option_list_def)
  ultimately show ?thesis by (auto simp: clock_runs_def)
qed

lemma remap_splits_wired:
  assumes "om_wf splits" and "remap_splits splits (a, ra) (b, rb) = Ok splits'" and "ra \<noteq> rb"
  shows "(om_get splits' x = None \<longleftrightarrow> x \<notin> set (map fst splits)) \<and> (\<forall>sc'. om_get splits' x = Some sc' \<longrightarrow>
     (\<exists>sc. om_get splits x = Some sc \<and> om_get (receivers sc') ra = om_get (receivers sc) a \<and>
        om_get (receivers sc') rb = om_get (receivers sc) b \<and> fst ` set (receivers sc') = {ra, rb}))"
proof -
  note get = remap_splits_get [OF assms(1,2)] remap_receivers_get [OF _ assms(3)]
  have dom: "om_get splits x = None \<longleftrightarrow> x \<notin> set (map fst splits)" by (auto simp: om_get_def map_of_eq_None_iff)
  show ?thesis
  proof (cases "om_get splits x")
    case None
    with get(1) [of x] dom show ?thesis by simp
  next
    case (Some sc)
    with get(1) [of x] obtain sc' where "om_get splits' x = Some sc'" "remap_receivers_to_routers sc a ra b rb = Ok sc'" by auto
    with Some get(2-4) [of sc] dom show ?thesis by (intro conjI allI impI) (auto simp del: set_map)
  qed
qed


section \<open>Migrations\<close>

definition sc_plan :: "sc_migrate_msg \<Rightarrow> sc_state \<Rightarrow> (addr option \<times> u64 \<times> migration option) list" where
  "sc_plan msg st =
     (case (msg, sc_codes_item st) of
        (ScUpdateCovenant u, Some codes) \<Rightarrow>
          [(sc_clock st, scc_clock codes, map_option ClockMigration (scu_clock u)),
           (sc_party_a_router st, scc_party_a_router codes, map_option router_migration (scu_party_a_router u)),
           (sc_party_b_router st, scc_party_b_router codes, map_option router_migration (scu_party_b_router u)),
           (sc_party_a_forwarder st, scc_party_a_forwarder codes, map_option ForwarderMigration (scu_party_a_forwarder u)),
           (sc_party_b_forwarder st, scc_party_b_forwarder codes, map_option ForwarderMigration (scu_party_b_forwarder u)),
           (sc_holder st, scc_holder codes, map_option SwapHolderMigration (scu_holder u)),
           (sc_splitter st, scc_splitter codes, map_option NativeSplitterMigration (scu_splitter u))]
      | _ \<Rightarrow> [])"

definition sc_registered :: "sc_state \<Rightarrow> addr option list" where
  "sc_registered st = [sc_clock st, sc_party_a_router st, sc_party_b_router st, sc_party_a_forwarder st,
     sc_party_b_forwarder st, sc_holder st, sc_splitter st]"

interpretation sc: covenant_registry sc_migrate sc_plan sc_registered
proof
  fix m st ms st'
  assume "sc_migrate m st = Ok (ms, st')"
  then show "migrate_all (sc_plan m st') = Ok ms \<and> sc_registered st' = sc_registered st"
    by (cases m) (auto simp: sc_migrate_def sc_plan_def sc_registered_def Let_def and_then_eq_Ok load_eq
        simp del: migrate_all.simps(2,3) split: option.splits)
qed (auto simp: sc_plan_def sc_registered_def split: sc_migrate_msg.splits option.splits)

section \<open>An example\<close>

text \<open>An interchain party swaps its coin \<open>a\<close> with a native party's coin \<open>b\<close>.\<close>

definition sc_example :: sc_instantiate_msg where
  "sc_example =
     \<lparr>scm_label = ''swap'', scm_timeouts = default_timeouts,
      scm_contract_codes = \<lparr>sci_ibc_forwarder = 1, sci_interchain_router = 2, sci_native_router = 3, sci_splitter = 4,
        sci_holder = 5, sci_clock = 6\<rparr>,
      scm_clock_tick_max_gas = None, scm_lockup_config = AtHeight 100,
      scm_party_a = InterchainParty \<lparr>icp_receiver = ''alice'', icp_connection_id = ''connection-1'',
        icp_ibc_transfer_timeout = 100, icp_party_to_host_channel = ''channel-1'', icp_host_to_party_channel = ''channel-2'',
        icp_remote_chain_denom = ''ra'', icp_addr = ''alice-n'', icp_native_denom = ''a'',
        icp_contribution = \<lparr>coin_denom = ''ra'', coin_amount = 10\<rparr>, icp_pfm_map = [], icp_fallback_address = None\<rparr>,
      scm_party_b = NativeParty \<lparr>ncp_receiver = ''bob'', ncp_native_denom = ''b'', ncp_addr = ''bob-n'',
        ncp_contribution = \<lparr>coin_denom = ''b'', coin_amount = 20\<rparr>\<rparr>,
      scm_splits = [(''a'', \<lparr>receivers = [(''alice'', dec_zero), (''bob'', dec_one)]\<rparr>),
                    (''b'', \<lparr>receivers = [(''alice'', dec_one), (''bob'', dec_zero)]\<rparr>)],
      scm_fallback_split = None, scm_fallback_address = None\<rparr>"

definition sc_example_env :: env where
  "sc_example_env = \<lparr>env_block = \<lparr>block_height = 5, block_time = 1000\<rparr>, contract_address = ''covenant''\<rparr>"

definition sc_example_splitter :: ns_instantiate_msg where
  "sc_example_splitter =
     \<lparr>nsi_clock = ''clock'',
      nsi_splits = [(''a'', \<lparr>receivers = [(''party_a_router'', dec_zero), (''party_b_router'', dec_one)]\<rparr>),
                    (''b'', \<lparr>receivers = [(''party_a_router'', dec_one), (''party_b_router'', dec_zero)]\<rparr>)],
      nsi_fallback = None\<rparr>"

definition sc_example_children :: "(addr \<times> init_msg) list" where
  "sc_example_children =
     (''clock'', ClockInit (sc_clock_init sc_example ''holder'' ''splitter'' ''party_a_router'' ''party_b_router''
        (Some ''party_a_ibc_forwarder'') None)) #
     sc_children sc_example ''clock'' ''holder'' ''splitter'' ''party_a_router'' ''party_b_router''
       (Some ''party_a_ibc_forwarder'') None sc_example_splitter"

lemma sc_example_remap:
  "remap_splits (scm_splits sc_example) (''alice'', ''party_a_router'') (''bob'', ''party_b_router'') =
     Ok (nsi_splits sc_example_splitter)"
  by (simp add: remap_splits_def remap_receivers_to_routers_def sc_example_def sc_example_splitter_def om_entries_def om_get_def)

lemma sc_example_instantiate:
  "\<exists>ms st. sc_instantiate (ref_chain bals) sc_example_env sc_example = Ok (ms, st) \<and>
     try_map (child_address (ref_chain bals) (map of_char ''covenant'')) ms = Ok sc_example_children \<and>
     sc_contracts st = [''holder'', ''splitter'', ''party_a_router'', ''party_b_router'', ''party_a_ibc_forwarder'']"
proof -
  have parts: "scm_party_a sc_example = InterchainParty p \<Longrightarrow> icp_receiver p = ''alice'' \<and> icp_native_denom p = ''a''"
    "scm_party_b sc_example = NativeParty q \<Longrightarrow> ncp_receiver q = ''bob'' \<and> ncp_native_denom q = ''b''"
    "\<exists>p. scm_party_a sc_example = InterchainParty p" "\<exists>q. scm_party_b sc_example = NativeParty q"
    "scm_fallback_split sc_example = None" "om_contains (scm_splits sc_example) ''a''" "om_contains (scm_splits sc_example) ''b''" for p q
    by (auto simp: sc_example_def om_contains_def om_get_def)
  then obtain p q where [simp]: "scm_party_a sc_example = InterchainParty p" "scm_party_b sc_example = NativeParty q" by blast
  note [simp] = parts(1) [of p, simplified] parts(2) [of q, simplified] parts(5-7)
  show ?thesis
    by (simp add: sc_instantiate_def Let_def ref_chain_ok ref_chain_address sc_example_remap sc_example_env_def
        forwarder_part_def get_router_instantiate2_wasm_msg_def option_list_def sc_contracts_def
        ref_chain_child sc_example_children_def sc_children_def forwarder_children_def sc_clock_init_def
        sc_holder_init_def sc_example_splitter_def to_instantiate2_msg_def clock_to_instantiate2_msg_def char_of_def bit_0)
qed

lemma sc_example_children_ok: "children_ok (ref_chain bals) ax sc_example_env sc_example_children"
proof -
  have d: "dec_add dec_zero dec_zero = Ok dec_zero" "dec_add dec_zero dec_one = Ok dec_one" "dec_add dec_one dec_zero = Ok dec_one"
    by (simp_all add: arith_simps)
  have fifo: "\<exists>q. try_fold fifo_enqueue fifo_new [''party_b_router'', ''party_a_ibc_forwarder''] = Ok q"
    using fifo.enq_all [of fifo_new "[''party_b_router'', ''party_a_ibc_forwarder'']"] by auto
  show ?thesis
    using fifo
    by (auto simp: children_ok_def sc_example_children_def sc_children_def sc_clock_init_def sc_holder_init_def
        sc_example_splitter_def sc_example_def sc_example_env_def forwarder_children_def forwarder_init_def child_init_def
        option_list_def sent_Some Let_def ref_chain_ok d clock_instantiate_def sw_instantiate_def ir_instantiate_def
        nr_instantiate_def ns_instantiate_def fw_instantiate_def ns_save_split_def validate_shares_and_receiver_addresses_def
        validate_party_addresses_def validate_receiver_address_def party_destination_def enqueue_msg_def om_entries_def
        privileged_accounts_new_def)
qed

theorem sc_deploys_witness:
  "\<exists>ms st ck. sc_instantiate (ref_chain (\<lambda>_ _. 0)) sc_example_env sc_example = Ok (ms, st) \<and>
     deploy (ref_chain (\<lambda>_ _. 0)) (ref_astroport 0) sc_example_env ms = Ok ck \<and>
     set (fifo_elems (ck_queue ck)) =
       {''holder'', ''splitter'', ''party_a_router'', ''party_b_router'', ''party_a_ibc_forwarder''}"
proof -
  let ?d = "ref_chain (\<lambda>_ _. 0)"
  from sc_example_instantiate obtain ms st where
    i: "sc_instantiate ?d sc_example_env sc_example = Ok (ms, st)"
      "try_map (child_address ?d (map of_char ''covenant'')) ms = Ok sc_example_children"
      "sc_contracts st = [''holder'', ''splitter'', ''party_a_router'', ''party_b_router'', ''party_a_ibc_forwarder'']"
    by blast
  have "addr_canonicalize ?d (contract_address sc_example_env) = Ok (map of_char ''covenant'')"
    by (simp add: ref_chain_ok sc_example_env_def)
  from sc_deploys [OF ref_chain_ok(2,1) _ i(1) this i(2) sc_example_children_ok, of "ref_astroport 0"] ref_chain_ok(3) i
  show ?thesis by auto
qed


text \<open>
  Migrations of a covenant reach its own contracts only. Whatever migrations have run since, the
  stored addresses are those of the instantiation, and a migration that succeeds sends, for each
  contract it names and in a fixed order, one message to that stored address with the stored (or
  just updated) code id; naming a contract that does not exist fails.
\<close>

theorem sc_migrations_reach_own_contracts:
  "sc_registered (run_migrations sc_migrate st ms) = sc_registered st \<and>
   (case sc_migrate m (run_migrations sc_migrate st ms) of
      Ok (out, st') \<Rightarrow>
        migrate_all (sc_plan m st') = Ok out \<and> list_all (\<lambda>w. Some (wm_contract_addr w) \<in> set (sc_registered st)) out \<and>
        (case m of ScUpdateCovenant u \<Rightarrow> scu_codes u = None \<or> sc_codes_item st' = scu_codes u | _ \<Rightarrow> True)
    | Err e \<Rightarrow> True
    | Panic \<Rightarrow> False)"
proof -
  let ?s = "run_migrations sc_migrate st ms"
  have r: "sc_registered ?s = sc_registered st" by (rule sc.registered_fixed)
  have np: "sc_migrate m ?s \<noteq> Panic"
    by (cases m) (auto simp: sc_migrate_def Let_def result_simps migrate_all_no_panic simp del: migrate_all.simps)
  have codes: "case m of ScUpdateCovenant u \<Rightarrow> scu_codes u = None \<or> sc_codes_item st' = scu_codes u | _ \<Rightarrow> True"
    if "sc_migrate m ?s = Ok (out, st')" for out st'
    using that by (auto simp: sc_migrate_def Let_def and_then_eq_Ok simp del: migrate_all.simps
        split: sc_migrate_msg.splits option.splits)
  show ?thesis
    using r np sc.migrate_plan [of m ?s] sc.targets_registered [of m ?s] codes
    by (auto simp: list_all_iff simp del: migrate_all.simps split: result.splits)
qed

end
