(* ===== verification/Two_Party_Covenant.thy ===== *)
theory Two_Party_Covenant
  imports Deployment
begin

text \<open>
  The two-party liquidity covenant (\<open>contracts/two-party-pol-covenant\<close>): it creates the clock,
  the two-party holder, a liquid pooler (Astroport or Osmosis), a router per party and a
  forwarder per interchain party, and afterwards answers queries and forwards migrations.
\<close>

section \<open>State and messages\<close>

record tc_code_ids =
  tci_ibc_forwarder :: u64
  tci_holder :: u64
  tci_clock :: u64
  tci_interchain_router :: u64
  tci_native_router :: u64
  tci_liquid_pooler :: u64

record tc_codes =
  tcc_clock :: u64
  tcc_holder :: u64
  tcc_liquid_pooler :: u64
  tcc_party_a_router :: u64
  tcc_party_b_router :: u64
  tcc_party_a_forwarder :: u64
  tcc_party_b_forwarder :: u64

record tc_state =
  tc_clock :: "addr option"
  tc_holder :: "addr option"
  tc_liquid_pooler :: "addr option"
  tc_party_a_forwarder :: "addr option"
  tc_party_b_forwarder :: "addr option"
  tc_party_a_router :: "addr option"
  tc_party_b_router :: "addr option"
  tc_codes_item :: "tc_codes option"

record tc_instantiate_msg =
  tcm_label :: string
  tcm_timeouts :: timeouts
  tcm_contract_codes :: tc_code_ids
  tcm_clock_tick_max_gas :: "u64 option"
  tcm_lockup_config :: expiration
  tcm_party_a :: covenant_party_config
  tcm_party_b :: covenant_party_config
  tcm_covenant_type :: covenant_type
  tcm_ragequit_config :: "ragequit_config option"
  tcm_deposit_deadline :: expiration
  tcm_party_a_share :: decimal
  tcm_party_b_share :: decimal
  tcm_pool_price_config :: pool_price_config
  tcm_splits :: "(denom, split_config) omap"
  tcm_fallback_split :: "split_config option"
  tcm_emergency_committee :: "string option"
  tcm_liquid_pooler_config :: liquid_pooler_config
  tcm_fallback_address :: "string option"

record tc_update_covenant =
  tcu_codes :: "tc_codes option"
  tcu_clock :: "clock_migrate_msg option"
  tcu_holder :: "tp_migrate_msg option"
  tcu_liquid_pooler :: "liquid_pooler_migrate_msg option"
  tcu_party_a_router :: "router_migrate_msg option"
  tcu_party_b_router :: "router_migrate_msg option"
  tcu_party_a_forwarder :: "fw_migrate_msg option"
  tcu_party_b_forwarder :: "fw_migrate_msg option"

datatype tc_migrate_msg = TcUpdateCovenant tc_update_covenant | TcUpdateCodeId

datatype tc_query_msg =
    TcQClock | TcQHolder | TcQForwarder string | TcQRouter string | TcQLiquidPooler
  | TcQPartyDeposit string | TcQCodes

datatype tc_query_reply = TcRAddr "addr option" | TcRCodes tc_codes

fun tc_router_code_id :: "covenant_party_config \<Rightarrow> tc_code_ids \<Rightarrow> u64" where
  "tc_router_code_id (NativeParty p) codes = tci_native_router codes"
| "tc_router_code_id (InterchainParty p) codes = tci_interchain_router codes"

definition tc_codes_config :: "tc_code_ids \<Rightarrow> u64 \<Rightarrow> u64 \<Rightarrow> tc_codes" where
  "tc_codes_config ids router_a router_b =
     \<lparr>tcc_clock = tci_clock ids, tcc_holder = tci_holder ids, tcc_liquid_pooler = tci_liquid_pooler ids,
      tcc_party_a_router = router_a, tcc_party_b_router = router_b,
      tcc_party_a_forwarder = tci_ibc_forwarder ids, tcc_party_b_forwarder = tci_ibc_forwarder ids\<rparr>"

text \<open>An interchain party contributes its amount in the denomination it has on this chain.\<close>

fun to_two_party_pol_party :: "covenant_party_config \<Rightarrow> decimal \<Rightarrow> string \<Rightarrow> tp_party" where
  "to_two_party_pol_party (InterchainParty p) alloc rtr =
     \<lparr>contribution = \<lparr>coin_denom = icp_native_denom p, coin_amount = coin_amount (icp_contribution p)\<rparr>,
      host_addr = icp_addr p, controller_addr = icp_receiver p, allocation = alloc, router = rtr\<rparr>"
| "to_two_party_pol_party (NativeParty p) alloc rtr =
     \<lparr>contribution = ncp_contribution p, host_addr = ncp_addr p, controller_addr = ncp_receiver p,
      allocation = alloc, router = rtr\<rparr>"

definition to_router_instantiate2_msg ::
    "covenant_party_config \<Rightarrow> string \<Rightarrow> addr \<Rightarrow> string \<Rightarrow> denom list \<Rightarrow> instantiate2_helper_config \<Rightarrow> instantiate2_msg" where
  "to_router_instantiate2_msg p admin clock_addr label denoms helper =
     to_instantiate2_msg (router_init p clock_addr denoms) helper admin label"

section \<open>Entry points\<close>

definition tc_holder_init ::
    "tc_instantiate_msg \<Rightarrow> addr \<Rightarrow> addr \<Rightarrow> addr \<Rightarrow> addr \<Rightarrow> (denom, split_config) omap \<Rightarrow> split_config option
     \<Rightarrow> tp_instantiate_msg" where
  "tc_holder_init msg clock pooler ra rb splits fallback =
     \<lparr>tpi_clock = clock, tpi_next_contract = pooler, tpi_lockup = tcm_lockup_config msg,
      tpi_ragequit = (case tcm_ragequit_config msg of Some c \<Rightarrow> c | None \<Rightarrow> RqDisabled),
      tpi_deposit_deadline = tcm_deposit_deadline msg,
      tpi_covenant = \<lparr>party_a = to_two_party_pol_party (tcm_party_a msg) (tcm_party_a_share msg) ra,
                      party_b = to_two_party_pol_party (tcm_party_b msg) (tcm_party_b_share msg) rb,
                      cov_type = tcm_covenant_type msg\<rparr>,
      tpi_splits = splits, tpi_fallback_split = fallback, tpi_committee = tcm_emergency_committee msg\<rparr>"

definition tc_instantiate ::
    "deps \<Rightarrow> env \<Rightarrow> tc_instantiate_msg \<Rightarrow> (instantiate2_msg list \<times> tc_state, std_error) result" where
  "tc_instantiate d env msg =
     (let self = contract_address env; codes = tcm_contract_codes msg; a = tcm_party_a msg; b = tcm_party_b msg;
          label = tcm_label msg; denoms = map fst (om_entries (tcm_splits msg)) in
     and_then (addr_canonicalize d self) (\<lambda>creator.
     and_then (get_instantiate2_salt_and_address d ''clock'' creator (tci_clock codes)) (\<lambda>clock.
     and_then (get_instantiate2_salt_and_address d ''router_a'' creator (tc_router_code_id a codes)) (\<lambda>router_a.
     and_then (get_instantiate2_salt_and_address d ''router_b'' creator (tc_router_code_id b codes)) (\<lambda>router_b.
     and_then (get_instantiate2_salt_and_address d ''pol_holder'' creator (tci_holder codes)) (\<lambda>holder.
     and_then (get_instantiate2_salt_and_address d ''liquid_pooler'' creator (tci_liquid_pooler codes)) (\<lambda>pooler.
     let clock_whitelist = [i2h_addr holder] @
           (if is_native a then [] else [i2h_addr router_a]) @ (if is_native b then [] else [i2h_addr router_b]);
         clock_initial_queue = [i2h_addr pooler] @
           (if is_native a then [i2h_addr router_a] else []) @ (if is_native b then [i2h_addr router_b] else []) in
     and_then (remap_splits (tcm_splits msg) (get_final_receiver_address a, i2h_addr router_a)
                 (get_final_receiver_address b, i2h_addr router_b)) (\<lambda>splits.
     and_then (case tcm_fallback_split msg of
                 Some config \<Rightarrow> and_then (remap_receivers_to_routers config (get_final_receiver_address a)
                   (i2h_addr router_a) (get_final_receiver_address b) (i2h_addr router_b)) (\<lambda>s. Ok (Some s))
               | None \<Rightarrow> Ok None) (\<lambda>fallback.
     let holder_msg = to_instantiate2_msg
           (TwoPartyHolderInit (tc_holder_init msg (i2h_addr clock) (i2h_addr pooler) (i2h_addr router_a) (i2h_addr router_b) splits fallback))
           holder self (label @ ''_holder'');
         router_a_msg = to_router_instantiate2_msg a self (i2h_addr clock) (label @ ''_party_a_router'') denoms router_a;
         router_b_msg = to_router_instantiate2_msg b self (i2h_addr clock) (label @ ''_party_b_router'') denoms router_b;
         pooler_msg = pooler_to_instantiate2_msg (tcm_liquid_pooler_config msg) pooler self (label @ ''_liquid_pooler'')
           (i2h_addr clock) (i2h_addr holder) (tcm_pool_price_config msg) in
     and_then (forwarder_part d creator ''forwarder_a'' (tci_ibc_forwarder codes) a (tcm_timeouts msg)
                 (i2h_addr clock) (i2h_addr holder) (tcm_fallback_address msg) self (label @ ''_party_a_ibc_forwarder'')) (\<lambda>forwarder_a.
     and_then (forwarder_part d creator ''forwarder_b'' (tci_ibc_forwarder codes) b (tcm_timeouts msg)
                 (i2h_addr clock) (i2h_addr holder) (tcm_fallback_address msg) self (label @ ''_party_b_ibc_forwarder'')) (\<lambda>forwarder_b.
     let forwarder_addr = map_option (\<lambda>(h, m). i2h_addr h);
         clock_msg = clock_to_instantiate2_msg
           \<lparr>cki_tick_max_gas = tcm_clock_tick_max_gas msg, cki_whitelist = clock_whitelist,
            cki_initial_queue = clock_initial_queue @ option_list (forwarder_addr forwarder_a) @ option_list (forwarder_addr forwarder_b)\<rparr>
           (i2h_code clock) (i2h_salt clock) self (label @ ''-clock'') in
       Ok ([clock_msg, holder_msg, router_a_msg, router_b_msg, pooler_msg] @
             option_list (map_option snd forwarder_a) @ option_list (map_option snd forwarder_b),
           \<lparr>tc_clock = Some (i2h_addr clock), tc_holder = Some (i2h_addr holder), tc_liquid_pooler = Some (i2h_addr pooler),
            tc_party_a_forwarder = forwarder_addr forwarder_a, tc_party_b_forwarder = forwarder_addr forwarder_b,
            tc_party_a_router = Some (i2h_addr router_a), tc_party_b_router = Some (i2h_addr router_b),
            tc_codes_item = Some (tc_codes_config codes (i2h_code router_a) (i2h_code router_b))\<rparr>))))))))))))"

definition tc_query :: "deps \<Rightarrow> tc_query_msg \<Rightarrow> tc_state \<Rightarrow> (tc_query_reply, std_error) result" where
  "tc_query d msg st =
     (case msg of
        TcQClock \<Rightarrow> Ok (TcRAddr (tc_clock st))
      | TcQHolder \<Rightarrow> Ok (TcRAddr (tc_holder st))
      | TcQForwarder party \<Rightarrow>
          if party = ''party_a'' then Ok (TcRAddr (tc_party_a_forwarder st))
          else if party = ''party_b'' then Ok (TcRAddr (tc_party_b_forwarder st))
          else Err (NotFound ''not found'')
      | TcQRouter party \<Rightarrow>
          if party = ''party_a'' then Ok (TcRAddr (tc_party_a_router st))
          else if party = ''party_b'' then Ok (TcRAddr (tc_party_b_router st))
          else Err (NotFound ''not found'')
      | TcQLiquidPooler \<Rightarrow> Ok (TcRAddr (tc_liquid_pooler st))
      | TcQPartyDeposit party \<Rightarrow>
          if party = ''party_a''
          then and_then (deposit_address_of d (tc_party_a_forwarder st) (tc_holder st)) (\<lambda>a. Ok (TcRAddr a))
          else if party = ''party_b''
          then and_then (deposit_address_of d (tc_party_b_forwarder st) (tc_holder st)) (\<lambda>a. Ok (TcRAddr a))
          else Err (NotFound ''not found'')
      | TcQCodes \<Rightarrow> and_then (load (tc_codes_item st)) (\<lambda>c. Ok (TcRCodes c)))"

definition tc_migrate :: "tc_migrate_msg \<Rightarrow> tc_state \<Rightarrow> (wasm_migrate list \<times> tc_state, std_error) result" where
  "tc_migrate msg st =
     (case msg of
        TcUpdateCovenant u \<Rightarrow>
          let st1 = (case tcu_codes u of Some c \<Rightarrow> st\<lparr>tc_codes_item := Some c\<rparr> | None \<Rightarrow> st) in
          and_then (load (tc_codes_item st1)) (\<lambda>codes.
          and_then (migrate_all
              [(tc_clock st1, tcc_clock codes, map_option ClockMigration (tcu_clock u)),
               (tc_party_a_router st1, tcc_party_a_router codes, map_option router_migration (tcu_party_a_router u)),
               (tc_party_b_router st1, tcc_party_b_router codes, map_option router_migration (tcu_party_b_router u)),
               (tc_party_a_forwarder st1, tcc_party_a_forwarder codes, map_option ForwarderMigration (tcu_party_a_forwarder u)),
               (tc_party_b_forwarder st1, tcc_party_b_forwarder codes, map_option ForwarderMigration (tcu_party_b_forwarder u)),
               (tc_holder st1, tcc_holder codes, map_option TwoPartyHolderMigration (tcu_holder u)),
               (tc_liquid_pooler st1, tcc_liquid_pooler codes, map_option pooler_migration (tcu_liquid_pooler u))]) (\<lambda>msgs.
            Ok (msgs, st1)))
      | TcUpdateCodeId \<Rightarrow> Ok ([], st))"

section \<open>What an instantiation creates\<close>

definition tc_clock_init ::
    "tc_instantiate_msg \<Rightarrow> addr \<Rightarrow> addr \<Rightarrow> addr \<Rightarrow> addr \<Rightarrow> addr option \<Rightarrow> addr option \<Rightarrow> clock_instantiate_msg" where
  "tc_clock_init msg holder pooler ra rb fa fb =
     \<lparr>cki_tick_max_gas = tcm_clock_tick_max_gas msg,
      cki_whitelist = [holder] @
        (if is_native (tcm_party_a msg) then [] else [ra]) @ (if is_native (tcm_party_b msg) then [] else [rb]),
      cki_initial_queue = ([pooler] @ (if is_native (tcm_party_a msg) then [ra] else []) @
        (if is_native (tcm_party_b msg) then [rb] else [])) @ option_list fa @ option_list fb\<rparr>"

definition tc_children ::
    "tc_instantiate_msg \<Rightarrow> addr \<Rightarrow> addr \<Rightarrow> addr \<Rightarrow> addr \<Rightarrow> addr \<Rightarrow> addr option \<Rightarrow> addr option \<Rightarrow> tp_instantiate_msg
     \<Rightarrow> (addr \<times> init_msg) list" where
  "tc_children msg clock holder pooler ra rb fa fb hi =
     (let denoms = map fst (om_entries (tcm_splits msg)) in
      [(holder, TwoPartyHolderInit hi),
       (ra, router_init (tcm_party_a msg) clock denoms), (rb, router_init (tcm_party_b msg) clock denoms),
       (pooler, pooler_init (tcm_liquid_pooler_config msg) clock holder (tcm_pool_price_config msg))] @
      forwarder_children (tcm_party_a msg) fa (tcm_timeouts msg) clock holder (tcm_fallback_address msg) @
      forwarder_children (tcm_party_b msg) fb (tcm_timeouts msg) clock holder (tcm_fallback_address msg))"

lemma tc_instantiate_view:
  assumes "tc_instantiate d env msg = Ok (ms, st)"
  obtains creator clock holder pooler ra rb fa fb splits fallback where
    "addr_canonicalize d (contract_address env) = Ok creator"
    "try_map (child_address d creator) ms =
       Ok ((clock, ClockInit (tc_clock_init msg holder pooler ra rb fa fb)) #
           tc_children msg clock holder pooler ra rb fa fb (tc_holder_init msg clock pooler ra rb splits fallback))"
    "tc_clock st = Some clock" "tc_holder st = Some holder" "tc_liquid_pooler st = Some pooler"
    "tc_party_a_router st = Some ra" "tc_party_b_router st = Some rb"
    "tc_party_a_forwarder st = fa" "tc_party_b_forwarder st = fb"
    "is_native (tcm_party_a msg) \<longleftrightarrow> fa = None" "is_native (tcm_party_b msg) \<longleftrightarrow> fb = None"
    "unique_addresses d \<Longrightarrow> distinct ([clock, holder, pooler, ra, rb] @ option_list fa @ option_list fb)"
    "remap_splits (tcm_splits msg) (get_final_receiver_address (tcm_party_a msg), ra)
       (get_final_receiver_address (tcm_party_b msg), rb) = Ok splits"
proof -
  let ?self = "contract_address env" and ?codes = "tcm_contract_codes msg"
  let ?a = "tcm_party_a msg" and ?b = "tcm_party_b msg" and ?addr = "map_option (\<lambda>(h, m). i2h_addr h)"
  from assms obtain creator ha hb hc hh hp splits fallback fa fb where
    c: "addr_canonicalize d ?self = Ok creator"
    and h: "get_instantiate2_salt_and_address d ''router_a'' creator (tc_router_code_id ?a ?codes) = Ok ha"
      "get_instantiate2_salt_and_address d ''router_b'' creator (tc_router_code_id ?b ?codes) = Ok hb"
      "get_instantiate2_salt_and_address d ''clock'' creator (tci_clock ?codes) = Ok hc"
      "get_instantiate2_salt_and_address d ''pol_holder'' creator (tci_holder ?codes) = Ok hh"
      "get_instantiate2_salt_and_address d ''liquid_pooler'' creator (tci_liquid_pooler ?codes) = Ok hp"
    and s: "remap_splits (tcm_splits msg) (get_final_receiver_address ?a, i2h_addr ha) (get_final_receiver_address ?b, i2h_addr hb) = Ok splits"
    and f: "forwarder_part d creator ''forwarder_a'' (tci_ibc_forwarder ?codes) ?a (tcm_timeouts msg)
        (i2h_addr hc) (i2h_addr hh) (tcm_fallback_address msg) ?self (tcm_label msg @ ''_party_a_ibc_forwarder'') = Ok fa"
      "forwarder_part d creator ''forwarder_b'' (tci_ibc_forwarder ?codes) ?b (tcm_timeouts msg)
        (i2h_addr hc) (i2h_addr hh) (tcm_fallback_address msg) ?self (tcm_label msg @ ''_party_b_ibc_forwarder'') = Ok fb"
    and ms: "ms = [clock_to_instantiate2_msg (tc_clock_init msg (i2h_addr hh) (i2h_addr hp) (i2h_addr ha) (i2h_addr hb) (?addr fa) (?addr fb))
           (i2h_code hc) (i2h_salt hc) ?self (tcm_label msg @ ''-clock''),
         to_instantiate2_msg (TwoPartyHolderInit (tc_holder_init msg (i2h_addr hc) (i2h_addr hp) (i2h_addr ha) (i2h_addr hb) splits fallback))
           hh ?self (tcm_label msg @ ''_holder''),
         to_instantiate2_msg (router_init ?a (i2h_addr hc) (map fst (om_entries (tcm_splits msg)))) ha ?self (tcm_label msg @ ''_party_a_router''),
         to_instantiate2_msg (router_init ?b (i2h_addr hc) (map fst (om_entries (tcm_splits msg)))) hb ?self (tcm_label msg @ ''_party_b_router''),
         pooler_to_instantiate2_msg (tcm_liquid_pooler_config msg) hp ?self (tcm_label msg @ ''_liquid_pooler'') (i2h_addr hc)
           (i2h_addr hh) (tcm_pool_price_config msg)] @ option_list (map_option snd fa) @ option_list (map_option snd fb)"
    and st: "tc_clock st = Some (i2h_addr hc)" "tc_holder st = Some (i2h_addr hh)" "tc_liquid_pooler st = Some (i2h_addr hp)"
      "tc_party_a_router st = Some (i2h_addr ha)" "tc_party_b_router st = Some (i2h_addr hb)"
      "tc_party_a_forwarder st = ?addr fa" "tc_party_b_forwarder st = ?addr fb"
    unfolding tc_instantiate_def Let_def to_router_instantiate2_msg_def tc_clock_init_def
    by (auto simp: and_then_eq_Ok)
  note fa = forwarder_part_Ok [OF f(1)] and fb = forwarder_part_Ok [OF f(2)]
  have "distinct ([i2h_addr hc, i2h_addr hh, i2h_addr hp, i2h_addr ha, i2h_addr hb] @ option_list (?addr fa) @ option_list (?addr fb))"
    if u: "unique_addresses d"
  proof -
    let ?xs = "[(''clock'', i2h_addr hc), (''pol_holder'', i2h_addr hh), (''liquid_pooler'', i2h_addr hp), (''router_a'', i2h_addr ha),
        (''router_b'', i2h_addr hb)] @ map (Pair ''forwarder_a'') (option_list (?addr fa)) @
        map (Pair ''forwarder_b'') (option_list (?addr fb))"
    have "list_all (predicted d creator) ?xs"
      using h [THEN predictedI] forwarder_part_predicted [OF f(1)] forwarder_part_predicted [OF f(2)] by simp
    moreover have "distinct (map fst ?xs)" by (auto simp: option_list_def split: option.splits)
    ultimately have "distinct (map snd ?xs)" by (rule predicted_distinct [OF u])
    then show ?thesis by (simp add: comp_def)
  qed
  moreover have "try_map (child_address d creator) ms =
       Ok ((i2h_addr hc, ClockInit (tc_clock_init msg (i2h_addr hh) (i2h_addr hp) (i2h_addr ha) (i2h_addr hb) (?addr fa) (?addr fb))) #
           tc_children msg (i2h_addr hc) (i2h_addr hh) (i2h_addr hp) (i2h_addr ha) (i2h_addr hb) (?addr fa) (?addr fb)
             (tc_holder_init msg (i2h_addr hc) (i2h_addr hp) (i2h_addr ha) (i2h_addr hb) splits fallback))"
    using fa(2) fb(2) h unfolding ms
    by (simp add: try_map_append child_address_helper tc_children_def pooler_to_instantiate2_msg_def Let_def)
  moreover have "is_native ?a \<longleftrightarrow> ?addr fa = None" "is_native ?b \<longleftrightarrow> ?addr fb = None"
    using fa(1) fb(1) by auto
  ultimately show thesis using c s st by (intro that) auto
qed

section \<open>Properties\<close>

definition tc_contracts :: "tc_state \<Rightarrow> addr list" where
  "tc_contracts st = concat (map option_list
     [tc_holder st, tc_liquid_pooler st, tc_party_a_router st, tc_party_b_router st,
      tc_party_a_forwarder st, tc_party_b_forwarder st])"

lemma tc_enqueuers:
  "enqueuers (tc_children msg clock holder pooler ra rb fa fb hi) =
     holder # (if is_native (tcm_party_a msg) then [] else [ra]) @ (if is_native (tcm_party_b msg) then [] else [rb]) @
     (case tcm_liquid_pooler_config msg of OsmosisPooler _ \<Rightarrow> [pooler] | AstroportPooler _ \<Rightarrow> [])"
  by (simp add: tc_children_def Let_def forwarder_children_simps(1) router_init_enqueues pooler_init_enqueues
      split: liquid_pooler_config.split)

lemma tc_children_clock:
  assumes "tpi_clock hi = clock"
  shows "\<forall>(a, m)\<in>set (tc_children msg clock holder pooler ra rb fa fb hi). enqueues_at m \<in> {None, Some clock}"
  using assms
  by (auto simp: tc_children_def Let_def router_init_enqueues pooler_init_enqueues dest: forwarder_children_simps(2)
      split: liquid_pooler_config.split)

text \<open>
  Claim C19: a two-party liquidity covenant with an Astroport pooler comes up complete. If the
  instantiation succeeds and every created contract accepts its own parameters, the whole
  deployment succeeds, and the clock's queue holds every contract of the covenant exactly once.
\<close>

theorem tc_deploys:
  assumes "addr_validate_spec d" and "unique_addresses d" and "\<forall>a. query_wasm_contract_info d a = Ok ()"
    and "tcm_liquid_pooler_config msg = AstroportPooler cfg"
    and "tc_instantiate d env msg = Ok (ms, st)" and "addr_canonicalize d (contract_address env) = Ok creator"
    and "try_map (child_address d creator) ms = Ok children" and "children_ok d ax env children"
  shows "\<exists>ck. deploy d ax env ms = Ok ck \<and> fifo_inv (ck_queue ck) \<and>
     distinct (fifo_elems (ck_queue ck)) \<and> set (fifo_elems (ck_queue ck)) = set (tc_contracts st)"
  using assms(5)
proof (rule tc_instantiate_view)
  fix creator' clock holder pooler ra rb fa fb splits fallback
  let ?hi = "tc_holder_init msg clock pooler ra rb splits fallback" and ?ci = "tc_clock_init msg holder pooler ra rb fa fb"
  let ?cs = "tc_children msg clock holder pooler ra rb fa fb ?hi"
  let ?q = "cki_initial_queue ?ci @ enqueuers ?cs"
  assume c: "addr_canonicalize d (contract_address env) = Ok creator'"
    and ch: "try_map (child_address d creator') ms = Ok ((clock, ClockInit ?ci) # ?cs)"
    and st: "tc_holder st = Some holder" "tc_liquid_pooler st = Some pooler" "tc_party_a_router st = Some ra"
      "tc_party_b_router st = Some rb" "tc_party_a_forwarder st = fa" "tc_party_b_forwarder st = fb"
    and n: "is_native (tcm_party_a msg) \<longleftrightarrow> fa = None" "is_native (tcm_party_b msg) \<longleftrightarrow> fb = None"
    and dist: "unique_addresses d \<Longrightarrow> distinct ([clock, holder, pooler, ra, rb] @ option_list fa @ option_list fb)"
  have len: "length (option_list fa) \<le> 1" "length (option_list fb) \<le> 1"
    by (simp_all add: option_list_def split: option.splits)
  from c assms(6,7) ch have children: "children = (clock, ClockInit ?ci) # ?cs" by simp
  have q: "distinct ?q" using dist [OF assms(2)] assms(4) by (auto simp: tc_clock_init_def tc_enqueuers)
  have "\<exists>ck. deploy d ax env ms = Ok ck \<and> clock_runs (cki_whitelist ?ci) ?q ck"
  proof (rule deploy_succeeds [OF assms(1) c ch _ q])
    show "children_ok d ax env ((clock, ClockInit ?ci) # ?cs)" using assms(8) children by simp
    show "set (enqueuers ?cs) \<subseteq> set (cki_whitelist ?ci)" using assms(4) by (auto simp: tc_clock_init_def tc_enqueuers)
    show "\<forall>(a, m)\<in>set ?cs. enqueues_at m \<in> {None, Some clock}"
      by (rule tc_children_clock) (simp add: tc_holder_init_def)
    show "length ?q < 2 ^ 64" using len assms(4) by (simp add: tc_clock_init_def tc_enqueuers)
  qed (use assms(3) in blast)
  moreover have "set ?q = set (tc_contracts st)"
    using st n assms(4) by (auto simp: tc_clock_init_def tc_enqueuers tc_contracts_def option_list_def)
  ultimately show ?thesis using q by (auto simp: clock_runs_def)
qed

text \<open>
  Claim C18: with an Osmosis pooler no two-party covenant can be deployed. The covenant puts the pooler
  into the clock's initial queue, but the Osmosis pooler enqueues itself when it is created, and
  the clock refuses a contract that is queued already: whatever the parameters, the deployment
  fails as a whole.
\<close>

theorem tc_osmosis_never_deploys:
  assumes "addr_validate_spec d" and "unique_addresses d"
    and "tcm_liquid_pooler_config msg = OsmosisPooler cfg" and "tc_instantiate d env msg = Ok (ms, st)"
  shows "\<nexists>ck. deploy d ax env ms = Ok ck"
  using assms(4)
proof (rule tc_instantiate_view)
  fix creator clock holder pooler ra rb fa fb splits fallback
  let ?hi = "tc_holder_init msg clock pooler ra rb splits fallback" and ?ci = "tc_clock_init msg holder pooler ra rb fa fb"
  let ?cs = "tc_children msg clock holder pooler ra rb fa fb ?hi"
  let ?p = "pooler_init (tcm_liquid_pooler_config msg) clock holder (tcm_pool_price_config msg)"
  assume c: "addr_canonicalize d (contract_address env) = Ok creator"
    and ch: "try_map (child_address d creator) ms = Ok ((clock, ClockInit ?ci) # ?cs)"
    and dist: "unique_addresses d \<Longrightarrow> distinct ([clock, holder, pooler, ra, rb] @ option_list fa @ option_list fb)"
  have "deploy d ax env ms \<noteq> Ok ck" for ck
  proof (rule deploy_fails [OF assms(1) c ch])
    show "distinct (cki_initial_queue ?ci)" using dist [OF assms(2)] by (auto simp: tc_clock_init_def)
    show "length (cki_initial_queue ?ci) < 2 ^ 64" by (simp add: tc_clock_init_def option_list_def split: option.splits)
    show "pooler \<in> set (cki_initial_queue ?ci)" by (simp add: tc_clock_init_def)
    show "(pooler, ?p) \<in> set ?cs" by (simp add: tc_children_def Let_def)
    show "enqueues_at ?p = Some clock" unfolding pooler_init_enqueues assms(3) by simp
    show "\<forall>(a, m)\<in>set ?cs. enqueues_at m \<in> {None, Some clock}"
      by (rule tc_children_clock) (simp add: tc_holder_init_def)
  qed
  then show ?thesis by blast
qed

section \<open>Migrations\<close>

definition tc_plan :: "tc_migrate_msg \<Rightarrow> tc_state \<Rightarrow> (addr option \<times> u64 \<times> migration option) list" where
  "tc_plan msg st =
     (case (msg, tc_codes_item st) of
        (TcUpdateCovenant u, Some codes) \<Rightarrow>
          [(tc_clock st, tcc_clock codes, map_option ClockMigration (tcu_clock u)),
           (tc_party_a_router st, tcc_party_a_router codes, map_option router_migration (tcu_party_a_router u)),
           (tc_party_b_router st, tcc_party_b_router codes, map_option router_migration (tcu_party_b_router u)),
           (tc_party_a_forwarder st, tcc_party_a_forwarder codes, map_option ForwarderMigration (tcu_party_a_forwarder u)),
           (tc_party_b_forwarder st, tcc_party_b_forwarder codes, map_option ForwarderMigration (tcu_party_b_forwarder u)),
           (tc_holder st, tcc_holder codes, map_option TwoPartyHolderMigration (tcu_holder u)),
           (tc_liquid_pooler st, tcc_liquid_pooler codes, map_option pooler_migration (tcu_liquid_pooler u))]
      | _ \<Rightarrow> [])"

definition tc_registered :: "tc_state \<Rightarrow> addr option list" where
  "tc_registered st = [tc_clock st, tc_party_a_router st, tc_party_b_router st, tc_party_a_forwarder st,
     tc_party_b_forwarder st, tc_holder st, tc_liquid_pooler st]"

interpretation tc: covenant_registry tc_migrate tc_plan tc_registered
proof
  fix m st ms st'
  assume "tc_migrate m st = Ok (ms, st')"
  then show "migrate_all (tc_plan m st') = Ok ms \<and> tc_registered st' = tc_registered st"
    by (cases m) (auto simp: tc_migrate_def tc_plan_def tc_registered_def Let_def and_then_eq_Ok load_eq
        simp del: migrate_all.simps(2,3) split: option.splits)
qed (auto simp: tc_plan_def tc_registered_def split: tc_migrate_msg.splits option.splits)

section \<open>An example\<close>

text \<open>An interchain party and a native party pool their coins, half each.\<close>

definition tc_example_splits :: "string \<Rightarrow> string \<Rightarrow> (denom, split_config) omap" where
  "tc_example_splits a b = [(''uatom'', \<lparr>receivers = [(a, half_share), (b, half_share)]\<rparr>),
                            (''untrn'', \<lparr>receivers = [(a, half_share), (b, half_share)]\<rparr>)]"

definition tc_example :: "liquid_pooler_config \<Rightarrow> tc_instantiate_msg" where
  "tc_example pool =
     \<lparr>tcm_label = ''pol'', tcm_timeouts = default_timeouts,
      tcm_contract_codes = \<lparr>tci_ibc_forwarder = 1, tci_holder = 2, tci_clock = 3, tci_interchain_router = 4,
        tci_native_router = 5, tci_liquid_pooler = 6\<rparr>,
      tcm_clock_tick_max_gas = None, tcm_lockup_config = AtHeight 1000,
      tcm_party_a = InterchainParty \<lparr>icp_receiver = ''alice'', icp_connection_id = ''connection-1'',
        icp_ibc_transfer_timeout = 100, icp_party_to_host_channel = ''channel-1'', icp_host_to_party_channel = ''channel-2'',
        icp_remote_chain_denom = ''ra'', icp_addr = ''alice-n'', icp_native_denom = ''uatom'',
        icp_contribution = \<lparr>coin_denom = ''ra'', coin_amount = 10\<rparr>, icp_pfm_map = [], icp_fallback_address = None\<rparr>,
      tcm_party_b = NativeParty \<lparr>ncp_receiver = ''bob'', ncp_native_denom = ''untrn'', ncp_addr = ''bob-n'',
        ncp_contribution = \<lparr>coin_denom = ''untrn'', coin_amount = 20\<rparr>\<rparr>,
      tcm_covenant_type = Share, tcm_ragequit_config = None, tcm_deposit_deadline = AtHeight 100,
      tcm_party_a_share = half_share, tcm_party_b_share = half_share,
      tcm_pool_price_config = \<lparr>expected_spot_price = dec_one, acceptable_price_spread = half_share\<rparr>,
      tcm_splits = tc_example_splits ''alice'' ''bob'',
      tcm_fallback_split = None, tcm_emergency_committee = None, tcm_liquid_pooler_config = pool,
      tcm_fallback_address = None\<rparr>"

definition tc_example_env :: env where
  "tc_example_env = \<lparr>env_block = \<lparr>block_height = 5, block_time = 1000\<rparr>, contract_address = ''covenant''\<rparr>"

definition tc_example_holder :: "liquid_pooler_config \<Rightarrow> tp_instantiate_msg" where
  "tc_example_holder pool = tc_holder_init (tc_example pool) ''clock'' ''liquid_pooler'' ''router_a'' ''router_b''
     (tc_example_splits ''router_a'' ''router_b'') None"

definition tc_example_children :: "liquid_pooler_config \<Rightarrow> (addr \<times> init_msg) list" where
  "tc_example_children pool =
     (''clock'', ClockInit (tc_clock_init (tc_example pool) ''pol_holder'' ''liquid_pooler'' ''router_a'' ''router_b''
        (Some ''forwarder_a'') None)) #
     tc_children (tc_example pool) ''clock'' ''pol_holder'' ''liquid_pooler'' ''router_a'' ''router_b''
       (Some ''forwarder_a'') None (tc_example_holder pool)"

lemma tc_example_remap:
  "remap_splits (tcm_splits (tc_example pool)) (''alice'', ''router_a'') (''bob'', ''router_b'') =
     Ok (tc_example_splits ''router_a'' ''router_b'')"
  by (simp add: remap_splits_def remap_receivers_to_routers_def tc_example_def tc_example_splits_def om_entries_def om_get_def)

lemma tc_example_instantiate:
  "\<exists>ms st. tc_instantiate (ref_chain bals) tc_example_env (tc_example pool) = Ok (ms, st) \<and>
     try_map (child_address (ref_chain bals) (map of_char ''covenant'')) ms = Ok (tc_example_children pool) \<and>
     tc_contracts st = [''pol_holder'', ''liquid_pooler'', ''router_a'', ''router_b'', ''forwarder_a'']"
proof -
  have parts: "tcm_party_a (tc_example pool) = InterchainParty p \<Longrightarrow> icp_receiver p = ''alice''"
    "tcm_party_b (tc_example pool) = NativeParty q \<Longrightarrow> ncp_receiver q = ''bob''"
    "\<exists>p. tcm_party_a (tc_example pool) = InterchainParty p" "\<exists>q. tcm_party_b (tc_example pool) = NativeParty q"
    "tcm_fallback_split (tc_example pool) = None" for p q
    by (auto simp: tc_example_def)
  then obtain p q where [simp]: "tcm_party_a (tc_example pool) = InterchainParty p" "tcm_party_b (tc_example pool) = NativeParty q"
    by blast
  note [simp] = parts(1) [of p, simplified] parts(2) [of q, simplified] parts(5)
  show ?thesis
    by (simp add: tc_instantiate_def Let_def ref_chain_ok ref_chain_address tc_example_remap tc_example_env_def
        forwarder_part_def to_router_instantiate2_msg_def pooler_to_instantiate2_msg_def option_list_def tc_contracts_def
        ref_chain_child tc_example_children_def tc_children_def forwarder_children_def tc_clock_init_def
        tc_example_holder_def tc_holder_init_def to_instantiate2_msg_def clock_to_instantiate2_msg_def char_of_def bit_0)
qed

lemma tc_example_children_ok:
  "children_ok (ref_chain bals) (ref_astroport 0) tc_example_env (tc_example_children astroport_example)"
proof -
  let ?q = "[''liquid_pooler'', ''router_b'', ''forwarder_a'']"
  have fifo: "\<exists>q. try_fold fifo_enqueue fifo_new ?q = Ok q"
    using fifo.enq_all [of fifo_new ?q] by auto
  show ?thesis
    using fifo
    by (auto simp: children_ok_def tc_example_children_def tc_children_def tc_clock_init_def tc_holder_init_def
        tc_example_holder_def tc_example_splits_def tc_example_def astroport_example_def tc_example_env_def forwarder_children_def
        forwarder_init_def child_init_def option_list_def sent_Some Let_def ref_chain_ok half_share_arith clock_instantiate_def
        tp_instantiate_def ir_instantiate_def nr_instantiate_def fw_instantiate_def ap_instantiate_def
        astroport_to_instantiate_msg_def tp_config_validate_def ragequit_validate_def
        decimal_range_try_from_def enqueue_msg_def om_entries_def party_destination_def privileged_accounts_new_def
        split_validate_def om_get_def ref_ordering_def)
qed

theorem tc_deploys_witness:
  "\<exists>ms st ck. tc_instantiate (ref_chain (\<lambda>_ _. 0)) tc_example_env (tc_example astroport_example) = Ok (ms, st) \<and>
     deploy (ref_chain (\<lambda>_ _. 0)) (ref_astroport 0) tc_example_env ms = Ok ck \<and>
     set (fifo_elems (ck_queue ck)) = {''pol_holder'', ''liquid_pooler'', ''router_a'', ''router_b'', ''forwarder_a''}"
proof -
  let ?d = "ref_chain (\<lambda>_ _. 0)"
  from tc_example_instantiate obtain ms st where
    i: "tc_instantiate ?d tc_example_env (tc_example astroport_example) = Ok (ms, st)"
      "try_map (child_address ?d (map of_char ''covenant'')) ms = Ok (tc_example_children astroport_example)"
      "tc_contracts st = [''pol_holder'', ''liquid_pooler'', ''router_a'', ''router_b'', ''forwarder_a'']"
    by blast
  have c: "addr_canonicalize ?d (contract_address tc_example_env) = Ok (map of_char ''covenant'')"
    by (simp add: ref_chain_ok tc_example_env_def)
  obtain cfg where "tcm_liquid_pooler_config (tc_example astroport_example) = AstroportPooler cfg"
    by (simp add: tc_example_def astroport_example_def)
  from tc_deploys [OF ref_chain_ok(2,1) _ this i(1) c i(2) tc_example_children_ok] ref_chain_ok(3) i
  show ?thesis by auto
qed

theorem tc_osmosis_never_deploys_witness:
  "\<exists>ms st. tc_instantiate (ref_chain (\<lambda>_ _. 0)) tc_example_env (tc_example osmosis_example) = Ok (ms, st) \<and>
     (\<nexists>ck. deploy (ref_chain (\<lambda>_ _. 0)) (ref_astroport 0) tc_example_env ms = Ok ck)"
proof -
  let ?d = "ref_chain (\<lambda>_ _. 0)"
  from tc_example_instantiate obtain ms st where
    i: "tc_instantiate ?d tc_example_env (tc_example osmosis_example) = Ok (ms, st)" by blast
  obtain cfg where "tcm_liquid_pooler_config (tc_example osmosis_example) = OsmosisPooler cfg"
    by (simp add: tc_example_def osmosis_example_def Let_def)
  from tc_osmosis_never_deploys [OF ref_chain_ok(2,1) this i] i show ?thesis by blast
qed

end
