(* ===== verification/Single_Party_Covenant.thy ===== *)
theory Single_Party_Covenant
  imports Deployment
begin

text \<open>
  The single-party liquidity covenant (\<open>contracts/single-party-pol-covenant\<close>): it creates the
  clock, the liquid staker, the single-party holder, a liquid pooler, the remote-chain splitter,
  the router back to the party and up to two forwarders, and afterwards answers queries and
  forwards migrations.
\<close>

section \<open>State and messages\<close>

record pc_codes =
  pcc_ibc_forwarder :: u64
  pcc_holder :: u64
  pcc_clock :: u64
  pcc_remote_chain_splitter :: u64
  pcc_liquid_pooler :: u64
  pcc_liquid_staker :: u64
  pcc_interchain_router :: u64

record pc_state =
  pc_clock :: "addr option"
  pc_holder :: "addr option"
  pc_splitter :: "addr option"
  pc_liquid_pooler :: "addr option"
  pc_liquid_staker :: "addr option"
  pc_ls_forwarder :: "addr option"
  pc_lp_forwarder :: "addr option"
  pc_router :: "addr option"
  pc_codes_item :: "pc_codes option"

record ls_info =
  lsf_ls_denom :: denom
  lsf_ls_denom_on_neutron :: denom
  lsf_ls_chain_to_neutron_channel :: string
  lsf_ls_neutron_connection :: string

record remote_chain_splitter_config =
  rsc_channel_id :: string
  rsc_connection_id :: string
  rsc_denom :: denom
  rsc_amount :: u128
  rsc_ls_share :: decimal
  rsc_native_share :: decimal
  rsc_fallback_address :: "string option"

record pc_instantiate_msg =
  pcm_label :: string
  pcm_timeouts :: timeouts
  pcm_contract_codes :: pc_codes
  pcm_clock_tick_max_gas :: "u64 option"
  pcm_lockup_period :: expiration
  pcm_ls_info :: ls_info
  pcm_ls_forwarder_config :: covenant_party_config
  pcm_lp_forwarder_config :: covenant_party_config
  pcm_pool_price_config :: pool_price_config
  pcm_remote_chain_splitter_config :: remote_chain_splitter_config
  pcm_emergency_committee :: "string option"
  pcm_covenant_party_config :: interchain_covenant_party
  pcm_liquid_pooler_config :: liquid_pooler_config

record pc_migrate_contracts =
  pcu_codes :: "pc_codes option"
  pcu_clock :: "clock_migrate_msg option"
  pcu_holder :: "sp_migrate_msg option"
  pcu_ls_forwarder :: "fw_migrate_msg option"
  pcu_lp_forwarder :: "fw_migrate_msg option"
  pcu_splitter :: "rcs_migrate_msg option"
  pcu_liquid_pooler :: "liquid_pooler_migrate_msg option"
  pcu_liquid_staker :: "ls_migrate_msg option"
  pcu_router :: "ir_migrate_msg option"

datatype pc_migrate_msg = PcMigrateContracts pc_migrate_contracts | PcUpdateCodeId

datatype pc_query_msg =
    PcQClock | PcQHolder | PcQForwarder string | PcQLiquidPooler | PcQLiquidStaker | PcQSplitter
  | PcQPartyDeposit | PcQRouter | PcQCodes

datatype pc_query_reply = PcRAddr "addr option" | PcRCodes pc_codes

section \<open>Entry points\<close>

text \<open>Inserting into a \<open>BTreeSet\<close>, kept as the sorted list of its elements.\<close>

definition bset_insert :: "'a::linorder list \<Rightarrow> 'a \<Rightarrow> 'a list" where
  "bset_insert xs x = (if x \<in> set xs then xs else insort x xs)"

text \<open>The forwarder of an interchain configuration; the address is predicted in any case.\<close>

definition pc_forwarder_msg ::
    "covenant_party_config \<Rightarrow> timeouts \<Rightarrow> addr \<Rightarrow> addr \<Rightarrow> instantiate2_helper_config \<Rightarrow> string \<Rightarrow> string
     \<Rightarrow> instantiate2_msg option" where
  "pc_forwarder_msg p ts clock_addr next_addr helper admin label =
     (case p of
        InterchainParty cfg \<Rightarrow>
          Some (to_instantiate2_msg (forwarder_init cfg ts clock_addr next_addr (icp_fallback_address cfg)) helper admin label)
      | NativeParty _ \<Rightarrow> None)"

definition pc_split :: "pc_instantiate_msg \<Rightarrow> addr \<Rightarrow> addr \<Rightarrow> split_config" where
  "pc_split msg fls flp =
     (let sc = pcm_remote_chain_splitter_config msg in
      \<lparr>receivers = om_insert (om_insert [] fls (rsc_ls_share sc)) flp (rsc_native_share sc)\<rparr>)"

definition pc_splitter_init :: "pc_instantiate_msg \<Rightarrow> addr \<Rightarrow> addr \<Rightarrow> addr \<Rightarrow> rcs_instantiate_msg" where
  "pc_splitter_init msg clock fls flp =
     (let sc = pcm_remote_chain_splitter_config msg in
      \<lparr>rcsi_op_mode = PermissionedCfg [clock], rcsi_connection_id = rsc_connection_id sc,
       rcsi_channel_id = rsc_channel_id sc, rcsi_denom = rsc_denom sc, rcsi_amount = rsc_amount sc,
       rcsi_splits = om_insert [] (rsc_denom sc) (pc_split msg fls flp), rcsi_ica_timeout = ica_timeout_of (pcm_timeouts msg),
       rcsi_ibc_transfer_timeout = ibc_transfer_timeout_of (pcm_timeouts msg), rcsi_fallback = rsc_fallback_address sc\<rparr>)"

definition pc_staker_init :: "pc_instantiate_msg \<Rightarrow> addr \<Rightarrow> addr \<Rightarrow> ls_instantiate_msg" where
  "pc_staker_init msg clock pooler =
     (let ls = pcm_ls_info msg in
      \<lparr>lsi_clock = clock, lsi_channel_id = lsf_ls_chain_to_neutron_channel ls,
       lsi_connection_id = lsf_ls_neutron_connection ls, lsi_next_contract = pooler, lsi_ls_denom = lsf_ls_denom ls,
       lsi_ica_timeout = ica_timeout_of (pcm_timeouts msg),
       lsi_ibc_transfer_timeout = ibc_transfer_timeout_of (pcm_timeouts msg)\<rparr>)"

definition pc_holder_init :: "pc_instantiate_msg \<Rightarrow> addr \<Rightarrow> addr \<Rightarrow> sp_instantiate_msg" where
  "pc_holder_init msg pooler rtr =
     \<lparr>spi_withdrawer = icp_addr (pcm_covenant_party_config msg), spi_withdraw_to = rtr,
      spi_committee = pcm_emergency_committee msg, spi_pooler = pooler, spi_lockup = pcm_lockup_period msg\<rparr>"

definition pc_router_init :: "pc_instantiate_msg \<Rightarrow> addr \<Rightarrow> ir_instantiate_msg" where
  "pc_router_init msg clock =
     \<lparr>iri_clock = clock, iri_destination = party_destination (pcm_covenant_party_config msg),
      iri_denoms = bset_insert (bset_insert [] (lsf_ls_denom_on_neutron (pcm_ls_info msg)))
        (icp_native_denom (pcm_covenant_party_config msg))\<rparr>"

definition pc_instantiate ::
    "deps \<Rightarrow> env \<Rightarrow> pc_instantiate_msg \<Rightarrow> (instantiate2_msg list \<times> pc_state, std_error) result" where
  "pc_instantiate d env msg =
     (let self = contract_address env; codes = pcm_contract_codes msg; label = pcm_label msg in
     and_then (addr_canonicalize d self) (\<lambda>creator.
     and_then (get_instantiate2_salt_and_address d ''clock'' creator (pcc_clock codes)) (\<lambda>clock.
     and_then (get_instantiate2_salt_and_address d ''remote_chain_splitter'' creator (pcc_remote_chain_splitter codes)) (\<lambda>splitter.
     and_then (get_instantiate2_salt_and_address d ''ls_forwarder'' creator (pcc_ibc_forwarder codes)) (\<lambda>ls_forwarder.
     and_then (get_instantiate2_salt_and_address d ''lp_forwarder'' creator (pcc_ibc_forwarder codes)) (\<lambda>lp_forwarder.
     and_then (get_instantiate2_salt_and_address d ''liquid_staker'' creator (pcc_liquid_staker codes)) (\<lambda>staker.
     and_then (get_instantiate2_salt_and_address d ''liquid_pooler'' creator (pcc_liquid_pooler codes)) (\<lambda>pooler.
     and_then (get_instantiate2_salt_and_address d ''pol_holder'' creator (pcc_holder codes)) (\<lambda>holder.
     and_then (get_instantiate2_salt_and_address d ''router'' creator (pcc_interchain_router codes)) (\<lambda>rtr.
     let clock_whitelist = [i2h_addr staker, i2h_addr holder, i2h_addr rtr];
         queue0 = [i2h_addr splitter, i2h_addr pooler];
         router_msg = to_instantiate2_msg (InterchainRouterInit (pc_router_init msg (i2h_addr clock)))
           rtr self (label @ ''_interchain_router'');
         holder_msg = to_instantiate2_msg (SinglePartyHolderInit (pc_holder_init msg (i2h_addr pooler) (i2h_addr rtr)))
           holder self (label @ ''_holder'');
         staker_msg = to_instantiate2_msg (StakerInit (pc_staker_init msg (i2h_addr clock) (i2h_addr pooler)))
           staker self (label @ ''_liquid_staker'');
         pooler_msg = pooler_to_instantiate2_msg (pcm_liquid_pooler_config msg) pooler self (label @ ''_liquid_pooler'')
           (i2h_addr clock) (i2h_addr holder) (pcm_pool_price_config msg);
         splitter_msg = to_instantiate2_msg
           (RemoteSplitterInit (pc_splitter_init msg (i2h_addr clock) (i2h_addr ls_forwarder) (i2h_addr lp_forwarder)))
           splitter self (label @ ''_remote_chain_splitter'');
         ls_msg = pc_forwarder_msg (pcm_ls_forwarder_config msg) (pcm_timeouts msg) (i2h_addr clock) (i2h_addr staker)
           ls_forwarder self (label @ ''_ls_ibc_forwarder'');
         lp_msg = pc_forwarder_msg (pcm_lp_forwarder_config msg) (pcm_timeouts msg) (i2h_addr clock) (i2h_addr pooler)
           lp_forwarder self (label @ ''_lp_ibc_forwarder'');
         queue1 = (if ls_msg = None then queue0 else i2h_addr ls_forwarder # queue0);
         queue2 = (if lp_msg = None then queue1 else i2h_addr lp_forwarder # queue1);
         clock_msg = clock_to_instantiate2_msg
           \<lparr>cki_tick_max_gas = pcm_clock_tick_max_gas msg, cki_whitelist = clock_whitelist, cki_initial_queue = queue2\<rparr>
           (i2h_code clock) (i2h_salt clock) self (label @ ''-clock'') in
       Ok ([clock_msg, staker_msg, holder_msg, pooler_msg, splitter_msg, router_msg] @ option_list ls_msg @ option_list lp_msg,
           \<lparr>pc_clock = Some (i2h_addr clock), pc_holder = Some (i2h_addr holder), pc_splitter = Some (i2h_addr splitter),
            pc_liquid_pooler = Some (i2h_addr pooler), pc_liquid_staker = Some (i2h_addr staker),
            pc_ls_forwarder = Some (i2h_addr ls_forwarder), pc_lp_forwarder = Some (i2h_addr lp_forwarder),
            pc_router = Some (i2h_addr rtr), pc_codes_item = Some codes\<rparr>)))))))))))"

definition pc_query :: "deps \<Rightarrow> pc_query_msg \<Rightarrow> pc_state \<Rightarrow> (pc_query_reply, std_error) result" where
  "pc_query d msg st =
     (case msg of
        PcQClock \<Rightarrow> Ok (PcRAddr (pc_clock st))
      | PcQHolder \<Rightarrow> Ok (PcRAddr (pc_holder st))
      | PcQForwarder ty \<Rightarrow>
          if ty = ''lp'' then Ok (PcRAddr (pc_lp_forwarder st))
          else if ty = ''ls'' then Ok (PcRAddr (pc_ls_forwarder st))
          else Err (NotFound ''unknown type'')
      | PcQLiquidStaker \<Rightarrow> Ok (PcRAddr (pc_liquid_staker st))
      | PcQLiquidPooler \<Rightarrow> Ok (PcRAddr (pc_liquid_pooler st))
      | PcQRouter \<Rightarrow> Ok (PcRAddr (pc_router st))
      | PcQSplitter \<Rightarrow> and_then (load (pc_splitter st)) (\<lambda>a. Ok (PcRAddr (Some a)))
      | PcQPartyDeposit \<Rightarrow>
          and_then (load (pc_splitter st)) (\<lambda>splitter_address.
          and_then (query_deposit_address d splitter_address) (\<lambda>ica. Ok (PcRAddr ica)))
      | PcQCodes \<Rightarrow> and_then (load (pc_codes_item st)) (\<lambda>c. Ok (PcRCodes c)))"

definition pc_migrate :: "pc_migrate_msg \<Rightarrow> pc_state \<Rightarrow> (wasm_migrate list \<times> pc_state, std_error) result" where
  "pc_migrate msg st =
     (case msg of
        PcMigrateContracts u \<Rightarrow>
          let st1 = (case pcu_codes u of Some c \<Rightarrow> st\<lparr>pc_codes_item := Some c\<rparr> | None \<Rightarrow> st) in
          and_then (load (pc_codes_item st1)) (\<lambda>codes.
          and_then (migrate_all
              [(pc_clock st1, pcc_clock codes, map_option ClockMigration (pcu_clock u)),
               (pc_ls_forwarder st1, pcc_ibc_forwarder codes, map_option ForwarderMigration (pcu_ls_forwarder u)),
               (pc_lp_forwarder st1, pcc_ibc_forwarder codes, map_option ForwarderMigration (pcu_lp_forwarder u)),
               (pc_liquid_pooler st1, pcc_liquid_pooler codes, map_option pooler_migration (pcu_liquid_pooler u)),
               (pc_liquid_staker st1, pcc_liquid_staker codes, map_option StakerMigration (pcu_liquid_staker u)),
               (pc_splitter st1, pcc_remote_chain_splitter codes, map_option RemoteSplitterMigration (pcu_splitter u)),
               (pc_holder st1, pcc_holder codes, map_option SinglePartyHolderMigration (pcu_holder u)),
               (pc_router st1, pcc_interchain_router codes, map_option InterchainRouterMigration (pcu_router u))]) (\<lambda>msgs.
            Ok (msgs, st1)))
      | PcUpdateCodeId \<Rightarrow> Ok ([], st))"

section \<open>What an instantiation creates\<close>

definition pc_forwarder_children ::
    "covenant_party_config \<Rightarrow> timeouts \<Rightarrow> addr \<Rightarrow> addr \<Rightarrow> addr \<Rightarrow> (addr \<times> init_msg) list" where
  "pc_forwarder_children p ts clock_addr next_addr a =
     (case p of
        InterchainParty cfg \<Rightarrow> [(a, forwarder_init cfg ts clock_addr next_addr (icp_fallback_address cfg))]
      | NativeParty _ \<Rightarrow> [])"

definition pc_queue :: "pc_instantiate_msg \<Rightarrow> addr \<Rightarrow> addr \<Rightarrow> addr \<Rightarrow> addr \<Rightarrow> addr list" where
  "pc_queue msg splitter pooler fls flp =
     (if is_native (pcm_lp_forwarder_config msg) then [] else [flp]) @
     (if is_native (pcm_ls_forwarder_config msg) then [] else [fls]) @ [splitter, pooler]"

definition pc_children ::
    "pc_instantiate_msg \<Rightarrow> addr \<Rightarrow> addr \<Rightarrow> addr \<Rightarrow> addr \<Rightarrow> addr \<Rightarrow> addr \<Rightarrow> addr \<Rightarrow> addr \<Rightarrow> (addr \<times> init_msg) list" where
  "pc_children msg clock staker holder pooler splitter rtr fls flp =
     [(staker, StakerInit (pc_staker_init msg clock pooler)), (holder, SinglePartyHolderInit (pc_holder_init msg pooler rtr)),
      (pooler, pooler_init (pcm_liquid_pooler_config msg) clock holder (pcm_pool_price_config msg)),
      (splitter, RemoteSplitterInit (pc_splitter_init msg clock fls flp)),
      (rtr, InterchainRouterInit (pc_router_init msg clock))] @
     pc_forwarder_children (pcm_ls_forwarder_config msg) (pcm_timeouts msg) clock staker fls @
     pc_forwarder_children (pcm_lp_forwarder_config msg) (pcm_timeouts msg) clock pooler flp"

lemma pc_forwarder_msg_children:
  assumes "get_instantiate2_salt_and_address d salt creator code = Ok h"
  shows "try_map (child_address d creator) (option_list (pc_forwarder_msg p ts ca na h admin label)) =
      Ok (pc_forwarder_children p ts ca na (i2h_addr h))"
    and "pc_forwarder_msg p ts ca na h admin label = None \<longleftrightarrow> is_native p"
  using assms by (simp_all add: pc_forwarder_msg_def pc_forwarder_children_def option_list_def child_address_helper
      split: covenant_party_config.splits)

definition pc_clock_init :: "pc_instantiate_msg \<Rightarrow> addr \<Rightarrow> addr \<Rightarrow> addr \<Rightarrow> addr \<Rightarrow> addr \<Rightarrow> addr \<Rightarrow> addr \<Rightarrow> clock_instantiate_msg" where
  "pc_clock_init msg staker holder pooler splitter rtr fls flp =
     \<lparr>cki_tick_max_gas = pcm_clock_tick_max_gas msg, cki_whitelist = [staker, holder, rtr],
      cki_initial_queue = pc_queue msg splitter pooler fls flp\<rparr>"

lemma pc_instantiate_view:
  assumes "pc_instantiate d env msg = Ok (ms, st)"
  obtains creator clock staker holder pooler splitter rtr fls flp where
    "addr_canonicalize d (contract_address env) = Ok creator"
    "try_map (child_address d creator) ms =
       Ok ((clock, ClockInit (pc_clock_init msg staker holder pooler splitter rtr fls flp)) #
           pc_children msg clock staker holder pooler splitter rtr fls flp)"
    "st = \<lparr>pc_clock = Some clock, pc_holder = Some holder, pc_splitter = Some splitter, pc_liquid_pooler = Some pooler,
           pc_liquid_staker = Some staker, pc_ls_forwarder = Some fls, pc_lp_forwarder = Some flp, pc_router = Some rtr,
           pc_codes_item = Some (pcm_contract_codes msg)\<rparr>"
    "unique_addresses d \<Longrightarrow> distinct [clock, staker, holder, pooler, splitter, rtr, fls, flp]"
proof -
  let ?self = "contract_address env" and ?codes = "pcm_contract_codes msg"
  let ?fls = "\<lambda>hc hst hls. pc_forwarder_msg (pcm_ls_forwarder_config msg) (pcm_timeouts msg) (i2h_addr hc) (i2h_addr hst)
           hls ?self (pcm_label msg @ ''_ls_ibc_forwarder'')"
  let ?flp = "\<lambda>hc hp hlp. pc_forwarder_msg (pcm_lp_forwarder_config msg) (pcm_timeouts msg) (i2h_addr hc) (i2h_addr hp)
           hlp ?self (pcm_label msg @ ''_lp_ibc_forwarder'')"
  from assms obtain creator hc hs hls hlp hst hp hh hr where
    c: "addr_canonicalize d ?self = Ok creator"
    and h: "get_instantiate2_salt_and_address d ''clock'' creator (pcc_clock ?codes) = Ok hc"
      "get_instantiate2_salt_and_address d ''remote_chain_splitter'' creator (pcc_remote_chain_splitter ?codes) = Ok hs"
      "get_instantiate2_salt_and_address d ''ls_forwarder'' creator (pcc_ibc_forwarder ?codes) = Ok hls"
      "get_instantiate2_salt_and_address d ''lp_forwarder'' creator (pcc_ibc_forwarder ?codes) = Ok hlp"
      "get_instantiate2_salt_and_address d ''liquid_staker'' creator (pcc_liquid_staker ?codes) = Ok hst"
      "get_instantiate2_salt_and_address d ''liquid_pooler'' creator (pcc_liquid_pooler ?codes) = Ok hp"
      "get_instantiate2_salt_and_address d ''pol_holder'' creator (pcc_holder ?codes) = Ok hh"
      "get_instantiate2_salt_and_address d ''router'' creator (pcc_interchain_router ?codes) = Ok hr"
    by (auto simp: pc_instantiate_def Let_def and_then_eq_Ok)
  note none = pc_forwarder_msg_children(2) [OF h(3)] pc_forwarder_msg_children(2) [OF h(4)]
  let ?queue = "pc_queue msg (i2h_addr hs) (i2h_addr hp) (i2h_addr hls) (i2h_addr hlp)"
  from assms c h have
    ms: "ms = [clock_to_instantiate2_msg (pc_clock_init msg (i2h_addr hst) (i2h_addr hh) (i2h_addr hp) (i2h_addr hs) (i2h_addr hr)
             (i2h_addr hls) (i2h_addr hlp)) (i2h_code hc) (i2h_salt hc) ?self (pcm_label msg @ ''-clock''),
         to_instantiate2_msg (StakerInit (pc_staker_init msg (i2h_addr hc) (i2h_addr hp))) hst ?self (pcm_label msg @ ''_liquid_staker''),
         to_instantiate2_msg (SinglePartyHolderInit (pc_holder_init msg (i2h_addr hp) (i2h_addr hr))) hh ?self (pcm_label msg @ ''_holder''),
         pooler_to_instantiate2_msg (pcm_liquid_pooler_config msg) hp ?self (pcm_label msg @ ''_liquid_pooler'')
           (i2h_addr hc) (i2h_addr hh) (pcm_pool_price_config msg),
         to_instantiate2_msg (RemoteSplitterInit (pc_splitter_init msg (i2h_addr hc) (i2h_addr hls) (i2h_addr hlp))) hs ?self
           (pcm_label msg @ ''_remote_chain_splitter''),
         to_instantiate2_msg (InterchainRouterInit (pc_router_init msg (i2h_addr hc))) hr ?self (pcm_label msg @ ''_interchain_router'')] @
         option_list (?fls hc hst hls) @ option_list (?flp hc hp hlp)"
    and st: "st = \<lparr>pc_clock = Some (i2h_addr hc), pc_holder = Some (i2h_addr hh), pc_splitter = Some (i2h_addr hs),
           pc_liquid_pooler = Some (i2h_addr hp), pc_liquid_staker = Some (i2h_addr hst), pc_ls_forwarder = Some (i2h_addr hls),
           pc_lp_forwarder = Some (i2h_addr hlp), pc_router = Some (i2h_addr hr), pc_codes_item = Some ?codes\<rparr>"
    by (auto simp: pc_instantiate_def Let_def none pc_clock_init_def pc_queue_def pc_staker_init_def pc_holder_init_def
        pc_splitter_init_def pc_split_def pc_router_init_def)
  have "distinct [i2h_addr hc, i2h_addr hst, i2h_addr hh, i2h_addr hp, i2h_addr hs, i2h_addr hr, i2h_addr hls, i2h_addr hlp]"
    if u: "unique_addresses d"
    using predicted_distinct [OF u, of creator "[(''clock'', i2h_addr hc), (''liquid_staker'', i2h_addr hst), (''pol_holder'', i2h_addr hh),
        (''liquid_pooler'', i2h_addr hp), (''remote_chain_splitter'', i2h_addr hs), (''router'', i2h_addr hr),
        (''ls_forwarder'', i2h_addr hls), (''lp_forwarder'', i2h_addr hlp)]"] h [THEN predictedI] by simp
  moreover have "try_map (child_address d creator) ms =
       Ok ((i2h_addr hc, ClockInit (pc_clock_init msg (i2h_addr hst) (i2h_addr hh) (i2h_addr hp) (i2h_addr hs) (i2h_addr hr) (i2h_addr hls) (i2h_addr hlp))) #
           pc_children msg (i2h_addr hc) (i2h_addr hst) (i2h_addr hh) (i2h_addr hp) (i2h_addr hs) (i2h_addr hr) (i2h_addr hls) (i2h_addr hlp))"
    using h pc_forwarder_msg_children(1) [OF h(3)] pc_forwarder_msg_children(1) [OF h(4)] unfolding ms
    by (simp add: try_map_append child_address_helper pc_children_def pooler_to_instantiate2_msg_def)
  ultimately show thesis using c st by (intro that) auto
qed

section \<open>Properties\<close>

lemma pc_forwarder_children_simps:
  "enqueuers (pc_forwarder_children p ts ca na a) = []"
  "(b, m) \<in> set (pc_forwarder_children p ts ca na a) \<Longrightarrow> enqueues_at m = None"
  "map fst (pc_forwarder_children p ts ca na a) = (if is_native p then [] else [a])"
  by (auto simp: pc_forwarder_children_def forwarder_init_def split: covenant_party_config.splits)

lemma pc_enqueuers:
  "enqueuers (pc_children msg clock staker holder pooler splitter rtr fls flp) =
     staker # (case pcm_liquid_pooler_config msg of OsmosisPooler _ \<Rightarrow> [pooler] | AstroportPooler _ \<Rightarrow> []) @ [rtr]"
  by (simp add: pc_children_def pc_forwarder_children_simps(1) pooler_init_enqueues split: liquid_pooler_config.split)

lemma pc_children_clock:
  "\<forall>(a, m)\<in>set (pc_children msg clock staker holder pooler splitter rtr fls flp). enqueues_at m \<in> {None, Some clock}"
  by (auto simp: pc_children_def pc_staker_init_def pc_router_init_def Let_def pooler_init_enqueues
      dest: pc_forwarder_children_simps(2) split: liquid_pooler_config.split)

text \<open>
  Claim C20: a single-party covenant can be deployed exactly with an Astroport pooler. If the instantiation
  succeeds and every created contract accepts its own parameters, then with an Astroport pooler
  the deployment succeeds, and the clock's queue holds the staker, the splitter, the pooler, the
  router and the forwarders that were asked for, each once; with an Osmosis pooler, which is
  queued by the covenant and enqueues itself again when it is created, the deployment fails as a
  whole.
\<close>

theorem pc_deploys_iff_astroport:
  assumes "addr_validate_spec d" and "unique_addresses d" and "\<forall>a. query_wasm_contract_info d a = Ok ()"
    and "pc_instantiate d env msg = Ok (ms, st)" and "addr_canonicalize d (contract_address env) = Ok creator"
    and "try_map (child_address d creator) ms = Ok children" and "children_ok d ax env children"
  shows "case pcm_liquid_pooler_config msg of
      AstroportPooler _ \<Rightarrow> \<exists>ck. deploy d ax env ms = Ok ck \<and> fifo_inv (ck_queue ck) \<and> distinct (fifo_elems (ck_queue ck)) \<and>
        Some ` set (fifo_elems (ck_queue ck)) =
          {pc_liquid_staker st, pc_splitter st, pc_liquid_pooler st, pc_router st} \<union>
          (if is_native (pcm_ls_forwarder_config msg) then {} else {pc_ls_forwarder st}) \<union>
          (if is_native (pcm_lp_forwarder_config msg) then {} else {pc_lp_forwarder st})
    | OsmosisPooler _ \<Rightarrow> \<nexists>ck. deploy d ax env ms = Ok ck"
  using assms(4)
proof (rule pc_instantiate_view)
  fix creator' clock staker holder pooler splitter rtr fls flp
  let ?ci = "pc_clock_init msg staker holder pooler splitter rtr fls flp"
  let ?cs = "pc_children msg clock staker holder pooler splitter rtr fls flp"
  let ?q = "cki_initial_queue ?ci @ enqueuers ?cs"
  let ?p = "pooler_init (pcm_liquid_pooler_config msg) clock holder (pcm_pool_price_config msg)"
  assume c: "addr_canonicalize d (contract_address env) = Ok creator'"
    and ch: "try_map (child_address d creator') ms = Ok ((clock, ClockInit ?ci) # ?cs)"
    and st: "st = \<lparr>pc_clock = Some clock, pc_holder = Some holder, pc_splitter = Some splitter, pc_liquid_pooler = Some pooler,
           pc_liquid_staker = Some staker, pc_ls_forwarder = Some fls, pc_lp_forwarder = Some flp, pc_router = Some rtr,
           pc_codes_item = Some (pcm_contract_codes msg)\<rparr>"
    and "unique_addresses d \<Longrightarrow> distinct [clock, staker, holder, pooler, splitter, rtr, fls, flp]"
  with assms(2) have dist: "distinct [clock, staker, holder, pooler, splitter, rtr, fls, flp]" by blast
  from c assms(5,6) ch have children: "children = (clock, ClockInit ?ci) # ?cs" by simp
  show ?thesis
  proof (cases "pcm_liquid_pooler_config msg")
    case (AstroportPooler cfg)
    have q: "distinct ?q" using dist AstroportPooler by (auto simp: pc_clock_init_def pc_queue_def pc_enqueuers)
    have "\<exists>ck. deploy d ax env ms = Ok ck \<and> clock_runs (cki_whitelist ?ci) ?q ck"
    proof (rule deploy_succeeds [OF assms(1) c ch _ q])
      show "children_ok d ax env ((clock, ClockInit ?ci) # ?cs)" using assms(7) children by simp
      show "set (enqueuers ?cs) \<subseteq> set (cki_whitelist ?ci)" using AstroportPooler by (auto simp: pc_clock_init_def pc_enqueuers)
      show "length ?q < 2 ^ 64" using AstroportPooler by (simp add: pc_clock_init_def pc_queue_def pc_enqueuers)
    qed (use assms(3) pc_children_clock in blast)+
    moreover have "Some ` set ?q = {Some staker, Some splitter, Some pooler, Some rtr} \<union>
        (if is_native (pcm_ls_forwarder_config msg) then {} else {Some fls}) \<union>
        (if is_native (pcm_lp_forwarder_config msg) then {} else {Some flp})"
      using AstroportPooler by (auto simp: pc_clock_init_def pc_queue_def pc_enqueuers)
    ultimately show ?thesis using AstroportPooler q st by (auto simp: clock_runs_def)
  next
    case (OsmosisPooler cfg)
    have "deploy d ax env ms \<noteq> Ok ck" for ck
    proof (rule deploy_fails [OF assms(1) c ch])
      show "distinct (cki_initial_queue ?ci)" using dist by (auto simp: pc_clock_init_def pc_queue_def)
      show "length (cki_initial_queue ?ci) < 2 ^ 64" by (simp add: pc_clock_init_def pc_queue_def)
      show "pooler \<in> set (cki_initial_queue ?ci)" by (simp add: pc_clock_init_def pc_queue_def)
      show "(pooler, ?p) \<in> set ?cs" by (simp add: pc_children_def)
      show "enqueues_at ?p = Some clock" unfolding pooler_init_enqueues OsmosisPooler by simp
    qed (rule pc_children_clock)
    then show ?thesis using OsmosisPooler by simp
  qed
qed


section \<open>Migrations\<close>

definition pc_plan :: "pc_migrate_msg \<Rightarrow> pc_state \<Rightarrow> (addr option \<times> u64 \<times> migration option) list" where
  "pc_plan msg st =
     (case (msg, pc_codes_item st) of
        (PcMigrateContracts u, Some codes) \<Rightarrow>
          [(pc_clock st, pcc_clock codes, map_option ClockMigration (pcu_clock u)),
           (pc_ls_forwarder st, pcc_ibc_forwarder codes, map_option ForwarderMigration (pcu_ls_forwarder u)),
           (pc_lp_forwarder st, pcc_ibc_forwarder codes, map_option ForwarderMigration (pcu_lp_forwarder u)),
           (pc_liquid_pooler st, pcc_liquid_pooler codes, map_option pooler_migration (pcu_liquid_pooler u)),
           (pc_liquid_staker st, pcc_liquid_staker codes, map_option StakerMigration (pcu_liquid_staker u)),
           (pc_splitter st, pcc_remote_chain_splitter codes, map_option RemoteSplitterMigration (pcu_splitter u)),
           (pc_holder st, pcc_holder codes, map_option SinglePartyHolderMigration (pcu_holder u)),
           (pc_router st, pcc_interchain_router codes, map_option InterchainRouterMigration (pcu_router u))]
      | _ \<Rightarrow> [])"

definition pc_registered :: "pc_state \<Rightarrow> addr option list" where
  "pc_registered st = [pc_clock st, pc_ls_forwarder st, pc_lp_forwarder st, pc_liquid_pooler st, pc_liquid_staker st,
     pc_splitter st, pc_holder st, pc_router st]"

interpretation pc: covenant_registry pc_migrate pc_plan pc_registered
proof
  fix m st ms st'
  assume "pc_migrate m st = Ok (ms, st')"
  then show "migrate_all (pc_plan m st') = Ok ms \<and> pc_registered st' = pc_registered st"
    by (cases m) (auto simp: pc_migrate_def pc_plan_def pc_registered_def Let_def and_then_eq_Ok load_eq
        simp del: migrate_all.simps(2,3) split: option.splits)
qed (auto simp: pc_plan_def pc_registered_def split: pc_migrate_msg.splits option.splits)

section \<open>An example\<close>

text \<open>A party on another chain stakes half of its funds and pools the rest; both forwarders are needed.\<close>

definition pc_example_party :: "string \<Rightarrow> interchain_covenant_party" where
  "pc_example_party dn = \<lparr>icp_receiver = ''alice'', icp_connection_id = ''connection-1'', icp_ibc_transfer_timeout = 100,
     icp_party_to_host_channel = ''channel-1'', icp_host_to_party_channel = ''channel-2'', icp_remote_chain_denom = dn,
     icp_addr = ''alice-n'', icp_native_denom = ''untrn'', icp_contribution = \<lparr>coin_denom = dn, coin_amount = 50\<rparr>,
     icp_pfm_map = [], icp_fallback_address = None\<rparr>"

definition pc_example :: "liquid_pooler_config \<Rightarrow> pc_instantiate_msg" where
  "pc_example pool =
     \<lparr>pcm_label = ''single'', pcm_timeouts = default_timeouts,
      pcm_contract_codes = \<lparr>pcc_ibc_forwarder = 1, pcc_holder = 2, pcc_clock = 3, pcc_remote_chain_splitter = 4,
        pcc_liquid_pooler = 5, pcc_liquid_staker = 6, pcc_interchain_router = 7\<rparr>,
      pcm_clock_tick_max_gas = None, pcm_lockup_period = AtHeight 1000,
      pcm_ls_info = \<lparr>lsf_ls_denom = ''stuatom'', lsf_ls_denom_on_neutron = ''nstuatom'',
        lsf_ls_chain_to_neutron_channel = ''channel-3'', lsf_ls_neutron_connection = ''connection-2''\<rparr>,
      pcm_ls_forwarder_config = InterchainParty (pc_example_party ''uatom''),
      pcm_lp_forwarder_config = InterchainParty (pc_example_party ''uatom''),
      pcm_pool_price_config = \<lparr>expected_spot_price = dec_one, acceptable_price_spread = half_share\<rparr>,
      pcm_remote_chain_splitter_config = \<lparr>rsc_channel_id = ''channel-1'', rsc_connection_id = ''connection-1'',
        rsc_denom = ''uatom'', rsc_amount = 100, rsc_ls_share = half_share, rsc_native_share = half_share,
        rsc_fallback_address = None\<rparr>,
      pcm_emergency_committee = None, pcm_covenant_party_config = pc_example_party ''uatom'',
      pcm_liquid_pooler_config = pool\<rparr>"

definition pc_example_env :: env where
  "pc_example_env = \<lparr>env_block = \<lparr>block_height = 5, block_time = 1000\<rparr>, contract_address = ''covenant''\<rparr>"

definition pc_example_children :: "liquid_pooler_config \<Rightarrow> (addr \<times> init_msg) list" where
  "pc_example_children pool =
     (''clock'', ClockInit (pc_clock_init (pc_example pool) ''liquid_staker'' ''pol_holder'' ''liquid_pooler''
        ''remote_chain_splitter'' ''router'' ''ls_forwarder'' ''lp_forwarder'')) #
     pc_children (pc_example pool) ''clock'' ''liquid_staker'' ''pol_holder'' ''liquid_pooler'' ''remote_chain_splitter''
       ''router'' ''ls_forwarder'' ''lp_forwarder''"

lemma pc_example_instantiate:
  "\<exists>ms st. pc_instantiate (ref_chain bals) pc_example_env (pc_example pool) = Ok (ms, st) \<and>
     addr_canonicalize (ref_chain bals) (contract_address pc_example_env) = Ok (map of_char ''covenant'') \<and>
     try_map (child_address (ref_chain bals) (map of_char ''covenant'')) ms = Ok (pc_example_children pool) \<and>
     pc_liquid_staker st = Some ''liquid_staker'' \<and> pc_splitter st = Some ''remote_chain_splitter'' \<and>
     pc_liquid_pooler st = Some ''liquid_pooler'' \<and> pc_router st = Some ''router'' \<and>
     pc_ls_forwarder st = Some ''ls_forwarder'' \<and> pc_lp_forwarder st = Some ''lp_forwarder''"
proof -
  have [simp]: "pcm_ls_forwarder_config (pc_example pool) = InterchainParty (pc_example_party ''uatom'')"
    "pcm_lp_forwarder_config (pc_example pool) = InterchainParty (pc_example_party ''uatom'')"
    by (simp_all add: pc_example_def)
  show ?thesis
    by (simp add: pc_instantiate_def Let_def ref_chain_ok ref_chain_address pc_example_env_def pc_forwarder_msg_def
        pooler_to_instantiate2_msg_def option_list_def ref_chain_child pc_example_children_def pc_children_def
        pc_forwarder_children_def pc_clock_init_def pc_queue_def pc_staker_init_def pc_holder_init_def pc_splitter_init_def
        pc_split_def pc_router_init_def to_instantiate2_msg_def clock_to_instantiate2_msg_def char_of_def bit_0)
qed

lemma pc_example_children_ok:
  "children_ok (ref_chain bals) (ref_astroport 0) pc_example_env (pc_example_children astroport_example)"
proof -
  let ?q = "[''lp_forwarder'', ''ls_forwarder'', ''remote_chain_splitter'', ''liquid_pooler'']"
  have fifo: "\<exists>q. try_fold fifo_enqueue fifo_new ?q = Ok q"
    using fifo.enq_all [of fifo_new ?q] by auto
  show ?thesis
    using fifo
    by (auto simp: children_ok_def pc_example_children_def pc_children_def pc_clock_init_def pc_queue_def pc_holder_init_def
        pc_staker_init_def pc_splitter_init_def pc_split_def pc_router_init_def pc_forwarder_children_def
        pc_example_party_def pc_example_def astroport_example_def pc_example_env_def
        forwarder_init_def child_init_def sent_Some Let_def ref_chain_ok half_share_arith clock_instantiate_def
        sp_instantiate_def ir_instantiate_def ls_instantiate_def fw_instantiate_def ap_instantiate_def rcs_instantiate_def
        rcs_save_split_def validate_shares_and_receiver_addresses_def
        astroport_to_instantiate_msg_def decimal_range_try_from_def enqueue_msg_def om_entries_def
        privileged_accounts_new_def)
qed

theorem pc_deploys_iff_astroport_witness:
  "\<exists>ms st ck. pc_instantiate (ref_chain (\<lambda>_ _. 0)) pc_example_env (pc_example astroport_example) = Ok (ms, st) \<and>
     deploy (ref_chain (\<lambda>_ _. 0)) (ref_astroport 0) pc_example_env ms = Ok ck \<and>
     ''liquid_pooler'' \<in> set (fifo_elems (ck_queue ck)) \<and> ''ls_forwarder'' \<in> set (fifo_elems (ck_queue ck))"
proof -
  let ?d = "ref_chain (\<lambda>_ _. 0)"
  from pc_example_instantiate obtain ms st where
    i: "pc_instantiate ?d pc_example_env (pc_example astroport_example) = Ok (ms, st)"
      "addr_canonicalize ?d (contract_address pc_example_env) = Ok (map of_char ''covenant'')"
      "try_map (child_address ?d (map of_char ''covenant'')) ms = Ok (pc_example_children astroport_example)"
      "pc_liquid_pooler st = Some ''liquid_pooler''" "pc_ls_forwarder st = Some ''ls_forwarder''"
    by blast
  have m: "\<exists>cfg. pcm_liquid_pooler_config (pc_example astroport_example) = AstroportPooler cfg"
    "\<not> is_native (pcm_ls_forwarder_config (pc_example astroport_example))"
    by (simp_all add: pc_example_def astroport_example_def)
  from pc_deploys_iff_astroport [OF ref_chain_ok(2,1) _ i(1-3) pc_example_children_ok] ref_chain_ok(3) m(1)
  obtain ck where ck: "deploy ?d (ref_astroport 0) pc_example_env ms = Ok ck"
    "{Some ''liquid_pooler'', Some ''ls_forwarder''} \<subseteq> Some ` set (fifo_elems (ck_queue ck))"
    using i(4,5) m(2) by auto
  then have "''liquid_pooler'' \<in> set (fifo_elems (ck_queue ck)) \<and> ''ls_forwarder'' \<in> set (fifo_elems (ck_queue ck))"
    by (simp add: image_iff)
  with i(1) ck(1) show ?thesis by blast
qed


end
