(* ===== verification/Swap_System.thy ===== *)
theory Swap_System
  imports Swap_Covenant
begin

text \<open>
  A swap covenant at work: its holder, splitter and two routers, ticked in any order while the
  rest of the chain goes on around them.

  The platform changes from call to call. What the bank does with the messages of a call is its
  documented behaviour: the coins leave the sender and reach the receivers (\<open>bank_settles\<close>).
  Between the calls everything else may happen (\<open>swap_step.elsewhere\<close>): time passes, the parties
  deposit, other accounts trade; only the splitter's account is touched by nobody else.
\<close>

section \<open>The system\<close>

datatype router_state = NativeRouterState nr_state | InterchainRouterState ir_state

fun router_tick :: "deps \<Rightarrow> env \<Rightarrow> message_info \<Rightarrow> router_state \<Rightarrow> cosmos_msg list option" where
  "router_tick d env info (NativeRouterState st) = sent (nr_execute d env info NrTick st)"
| "router_tick d env info (InterchainRouterState st) = sent (ir_execute d env info IrTick st)"

fun router_create :: "deps \<Rightarrow> init_msg \<Rightarrow> router_state option" where
  "router_create d (NativeRouterInit m) =
     (case nr_instantiate d m of Ok (r, st) \<Rightarrow> Some (NativeRouterState st) | _ \<Rightarrow> None)"
| "router_create d (InterchainRouterInit m) =
     (case ir_instantiate d m of Ok (r, st) \<Rightarrow> Some (InterchainRouterState st) | _ \<Rightarrow> None)"
| "router_create d m = None"

record swap_net =
  net_holder :: addr
  net_splitter :: addr
  net_router_a :: addr
  net_router_b :: addr
  net_split :: ns_state
  net_route_a :: router_state
  net_route_b :: router_state

text \<open>What changes: the platform, the holder, and the record of what each contract has sent.\<close>

record swap_system =
  sys_platform :: deps
  sys_holder :: sw_state
  sys_sent :: "(addr \<times> cosmos_msg list) list"

definition paid :: "(addr \<times> cosmos_msg list) list \<Rightarrow> addr \<Rightarrow> addr \<Rightarrow> denom \<Rightarrow> nat" where
  "paid log from to dn = (\<Sum>(f, ms)\<leftarrow>log. if f = from then total_to to dn ms else 0)"

definition ibc_fees :: "denom \<Rightarrow> cosmos_msg list \<Rightarrow> nat" where
  "ibc_fees dn ms = (\<Sum>m\<leftarrow>ms. case m of
     IbcTransfer t \<Rightarrow> coins_in dn (recv_fee (transfer_fee t) @ ack_fee (transfer_fee t) @ timeout_fee (transfer_fee t)) | _ \<Rightarrow> 0)"

definition bank_settles :: "addr \<Rightarrow> cosmos_msg list \<Rightarrow> deps \<Rightarrow> deps \<Rightarrow> bool" where
  "bank_settles self ms d d' \<longleftrightarrow>
     (\<forall>a dn. balance_of d' a dn + (if a = self then total_out dn ms + ibc_out dn ms + ibc_fees dn ms else 0) =
        balance_of d a dn + total_to a dn ms)"

text \<open>The deposit address a splitter reports to a contract that asks.\<close>

definition ns_deposit_reply :: "block_info \<Rightarrow> addr \<Rightarrow> ns_state \<Rightarrow> (addr option, std_error) result" where
  "ns_deposit_reply b self st =
     and_then (ns_query \<lparr>env_block = b, contract_address = self\<rparr> NsQDepositAddress st) (\<lambda>reply.
       case reply of NsRMaybeAddr a \<Rightarrow> Ok a | _ \<Rightarrow> Err (OtherStdErr ''ParseErr''))"

definition swap_platform :: "swap_net \<Rightarrow> deps \<Rightarrow> bool" where
  "swap_platform net d \<longleftrightarrow> multiply_ratio_spec d \<and> query_balance_spec d \<and>
     (\<forall>a dn. \<exists>c. query_balance d a dn = Ok c) \<and>
     (\<exists>b. query_deposit_address d (net_splitter net) = ns_deposit_reply b (net_splitter net) (net_split net))"

inductive swap_step :: "swap_net \<Rightarrow> swap_system \<Rightarrow> swap_system \<Rightarrow> bool" for net where
  elsewhere:
    "swap_platform net d \<Longrightarrow> \<forall>dn. balance_of d (net_splitter net) dn = balance_of (sys_platform s) (net_splitter net) dn \<Longrightarrow>
     swap_step net s (s\<lparr>sys_platform := d\<rparr>)"
| holder_tick:
    "contract_address env = net_holder net \<Longrightarrow>
     sw_execute (sys_platform s) env info SwTick (sys_holder s) = Ok (r, h) \<Longrightarrow>
     swap_platform net d \<Longrightarrow> bank_settles (net_holder net) (messages r) (sys_platform s) d \<Longrightarrow>
     swap_step net s \<lparr>sys_platform = d, sys_holder = h, sys_sent = (net_holder net, messages r) # sys_sent s\<rparr>"
| splitter_tick:
    "contract_address env = net_splitter net \<Longrightarrow>
     ns_execute (sys_platform s) env info NsTick (net_split net) = Ok (r, net_split net) \<Longrightarrow>
     swap_platform net d \<Longrightarrow> bank_settles (net_splitter net) (messages r) (sys_platform s) d \<Longrightarrow>
     swap_step net s (s\<lparr>sys_platform := d, sys_sent := (net_splitter net, messages r) # sys_sent s\<rparr>)"
| router_tick:
    "(self, rs) \<in> {(net_router_a net, net_route_a net), (net_router_b net, net_route_b net)} \<Longrightarrow>
     contract_address env = self \<Longrightarrow> router_tick (sys_platform s) env info rs = Some ms \<Longrightarrow>
     swap_platform net d \<Longrightarrow> bank_settles self ms (sys_platform s) d \<Longrightarrow>
     swap_step net s (s\<lparr>sys_platform := d, sys_sent := (self, ms) # sys_sent s\<rparr>)"

lemma paid_simps [simp]:
  "paid [] from to dn = 0"
  "paid ((f, ms) # log) from to dn = (if f = from then total_to to dn ms else 0) + paid log from to dn"
  by (simp_all add: paid_def)

lemma bank_settlesD:
  "bank_settles self ms d d' \<Longrightarrow>
   balance_of d' a dn + (if a = self then total_out dn ms + ibc_out dn ms + ibc_fees dn ms else 0) =
     balance_of d a dn + total_to a dn ms"
  by (simp add: bank_settles_def)

lemma total_to_le_out: "total_to a dn ms \<le> total_out dn ms"
proof (induction ms)
  case (Cons m ms)
  then show ?case by (cases m) auto
qed simp

lemma total_out_zero: "\<forall>a. total_to a dn ms = 0 \<Longrightarrow> total_out dn ms = 0"
proof (induction ms)
  case (Cons m ms)
  from Cons.prems have "\<forall>a. total_to a dn ms = 0" and m: "\<And>a. bank_to a dn m = 0" by simp_all
  moreover have "bank_out dn m = 0"
  proof (cases m)
    case (BankSend to cs)
    with m [of to] show ?thesis by simp
  qed simp_all
  ultimately show ?case using Cons.IH by simp
qed simp

section \<open>One tick of the splitter\<close>

text \<open>What the splitter owes an address out of an amount.\<close>

definition due :: "swap_net \<Rightarrow> addr \<Rightarrow> denom \<Rightarrow> nat \<Rightarrow> nat" where
  "due net a dn amount = (case om_get (ns_splits (net_split net)) dn of None \<Rightarrow> 0 | Some sc \<Rightarrow> split_share sc a amount)"

definition swap_net_wf :: "swap_net \<Rightarrow> bool" where
  "swap_net_wf net \<longleftrightarrow> distinct [net_holder net, net_splitter net, net_router_a net, net_router_b net] \<and>
     split_map_wf (ns_splits (net_split net)) \<and>
     (\<forall>dn sc. om_get (ns_splits (net_split net)) dn = Some sc \<longrightarrow> fst ` set (receivers sc) = {net_router_a net, net_router_b net})"

lemma transfer_messages_bank:
  assumes "get_transfer_messages d sc amount dn f = Ok ms"
  shows "\<forall>m\<in>set ms. \<exists>to cs. m = BankSend to cs"
proof -
  have "\<forall>m\<in>set ms. \<exists>to cs. m = BankSend to cs" if "try_map (transfer_message d amount dn) ps = Ok ms" for ps ms
    using that
  proof (induction ps arbitrary: ms)
    case (Cons p ps)
    then show ?case by (cases p) (auto simp: result_simps transfer_message_def)
  qed simp
  with assms show ?thesis unfolding get_transfer_messages_def by blast
qed

lemma ns_messages_bank:
  assumes "ns_execute d env info NsTick st = Ok (r, st')"
  shows "\<forall>m\<in>set (messages r). \<exists>to cs. m = BankSend to cs"
proof -
  let ?f = "\<lambda>(dn, config). and_then (map_err NsStd (query_balance d (contract_address env) dn)) (ns_split_balance d config)"
  have "\<forall>m\<in>set (concat mss). \<exists>to cs. m = BankSend to cs" if "try_map ?f es = Ok mss" for es mss
    using that
  proof (induction es arbitrary: mss)
    case (Cons e es)
    then show ?case
      by (cases e) (auto simp: result_simps ns_split_balance_def split: if_splits dest!: transfer_messages_bank)
  qed simp
  moreover from assms obtain mss where "try_map ?f (om_entries (ns_splits st)) = Ok mss" "messages r = concat mss"
    by (auto simp: ns_execute_def ns_try_distribute_def result_simps)
  ultimately show ?thesis by metis
qed

lemma bank_only:
  assumes "\<forall>m\<in>set ms. \<exists>to cs. m = BankSend to cs"
  shows "ibc_out dn ms = 0" and "ibc_fees dn ms = 0"
  using assms by (induction ms) (auto simp: ibc_out_def ibc_fees_def)

lemma ns_tick_succeeds:
  assumes "multiply_ratio_spec d" and "query_balance_spec d" and "\<forall>a dn. \<exists>c. query_balance d a dn = Ok c"
    and "split_map_wf (ns_splits st)" and "ns_clock st = Some (sender info)"
  shows "\<exists>r. ns_execute d env info NsTick st = Ok (r, st) \<and> paid_as_split d (contract_address env) (ns_splits st) (messages r)"
proof -
  from assms(4) have "distinct (map fst (ns_splits st))" by (simp add: split_map_wf_def om_wf_distinct)
  from ns_distribute_entries [OF assms(1,2) this, where self = "contract_address env"] assms(3,4) obtain mss where
    "try_map (\<lambda>(dn, config). and_then (map_err NsStd (query_balance d (contract_address env) dn)) (ns_split_balance d config))
      (ns_splits st) = Ok mss" "paid_as_split d (contract_address env) (ns_splits st) (concat mss)"
    by (force simp: split_map_wf_def)
  with assms(5) show ?thesis by (simp add: ns_execute_def ns_try_distribute_def om_entries_def verify_clock_def)
qed

lemma ns_tick_pays:
  assumes "multiply_ratio_spec d" and "query_balance_spec d" and "\<forall>a dn. \<exists>c. query_balance d a dn = Ok c"
    and "split_map_wf (ns_splits st)" and "ns_execute d env info NsTick st = Ok (r, st')"
  shows "paid_as_split d (contract_address env) (ns_splits st) (messages r)"
proof -
  from assms(5) have "ns_clock st = Some (sender info)"
    by (auto simp: ns_execute_def verify_clock_def result_simps split: if_splits)
  from ns_tick_succeeds [OF assms(1-4) this, of env] assms(5) show ?thesis by auto
qed

lemma paid_as_split_due:
  assumes "paid_as_split d self (ns_splits (net_split net)) ms"
  shows "total_to a dn ms = due net a dn (balance_of d self dn)"
  using spec [OF assms [unfolded paid_as_split_def], of dn] by (auto simp: due_def om_get_def split: option.splits)

text \<open>
  Two receivers leave at most one unit behind, and only when neither of them has the whole share;
  another tick pays nothing more.
\<close>

lemma dust_owed_nothing:
  assumes "split_wf sc" and "length (receivers sc) = 2" and "t \<le> amount" and "amount - t < 2"
    and "\<And>a. split_share sc a amount \<le> t"
  shows "split_share sc a (amount - t) = 0"
proof (cases "om_get (receivers sc) a")
  case None
  then show ?thesis by (simp add: split_share_def)
next
  case (Some s)
  with assms(1) have le: "dec_val s \<le> dec_unit"
    by (auto simp: split_wf_def om_get_def intro: split_share_le dest: map_of_SomeD)
  show ?thesis
  proof (cases "dec_val s = dec_unit")
    case True
    with assms(5) [of a] Some have "amount \<le> t" by (simp add: split_share_def)
    then show ?thesis by (simp add: split_share_def split: option.splits)
  next
    case False
    with le have "dec_val s < dec_unit" by simp
    moreover from assms(4) consider "amount - t = 0" | "amount - t = 1" by linarith
    then have "(amount - t) * dec_val s \<le> dec_val s" by cases simp_all
    ultimately have "(amount - t) * dec_val s < dec_unit" by linarith
    with Some show ?thesis by (simp add: split_share_def)
  qed
qed

lemma splitter_settles:
  assumes "swap_net_wf net" and "swap_platform net d" and "contract_address env = net_splitter net"
    and "ns_execute d env info NsTick (net_split net) = Ok (r, st')"
    and "bank_settles (net_splitter net) (messages r) d d'"
  shows "total_to a dn (messages r) = due net a dn (balance_of d (net_splitter net) dn)"
    and "balance_of d' (net_splitter net) dn = balance_of d (net_splitter net) dn - total_out dn (messages r)"
    and "due net a dn (balance_of d' (net_splitter net) dn) = 0"
proof -
  let ?S = "net_splitter net" and ?st = "net_split net"
  let ?bal = "balance_of d ?S dn" and ?out = "total_out dn (messages r)"
  from assms(1,2) have inv: "split_map_wf (ns_splits ?st)" and plat: "multiply_ratio_spec d" "query_balance_spec d" "\<forall>a dn. \<exists>c. query_balance d a dn = Ok c"
    by (simp_all add: swap_net_wf_def swap_platform_def)
  from ns_tick_pays [OF plat inv assms(4)] assms(3)
  have p: "case om_get (ns_splits ?st) dn of
      None \<Rightarrow> ?out = 0 \<and> (\<forall>a. total_to a dn (messages r) = 0)
    | Some sc \<Rightarrow> (\<forall>a. total_to a dn (messages r) = split_share sc a ?bal) \<and> ?out \<le> ?bal \<and> ?bal - ?out < length (receivers sc)"
    by (simp add: paid_as_split_def om_get_def)
  show to: "total_to a dn (messages r) = due net a dn ?bal" for a
    using paid_as_split_due [OF ns_tick_pays [OF plat inv assms(4)]] assms(3) by simp
  have out: "?out \<le> ?bal" using p by (auto split: option.splits)
  have wf: "split_wf sc \<and> length (receivers sc) = 2 \<and> om_get (receivers sc) ?S = None" if "om_get (ns_splits ?st) dn = Some sc" for sc
  proof -
    from that inv have w: "split_wf sc" by (rule split_map_wf_get [rotated])
    from that assms(1) have k: "fst ` set (receivers sc) = {net_router_a net, net_router_b net}" "net_router_a net \<noteq> net_router_b net"
      "?S \<notin> {net_router_a net, net_router_b net}" by (auto simp: swap_net_wf_def)
    from w have "distinct (map fst (receivers sc))" by (simp add: split_wf_def om_wf_distinct)
    then have "length (receivers sc) = card (fst ` set (receivers sc))" using distinct_card by fastforce
    with k w show ?thesis by (simp add: om_get_def map_of_eq_None_iff)
  qed
  have "total_to ?S dn (messages r) = 0" unfolding to due_def by (auto simp: split_share_def dest: wf split: option.splits)
  with bank_settlesD [OF assms(5), of ?S dn] bank_only [OF ns_messages_bank [OF assms(4)], of dn]
  have eq: "balance_of d' ?S dn + ?out = ?bal" by simp
  then show new: "balance_of d' ?S dn = ?bal - ?out" by simp
  show "due net a dn (balance_of d' ?S dn) = 0"
  proof (cases "om_get (ns_splits ?st) dn")
    case (Some sc)
    have "split_share sc a (?bal - ?out) = 0"
    proof (rule dust_owed_nothing)
      show "split_share sc a ?bal \<le> ?out" for a
        using to [of a] total_to_le_out [of a dn "messages r"] Some by (simp add: due_def)
    qed (use wf [OF Some] p Some out in auto)
    with Some new show ?thesis by (simp add: due_def)
  qed (simp add: due_def)
qed

section \<open>Ticks of the holder and of the routers\<close>

text \<open>A message that a party's router may send: a transfer to the party's receiver.\<close>

fun serves :: "covenant_party_config \<Rightarrow> addr \<Rightarrow> cosmos_msg \<Rightarrow> bool" where
  "serves (NativeParty p) self m \<longleftrightarrow> (case m of BankSend to cs \<Rightarrow> to = ncp_receiver p | _ \<Rightarrow> False)"
| "serves (InterchainParty p) self m \<longleftrightarrow>
     (case m of IbcTransfer t \<Rightarrow> routed_to (party_destination p) self (transfer_fee t) m | _ \<Rightarrow> False)"

fun router_of :: "covenant_party_config \<Rightarrow> router_state \<Rightarrow> bool" where
  "router_of (NativeParty p) (NativeRouterState st) \<longleftrightarrow> nr_receiver st = Some (ncp_receiver p)"
| "router_of (InterchainParty p) (InterchainRouterState st) \<longleftrightarrow> ir_destination st = Some (party_destination p)"
| "router_of p rs \<longleftrightarrow> False"

text \<open>The covenant's contracts know each other, and the holder has the terms of the two parties.\<close>

definition swap_set_up :: "swap_net \<Rightarrow> covenant_party_config \<Rightarrow> covenant_party_config \<Rightarrow> sw_state \<Rightarrow> bool" where
  "swap_set_up net pa pb h \<longleftrightarrow> swap_net_wf net \<and> router_of pa (net_route_a net) \<and> router_of pb (net_route_b net) \<and>
     (\<forall>p\<in>{pa, pb}. is_native p \<longrightarrow> get_final_receiver_address p \<noteq> net_splitter net) \<and>
     sw_next_contract h = Some (net_splitter net) \<and>
     sw_parties h = Some \<lparr>cp_party_a = to_covenant_party pa, cp_party_b = to_covenant_party pb\<rparr> \<and>
     sw_terms h = Some (TokenSwap \<lparr>party_a_amount = coin_amount (get_contribution pa),
                                   party_b_amount = coin_amount (get_contribution pb)\<rparr>) \<and>
     sw_refund h = Some \<lparr>party_a_refund_address = net_router_a net, party_b_refund_address = net_router_b net\<rparr>"

lemma native_denom_party [simp]: "native_denom (to_covenant_party p) = get_native_denom p"
  by (cases p) simp_all

lemma ir_tick_routed:
  assumes "ir_execute d env info IrTick st = Ok (r, st')" and "ir_destination st = Some cfg"
  shows "\<forall>m\<in>set (messages r). \<exists>fee. routed_to cfg (contract_address env) fee m"
proof -
  from assms have "messages r = [] \<or> (\<exists>coins fee.
      get_ibc_transfer_messages_for_coins cfg coins (block_time (env_block env)) (contract_address env) fee = Ok (messages r))"
    by (auto simp: ir_execute_def ir_try_route_balances_def result_simps split: if_splits)
  then show ?thesis by (auto simp: get_ibc_transfer_messages_for_coins_def result_simps dest!: push_fold_Ok)
qed

lemma router_tick_serves:
  assumes "router_tick d env info rs = Some ms" and "router_of p rs"
  shows "list_all (serves p (contract_address env)) ms"
  using assms(2)
proof (cases "(p, rs)" rule: router_of.cases)
  case (1 q st)
  with assms show ?thesis
    by (auto simp: sent_Some nr_execute_def nr_try_route_balances_def result_simps bank_send_each_def list_all_iff split: if_splits)
next
  case (2 q st)
  with assms obtain r st' where "ir_execute d env info IrTick st = Ok (r, st')" "ms = messages r"
    by (auto simp: sent_Some)
  with ir_tick_routed [of d env info st r st'] 2 assms(2) show ?thesis
    by (fastforce simp: list_all_iff routed_to_def split: cosmos_msg.splits)
qed (use assms in auto)

lemma serves_not_paid:
  assumes "list_all (serves p self) ms" and "is_native p \<longrightarrow> get_final_receiver_address p \<noteq> a"
  shows "total_to a dn ms = 0"
  using assms by (induction ms) (cases p; auto split: cosmos_msg.splits)+

lemma holder_pays:
  assumes "sw_execute d env info SwTick h = Ok (r, h')" and "query_balance_spec d"
    and "sw_parties h = Some \<lparr>cp_party_a = to_covenant_party pa, cp_party_b = to_covenant_party pb\<rparr>"
    and "sw_refund h = Some \<lparr>party_a_refund_address = ra, party_b_refund_address = rb\<rparr>"
  shows "case sw_contract_state h of
      Some SwInstantiated \<Rightarrow>
        messages r = [] \<and> h' = h\<lparr>sw_contract_state := Some SwExpired\<rparr> \<or>
        (\<exists>x y nc dest clock terms. h' = h\<lparr>sw_contract_state := Some SwComplete\<rparr> \<and>
           sw_next_contract h = Some nc \<and> query_deposit_address d nc = Ok (Some dest) \<and> sw_terms h = Some (TokenSwap terms) \<and>
           party_a_amount terms \<le> x \<and> party_b_amount terms \<le> y \<and> x \<noteq> 0 \<and> y \<noteq> 0 \<and>
           unat x = balance_of d (contract_address env) (get_native_denom pa) \<and>
           unat y = balance_of d (contract_address env) (get_native_denom pb) \<and>
           messages r = [BankSend dest [\<lparr>coin_denom = get_native_denom pa, coin_amount = x\<rparr>,
             \<lparr>coin_denom = get_native_denom pb, coin_amount = y\<rparr>], WasmExecute clock DequeueMsg []])
    | Some SwExpired \<Rightarrow> h' = h \<and> (\<forall>a dn. total_to a dn (messages r) \<noteq> 0 \<longrightarrow>
        (a, dn) \<in> {(ra, get_native_denom pa), (rb, get_native_denom pb)})
    | Some SwComplete \<Rightarrow> h' = h \<and> messages r = []
    | None \<Rightarrow> False"
proof (cases "sw_contract_state h")
  case (Some ph)
  show ?thesis
  proof (cases ph)
    case SwInstantiated
    with Some assms(1) have "sw_try_forward d env (sender info) h = Ok (r, h')"
      by (auto simp: sw_execute_def sw_try_tick_def result_simps)
    from sw_forward_cases [OF this] show ?thesis
    proof
      assume "\<exists>e. sw_lockup h = Some e \<and> is_expired d e (env_block env) \<and> messages r = [] \<and>
        h' = h\<lparr>sw_contract_state := Some SwExpired\<rparr>"
      with Some SwInstantiated show ?thesis by auto
    next
      assume "\<exists>parties terms a_coin b_coin next_contract dest. sw_parties h = Some parties \<and> sw_terms h = Some (TokenSwap terms) \<and>
        query_balance d (contract_address env) (native_denom (cp_party_a parties)) = Ok a_coin \<and>
        query_balance d (contract_address env) (native_denom (cp_party_b parties)) = Ok b_coin \<and>
        party_a_amount terms \<le> coin_amount a_coin \<and> party_b_amount terms \<le> coin_amount b_coin \<and>
        coin_amount a_coin \<noteq> 0 \<and> coin_amount b_coin \<noteq> 0 \<and>
        sw_next_contract h = Some next_contract \<and> query_deposit_address d next_contract = Ok (Some dest) \<and>
        messages r = [BankSend dest [a_coin, b_coin], WasmExecute (sender info) DequeueMsg []] \<and>
        h' = h\<lparr>sw_contract_state := Some SwComplete\<rparr>"
      then obtain terms a b nc dest where f: "sw_terms h = Some (TokenSwap terms)"
        "query_balance d (contract_address env) (get_native_denom pa) = Ok a"
        "query_balance d (contract_address env) (get_native_denom pb) = Ok b"
        "party_a_amount terms \<le> coin_amount a" "party_b_amount terms \<le> coin_amount b" "coin_amount a \<noteq> 0" "coin_amount b \<noteq> 0"
        "sw_next_contract h = Some nc" "query_deposit_address d nc = Ok (Some dest)"
        "messages r = [BankSend dest [a, b], WasmExecute (sender info) DequeueMsg []]" "h' = h\<lparr>sw_contract_state := Some SwComplete\<rparr>"
        using assms(3) by auto
      have "a = \<lparr>coin_denom = get_native_denom pa, coin_amount = coin_amount a\<rparr>" "b = \<lparr>coin_denom = get_native_denom pb, coin_amount = coin_amount b\<rparr>"
        using query_balance_specD(1) [OF assms(2) f(2)] query_balance_specD(1) [OF assms(2) f(3)] by simp_all
      moreover have "unat (coin_amount a) = balance_of d (contract_address env) (get_native_denom pa)"
        "unat (coin_amount b) = balance_of d (contract_address env) (get_native_denom pb)"
        using f(2,3) by (simp_all add: balance_of_def)
      ultimately show ?thesis using f Some SwInstantiated
        by (simp, intro disjI2 exI [of _ "coin_amount a"] exI [of _ "coin_amount b"]) metis
    qed
  next
    case SwExpired
    with Some assms(1,3,4) query_balance_specD(1) [OF assms(2)] show ?thesis
      by (fastforce simp: sw_execute_def sw_try_tick_def sw_try_refund_def result_simps split: if_splits bool.splits)
  next
    case SwComplete
    with Some assms(1) show ?thesis by (auto simp: sw_execute_def sw_try_tick_def result_simps)
  qed
qed (use assms(1) in \<open>auto simp: sw_execute_def sw_try_tick_def result_simps\<close>)

section \<open>The invariant of the system\<close>

text \<open>The amounts of the swap: \<open>x\<close> of the first party's coin and \<open>y\<close> of the second party's.\<close>

definition swap_amount :: "covenant_party_config \<Rightarrow> covenant_party_config \<Rightarrow> nat \<Rightarrow> nat \<Rightarrow> denom \<Rightarrow> nat" where
  "swap_amount pa pb x y dn = (if dn = get_native_denom pa then x else if dn = get_native_denom pb then y else 0)"

text \<open>
  In the following \<open>h\<close> and \<open>p\<close> are what the holder and the splitter have paid so far. Before the
  swap, only refunds leave the holder; each party's coin goes to its own router.
\<close>

definition swap_pending ::
    "swap_net \<Rightarrow> covenant_party_config \<Rightarrow> covenant_party_config \<Rightarrow> (addr \<Rightarrow> denom \<Rightarrow> nat) \<Rightarrow> (addr \<Rightarrow> denom \<Rightarrow> nat) \<Rightarrow> bool" where
  "swap_pending net pa pb h p \<longleftrightarrow> (\<forall>a dn. p a dn = 0) \<and>
     (\<forall>a dn. h a dn \<noteq> 0 \<longrightarrow> (a, dn) \<in> {(net_router_a net, get_native_denom pa), (net_router_b net, get_native_denom pb)})"

text \<open>The swap has taken place: the holder has sent both amounts to the splitter and nothing else.\<close>

definition swap_sent ::
    "swap_net \<Rightarrow> covenant_party_config \<Rightarrow> covenant_party_config \<Rightarrow> (addr \<Rightarrow> denom \<Rightarrow> nat) \<Rightarrow> nat \<Rightarrow> nat \<Rightarrow> bool" where
  "swap_sent net pa pb h x y \<longleftrightarrow> unat (coin_amount (get_contribution pa)) \<le> x \<and> unat (coin_amount (get_contribution pb)) \<le> y \<and>
     get_native_denom pa \<noteq> get_native_denom pb \<and>
     (\<forall>a dn. h a dn = (if a = net_splitter net then swap_amount pa pb x y dn else 0))"

definition routers_serve :: "swap_net \<Rightarrow> covenant_party_config \<Rightarrow> covenant_party_config \<Rightarrow> (addr \<times> cosmos_msg list) list \<Rightarrow> bool" where
  "routers_serve net pa pb log = list_all (\<lambda>(f, ms).
     (f = net_router_a net \<longrightarrow> list_all (serves pa f) ms) \<and> (f = net_router_b net \<longrightarrow> list_all (serves pb f) ms)) log"

text \<open>What is known in a phase of the holder, with \<open>b\<close> the balances of the splitter.\<close>

fun swap_phase ::
    "swap_net \<Rightarrow> covenant_party_config \<Rightarrow> covenant_party_config \<Rightarrow> sw_contract_state \<Rightarrow>
     (denom \<Rightarrow> nat) \<Rightarrow> (addr \<Rightarrow> denom \<Rightarrow> nat) \<Rightarrow> (addr \<Rightarrow> denom \<Rightarrow> nat) \<Rightarrow> bool" where
  "swap_phase net pa pb SwComplete b h p \<longleftrightarrow> (\<exists>x y. swap_sent net pa pb h x y \<and>
     ((\<forall>a dn. p a dn = 0) \<and> (\<forall>dn. b dn = swap_amount pa pb x y dn) \<or>
      (\<forall>a dn. p a dn = due net a dn (swap_amount pa pb x y dn)) \<and> (\<forall>a dn. due net a dn (b dn) = 0)))"
| "swap_phase net pa pb ph b h p \<longleftrightarrow> swap_pending net pa pb h p \<and> (\<forall>dn. b dn = 0) \<and>
     (ph = SwInstantiated \<longrightarrow> (\<forall>a dn. h a dn = 0))"

definition swap_inv :: "swap_net \<Rightarrow> covenant_party_config \<Rightarrow> covenant_party_config \<Rightarrow> sw_state \<Rightarrow> swap_system \<Rightarrow> bool" where
  "swap_inv net pa pb h0 s \<longleftrightarrow> swap_platform net (sys_platform s) \<and> routers_serve net pa pb (sys_sent s) \<and>
     (\<exists>ph. sys_holder s = h0\<lparr>sw_contract_state := Some ph\<rparr> \<and>
       swap_phase net pa pb ph (balance_of (sys_platform s) (net_splitter net))
         (paid (sys_sent s) (net_holder net)) (paid (sys_sent s) (net_splitter net)))"

lemma paid_other: "f \<noteq> from \<Longrightarrow> paid ((f, ms) # log) from = paid log from"
  by (intro ext) simp

lemma swap_inv_elsewhere:
  assumes "swap_inv net pa pb h0 s" and "swap_platform net d"
    and "\<forall>dn. balance_of d (net_splitter net) dn = balance_of (sys_platform s) (net_splitter net) dn"
  shows "swap_inv net pa pb h0 (s\<lparr>sys_platform := d\<rparr>)"
proof -
  from assms(3) have "balance_of d (net_splitter net) = balance_of (sys_platform s) (net_splitter net)" by auto
  with assms(1,2) show ?thesis by (simp add: swap_inv_def)
qed

lemma swap_inv_router:
  assumes "swap_set_up net pa pb h0" and "swap_inv net pa pb h0 s"
    and "(self, rs) \<in> {(net_router_a net, net_route_a net), (net_router_b net, net_route_b net)}"
    and "contract_address env = self" and "router_tick (sys_platform s) env info rs = Some ms"
    and "swap_platform net d" and "bank_settles self ms (sys_platform s) d"
  shows "swap_inv net pa pb h0 (s\<lparr>sys_platform := d, sys_sent := (self, ms) # sys_sent s\<rparr>)"
proof -
  from assms(1) have dist: "distinct [net_holder net, net_splitter net, net_router_a net, net_router_b net]"
    by (simp add: swap_set_up_def swap_net_wf_def)
  from assms(1,3) obtain p where p: "p \<in> {pa, pb}" "router_of p rs"
    "self = net_router_a net \<longrightarrow> p = pa" "self = net_router_b net \<longrightarrow> p = pb"
    using dist by (auto simp: swap_set_up_def)
  have serve: "list_all (serves p self) ms" using router_tick_serves [OF assms(5) p(2)] assms(4) by simp
  have "total_to (net_splitter net) dn ms = 0" for dn
    using assms(1) p(1) by (intro serves_not_paid [OF serve]) (auto simp: swap_set_up_def)
  with bank_settlesD [OF assms(7), of "net_splitter net"] assms(3) dist
  have "balance_of d (net_splitter net) dn = balance_of (sys_platform s) (net_splitter net) dn" for dn by auto
  then have bal: "balance_of d (net_splitter net) = balance_of (sys_platform s) (net_splitter net)" by auto
  have other: "self \<noteq> net_holder net" "self \<noteq> net_splitter net" using assms(3) dist by auto
  have "routers_serve net pa pb ((self, ms) # sys_sent s)"
    using assms(2) p(3,4) serve by (auto simp: swap_inv_def routers_serve_def)
  then show ?thesis using assms(2,6) bal by (simp add: swap_inv_def paid_other other)
qed

lemma swap_inv_splitter:
  assumes "swap_set_up net pa pb h0" and "swap_inv net pa pb h0 s" and "contract_address env = net_splitter net"
    and "ns_execute (sys_platform s) env info NsTick (net_split net) = Ok (r, st')"
    and "swap_platform net d" and "bank_settles (net_splitter net) (messages r) (sys_platform s) d"
  shows "swap_inv net pa pb h0 (s\<lparr>sys_platform := d, sys_sent := (net_splitter net, messages r) # sys_sent s\<rparr>)"
proof -
  let ?S = "net_splitter net" and ?log = "(net_splitter net, messages r) # sys_sent s"
  from assms(1) have wf: "swap_net_wf net" and dist: "distinct [net_holder net, ?S, net_router_a net, net_router_b net]"
    by (simp_all add: swap_set_up_def swap_net_wf_def)
  from assms(2) have plat: "swap_platform net (sys_platform s)" by (simp add: swap_inv_def)
  note tick = splitter_settles [OF wf plat assms(3,4,6)]
  have log: "paid ?log ?S a dn = due net a dn (balance_of (sys_platform s) ?S dn) + paid (sys_sent s) ?S a dn" for a dn
    by (simp add: tick(1))
  have zero: "due net a dn 0 = 0" for a dn by (simp add: due_def split_share_def split: option.splits)
  have serve: "routers_serve net pa pb ?log" using assms(2) dist by (auto simp: swap_inv_def routers_serve_def)
  from assms(2) obtain ph where ph: "sys_holder s = h0\<lparr>sw_contract_state := Some ph\<rparr>"
    "swap_phase net pa pb ph (balance_of (sys_platform s) ?S) (paid (sys_sent s) (net_holder net)) (paid (sys_sent s) ?S)"
    by (auto simp: swap_inv_def)
  have "swap_phase net pa pb ph (balance_of d ?S) (paid (sys_sent s) (net_holder net)) (paid ?log ?S)"
  proof (cases "ph = SwComplete")
    case True
    with ph(2) obtain x y where xy: "swap_sent net pa pb (paid (sys_sent s) (net_holder net)) x y"
      "(\<forall>a dn. paid (sys_sent s) ?S a dn = 0) \<and> (\<forall>dn. balance_of (sys_platform s) ?S dn = swap_amount pa pb x y dn) \<or>
       (\<forall>a dn. paid (sys_sent s) ?S a dn = due net a dn (swap_amount pa pb x y dn)) \<and>
         (\<forall>a dn. due net a dn (balance_of (sys_platform s) ?S dn) = 0)" by auto
    from xy(2) have "paid ?log ?S a dn = due net a dn (swap_amount pa pb x y dn)" for a dn
      by (auto simp: log simp del: paid_simps)
    with True xy(1) tick(3) show ?thesis by (auto simp del: paid_simps)
  next
    case False
    with ph(2) have "swap_pending net pa pb (paid (sys_sent s) (net_holder net)) (paid (sys_sent s) ?S)" and b: "\<And>dn. balance_of (sys_platform s) ?S dn = 0"
      by (cases ph; auto)+
    then have "swap_pending net pa pb (paid (sys_sent s) (net_holder net)) (paid ?log ?S)"
      by (simp add: swap_pending_def log zero del: paid_simps)
    moreover have "balance_of d ?S dn = 0" for dn using tick(2) [of dn] b by simp
    ultimately show ?thesis using False ph(2) by (cases ph) auto
  qed
  moreover have "paid ?log (net_holder net) = paid (sys_sent s) (net_holder net)" using dist by (intro paid_other) auto
  ultimately show ?thesis using ph(1) assms(5) serve by (auto simp: swap_inv_def simp del: paid_simps)
qed

text \<open>The tick that swaps: the holder's balances can both be sent only if the two coins differ.\<close>

lemma swap_takes_place:
  assumes "net_holder net \<noteq> net_splitter net"
    and "bank_settles (net_holder net) [BankSend (net_splitter net) [\<lparr>coin_denom = get_native_denom pa, coin_amount = x\<rparr>,
       \<lparr>coin_denom = get_native_denom pb, coin_amount = y\<rparr>], WasmExecute clock DequeueMsg []] d d'"
    and "unat x = balance_of d (net_holder net) (get_native_denom pa)" and "x \<noteq> 0" and "coin_amount (get_contribution pa) \<le> x"
    and "unat y = balance_of d (net_holder net) (get_native_denom pb)" and "y \<noteq> 0" and "coin_amount (get_contribution pb) \<le> y"
    and "\<forall>dn. balance_of d (net_splitter net) dn = 0" and "\<forall>a dn. paid log (net_holder net) a dn = 0"
  shows "swap_sent net pa pb (paid ((net_holder net, [BankSend (net_splitter net) [\<lparr>coin_denom = get_native_denom pa, coin_amount = x\<rparr>,
       \<lparr>coin_denom = get_native_denom pb, coin_amount = y\<rparr>], WasmExecute clock DequeueMsg []]) # log) (net_holder net)) (unat x) (unat y) \<and>
     (\<forall>dn. balance_of d' (net_splitter net) dn = swap_amount pa pb (unat x) (unat y) dn)"
proof -
  have ne: "get_native_denom pa \<noteq> get_native_denom pb"
  proof
    assume "get_native_denom pa = get_native_denom pb"
    then have "unat y = 0" using bank_settlesD [OF assms(2), of "net_holder net" "get_native_denom pa"] assms(1,3,6) by simp
    with assms(7) show False by (simp add: unat_eq_0)
  qed
  have "balance_of d' (net_splitter net) dn = swap_amount pa pb (unat x) (unat y) dn" for dn
    using bank_settlesD [OF assms(2), of "net_splitter net" dn] assms(1,9) ne by (simp add: swap_amount_def)
  with ne assms(5,8,10) show ?thesis by (simp add: swap_sent_def swap_amount_def word_le_unat)
qed

lemma swap_inv_holder:
  assumes "swap_set_up net pa pb h0" and "swap_inv net pa pb h0 s" and "contract_address env = net_holder net"
    and "sw_execute (sys_platform s) env info SwTick (sys_holder s) = Ok (r, h)"
    and "swap_platform net d" and "bank_settles (net_holder net) (messages r) (sys_platform s) d"
  shows "swap_inv net pa pb h0 \<lparr>sys_platform = d, sys_holder = h, sys_sent = (net_holder net, messages r) # sys_sent s\<rparr>"
proof -
  let ?S = "net_splitter net" and ?H = "net_holder net" and ?da = "get_native_denom pa" and ?db = "get_native_denom pb"
  let ?log = "(?H, messages r) # sys_sent s" and ?d = "sys_platform s"
  from assms(1) have dist: "distinct [?H, ?S, net_router_a net, net_router_b net]" by (simp add: swap_set_up_def swap_net_wf_def)
  from assms(2) obtain ph where ph: "sys_holder s = h0\<lparr>sw_contract_state := Some ph\<rparr>"
    "swap_phase net pa pb ph (balance_of ?d ?S) (paid (sys_sent s) ?H) (paid (sys_sent s) ?S)"
    by (auto simp: swap_inv_def)
  from assms(2) have plat: "query_balance_spec ?d" "query_deposit_address ?d ?S = Ok (Some ?S)"
    by (auto simp: swap_inv_def swap_platform_def ns_deposit_reply_def ns_query_def)
  have serve: "routers_serve net pa pb ?log" using assms(2) dist by (auto simp: swap_inv_def routers_serve_def)
  have S: "paid ?log ?S = paid (sys_sent s) ?S" using dist by (intro paid_other) auto
  have bal: "balance_of d ?S dn = balance_of ?d ?S dn + total_to ?S dn (messages r)" for dn
    using bank_settlesD [OF assms(6), of ?S dn] dist by auto
  have pays: "case Some ph of
      Some SwInstantiated \<Rightarrow> messages r = [] \<and> h = sys_holder s\<lparr>sw_contract_state := Some SwExpired\<rparr> \<or>
        (\<exists>x y clock. h = sys_holder s\<lparr>sw_contract_state := Some SwComplete\<rparr> \<and>
           coin_amount (get_contribution pa) \<le> x \<and> coin_amount (get_contribution pb) \<le> y \<and> x \<noteq> 0 \<and> y \<noteq> 0 \<and>
           unat x = balance_of ?d ?H ?da \<and> unat y = balance_of ?d ?H ?db \<and>
           messages r = [BankSend ?S [\<lparr>coin_denom = ?da, coin_amount = x\<rparr>, \<lparr>coin_denom = ?db, coin_amount = y\<rparr>], WasmExecute clock DequeueMsg []])
    | Some SwExpired \<Rightarrow> h = sys_holder s \<and> (\<forall>a dn. total_to a dn (messages r) \<noteq> 0 \<longrightarrow>
        (a, dn) \<in> {(net_router_a net, ?da), (net_router_b net, ?db)})
    | Some SwComplete \<Rightarrow> h = sys_holder s \<and> messages r = []"
    using holder_pays [OF assms(4) plat(1), of pa pb "net_router_a net" "net_router_b net"] assms(1,3) ph(1) plat(2)
    by (auto simp: swap_set_up_def split: sw_contract_state.splits)
  have "\<exists>ph'. h = h0\<lparr>sw_contract_state := Some ph'\<rparr> \<and> swap_phase net pa pb ph' (balance_of d ?S) (paid ?log ?H) (paid (sys_sent s) ?S)"
  proof (cases ph)
    case SwInstantiated
    with ph(2) have p: "swap_pending net pa pb (paid (sys_sent s) ?H) (paid (sys_sent s) ?S)" "\<And>dn. balance_of ?d ?S dn = 0"
      "\<And>a dn. paid (sys_sent s) ?H a dn = 0" by auto
    from pays SwInstantiated consider (expired) "messages r = []" "h = h0\<lparr>sw_contract_state := Some SwExpired\<rparr>"
      | (swap) x y clock where "h = h0\<lparr>sw_contract_state := Some SwComplete\<rparr>"
        "coin_amount (get_contribution pa) \<le> x" "coin_amount (get_contribution pb) \<le> y" "x \<noteq> 0" "y \<noteq> 0"
        "unat x = balance_of ?d ?H ?da" "unat y = balance_of ?d ?H ?db"
        "messages r = [BankSend ?S [\<lparr>coin_denom = ?da, coin_amount = x\<rparr>, \<lparr>coin_denom = ?db, coin_amount = y\<rparr>], WasmExecute clock DequeueMsg []]"
      using ph(1) by auto
    then show ?thesis
    proof cases
      case expired
      with p bal show ?thesis by (intro exI [of _ SwExpired]) (simp add: swap_pending_def)
    next
      case swap
      with p(2,3) dist swap_takes_place [of net pa x pb y clock ?d d "sys_sent s"] assms(6)
      have "swap_sent net pa pb (paid ?log ?H) (unat x) (unat y) \<and> (\<forall>dn. balance_of d ?S dn = swap_amount pa pb (unat x) (unat y) dn)"
        by (simp del: paid_simps)
      then show ?thesis using p(1) swap(1) by (intro exI [of _ SwComplete]) (auto simp: swap_pending_def simp del: paid_simps)
    qed
  next
    case SwExpired
    with pays have e: "h = sys_holder s" "\<And>a dn. total_to a dn (messages r) \<noteq> 0 \<Longrightarrow>
        (a, dn) \<in> {(net_router_a net, ?da), (net_router_b net, ?db)}" by simp_all
    from e(2) dist have "total_to ?S dn (messages r) = 0" for dn by fastforce
    with SwExpired ph e bal show ?thesis by (intro exI [of _ SwExpired]) (auto simp: swap_pending_def)
  next
    case SwComplete
    with pays have "h = sys_holder s" "messages r = []" by simp_all
    with SwComplete ph bal show ?thesis by (intro exI [of _ SwComplete]) (simp add: swap_sent_def)
  qed
  then show ?thesis using assms(5) serve S by (simp add: swap_inv_def del: paid_simps)
qed

section \<open>From the covenant's deployment to the running system\<close>

text \<open>The system that the instantiation of a swap covenant creates, each contract at its address.\<close>

definition swap_deployed :: "deps \<Rightarrow> env \<Rightarrow> sc_instantiate_msg \<Rightarrow> swap_net \<Rightarrow> sw_state \<Rightarrow> bool" where
  "swap_deployed d env msg net h \<longleftrightarrow>
     (\<exists>ms st creator children hi si ma mb r r'. sc_instantiate d env msg = Ok (ms, st) \<and>
        addr_canonicalize d (contract_address env) = Ok creator \<and> try_map (child_address d creator) ms = Ok children \<and>
        sc_holder st = Some (net_holder net) \<and> sc_splitter st = Some (net_splitter net) \<and>
        sc_party_a_router st = Some (net_router_a net) \<and> sc_party_b_router st = Some (net_router_b net) \<and>
        map_of children (net_holder net) = Some (SwapHolderInit hi) \<and>
        sw_instantiate d (env\<lparr>contract_address := net_holder net\<rparr>) hi = Ok (r, h) \<and>
        map_of children (net_splitter net) = Some (NativeSplitterInit si) \<and> ns_instantiate d si = Ok (r', net_split net) \<and>
        map_of children (net_router_a net) = Some ma \<and> router_create d ma = Some (net_route_a net) \<and>
        map_of children (net_router_b net) = Some mb \<and> router_create d mb = Some (net_route_b net))"

text \<open>What the parties agreed on: of each amount, the share of a party's receiver to its router.\<close>

definition agreed :: "sc_instantiate_msg \<Rightarrow> swap_net \<Rightarrow> addr \<Rightarrow> denom \<Rightarrow> nat \<Rightarrow> nat" where
  "agreed msg net a dn amount =
     (case om_get (scm_splits msg) dn of
        None \<Rightarrow> 0
      | Some sc \<Rightarrow>
          if a = net_router_a net then split_share sc (get_final_receiver_address (scm_party_a msg)) amount
          else if a = net_router_b net then split_share sc (get_final_receiver_address (scm_party_b msg)) amount else 0)"

lemma remap_splits_wf:
  assumes "remap_splits m (ra, qa) (rb, qb) = Ok m'"
  shows "om_wf m' \<and> (\<forall>(dn, sc)\<in>set m'. om_wf (receivers sc))"
proof -
  from assms have "try_fold (\<lambda>remapped (dn, split). and_then (remap_receivers_to_routers split ra qa rb qb)
      (\<lambda>remapped_split. Ok (om_insert remapped dn remapped_split))) [] m = Ok m'"
    by (simp add: remap_splits_def om_entries_def)
  then show ?thesis
  proof (rule try_fold_invariant [where P = "\<lambda>m. om_wf m \<and> (\<forall>(dn, sc)\<in>set m. om_wf (receivers sc))"])
    fix s x and s' :: "(denom, split_config) omap"
    assume s: "om_wf s \<and> (\<forall>(dn, sc)\<in>set s. om_wf (receivers sc))"
      and ok: "(case x of (dn, split) \<Rightarrow> and_then (remap_receivers_to_routers split ra qa rb qb)
        (\<lambda>remapped_split. Ok (om_insert s dn remapped_split))) = Ok s'"
    obtain dn sc where "x = (dn, sc)" by (cases x)
    with ok obtain va vb where s': "s' = om_insert s dn \<lparr>receivers = om_insert [(qa, va)] qb vb\<rparr>"
      by (auto simp: result_simps remap_receivers_Ok)
    have "om_wf (om_insert [(qa, va)] qb vb)" by (rule om_wf_insert) simp
    with s s' mem_om_insert [of s _ _ dn "\<lparr>receivers = om_insert [(qa, va)] qb vb\<rparr>"]
    show "om_wf s' \<and> (\<forall>(dn, sc)\<in>set s'. om_wf (receivers sc))" by (fastforce simp del: om_insert.simps)
  qed simp
qed

lemma ns_instantiate_splits:
  assumes "ns_instantiate d msg = Ok (r, st)" and "om_wf (nsi_splits msg)"
    and "\<forall>(dn, sc)\<in>set (nsi_splits msg). om_wf (receivers sc)"
  shows "split_map_wf (ns_splits st)" and "om_get (ns_splits st) dn = om_get (nsi_splits msg) dn"
proof -
  from assms(1) have fold: "try_fold (ns_save_split d) [] (nsi_splits msg) = Ok (ns_splits st)"
    by (auto simp: ns_instantiate_def result_simps om_entries_def)
  from ns_save_fold [OF fold] assms(3) show "split_map_wf (ns_splits st)" by (simp add: split_map_wf_def)
  have "try_fold (ns_save_split d) acc es = Ok m \<Longrightarrow> om_wf es \<Longrightarrow> om_wf acc \<Longrightarrow>
      om_get m dn = (case om_get es dn of None \<Rightarrow> om_get acc dn | Some sc \<Rightarrow> Some sc)" for acc es m
  proof (induction es arbitrary: acc)
    case (Cons e es)
    obtain k sc where e: "e = (k, sc)" by (cases e)
    from Cons.prems(2) e have "om_get es k = None" by (auto simp: om_get_def map_of_eq_None_iff)
    with Cons e show ?case
      by (auto simp: ns_save_split_def result_simps om_wf_insert om_get_def map_of_om_insert split: option.splits if_splits)
  qed simp
  from this [OF fold assms(2)] show "om_get (ns_splits st) dn = om_get (nsi_splits msg) dn"
    by (simp add: om_get_def split: option.splits)
qed

lemma router_created:
  assumes "addr_validate_spec d" and "router_create d (router_init p clock denoms) = Some rs"
  shows "router_of p rs"
  using assms(2) addr_validate_specD(1) [OF assms(1)]
  by (cases p) (auto simp: nr_instantiate_def ir_instantiate_def result_simps split: result.splits)

text \<open>The split that was remapped to the routers pays what the parties agreed on.\<close>

lemma wired_shares_agreed:
  assumes "om_wf (scm_splits msg)" and "net_router_a net \<noteq> net_router_b net"
    and "remap_splits (scm_splits msg) (get_final_receiver_address (scm_party_a msg), net_router_a net)
       (get_final_receiver_address (scm_party_b msg), net_router_b net) = Ok splits"
    and "om_get (ns_splits (net_split net)) dn = om_get splits dn"
  shows "due net a dn amount = agreed msg net a dn amount"
proof (cases "om_get splits dn")
  case None
  with remap_splits_wired [OF assms(1,3,2)] have "dn \<notin> set (map fst (scm_splits msg))" by blast
  then have "om_get (scm_splits msg) dn = None" by (simp add: om_get_def map_of_eq_None_iff)
  with None assms(4) show ?thesis by (simp add: due_def agreed_def)
next
  case (Some sc')
  with remap_splits_wired [OF assms(1,3,2), of dn] obtain sc where sc: "om_get (scm_splits msg) dn = Some sc"
    "om_get (receivers sc') (net_router_a net) = om_get (receivers sc) (get_final_receiver_address (scm_party_a msg))"
    "om_get (receivers sc') (net_router_b net) = om_get (receivers sc) (get_final_receiver_address (scm_party_b msg))"
    "fst ` set (receivers sc') = {net_router_a net, net_router_b net}" by auto
  have "om_get (receivers sc') a = None" if "a \<notin> {net_router_a net, net_router_b net}"
    using that sc(4) by (auto simp: om_get_def map_of_eq_None_iff)
  with sc Some assms(4) show ?thesis by (auto simp: due_def agreed_def split_share_def)
qed

lemma swap_deployed_set_up:
  assumes "unique_addresses d" and "addr_validate_spec d" and "om_wf (scm_splits msg)" and "swap_deployed d env msg net h"
    and "\<forall>p\<in>{scm_party_a msg, scm_party_b msg}. is_native p \<longrightarrow> get_final_receiver_address p \<noteq> net_splitter net"
  shows "swap_set_up net (scm_party_a msg) (scm_party_b msg) h" and "sw_contract_state h = Some SwInstantiated"
    and "due net a dn amount = agreed msg net a dn amount"
proof -
  from assms(4) obtain ms st creator children hi si ma mb r r' where
    i: "sc_instantiate d env msg = Ok (ms, st)"
    and c: "addr_canonicalize d (contract_address env) = Ok creator" "try_map (child_address d creator) ms = Ok children"
    and st: "sc_holder st = Some (net_holder net)" "sc_splitter st = Some (net_splitter net)"
      "sc_party_a_router st = Some (net_router_a net)" "sc_party_b_router st = Some (net_router_b net)"
    and ch: "map_of children (net_holder net) = Some (SwapHolderInit hi)" "map_of children (net_splitter net) = Some (NativeSplitterInit si)"
      "map_of children (net_router_a net) = Some ma" "map_of children (net_router_b net) = Some mb"
    and mk: "sw_instantiate d (env\<lparr>contract_address := net_holder net\<rparr>) hi = Ok (r, h)" "ns_instantiate d si = Ok (r', net_split net)"
      "router_create d ma = Some (net_route_a net)" "router_create d mb = Some (net_route_b net)"
    unfolding swap_deployed_def by blast
  let ?denoms = "map fst (scm_splits msg)"
  from i obtain clock fa fb splits fallback where
    v: "children = (clock, ClockInit (sc_clock_init msg (net_holder net) (net_splitter net) (net_router_a net) (net_router_b net) fa fb)) #
        sc_children msg clock (net_holder net) (net_splitter net) (net_router_a net) (net_router_b net) fa fb
          \<lparr>nsi_clock = clock, nsi_splits = splits, nsi_fallback = fallback\<rparr>"
    and dist: "distinct [clock, net_holder net, net_splitter net, net_router_a net, net_router_b net]"
    and sp: "remap_splits (scm_splits msg) (get_final_receiver_address (scm_party_a msg), net_router_a net)
       (get_final_receiver_address (scm_party_b msg), net_router_b net) = Ok splits"
  proof (rule sc_instantiate_view)
  qed (use c st assms(1) that in auto)
  from ch v dist have m: "hi = sc_holder_init msg clock (net_splitter net) (net_router_a net) (net_router_b net)"
    "nsi_splits si = splits" "ma = router_init (scm_party_a msg) clock ?denoms" "mb = router_init (scm_party_b msg) clock ?denoms"
    by (auto simp: sc_children_def Let_def om_entries_def)
  note wired = remap_splits_wired [OF assms(3) sp] and wf = remap_splits_wf [OF sp]
  have get: "split_map_wf (ns_splits (net_split net))" "om_get (ns_splits (net_split net)) dn = om_get splits dn" for dn
    using ns_instantiate_splits [OF mk(2)] wf m(2) by auto
  have ab: "net_router_a net \<noteq> net_router_b net" using dist by simp
  have "fst ` set (receivers sc) = {net_router_a net, net_router_b net}" if "om_get splits dn = Some sc" for dn sc
    using that wired [OF ab, of dn] by blast
  with dist get have net: "swap_net_wf net" by (simp add: swap_net_wf_def)
  have "sw_next_contract h = Some (net_splitter net) \<and>
      sw_parties h = Some \<lparr>cp_party_a = to_covenant_party (scm_party_a msg), cp_party_b = to_covenant_party (scm_party_b msg)\<rparr> \<and>
      sw_terms h = Some (TokenSwap \<lparr>party_a_amount = coin_amount (get_contribution (scm_party_a msg)),
        party_b_amount = coin_amount (get_contribution (scm_party_b msg))\<rparr>) \<and>
      sw_refund h = Some \<lparr>party_a_refund_address = net_router_a net, party_b_refund_address = net_router_b net\<rparr> \<and>
      sw_contract_state h = Some SwInstantiated"
    using mk(1) addr_validate_specD(1) [OF assms(2)]
    by (auto simp: m(1) sw_instantiate_def sc_holder_init_def result_simps split: if_splits)
  then show "swap_set_up net (scm_party_a msg) (scm_party_b msg) h" "sw_contract_state h = Some SwInstantiated"
    using net assms(5) mk(3,4) by (auto simp: swap_set_up_def m(3,4) intro: router_created [OF assms(2)])
  show "due net a dn amount = agreed msg net a dn amount" by (rule wired_shares_agreed [OF assms(3) ab sp get(2)])
qed

lemma swap_reachable_inv:
  assumes "swap_set_up net pa pb h0" and "sw_contract_state h0 = Some SwInstantiated"
    and "swap_platform net d0" and "\<forall>dn. balance_of d0 (net_splitter net) dn = 0"
    and "(swap_step net)\<^sup>*\<^sup>* \<lparr>sys_platform = d0, sys_holder = h0, sys_sent = []\<rparr> s"
  shows "swap_inv net pa pb h0 s"
  using assms(5)
proof (induction rule: rtranclp_induct)
  case base
  have "h0 = h0\<lparr>sw_contract_state := Some SwInstantiated\<rparr>" using assms(2) by simp
  with assms(3,4) show ?case
    by (auto simp: swap_inv_def routers_serve_def swap_pending_def intro!: exI [of _ SwInstantiated])
next
  case (step s s')
  from step.hyps(2) step.IH show ?case
    by cases (auto intro: swap_inv_elsewhere swap_inv_holder [OF assms(1)] swap_inv_splitter [OF assms(1)]
        swap_inv_router [OF assms(1)])
qed

section \<open>Properties\<close>


text \<open>
  Claim C4: a swap whose deposits are there goes through. In every reachable state in which the holder has
  not decided yet, its lockup is open and it holds at least the agreed, non-zero amounts of both
  coins, the next tick of the holder succeeds; once the bank has carried it out, a tick of the
  splitter succeeds and pays each router exactly the agreed share of the holder's balances.
\<close>

theorem swap_goes_through:
  assumes "unique_addresses d" and "addr_validate_spec d" and "om_wf (scm_splits msg)" and "swap_deployed d env msg net h"
    and "\<forall>p\<in>{scm_party_a msg, scm_party_b msg}. is_native p \<longrightarrow> get_final_receiver_address p \<noteq> net_splitter net"
    and "swap_platform net d0" and "\<forall>dn. balance_of d0 (net_splitter net) dn = 0"
    and "(swap_step net)\<^sup>*\<^sup>* \<lparr>sys_platform = d0, sys_holder = h, sys_sent = []\<rparr> s"
    and "sw_contract_state (sys_holder s) = Some SwInstantiated" and "sw_lockup h = Some e"
    and "contract_address env_h = net_holder net" and "sw_clock h = Some (sender info_h)"
    and "\<not> is_expired (sys_platform s) e (env_block env_h)"
  defines "x \<equiv> balance_of (sys_platform s) (net_holder net) (get_native_denom (scm_party_a msg))"
    and "y \<equiv> balance_of (sys_platform s) (net_holder net) (get_native_denom (scm_party_b msg))"
  assumes "0 < x" and "unat (coin_amount (get_contribution (scm_party_a msg))) \<le> x"
    and "0 < y" and "unat (coin_amount (get_contribution (scm_party_b msg))) \<le> y"
    and "get_native_denom (scm_party_a msg) \<noteq> get_native_denom (scm_party_b msg)"
    and "contract_address env_s = net_splitter net" and "ns_clock (net_split net) = Some (sender info_s)"
  shows "\<exists>r h'. sw_execute (sys_platform s) env_h info_h SwTick (sys_holder s) = Ok (r, h') \<and>
    sw_contract_state h' = Some SwComplete \<and>
    (\<forall>d1. swap_platform net d1 \<and> bank_settles (net_holder net) (messages r) (sys_platform s) d1 \<longrightarrow>
      (\<exists>r'. ns_execute d1 env_s info_s NsTick (net_split net) = Ok (r', net_split net) \<and>
        (\<forall>a dn. total_to a dn (messages r') =
           agreed msg net a dn (swap_amount (scm_party_a msg) (scm_party_b msg) x y dn))))"
proof -
  let ?pa = "scm_party_a msg" and ?pb = "scm_party_b msg" and ?d = "sys_platform s" and ?S = "net_splitter net"
  note up = swap_deployed_set_up [OF assms(1-5)]
  from swap_reachable_inv [OF up(1,2) assms(6-8)] have plat: "swap_platform net ?d"
    and hs: "sys_holder s = h\<lparr>sw_contract_state := Some SwInstantiated\<rparr>" and b0: "\<And>dn. balance_of ?d ?S dn = 0"
    using assms(9) by (auto simp: swap_inv_def)
  from plat have plat': "query_balance_spec ?d" "query_deposit_address ?d ?S = Ok (Some ?S)"
    and "\<And>a dn. \<exists>c. query_balance ?d a dn = Ok c"
    by (auto simp: swap_platform_def ns_deposit_reply_def ns_query_def)
  then obtain ca cb where q: "query_balance ?d (net_holder net) (get_native_denom ?pa) = Ok ca"
    "query_balance ?d (net_holder net) (get_native_denom ?pb) = Ok cb" by meson
  with plat'(1) have amounts: "unat (coin_amount ca) = x" "unat (coin_amount cb) = y" "coin_denom ca = get_native_denom ?pa"
    "coin_denom cb = get_native_denom ?pb"
    by (auto simp: x_def y_def balance_of_def dest: query_balance_specD(1))
  have tick: "sw_execute ?d env_h info_h SwTick (sys_holder s) =
      Ok (resp [BankSend ?S [ca, cb], WasmExecute (sender info_h) DequeueMsg []], h\<lparr>sw_contract_state := Some SwComplete\<rparr>)"
    using q plat'(2) amounts up(1) assms(10-19) hs
    by (auto simp: sw_execute_def sw_try_tick_def verify_clock_def sw_try_forward_def swap_amounts_def word_less_nat_alt
        sw_complete_and_dequeue_def dequeue_msg_def swap_set_up_def x_def y_def)
  have "\<exists>r'. ns_execute d1 env_s info_s NsTick (net_split net) = Ok (r', net_split net) \<and>
      (\<forall>a dn. total_to a dn (messages r') = agreed msg net a dn (swap_amount ?pa ?pb x y dn))"
    if p1: "swap_platform net d1" and settles: "bank_settles (net_holder net) [BankSend ?S [ca, cb], WasmExecute (sender info_h) DequeueMsg []] ?d d1" for d1
  proof -
    have "?S \<noteq> net_holder net" using up(1) by (auto simp: swap_set_up_def swap_net_wf_def)
    with bank_settlesD [OF settles, of ?S] b0 amounts assms(20)
    have bal: "balance_of d1 ?S dn = swap_amount ?pa ?pb x y dn" for dn by (simp add: swap_amount_def)
    from p1 up(1) have ok: "multiply_ratio_spec d1" "query_balance_spec d1" "\<forall>a dn. \<exists>c. query_balance d1 a dn = Ok c"
      "split_map_wf (ns_splits (net_split net))" by (simp_all add: swap_platform_def swap_set_up_def swap_net_wf_def)
    from ns_tick_succeeds [OF ok assms(22), of env_s] assms(21) obtain r' where r': "ns_execute d1 env_s info_s NsTick (net_split net) = Ok (r', net_split net)"
      "paid_as_split d1 ?S (ns_splits (net_split net)) (messages r')"
      by auto
    with paid_as_split_due [OF r'(2)] up(3) bal show ?thesis by auto
  qed
  with tick show ?thesis by auto
qed

section \<open>An example\<close>

text \<open>The example covenant of \<open>Swap_Covenant\<close>, with its deposits at the holder, at the splitter, at the routers.\<close>

definition ex_swap_net :: swap_net where
  "ex_swap_net = \<lparr>net_holder = ''holder'', net_splitter = ''splitter'', net_router_a = ''party_a_router'', net_router_b = ''party_b_router'',
     net_split = \<lparr>ns_clock = Some ''clock'', ns_splits = nsi_splits sc_example_splitter, ns_fallback = None\<rparr>,
     net_route_a = InterchainRouterState \<lparr>ir_clock = Some ''clock'', ir_destination = Some \<lparr>local_to_destination_channel = ''channel-2'',
       destination_receiver = ''alice'', ibc_transfer_timeout = 100, denom_to_pfm_map = []\<rparr>, ir_denoms = Some [''a'', ''b'']\<rparr>,
     net_route_b = NativeRouterState \<lparr>nr_op_mode = Some (Permissioned [''clock'']), nr_receiver = Some ''bob'', nr_denoms = Some [''a'', ''b'']\<rparr>\<rparr>"

definition ex_swap_holder :: sw_state where
  "ex_swap_holder = \<lparr>sw_contract_state = Some SwInstantiated, sw_clock = Some ''clock'', sw_next_contract = Some ''splitter'',
     sw_parties = Some \<lparr>cp_party_a = to_covenant_party (scm_party_a sc_example), cp_party_b = to_covenant_party (scm_party_b sc_example)\<rparr>,
     sw_lockup = Some (AtHeight 100), sw_terms = Some (TokenSwap \<lparr>party_a_amount = 10, party_b_amount = 20\<rparr>),
     sw_refund = Some \<lparr>party_a_refund_address = ''party_a_router'', party_b_refund_address = ''party_b_router''\<rparr>\<rparr>"

definition ex_swap_chain :: "addr \<Rightarrow> addr \<Rightarrow> deps" where
  "ex_swap_chain at_a at_b = ref_chain (\<lambda>a dn. if dn = ''a'' \<and> a = at_a then 11 else if dn = ''b'' \<and> a = at_b then 20 else 0)"

lemma ex_swap_platform: "swap_platform ex_swap_net (ex_swap_chain p q)"
  using ref_multiply_ratio_ok ref_query_balance_ok
  by (auto simp: swap_platform_def ex_swap_chain_def ref_chain_def multiply_ratio_spec_def query_balance_spec_def
      ns_deposit_reply_def ns_query_def ref_multiply_ratio_def)

lemma ex_swap_balance:
  "balance_of (ex_swap_chain p q) a dn = (if dn = ''a'' \<and> a = p then 11 else if dn = ''b'' \<and> a = q then 20 else 0)"
  by (simp add: balance_of_def ex_swap_chain_def ref_chain_def)

lemma ex_swap_deployed: "swap_deployed (ref_chain bals) sc_example_env sc_example ex_swap_net ex_swap_holder"
proof -
  from sc_example_instantiate [of bals] obtain ms st where
    i: "sc_instantiate (ref_chain bals) sc_example_env sc_example = Ok (ms, st)"
      "try_map (child_address (ref_chain bals) (map of_char ''covenant'')) ms = Ok sc_example_children" by blast
  have c: "addr_canonicalize (ref_chain bals) (contract_address sc_example_env) = Ok (map of_char ''covenant'')"
    by (simp add: ref_chain_ok sc_example_env_def)
  from i(1) have st: "sc_holder st = Some ''holder''" "sc_splitter st = Some ''splitter''"
    "sc_party_a_router st = Some ''party_a_router''" "sc_party_b_router st = Some ''party_b_router''"
    using i(2) c by (auto elim!: sc_instantiate_view simp: sc_example_children_def sc_children_def Let_def)
  have "map_of sc_example_children ''holder'' = Some (SwapHolderInit (sc_holder_init sc_example ''clock'' ''splitter'' ''party_a_router'' ''party_b_router''))"
    "map_of sc_example_children ''splitter'' = Some (NativeSplitterInit sc_example_splitter)"
    "map_of sc_example_children ''party_a_router'' = Some (router_init (scm_party_a sc_example) ''clock'' [''a'', ''b''])"
    "map_of sc_example_children ''party_b_router'' = Some (router_init (scm_party_b sc_example) ''clock'' [''a'', ''b''])"
    by (simp_all add: sc_example_children_def sc_children_def Let_def om_entries_def sc_example_def)
  moreover have "\<exists>r. sw_instantiate (ref_chain bals) (sc_example_env\<lparr>contract_address := ''holder''\<rparr>)
      (sc_holder_init sc_example ''clock'' ''splitter'' ''party_a_router'' ''party_b_router'') = Ok (r, ex_swap_holder)"
    by (simp add: sw_instantiate_def sc_holder_init_def ref_chain_ok ex_swap_holder_def validate_party_addresses_def
        validate_receiver_address_def sc_example_def sc_example_env_def party_destination_def enqueue_msg_def)
  moreover have "\<exists>r. ns_instantiate (ref_chain bals) sc_example_splitter = Ok (r, net_split ex_swap_net)"
  proof -
    have d: "dec_add dec_zero dec_zero = Ok dec_zero" "dec_add dec_zero dec_one = Ok dec_one" "dec_add dec_one dec_zero = Ok dec_one"
      by (simp_all add: arith_simps)
    show ?thesis
      by (simp add: d ns_instantiate_def sc_example_splitter_def ns_save_split_def validate_shares_and_receiver_addresses_def
          ref_chain_ok enqueue_msg_def om_entries_def ex_swap_net_def)
  qed
  moreover have "router_create (ref_chain bals) (router_init (scm_party_a sc_example) ''clock'' [''a'', ''b'']) = Some (net_route_a ex_swap_net)"
    "router_create (ref_chain bals) (router_init (scm_party_b sc_example) ''clock'' [''a'', ''b'']) = Some (net_route_b ex_swap_net)"
    by (simp_all add: sc_example_def ir_instantiate_def nr_instantiate_def ref_chain_ok party_destination_def enqueue_msg_def
        ex_swap_net_def privileged_accounts_new_def)
  ultimately show ?thesis using i c st unfolding swap_deployed_def ex_swap_net_def by auto
qed

lemma ex_swap_facts:
  "unique_addresses (ref_chain bals)" "addr_validate_spec (ref_chain bals)" "om_wf (scm_splits sc_example)"
  "\<forall>p\<in>{scm_party_a sc_example, scm_party_b sc_example}. is_native p \<longrightarrow> get_final_receiver_address p \<noteq> net_splitter ex_swap_net"
  "\<forall>dn. balance_of (ex_swap_chain ''holder'' ''holder'') (net_splitter ex_swap_net) dn = 0"
  by (simp_all add: ref_chain_ok sc_example_def ex_swap_net_def ex_swap_balance)

lemma ex_swap_parts:
  "net_holder ex_swap_net = ''holder''" "net_splitter ex_swap_net = ''splitter''" "ns_clock (net_split ex_swap_net) = Some ''clock''"
  "get_native_denom (scm_party_a sc_example) = ''a''" "get_native_denom (scm_party_b sc_example) = ''b''"
  "coin_amount (get_contribution (scm_party_a sc_example)) = 10" "coin_amount (get_contribution (scm_party_b sc_example)) = 20"
  "sw_contract_state ex_swap_holder = Some SwInstantiated" "sw_lockup ex_swap_holder = Some (AtHeight 100)"
  "sw_clock ex_swap_holder = Some ''clock''"
  by (simp_all add: ex_swap_net_def sc_example_def ex_swap_holder_def)

abbreviation ex_env_at :: "addr \<Rightarrow> env" where
  "ex_env_at a \<equiv> \<lparr>env_block = \<lparr>block_height = 50, block_time = 0\<rparr>, contract_address = a\<rparr>"

abbreviation ex_from_clock :: message_info where
  "ex_from_clock \<equiv> \<lparr>sender = ''clock'', funds = []\<rparr>"

definition ex_swap_deposits :: "cosmos_msg list" where
  "ex_swap_deposits = [BankSend ''splitter'' [\<lparr>coin_denom = ''a'', coin_amount = 11\<rparr>, \<lparr>coin_denom = ''b'', coin_amount = 20\<rparr>],
     WasmExecute ''clock'' DequeueMsg []]"

definition ex_swap_payout :: "cosmos_msg list" where
  "ex_swap_payout = [BankSend ''party_b_router'' [\<lparr>coin_denom = ''a'', coin_amount = 11\<rparr>],
     BankSend ''party_a_router'' [\<lparr>coin_denom = ''b'', coin_amount = 20\<rparr>]]"

lemma ex_swap_forward:
  "sw_execute (ex_swap_chain ''holder'' ''holder'') (ex_env_at ''holder'') ex_from_clock SwTick ex_swap_holder =
     Ok (resp ex_swap_deposits, ex_swap_holder\<lparr>sw_contract_state := Some SwComplete\<rparr>)"
  by (simp add: sw_execute_def sw_try_tick_def sw_try_forward_def ex_swap_holder_def verify_clock_def ex_swap_deposits_def
      ex_swap_chain_def ref_chain_def sc_example_def swap_amounts_def sw_complete_and_dequeue_def dequeue_msg_def)

lemma ex_swap_split:
  "ns_execute (ex_swap_chain ''splitter'' ''splitter'') (ex_env_at ''splitter'') ex_from_clock NsTick (net_split ex_swap_net) =
     Ok (resp ex_swap_payout, net_split ex_swap_net)"
  by (simp add: ns_execute_def ns_try_distribute_def ex_swap_net_def verify_clock_def om_entries_def sc_example_splitter_def
      ex_swap_chain_def ref_chain_def ns_split_balance_def get_transfer_messages_None transfer_message_def ref_multiply_ratio_def
      dec_is_zero_def dec_zero_def dec_one_def decimal_fractional_def ex_swap_payout_def)

lemma ex_swap_run:
  "(swap_step ex_swap_net)\<^sup>*\<^sup>* \<lparr>sys_platform = ex_swap_chain ''holder'' ''holder'', sys_holder = ex_swap_holder, sys_sent = []\<rparr>
     \<lparr>sys_platform = ex_swap_chain ''party_b_router'' ''party_a_router'', sys_holder = ex_swap_holder\<lparr>sw_contract_state := Some SwComplete\<rparr>,
      sys_sent = [(''splitter'', ex_swap_payout), (''holder'', ex_swap_deposits)]\<rparr>"
proof -
  let ?s0 = "\<lparr>sys_platform = ex_swap_chain ''holder'' ''holder'', sys_holder = ex_swap_holder, sys_sent = []\<rparr>"
  let ?s1 = "\<lparr>sys_platform = ex_swap_chain ''splitter'' ''splitter'', sys_holder = ex_swap_holder\<lparr>sw_contract_state := Some SwComplete\<rparr>,
      sys_sent = [(''holder'', ex_swap_deposits)]\<rparr>"
  have "swap_step ex_swap_net ?s0 ?s1"
    using swap_step.holder_tick [of "ex_env_at ''holder''" ex_swap_net ?s0 ex_from_clock "resp ex_swap_deposits", OF _ _ ex_swap_platform] ex_swap_forward
    by (simp add: ex_swap_net_def bank_settles_def ex_swap_balance ex_swap_deposits_def ibc_out_def ibc_fees_def)
  moreover have "swap_step ex_swap_net ?s1 (?s1\<lparr>sys_platform := ex_swap_chain ''party_b_router'' ''party_a_router'',
      sys_sent := (''splitter'', ex_swap_payout) # sys_sent ?s1\<rparr>)"
    using swap_step.splitter_tick [of "ex_env_at ''splitter''" ex_swap_net ?s1 ex_from_clock "resp ex_swap_payout", OF _ _ ex_swap_platform] ex_swap_split
    by (simp add: ex_swap_net_def bank_settles_def ex_swap_balance ex_swap_payout_def ibc_out_def ibc_fees_def)
  ultimately show ?thesis by (auto intro: rtranclp.intros)
qed


theorem swap_goes_through_witness:
  "\<exists>r h' r'. sw_execute (ex_swap_chain ''holder'' ''holder'') (ex_env_at ''holder'') ex_from_clock SwTick ex_swap_holder = Ok (r, h') \<and>
     ns_execute (ex_swap_chain ''splitter'' ''splitter'') (ex_env_at ''splitter'') ex_from_clock NsTick (net_split ex_swap_net) =
       Ok (r', net_split ex_swap_net) \<and>
     total_to ''party_a_router'' ''b'' (messages r') = 20 \<and> total_to ''party_b_router'' ''a'' (messages r') = 11"
proof -
  let ?d = "ex_swap_chain ''holder'' ''holder''" and ?d1 = "ex_swap_chain ''splitter'' ''splitter''"
  let ?s = "\<lparr>sys_platform = ?d, sys_holder = ex_swap_holder, sys_sent = []\<rparr>"
  note go = swap_goes_through [OF ex_swap_facts(1-3) ex_swap_deployed ex_swap_facts(4) ex_swap_platform ex_swap_facts(5) rtranclp.rtrancl_refl,
      where e = "AtHeight 100" and env_h = "ex_env_at ''holder''" and info_h = ex_from_clock and env_s = "ex_env_at ''splitter''"
        and info_s = ex_from_clock]
  have "bank_settles ''holder'' ex_swap_deposits ?d ?d1"
    by (simp add: bank_settles_def ex_swap_balance ex_swap_deposits_def ibc_out_def ibc_fees_def)
  moreover have "\<not> is_expired ?d (AtHeight 100) (env_block (ex_env_at ''holder''))" by (simp add: ex_swap_chain_def ref_chain_ok)
  ultimately obtain r' where "ns_execute ?d1 (ex_env_at ''splitter'') ex_from_clock NsTick (net_split ex_swap_net) = Ok (r', net_split ex_swap_net)"
    "\<And>a dn. total_to a dn (messages r') = agreed sc_example ex_swap_net a dn
       (swap_amount (scm_party_a sc_example) (scm_party_b sc_example) 11 20 dn)"
    using go ex_swap_platform [of "''splitter''" "''splitter''"]
    by (auto simp: ex_swap_forward ex_swap_balance ex_swap_parts)
  with ex_swap_forward show ?thesis
    by (intro exI conjI) (assumption, auto simp: agreed_def sc_example_def ex_swap_net_def swap_amount_def om_get_def split_share_def)
qed

end
