(* ===== verification/Tick_Delivery.thy ===== *)
theory Tick_Delivery
  imports Clock Swap_Holder
begin

text \<open>
  Ticks from the clock to the contracts it queues. First the contract that exists to be ticked,
  the tester (\<open>contracts/clock-tester\<close>): it counts the ticks it accepts, or refuses them all. Then
  the delivery: a tick of the clock sends one sub-message with reply on error. The receiver runs
  with its messages to the clock (a contract that is done dequeues itself); if anything in there
  fails, the receiver's changes are undone and the clock's \<open>reply\<close> handles the error, so that the
  clock's own change, the rotation of its queue, is kept.
\<close>

section \<open>The clock tester\<close>

datatype tester_mode = ModeAccept | ModeError

datatype tester_error = TesterStd std_error | ErrorMode

record tester_state =
  tester_mode_item :: "tester_mode option"
  tick_count :: "u64 option"

record tester_instantiate_msg =
  ti_mode :: tester_mode

datatype tester_execute_msg = TesterTick

datatype tester_query_msg = TickCount

definition tester_instantiate :: "tester_instantiate_msg \<Rightarrow> (response \<times> tester_state, tester_error) result" where
  "tester_instantiate msg = Ok (resp [], \<lparr>tester_mode_item = Some (ti_mode msg), tick_count = Some 0\<rparr>)"

definition tester_execute :: "tester_execute_msg \<Rightarrow> tester_state \<Rightarrow> (response \<times> tester_state, tester_error) result" where
  "tester_execute msg st =
     (case msg of TesterTick \<Rightarrow>
        and_then (map_err TesterStd (load (tester_mode_item st))) (\<lambda>mode.
          case mode of
            ModeAccept \<Rightarrow>
              and_then (map_err TesterStd (load (tick_count st))) (\<lambda>count.
              and_then (add_or_panic count 1) (\<lambda>count'.
                Ok (resp [], st\<lparr>tick_count := Some count'\<rparr>)))
          | ModeError \<Rightarrow> Err ErrorMode))"

definition tester_query :: "tester_query_msg \<Rightarrow> tester_state \<Rightarrow> (u64, std_error) result" where
  "tester_query msg st = (case msg of TickCount \<Rightarrow> load (tick_count st))"

section \<open>Delivery\<close>

definition clock_message :: "deps \<Rightarrow> addr \<Rightarrow> addr \<Rightarrow> clock_state \<Rightarrow> cosmos_msg \<Rightarrow> (clock_state, clock_error) result" where
  "clock_message d clock from st m =
     (if m = WasmExecute clock EnqueueMsg [] then and_then (clock_execute d \<lparr>sender = from, funds = []\<rparr> CkEnqueue st) (\<lambda>(r, st'). Ok st')
      else if m = WasmExecute clock DequeueMsg [] then and_then (clock_execute d \<lparr>sender = from, funds = []\<rparr> CkDequeue st) (\<lambda>(r, st'). Ok st')
      else Ok st)"

text \<open>
  The contracts are a map from addresses to their storage; \<open>tick\<close> is the handler of the contract at
  an address for a tick from the clock. A message to an address without a contract fails.
\<close>

definition receive_tick ::
    "deps \<Rightarrow> addr \<Rightarrow> (addr \<Rightarrow> 's \<Rightarrow> (response \<times> 's, 'e) result) \<Rightarrow> submsg \<Rightarrow> clock_state \<Rightarrow> (addr \<Rightarrow> 's option)
     \<Rightarrow> (clock_state \<times> (addr \<Rightarrow> 's option)) option" where
  "receive_tick d clock tick m ck w =
     (case sub_msg m of
        WasmExecute a TickMsg _ \<Rightarrow>
          (case w a of
             None \<Rightarrow> None
           | Some s \<Rightarrow>
               (case tick a s of
                  Ok (r, s') \<Rightarrow>
                    (case try_fold (clock_message d clock a) ck (messages r) of
                       Ok ck' \<Rightarrow> Some (ck', w(a \<mapsto> s'))
                     | _ \<Rightarrow> None)
                | _ \<Rightarrow> None))
      | _ \<Rightarrow> None)"

definition system_tick ::
    "deps \<Rightarrow> addr \<Rightarrow> (addr \<Rightarrow> 's \<Rightarrow> (response \<times> 's, 'e) result) \<Rightarrow> clock_state \<times> (addr \<Rightarrow> 's option)
     \<Rightarrow> (clock_state \<times> (addr \<Rightarrow> 's option), clock_error) result" where
  "system_tick d clock tick = (\<lambda>(ck, w).
     and_then (clock_execute d \<lparr>sender = ''anyone'', funds = []\<rparr> CkTick ck) (\<lambda>(r, ck1).
       case submessages r of
         [] \<Rightarrow> Ok (ck1, w)
       | m # _ \<Rightarrow>
           (case receive_tick d clock tick m ck1 w of
              Some after \<Rightarrow> Ok after
            | None \<Rightarrow> and_then (clock_reply \<lparr>reply_id = sub_id m, reply_result = SubErr ''tick''\<rparr> ck1) (\<lambda>(_, ck2). Ok (ck2, w)))))"

fun system_ticks ::
    "deps \<Rightarrow> addr \<Rightarrow> (addr \<Rightarrow> 's \<Rightarrow> (response \<times> 's, 'e) result) \<Rightarrow> nat \<Rightarrow> clock_state \<times> (addr \<Rightarrow> 's option)
     \<Rightarrow> (clock_state \<times> (addr \<Rightarrow> 's option), clock_error) result" where
  "system_ticks d clock tick 0 sys = Ok sys"
| "system_ticks d clock tick (Suc n) sys = and_then (system_tick d clock tick sys) (system_ticks d clock tick n)"

section \<open>One round\<close>

text \<open>
  What the contracts may say to the clock when they are ticked: nothing, or that they leave. All
  contracts of the system keep to this; only instantiations enqueue.
\<close>

definition to_clock :: "addr \<Rightarrow> cosmos_msg list \<Rightarrow> cosmos_msg list" where
  "to_clock clock ms = filter (\<lambda>m. m \<in> {WasmExecute clock EnqueueMsg [], WasmExecute clock DequeueMsg []}) ms"

definition polite :: "addr \<Rightarrow> (addr \<Rightarrow> 's \<Rightarrow> (response \<times> 's, 'e) result) \<Rightarrow> bool" where
  "polite clock tick \<longleftrightarrow> (\<forall>a s r s'. tick a s = Ok (r, s') \<longrightarrow> to_clock clock (messages r) \<in> {[], [WasmExecute clock DequeueMsg []]})"

definition leaves :: "addr \<Rightarrow> (addr \<Rightarrow> 's \<Rightarrow> (response \<times> 's, 'e) result) \<Rightarrow> (addr \<Rightarrow> 's option) \<Rightarrow> addr \<Rightarrow> bool" where
  "leaves clock tick w a \<longleftrightarrow>
     (case w a of Some s \<Rightarrow> (case tick a s of Ok (r, s') \<Rightarrow> to_clock clock (messages r) \<noteq> [] | _ \<Rightarrow> False) | None \<Rightarrow> False)"

text \<open>The contracts in \<open>A\<close> ticked once: a failing one keeps its storage.\<close>

definition ticked :: "(addr \<Rightarrow> 's \<Rightarrow> (response \<times> 's, 'e) result) \<Rightarrow> addr set \<Rightarrow> (addr \<Rightarrow> 's option) \<Rightarrow> addr \<Rightarrow> 's option" where
  "ticked tick A w a = (if a \<in> A then map_option (\<lambda>s. commit s (tick a s)) (w a) else w a)"

definition clock_ready :: "addr list \<Rightarrow> clock_state \<Rightarrow> bool" where
  "clock_ready q ck \<longleftrightarrow> fifo_inv (ck_queue ck) \<and> ck_paused ck = Some False \<and> ck_tick_max_gas ck \<noteq> None \<and>
     fifo_elems (ck_queue ck) = q"

lemma clock_messages_fold:
  "try_fold (clock_message d clock a) ck ms = try_fold (clock_message d clock a) ck (to_clock clock ms)"
proof (induction ms arbitrary: ck)
  case (Cons m ms)
  then show ?case
    by (cases "clock_message d clock a ck m") (auto simp: to_clock_def clock_message_def)
qed (simp add: to_clock_def)

lemma clock_dequeue_ready:
  assumes "clock_ready q ck" and "a \<in> set q"
  shows "\<exists>ck'. clock_message d clock a ck (WasmExecute clock DequeueMsg []) = Ok ck' \<and> clock_ready (remove1 a q) ck' \<and>
     fifo_room (ck_queue ck') = fifo_room (ck_queue ck)"
proof -
  from assms(1) have "fifo_inv (ck_queue ck)" by (simp add: clock_ready_def)
  from fifo.rem_ok [OF this, of a] assms show ?thesis
    by (auto simp: clock_message_def clock_execute_def clock_dequeue_def clock_ready_def)
qed

text \<open>The clock's side of the contract: whatever polite receivers do, it serves all of them.\<close>

locale tick_receivers =
  fixes clock :: addr and tick :: "addr \<Rightarrow> 's \<Rightarrow> (response \<times> 's, 'e) result"
  assumes receivers_polite: "polite clock tick"
begin

lemma system_tick_first:
  assumes "clock_ready (x # ys) ck" and "0 < fifo_room (ck_queue ck)"
  shows "\<exists>ck'. system_tick d clock tick (ck, w) = Ok (ck', ticked tick {x} w) \<and>
     clock_ready (ys @ (if leaves clock tick w x then [] else [x])) ck' \<and>
     fifo_room (ck_queue ck) = Suc (fifo_room (ck_queue ck'))"
proof -
  from assms(1) obtain g where g: "ck_tick_max_gas ck = Some g" by (auto simp: clock_ready_def)
  from assms g clock_tick_first [of ck x ys g] obtain q' where
    t: "clock_tick ck = Ok (\<lparr>submessages = [tick_submsg x g]\<rparr>, ck\<lparr>ck_queue := q'\<rparr>)"
    and q': "fifo_inv q'" "fifo_elems q' = ys @ [x]" "fifo_room (ck_queue ck) = Suc (fifo_room q')"
    by (auto simp: clock_ready_def)
  let ?ck = "ck\<lparr>ck_queue := q'\<rparr>"
  have r1: "clock_ready (ys @ [x]) ?ck" using assms(1) q' by (simp add: clock_ready_def)
  have run: "system_tick d clock tick (ck, w) =
      (case receive_tick d clock tick (tick_submsg x g) ?ck w of Some after \<Rightarrow> Ok after | None \<Rightarrow> Ok (?ck, w))"
    using t assms(1) by (simp add: system_tick_def clock_execute_def clock_ready_def clock_reply_def tick_submsg_def split: option.splits)
  have x: "x \<notin> set ys"
    using assms(1) fifo.elems_distinct [of "ck_queue ck"] by (auto simp: clock_ready_def)
  show ?thesis
  proof (cases "\<exists>s r s'. w x = Some s \<and> tick x s = Ok (r, s')")
    case True
    then obtain s r s' where s: "w x = Some s" "tick x s = Ok (r, s')" by blast
    then have w: "w(x \<mapsto> s') = ticked tick {x} w" by (auto simp: ticked_def commit_def)
    from receivers_polite s(2) have "to_clock clock (messages r) = [] \<or> to_clock clock (messages r) = [WasmExecute clock DequeueMsg []]"
      by (auto simp: polite_def)
    then show ?thesis
    proof
      assume e: "to_clock clock (messages r) = []"
      with s r1 q'(3) w run show ?thesis
        by (simp add: receive_tick_def tick_submsg_def clock_messages_fold [of d clock x ?ck "messages r"] leaves_def)
    next
      assume e: "to_clock clock (messages r) = [WasmExecute clock DequeueMsg []]"
      from clock_dequeue_ready [OF r1, of x d clock] x obtain ck' where
        "clock_message d clock x ?ck (WasmExecute clock DequeueMsg []) = Ok ck'" "clock_ready ys ck'"
        "fifo_room (ck_queue ck') = fifo_room q'" by (auto simp: remove1_append)
      with e s q'(3) w run show ?thesis
        by (simp add: receive_tick_def tick_submsg_def clock_messages_fold [of d clock x ?ck "messages r"] leaves_def)
    qed
  next
    case False
    then have "receive_tick d clock tick (tick_submsg x g) ?ck w = None"
      by (auto simp: receive_tick_def tick_submsg_def split: option.splits result.splits)
    moreover have "ticked tick {x} w = w" "\<not> leaves clock tick w x"
      using False by (cases "w x"; auto simp: ticked_def commit_def leaves_def fun_eq_iff split: result.splits)+
    ultimately show ?thesis using run r1 q'(3) by simp
  qed
qed

lemma system_round:
  assumes "clock_ready (xs @ ys) ck" and "length xs \<le> fifo_room (ck_queue ck)"
  shows "\<exists>ck'. system_ticks d clock tick (length xs) (ck, w) = Ok (ck', ticked tick (set xs) w) \<and>
     clock_ready (ys @ filter (\<lambda>a. \<not> leaves clock tick w a) xs) ck'"
  using assms
proof (induction xs arbitrary: ck w ys)
  case Nil
  then show ?case by (auto simp: ticked_def)
next
  case (Cons x xs)
  from system_tick_first [of x "xs @ ys" ck d w] Cons.prems obtain ck1 where
    t: "system_tick d clock tick (ck, w) = Ok (ck1, ticked tick {x} w)"
    and r: "clock_ready (xs @ (ys @ (if leaves clock tick w x then [] else [x]))) ck1" "length xs \<le> fifo_room (ck_queue ck1)"
    by auto
  have "distinct (x # xs)" using Cons.prems(1) fifo.elems_distinct [of "ck_queue ck"] by (auto simp: clock_ready_def)
  then have "ticked tick (set xs) (ticked tick {x} w) = ticked tick (set (x # xs)) w"
    "\<And>a. a \<in> set xs \<Longrightarrow> leaves clock tick (ticked tick {x} w) a = leaves clock tick w a"
    by (auto simp: ticked_def leaves_def fun_eq_iff)
  with Cons.IH [OF r, of "ticked tick {x} w"] t show ?case by (auto cong: filter_cong)
qed

end


section \<open>Testers\<close>

definition tick_tester :: "addr \<Rightarrow> tester_state \<Rightarrow> (response \<times> tester_state, tester_error) result" where
  "tick_tester a = tester_execute TesterTick"

lemma tester_silent:
  assumes "tick_tester a st = Ok (r, st')"
  shows "messages r = []"
proof -
  from assms obtain mode where "tester_mode_item st = Some mode" by (auto simp: tick_tester_def tester_execute_def result_simps)
  with assms show ?thesis by (cases mode) (auto simp: tick_tester_def tester_execute_def result_simps)
qed

lemma tester_polite: "polite clock tick_tester"
  by (auto simp: polite_def to_clock_def dest!: tester_silent)

interpretation testers: tick_receivers clock tick_tester for clock
  by unfold_locales (rule tester_polite)

text \<open>An accepting tester counts the ticks it gets; a refusing one fails and keeps its count.\<close>

lemma tester_counts:
  "commit \<lparr>tester_mode_item = Some ModeAccept, tick_count = Some n\<rparr> (tick_tester a \<lparr>tester_mode_item = Some ModeAccept, tick_count = Some n\<rparr>) =
     \<lparr>tester_mode_item = Some ModeAccept, tick_count = Some (if unat n + 1 < 2 ^ 64 then n + 1 else n)\<rparr>"
  "commit \<lparr>tester_mode_item = Some ModeError, tick_count = Some n\<rparr> (tick_tester a \<lparr>tester_mode_item = Some ModeError, tick_count = Some n\<rparr>) =
     \<lparr>tester_mode_item = Some ModeError, tick_count = Some n\<rparr>"
  by (auto simp: tick_tester_def tester_execute_def commit_def add_or_panic_def)

definition ex_testers :: "addr \<Rightarrow> tester_state option" where
  "ex_testers = [''a'' \<mapsto> \<lparr>tester_mode_item = Some ModeError, tick_count = Some 0\<rparr>,
                 ''b'' \<mapsto> \<lparr>tester_mode_item = Some ModeAccept, tick_count = Some 0\<rparr>]"


section \<open>A holder that is done\<close>

definition tick_holder :: "deps \<Rightarrow> block_info \<Rightarrow> addr \<Rightarrow> addr \<Rightarrow> sw_state \<Rightarrow> (response \<times> sw_state, sw_error) result" where
  "tick_holder d b clock a = sw_execute d \<lparr>env_block = b, contract_address = a\<rparr> \<lparr>sender = clock, funds = []\<rparr> SwTick"

lemma holder_to_clock:
  assumes "tick_holder d b clock a st = Ok (r, st')"
  shows "to_clock clock (messages r) =
    (if sw_contract_state st = Some SwInstantiated \<and> sw_contract_state st' = Some SwComplete
     then [WasmExecute clock DequeueMsg []] else [])"
proof -
  from assms obtain ph where ph: "sw_contract_state st = Some ph" by (auto simp: tick_holder_def sw_execute_def sw_try_tick_def result_simps)
  show ?thesis
  proof (cases ph)
    case SwInstantiated
    with assms ph have "sw_try_forward d \<lparr>env_block = b, contract_address = a\<rparr> clock st = Ok (r, st')"
      by (auto simp: tick_holder_def sw_execute_def sw_try_tick_def result_simps)
    from sw_forward_cases [OF this] SwInstantiated ph show ?thesis by (auto simp: to_clock_def)
  qed (use assms ph in \<open>auto simp: tick_holder_def sw_execute_def sw_try_tick_def sw_try_refund_def result_simps to_clock_def split: bool.splits\<close>)
qed

lemma holder_polite: "polite clock (tick_holder d b clock)"
  by (auto simp: polite_def holder_to_clock)

interpretation holders: tick_receivers clock "tick_holder d b clock" for d b clock
  by unfold_locales (rule holder_polite)

text \<open>
  A swap holder that completes leaves the clock. After a round in which the clock ticks any number
  of swap holders, exactly those that completed their swap in it are gone from the queue.
\<close>

theorem completed_holder_leaves_queue:
  assumes "clock_inv extra ck" and "ck_paused ck = Some False"
    and "length (fifo_elems (ck_queue ck)) \<le> fifo_room (ck_queue ck)"
  shows "\<exists>ck' w'. w' = ticked (tick_holder d b clock) (set (fifo_elems (ck_queue ck))) w \<and>
    system_ticks d clock (tick_holder d b clock) (length (fifo_elems (ck_queue ck))) (ck, w) = Ok (ck', w') \<and>
    (\<forall>a\<in>set (fifo_elems (ck_queue ck)).
       a \<notin> set (fifo_elems (ck_queue ck')) \<longleftrightarrow>
       (\<exists>st st'. w a = Some st \<and> w' a = Some st' \<and> sw_contract_state st = Some SwInstantiated \<and> sw_contract_state st' = Some SwComplete))"
proof -
  have ready: "clock_ready (fifo_elems (ck_queue ck) @ []) ck" using assms(1,2) by (auto simp: clock_ready_def clock_inv_def)
  have "leaves clock (tick_holder d b clock) w a \<longleftrightarrow>
      (\<exists>st st'. w a = Some st \<and> ticked (tick_holder d b clock) A w a = Some st' \<and>
         sw_contract_state st = Some SwInstantiated \<and> sw_contract_state st' = Some SwComplete)" if "a \<in> A" for a A
    using that by (auto simp: leaves_def ticked_def commit_def holder_to_clock split: option.splits result.splits if_splits)
  note l = this
  from holders.system_round [OF ready assms(3), where da = d and d = d and b = b and clock = clock and w = w] obtain ck' where
    "system_ticks d clock (tick_holder d b clock) (length (fifo_elems (ck_queue ck))) (ck, w) =
       Ok (ck', ticked (tick_holder d b clock) (set (fifo_elems (ck_queue ck))) w)"
    "fifo_elems (ck_queue ck') = filter (\<lambda>a. \<not> leaves clock (tick_holder d b clock) w a) (fifo_elems (ck_queue ck))"
    by (auto simp: clock_ready_def)
  then show ?thesis
    by (intro exI [of _ ck'] exI [of _ "ticked (tick_holder d b clock) (set (fifo_elems (ck_queue ck))) w"])
      (auto simp: l [of _ "set (fifo_elems (ck_queue ck))"])
qed

theorem completed_holder_leaves_queue_witness:
  "\<exists>ck'. system_ticks ex_sw_deps ''clock'' (tick_holder ex_sw_deps \<lparr>block_height = 50, block_time = 0\<rparr> ''clock'') 2
     (ck_example_state, [''a'' \<mapsto> ex_sw_state]) = Ok (ck', [''a'' \<mapsto> ex_sw_state\<lparr>sw_contract_state := Some SwComplete\<rparr>]) \<and>
     ''a'' \<notin> set (fifo_elems (ck_queue ck'))"
proof -
  let ?tick = "tick_holder ex_sw_deps \<lparr>block_height = 50, block_time = 0\<rparr> ''clock''"
  let ?done = "ex_sw_state\<lparr>sw_contract_state := Some SwComplete\<rparr>"
  have room: "length (fifo_elems (ck_queue ck_example_state)) \<le> fifo_room (ck_queue ck_example_state)"
    "ck_paused ck_example_state = Some False"
    unfolding ck_example_inv(2) by (simp_all add: ck_example_state_def fifo_room_def fifo_next_def)
  have "\<exists>r. ?tick ''a'' ex_sw_state = Ok (r, ?done)"
    by (simp add: tick_holder_def sw_execute_def sw_try_tick_def sw_try_forward_def ex_sw_state_def ex_sw_deps_def verify_clock_def
        ex_swap_parties_def ex_swap_terms_def swap_amounts_def sw_complete_and_dequeue_def dequeue_msg_def)
  then have t: "ticked ?tick {''a'', ''b''} [''a'' \<mapsto> ex_sw_state] = [''a'' \<mapsto> ?done]" by (auto simp: ticked_def commit_def fun_eq_iff)
  have "sw_contract_state ex_sw_state = Some SwInstantiated" by (simp add: ex_sw_state_def)
  with completed_holder_leaves_queue [OF ck_example_inv(1) room(2,1), where w = "[''a'' \<mapsto> ex_sw_state]" and d = ex_sw_deps
      and b = "\<lparr>block_height = 50, block_time = 0\<rparr>" and clock = "''clock''"]
  show ?thesis by (auto simp: ck_example_inv(2) t numeral_2_eq_2)
qed

end
