(* ===== verification/Osmo_Claims.thy ===== *)
theory Osmo_Claims
  imports Claims Osmo_Correct Osmo_Outpost
begin

text \<open>
  Claims against a position on Osmosis. Unlike the Astroport pooler, the Osmosis pooler cannot
  answer a withdrawal in the same transaction: it only notes it, ticks of the clock request it
  through the note contract, a callback reports the outcome, and further ticks bring the coins
  home. The holder hears of the outcome from a later transaction of the pooler, by a \<open>Distribute\<close>
  message with the coins or a \<open>WithdrawFailed\<close> message. This theory runs the pooler of
  \<open>contracts/osmo-liquid-pooler\<close> together with the two liquidity holders.
\<close>

section \<open>The refund report\<close>

text \<open>
  The outpost reports the coins it returned in an attribute of its reply, as JSON text; the
  note contract relays the events of the execution to the Osmosis pooler, which looks for that
  attribute. \<open>refund_values\<close> are the values of the refund attributes among relayed results.
\<close>

definition refund_values :: "submsg_response list \<Rightarrow> string list" where
  "refund_values rs = [v. r \<leftarrow> rs, e \<leftarrow> sr_events r, ev_type e = ''wasm'', (k, v) \<leftarrow> ev_attributes e, k = ''refund_tokens'']"

lemma refund_event_fold:
  "handle_refund_event d env e st =
     fold (\<lambda>v. handle_refund_attr d env (''refund_tokens'', v))
       [v. ev_type e = ''wasm'', (k, v) \<leftarrow> ev_attributes e, k = ''refund_tokens''] st"
proof -
  have "fold (handle_refund_attr d env) as st =
      fold (\<lambda>v. handle_refund_attr d env (''refund_tokens'', v)) [v. (k, v) \<leftarrow> as, k = ''refund_tokens''] st" for as st
    by (induction as arbitrary: st) (auto simp: handle_refund_attr_def)
  then show ?thesis by (simp add: handle_refund_event_def)
qed

lemma handle_refunds_fold:
  "handle_refunds d env rs st = fold (\<lambda>v. handle_refund_attr d env (''refund_tokens'', v)) (refund_values rs) st"
proof -
  have "fold (handle_refund_event d env) es st = fold (\<lambda>v. handle_refund_attr d env (''refund_tokens'', v))
      [v. e \<leftarrow> es, ev_type e = ''wasm'', (k, v) \<leftarrow> ev_attributes e, k = ''refund_tokens''] st" for es st
    by (induction es arbitrary: st) (simp_all add: refund_event_fold)
  then show ?thesis
    by (induction rs arbitrary: st) (simp_all add: handle_refunds_def refund_values_def)
qed

definition os_route :: "os_state \<Rightarrow> addr option \<times> addr option \<times> addr option \<times> string option \<times> os_lp_config option \<times> os_ibc_config option" where
  "os_route st = (os_clock st, os_holder st, os_note st, os_proxy st, os_lp_config st, os_ibc_config st)"

lemma log_callback_keeps [simp]:
  "os_phase (log_callback k v st) = os_phase st" "os_route (log_callback k v st) = os_route st"
  "os_holder (log_callback k v st) = os_holder st"
  by (simp_all add: log_callback_def os_route_def)

lemma refund_attr_outcome:
  "os_phase (handle_refund_attr d env (''refund_tokens'', v) st) =
     Some (OsDistributing (case parse_coins d v of Some cs \<Rightarrow> cs | None \<Rightarrow> []))"
  "os_route (handle_refund_attr d env (''refund_tokens'', v) st) = os_route st"
  by (simp_all add: handle_refund_attr_def Let_def split: option.split) (simp_all add: os_route_def log_callback_def)

lemma handle_refunds_outcome:
  "os_phase (handle_refunds d env rs st) =
     (if refund_values rs = [] then os_phase st
      else Some (OsDistributing (case parse_coins d (last (refund_values rs)) of Some cs \<Rightarrow> cs | None \<Rightarrow> [])))"
  "os_route (handle_refunds d env rs st) = os_route st"
proof -
  have "os_phase (fold (\<lambda>v. handle_refund_attr d env (''refund_tokens'', v)) vs st) =
      (if vs = [] then os_phase st
       else Some (OsDistributing (case parse_coins d (last vs) of Some cs \<Rightarrow> cs | None \<Rightarrow> []))) \<and>
    os_route (fold (\<lambda>v. handle_refund_attr d env (''refund_tokens'', v)) vs st) = os_route st" for vs
    by (induction vs arbitrary: st) (simp_all add: refund_attr_outcome)
  then show "os_phase (handle_refunds d env rs st) =
     (if refund_values rs = [] then os_phase st
      else Some (OsDistributing (case parse_coins d (last (refund_values rs)) of Some cs \<Rightarrow> cs | None \<Rightarrow> [])))"
    "os_route (handle_refunds d env rs st) = os_route st"
    by (simp_all add: handle_refunds_fold)
qed

definition withdraw_callback :: "submsg_response list \<Rightarrow> os_execute_msg" where
  "withdraw_callback results =
     OsCallback \<lparr>cm_result = CallbackExecute (Ok results), cm_initiator_msg = Some withdraw_liquidity_callback_id\<rparr>"

section \<open>Transactions of the pooler that reach its holder\<close>

datatype 'e os_claim_error = OsHolderFailed 'e | OsPoolerFailed os_error

text \<open>
  The pooler's messages to the holder run in order, as part of the pooler's transaction: if the
  holder refuses one, the whole transaction is undone. \<open>distribute\<close> and \<open>failed\<close> are the holder's
  messages for the two outcomes.
\<close>

fun relay ::
    "(message_info \<Rightarrow> 'm \<Rightarrow> 's \<Rightarrow> (response \<times> 's, 'e) result) \<Rightarrow> 'm \<Rightarrow> 'm \<Rightarrow> addr \<Rightarrow> addr \<Rightarrow> cosmos_msg list \<Rightarrow> 's
     \<Rightarrow> (cosmos_msg list \<times> 's, 'e) result" where
  "relay exec distribute failed holder pooler [] hst = Ok ([], hst)"
| "relay exec distribute failed holder pooler (WasmExecute a DistributeMsg fs # ms) hst =
     (if a = holder
      then and_then (exec \<lparr>sender = pooler, funds = fs\<rparr> distribute hst) (\<lambda>(r, hst').
           and_then (relay exec distribute failed holder pooler ms hst') (\<lambda>(out, hst''). Ok (messages r @ out, hst'')))
      else relay exec distribute failed holder pooler ms hst)"
| "relay exec distribute failed holder pooler (WasmExecute a WithdrawFailedMsg fs # ms) hst =
     (if a = holder
      then and_then (exec \<lparr>sender = pooler, funds = fs\<rparr> failed hst) (\<lambda>(r, hst').
           and_then (relay exec distribute failed holder pooler ms hst') (\<lambda>(out, hst''). Ok (messages r @ out, hst'')))
      else relay exec distribute failed holder pooler ms hst)"
| "relay exec distribute failed holder pooler (_ # ms) hst = relay exec distribute failed holder pooler ms hst"

definition os_transaction ::
    "(env \<Rightarrow> message_info \<Rightarrow> 'm \<Rightarrow> 's \<Rightarrow> (response \<times> 's, 'e) result) \<Rightarrow> 'm \<Rightarrow> 'm
     \<Rightarrow> deps \<Rightarrow> env \<Rightarrow> env \<Rightarrow> message_info \<Rightarrow> os_execute_msg \<Rightarrow> 's \<Rightarrow> os_state
     \<Rightarrow> (cosmos_msg list \<times> 's \<times> os_state, 'e os_claim_error) result" where
  "os_transaction exec distribute failed d env_h env_p info msg hst pst =
     and_then (map_err OsPoolerFailed (os_execute d env_p info msg pst)) (\<lambda>(r, pst').
     and_then (map_err OsHolderFailed
         (relay (exec env_h) distribute failed (contract_address env_h) (contract_address env_p) (messages r) hst)) (\<lambda>(out, hst').
       Ok (out, hst', pst')))"

text \<open>What the pooler does in the two outcomes.\<close>

lemma os_distribution_sent:
  assumes "os_phase pst = Some (OsDistributing coins)" and "os_lp_config pst = Some c" and "os_clock pst = Some (sender info)"
    and "os_holder pst = Some holder" and "query_balance d (contract_address env) (local_denom (party_1_denom_info c)) = Ok b1"
    and "query_balance d (contract_address env) (local_denom (party_2_denom_info c)) = Ok b2" and "missing_coins coins c b1 b2 = []"
  shows "os_execute d env info OsTick pst = Ok (resp [WasmExecute holder DistributeMsg [b1, b2]],
     pst\<lparr>os_phase := Some OsActive, os_lp_config := Some (reset_latest_proxy_balances c)\<rparr>)"
  using assms by (auto simp: os_execute_def os_try_tick_def os_try_distribute_def verify_clock_def missing_coins_def Let_def split: if_splits)

lemma os_failure_reported:
  assumes "os_note pst = Some (sender info)" and "os_phase pst = Some phase" and "os_holder pst = Some holder"
    and "refund_values results = []" and "\<forall>cs. phase \<noteq> OsDistributing cs"
  shows "\<exists>pst'. os_execute d env info (withdraw_callback results) pst = Ok (resp [WasmExecute holder WithdrawFailedMsg []], pst') \<and>
     os_phase pst' = os_phase pst \<and> os_route pst' = os_route pst"
proof -
  have "os_holder (handle_refunds d env results pst) = Some holder"
    using handle_refunds_outcome(2) [of d env results pst] assms(3) by (simp add: os_route_def)
  with assms handle_refunds_outcome [of d env results pst] show ?thesis
    by (cases phase) (simp_all add: os_execute_def withdraw_callback_def try_handle_callback_def process_execute_callback_def Let_def
        provide_liquidity_callback_id_def create_proxy_callback_id_def withdraw_liquidity_callback_id_def)
qed

section \<open>The single-party holder\<close>

text \<open>
  Claim C14: a claim against an Osmosis position, from the request to the payment. A permitted claim is
  accepted by the holder, which locks itself against further claims, and by the pooler, which
  notes a withdrawal of the whole position. Whenever afterwards the pooler distributes and the coins have arrived,
  the tick of the clock sends both whole balances through the holder to the configured receiver, in one transfer,
  releases the lock and makes the pooler active again.
\<close>

theorem osmosis_claim_pays:
  assumes "sp_withdraw hst = None" and "sp_lockup hst = Some e" and "is_expired d e (env_block env_h)"
    and "sp_withdrawer hst = Some (sender info)" and "sp_pooler hst = Some (contract_address env_p)" and "sp_withdraw_to hst = Some a"
    and "os_holder pst = Some (contract_address env_h)" and "os_lp_config pst = Some c"
  shows "\<exists>hst1 pst1. sp_execute d env_h info SpClaim hst = Ok (resp [WasmExecute (contract_address env_p) (WithdrawMsg None) []], hst1) \<and>
    os_execute d env_p \<lparr>sender = contract_address env_h, funds = []\<rparr> (OsWithdraw None) pst = Ok (resp [], pst1) \<and>
    os_phase pst1 = Some (OsPendingWithdrawal dec_one) \<and>
    (\<forall>d' env' info'. sp_execute d' env' info' SpClaim hst1 = Err SpWithdrawAlreadyStarted) \<and>
    (\<forall>d2 env2 info2 pst2 coins c2 b1 b2. contract_address env2 = contract_address env_p \<and>
      os_phase pst2 = Some (OsDistributing coins) \<and> os_lp_config pst2 = Some c2 \<and> os_clock pst2 = Some (sender info2) \<and>
      os_holder pst2 = Some (contract_address env_h) \<and>
      query_balance d2 (contract_address env2) (local_denom (party_1_denom_info c2)) = Ok b1 \<and>
      query_balance d2 (contract_address env2) (local_denom (party_2_denom_info c2)) = Ok b2 \<and> missing_coins coins c2 b1 b2 = [] \<longrightarrow>
      os_transaction (sp_execute d2) SpDistribute SpWithdrawFailed d2 env_h env2 info2 OsTick hst1 pst2 =
        Ok ([BankSend a [b1, b2]], hst, pst2\<lparr>os_phase := Some OsActive, os_lp_config := Some (reset_latest_proxy_balances c2)\<rparr>))"
proof (intro exI conjI allI impI)
  let ?hst1 = "hst\<lparr>sp_withdraw := Some True\<rparr>"
  show "sp_execute d env_h info SpClaim hst = Ok (resp [WasmExecute (contract_address env_p) (WithdrawMsg None) []], ?hst1)"
    using assms by (simp add: sp_execute_def sp_try_claim_def generate_withdraw_msg_def)
  show "os_execute d env_p \<lparr>sender = contract_address env_h, funds = []\<rparr> (OsWithdraw None) pst =
      Ok (resp [], pst\<lparr>os_phase := Some (OsPendingWithdrawal dec_one), os_lp_config := Some (reset_latest_proxy_balances c)\<rparr>)"
    using assms(7,8) by (simp add: os_execute_def os_try_initiate_withdrawal_def Let_def dec_less_iff)
  fix d2 :: deps and env2 :: env and info2 :: message_info and pst2 :: os_state and coins c2 b1 b2
  assume "contract_address env2 = contract_address env_p \<and>
      os_phase pst2 = Some (OsDistributing coins) \<and> os_lp_config pst2 = Some c2 \<and> os_clock pst2 = Some (sender info2) \<and>
      os_holder pst2 = Some (contract_address env_h) \<and>
      query_balance d2 (contract_address env2) (local_denom (party_1_denom_info c2)) = Ok b1 \<and>
      query_balance d2 (contract_address env2) (local_denom (party_2_denom_info c2)) = Ok b2 \<and> missing_coins coins c2 b1 b2 = []"
  then have same: "contract_address env2 = contract_address env_p" and
    sent: "os_execute d2 env2 info2 OsTick pst2 = Ok (resp [WasmExecute (contract_address env_h) DistributeMsg [b1, b2]],
      pst2\<lparr>os_phase := Some OsActive, os_lp_config := Some (reset_latest_proxy_balances c2)\<rparr>)"
    by (blast intro: os_distribution_sent)+
  show "os_transaction (sp_execute d2) SpDistribute SpWithdrawFailed d2 env_h env2 info2 OsTick ?hst1 pst2 =
      Ok ([BankSend a [b1, b2]], hst, pst2\<lparr>os_phase := Some OsActive, os_lp_config := Some (reset_latest_proxy_balances c2)\<rparr>)"
    using assms(1,5,6) by (simp add: os_transaction_def sent same sp_execute_def sp_try_distribute_def)
qed (auto simp: sp_execute_def sp_try_claim_def)

theorem osmosis_claim_pays_witness:
  "\<exists>hst1 pst1. sp_execute (ref_deps (\<lambda>_ _. 0)) (ex_sp_env 200) (os_from ''owner'') SpClaim ex_sp_state =
       Ok (resp [WasmExecute ''pooler'' (WithdrawMsg None) []], hst1) \<and>
     os_transaction (sp_execute (ref_deps (\<lambda>_ _. 9))) SpDistribute SpWithdrawFailed (ref_deps (\<lambda>_ _. 9)) (ex_sp_env 200) os_example_env
       (os_from ''clock'') OsTick hst1 (os_example (OsDistributing [\<lparr>coin_denom = ''osmo-a'', coin_amount = 7\<rparr>]) (Some ''proxy'') []) =
       Ok ([BankSend ''router'' [\<lparr>coin_denom = ''a'', coin_amount = 9\<rparr>, \<lparr>coin_denom = ''b'', coin_amount = 9\<rparr>]], ex_sp_state, pst1)"
proof -
  let ?d = "ref_deps (\<lambda>_ _. 9)" and ?coins = "[\<lparr>coin_denom = ''osmo-a'', coin_amount = 7\<rparr>]"
  let ?pst = "os_example (OsDistributing ?coins) (Some ''proxy'') []"
  let ?b1 = "\<lparr>coin_denom = ''a'', coin_amount = 9\<rparr>" and ?b2 = "\<lparr>coin_denom = ''b'', coin_amount = 9\<rparr>"
  have arrived: "contract_address os_example_env = contract_address os_example_env \<and>
      os_phase ?pst = Some (OsDistributing ?coins) \<and> os_lp_config ?pst = Some (os_example_lp []) \<and>
      os_clock ?pst = Some (sender (os_from ''clock'')) \<and> os_holder ?pst = Some (contract_address (ex_sp_env 200)) \<and>
      query_balance ?d (contract_address os_example_env) (local_denom (party_1_denom_info (os_example_lp []))) = Ok ?b1 \<and>
      query_balance ?d (contract_address os_example_env) (local_denom (party_2_denom_info (os_example_lp []))) = Ok ?b2 \<and>
      missing_coins ?coins (os_example_lp []) ?b1 ?b2 = []"
    by (simp add: os_example_defs ex_sp_env_def missing_coins_def find_withdrawn_def)
  have ready: "sp_withdraw ex_sp_state = None" "sp_lockup ex_sp_state = Some (AtHeight 100)"
      "is_expired (ref_deps (\<lambda>_ _. 0)) (AtHeight 100) (env_block (ex_sp_env 200))"
      "sp_withdrawer ex_sp_state = Some (sender (os_from ''owner''))" "sp_pooler ex_sp_state = Some (contract_address os_example_env)"
      "sp_withdraw_to ex_sp_state = Some ''router''"
      "os_holder (os_example OsActive (Some ''proxy'') []) = Some (contract_address (ex_sp_env 200))"
      "os_lp_config (os_example OsActive (Some ''proxy'') []) = Some (os_example_lp [])"
    by (simp_all add: ex_sp_state_def ex_sp_env_def os_example_def os_example_env_def)
  have pooler: "contract_address os_example_env = ''pooler''" by (simp add: os_example_env_def)
  from osmosis_claim_pays [OF ready, unfolded pooler] arrived show ?thesis by (metis pooler)
qed

section \<open>The two-party holder\<close>


definition ex_redeemable :: "(denom, coin) omap" where
  "ex_redeemable = [(''gamm'', \<lparr>coin_denom = ''gamm'', coin_amount = 100\<rparr>), (''osmo-a'', \<lparr>coin_denom = ''osmo-a'', coin_amount = 0\<rparr>),
     (''osmo-b'', \<lparr>coin_denom = ''osmo-b'', coin_amount = 0\<rparr>)]"


end
