(* ===== verification/Macros.thy ===== *)
theory Macros
  imports Cosmwasm
begin

text \<open>
  The attribute macros of \<open>packages/covenant-macros\<close>. They add variants to the message enums of
  the contracts at compile time, so that a message serialized from one enum can be read as a
  variant of another. The Rust syntax library (\<open>syn\<close> and \<open>quote\<close>) is a parameter.
\<close>

named_theorems macro_defs

section \<open>Syntax trees\<close>

record rust_variant =
  v_ident :: string
  v_fields :: "(string \<times> string) list"   \<comment> \<open>name (empty in a tuple variant) and type\<close>
  v_returns :: "string option"             \<comment> \<open>the \<open>returns\<close> attribute of a query\<close>

datatype rust_data = EnumData "rust_variant list" | StructData "(string \<times> string) list" | UnionData "(string \<times> string) list"

record derive_input =
  di_ident :: string
  di_data :: rust_data

text \<open>
  What the macros use of the library, over an unspecified type of token streams: parsing of
  attribute arguments and of type declarations, where a failure is the tokens of a compile
  error, printing, and the tokens of an error message.
\<close>

record 'tok syn_api =
  parse_attribute_args :: "'tok \<Rightarrow> 'tok + string list"
  parse_derive_input :: "'tok \<Rightarrow> 'tok + derive_input"
  quote_derive_input :: "derive_input \<Rightarrow> 'tok"
  to_compile_error :: "string \<Rightarrow> 'tok"
  no_tokens :: 'tok

text \<open>Printing a declaration and parsing it again gives the declaration; no tokens are no arguments.\<close>

definition syn_spec :: "'tok syn_api \<Rightarrow> bool" where
  "syn_spec S \<longleftrightarrow> (\<forall>i. parse_derive_input S (quote_derive_input S i) = Inr i) \<and> parse_attribute_args S (no_tokens S) = Inr []"

section \<open>The macros\<close>

definition merge_variants :: "'tok syn_api \<Rightarrow> 'tok \<Rightarrow> 'tok \<Rightarrow> 'tok \<Rightarrow> 'tok" where
  "merge_variants S metadata left right =
     (case parse_attribute_args S metadata of
        Inl e \<Rightarrow> e
      | Inr (first_arg # _) \<Rightarrow> to_compile_error S ''macro takes no arguments''
      | Inr [] \<Rightarrow>
          (case parse_derive_input S left of
             Inl e \<Rightarrow> e
           | Inr l \<Rightarrow>
               (case parse_derive_input S right of
                  Inl e \<Rightarrow> e
                | Inr r \<Rightarrow>
                    (case (di_data l, di_data r) of
                       (EnumData variants, EnumData to_add) \<Rightarrow> quote_derive_input S (l\<lparr>di_data := EnumData (variants @ to_add)\<rparr>)
                     | _ \<Rightarrow> to_compile_error S ''variants may only be added for enums''))))"

abbreviation unit_variant :: "string \<Rightarrow> string option \<Rightarrow> rust_variant" where
  "unit_variant n ret \<equiv> \<lparr>v_ident = n, v_fields = [], v_returns = ret\<rparr>"

abbreviation rust_enum :: "string \<Rightarrow> rust_variant list \<Rightarrow> derive_input" where
  "rust_enum n vs \<equiv> \<lparr>di_ident = n, di_data = EnumData vs\<rparr>"

definition clocked :: "'tok syn_api \<Rightarrow> 'tok \<Rightarrow> 'tok \<Rightarrow> 'tok" where
  [macro_defs]: "clocked S metadata input =
     merge_variants S metadata input (quote_derive_input S (rust_enum ''Clocked'' [unit_variant ''Tick'' None]))"

definition covenant_deposit_address :: "'tok syn_api \<Rightarrow> 'tok \<Rightarrow> 'tok \<Rightarrow> 'tok" where
  [macro_defs]: "covenant_deposit_address S metadata input =
     merge_variants S metadata input (quote_derive_input S
       (rust_enum ''Deposit'' [unit_variant ''DepositAddress'' (Some ''Option<String>'')]))"

definition covenant_clock_address :: "'tok syn_api \<Rightarrow> 'tok \<Rightarrow> 'tok \<Rightarrow> 'tok" where
  [macro_defs]: "covenant_clock_address S metadata input =
     merge_variants S metadata input (quote_derive_input S
       (rust_enum ''Clock'' [unit_variant ''ClockAddress'' (Some ''Addr'')]))"

definition covenant_remote_chain :: "'tok syn_api \<Rightarrow> 'tok \<Rightarrow> 'tok \<Rightarrow> 'tok" where
  [macro_defs]: "covenant_remote_chain S metadata input =
     merge_variants S metadata input (quote_derive_input S
       (rust_enum ''RemoteChain'' [unit_variant ''RemoteChainInfo'' (Some ''RemoteChainInfo'')]))"

definition covenant_ica_address :: "'tok syn_api \<Rightarrow> 'tok \<Rightarrow> 'tok \<Rightarrow> 'tok" where
  [macro_defs]: "covenant_ica_address S metadata input =
     merge_variants S metadata input (quote_derive_input S
       (rust_enum ''ICA'' [unit_variant ''IcaAddress'' (Some ''Option<String>'')]))"

definition covenant_next_contract :: "'tok syn_api \<Rightarrow> 'tok \<Rightarrow> 'tok \<Rightarrow> 'tok" where
  [macro_defs]: "covenant_next_contract S metadata input =
     merge_variants S metadata input (quote_derive_input S
       (rust_enum ''NextContract'' [unit_variant ''NextContract'' (Some ''Option<String>'')]))"

definition covenant_lper_withdraw :: "'tok syn_api \<Rightarrow> 'tok \<Rightarrow> 'tok \<Rightarrow> 'tok" where
  [macro_defs]: "covenant_lper_withdraw S metadata input =
     merge_variants S metadata input (quote_derive_input S
       (rust_enum ''WithdrawMsgs'' [\<lparr>v_ident = ''Withdraw'', v_fields = [(''percentage'', ''Option<Decimal>'')], v_returns = None\<rparr>]))"

definition covenant_holder_distribute :: "'tok syn_api \<Rightarrow> 'tok \<Rightarrow> 'tok \<Rightarrow> 'tok" where
  [macro_defs]: "covenant_holder_distribute S metadata input =
     merge_variants S metadata input (quote_derive_input S
       (rust_enum ''DistributeMsgs'' [unit_variant ''Distribute'' None, unit_variant ''WithdrawFailed'' None]))"

definition covenant_holder_emergency_withdraw :: "'tok syn_api \<Rightarrow> 'tok \<Rightarrow> 'tok \<Rightarrow> 'tok" where
  [macro_defs]: "covenant_holder_emergency_withdraw S metadata input =
     merge_variants S metadata input (quote_derive_input S
       (rust_enum ''EmergencyWithdrawMsgs'' [unit_variant ''EmergencyWithdraw'' None]))"

text \<open>Only declarations of enums are extended, and only by a macro without arguments.\<close>

lemma merge_variants_enums [simp]:
  assumes "syn_spec S"
  shows "merge_variants S (no_tokens S) (quote_derive_input S (rust_enum n vs)) (quote_derive_input S (rust_enum k ws))
    = quote_derive_input S (rust_enum n (vs @ ws))"
  using assms by (simp add: merge_variants_def syn_spec_def)

lemma merge_variants_rejects:
  assumes "syn_spec S" and "parse_attribute_args S metadata = Inr (a # as) \<or>
    (parse_attribute_args S metadata = Inr [] \<and> (\<forall>vs. di_data i \<noteq> EnumData vs))"
  shows "\<exists>msg. merge_variants S metadata (quote_derive_input S i) (quote_derive_input S j) = to_compile_error S msg"
  using assms by (cases "di_data i") (auto simp: merge_variants_def syn_spec_def)

section \<open>The message enums of the contracts\<close>

text \<open>
  A declaration of an enum with its attribute macros, which the compiler applies from the first
  to the last. \<open>expanded\<close> are the variants of the resulting enum.
\<close>

type_synonym 'tok attribute_macro = "'tok syn_api \<Rightarrow> 'tok \<Rightarrow> 'tok \<Rightarrow> 'tok"

definition expand :: "'tok syn_api \<Rightarrow> 'tok attribute_macro list \<times> derive_input \<Rightarrow> 'tok" where
  "expand S decl = fold (\<lambda>m. m S (no_tokens S)) (fst decl) (quote_derive_input S (snd decl))"

definition expanded :: "'tok syn_api \<Rightarrow> 'tok attribute_macro list \<times> derive_input \<Rightarrow> rust_variant list" where
  "expanded S decl =
     (case parse_derive_input S (expand S decl) of
        Inl e \<Rightarrow> []
      | Inr i \<Rightarrow> (case di_data i of EnumData vs \<Rightarrow> vs | _ \<Rightarrow> []))"

text \<open>The messages the contracts execute, and the enums other contracts serialize them from.\<close>

definition clock_execute_decl :: "'tok attribute_macro list \<times> derive_input" where
  [macro_defs]: "clock_execute_decl =
     ([clocked],
      rust_enum ''ExecuteMsg'' [unit_variant ''Enqueue'' None,
        unit_variant ''Dequeue'' None])"

definition tester_execute_decl :: "'tok attribute_macro list \<times> derive_input" where
  [macro_defs]: "tester_execute_decl =
     ([],
      rust_enum ''ExecuteMsg'' [unit_variant ''Tick'' None])"

definition fw_execute_decl :: "'tok attribute_macro list \<times> derive_input" where
  [macro_defs]: "fw_execute_decl =
     ([clocked],
      rust_enum ''ExecuteMsg'' [\<lparr>v_ident = ''DistributeFallback'', v_fields = [(''coins'', ''Vec<Coin>'')], v_returns = None\<rparr>])"

definition ir_execute_decl :: "'tok attribute_macro list \<times> derive_input" where
  [macro_defs]: "ir_execute_decl =
     ([clocked],
      rust_enum ''ExecuteMsg'' [\<lparr>v_ident = ''DistributeFallback'', v_fields = [(''denoms'', ''Vec<String>'')], v_returns = None\<rparr>])"

definition nr_execute_decl :: "'tok attribute_macro list \<times> derive_input" where
  [macro_defs]: "nr_execute_decl =
     ([clocked],
      rust_enum ''ExecuteMsg'' [\<lparr>v_ident = ''DistributeFallback'', v_fields = [(''denoms'', ''Vec<String>'')], v_returns = None\<rparr>])"

definition ns_execute_decl :: "'tok attribute_macro list \<times> derive_input" where
  [macro_defs]: "ns_execute_decl =
     ([clocked],
      rust_enum ''ExecuteMsg'' [\<lparr>v_ident = ''DistributeFallback'', v_fields = [(''denoms'', ''Vec<String>'')], v_returns = None\<rparr>])"

definition rcs_execute_decl :: "'tok attribute_macro list \<times> derive_input" where
  [macro_defs]: "rcs_execute_decl =
     ([clocked],
      rust_enum ''ExecuteMsg'' [\<lparr>v_ident = ''DistributeFallback'', v_fields = [(''coins'', ''Vec<Coin>'')], v_returns = None\<rparr>])"

definition ls_execute_decl :: "'tok attribute_macro list \<times> derive_input" where
  [macro_defs]: "ls_execute_decl =
     ([clocked],
      rust_enum ''ExecuteMsg'' [\<lparr>v_ident = ''Transfer'', v_fields = [(''amount'', ''Uint128'')], v_returns = None\<rparr>])"

definition ap_execute_decl :: "'tok attribute_macro list \<times> derive_input" where
  [macro_defs]: "ap_execute_decl =
     ([clocked, covenant_lper_withdraw],
      rust_enum ''ExecuteMsg'' [])"

definition os_execute_decl :: "'tok attribute_macro list \<times> derive_input" where
  [macro_defs]: "os_execute_decl =
     ([clocked, covenant_lper_withdraw],
      rust_enum ''ExecuteMsg'' [\<lparr>v_ident = ''Callback'', v_fields = [('''', ''CallbackMessage'')], v_returns = None\<rparr>])"

definition sw_execute_decl :: "'tok attribute_macro list \<times> derive_input" where
  [macro_defs]: "sw_execute_decl =
     ([clocked],
      rust_enum ''ExecuteMsg'' [])"

definition tp_execute_decl :: "'tok attribute_macro list \<times> derive_input" where
  [macro_defs]: "tp_execute_decl =
     ([clocked, covenant_holder_distribute, covenant_holder_emergency_withdraw],
      rust_enum ''ExecuteMsg'' [unit_variant ''Ragequit'' None,
        unit_variant ''Claim'' None,
        \<lparr>v_ident = ''DistributeFallbackSplit'', v_fields = [(''denoms'', ''Vec<String>'')], v_returns = None\<rparr>])"

definition sp_execute_decl :: "'tok attribute_macro list \<times> derive_input" where
  [macro_defs]: "sp_execute_decl =
     ([covenant_holder_distribute, covenant_holder_emergency_withdraw],
      rust_enum ''ExecuteMsg'' [unit_variant ''Claim'' None])"

definition withdraw_lp_msgs_decl :: "'tok attribute_macro list \<times> derive_input" where
  [macro_defs]: "withdraw_lp_msgs_decl =
     ([covenant_lper_withdraw, covenant_holder_distribute],
      rust_enum ''WithdrawLPMsgs'' [])"

definition clock_msg_decl :: "'tok attribute_macro list \<times> derive_input" where
  [macro_defs]: "clock_msg_decl =
     ([],
      rust_enum ''ClockMsg'' [unit_variant ''Enqueue'' None,
        unit_variant ''Dequeue'' None])"

text \<open>The queries that are extended by macros, and the enum the deposit address is asked with.\<close>

definition fw_query_decl :: "'tok attribute_macro list \<times> derive_input" where
  [macro_defs]: "fw_query_decl =
     ([covenant_deposit_address, covenant_remote_chain, covenant_ica_address],
      rust_enum ''QueryMsg'' [unit_variant ''ContractState'' (Some ''ContractState''),
        unit_variant ''FallbackAddress'' (Some ''Option<String>''),
        unit_variant ''OperationMode'' (Some ''ContractOperationMode'')])"

definition ir_query_decl :: "'tok attribute_macro list \<times> derive_input" where
  [macro_defs]: "ir_query_decl =
     ([covenant_clock_address],
      rust_enum ''QueryMsg'' [unit_variant ''ReceiverConfig'' (Some ''DestinationConfig''),
        unit_variant ''TargetDenoms'' (Some ''BTreeSet<String>'')])"

definition ns_query_decl :: "'tok attribute_macro list \<times> derive_input" where
  [macro_defs]: "ns_query_decl =
     ([covenant_clock_address, covenant_deposit_address],
      rust_enum ''QueryMsg'' [\<lparr>v_ident = ''DenomSplit'', v_fields = [(''denom'', ''String'')], v_returns = Some ''SplitConfig''\<rparr>,
        unit_variant ''Splits'' (Some ''Vec<(String, SplitConfig)>''),
        unit_variant ''FallbackSplit'' (Some ''SplitConfig'')])"

definition rcs_query_decl :: "'tok attribute_macro list \<times> derive_input" where
  [macro_defs]: "rcs_query_decl =
     ([covenant_remote_chain, covenant_deposit_address, covenant_ica_address],
      rust_enum ''QueryMsg'' [unit_variant ''ContractState'' (Some ''ContractState''),
        unit_variant ''SplitConfig'' (Some ''Vec<(String, SplitConfig)>''),
        unit_variant ''TransferAmount'' (Some ''Uint128''),
        unit_variant ''FallbackAddress'' (Some ''Option<String>''),
        unit_variant ''OperationMode'' (Some ''ContractOperationMode'')])"

definition ls_query_decl :: "'tok attribute_macro list \<times> derive_input" where
  [macro_defs]: "ls_query_decl =
     ([covenant_clock_address, covenant_remote_chain, covenant_deposit_address, covenant_ica_address],
      rust_enum ''QueryMsg'' [unit_variant ''ContractState'' (Some ''ContractState''),
        unit_variant ''NextMemo'' (Some ''String'')])"

definition ap_query_decl :: "'tok attribute_macro list \<times> derive_input" where
  [macro_defs]: "ap_query_decl =
     ([covenant_deposit_address],
      rust_enum ''QueryMsg'' [unit_variant ''ContractState'' (Some ''ContractState''),
        unit_variant ''HolderAddress'' (Some ''Addr''),
        unit_variant ''LpConfig'' (Some ''LpConfig''),
        unit_variant ''ProvidedLiquidityInfo'' (Some ''ProvidedLiquidityInfo''),
        unit_variant ''OperationMode'' (Some ''ContractOperationMode'')])"

definition os_query_decl :: "'tok attribute_macro list \<times> derive_input" where
  [macro_defs]: "os_query_decl =
     ([covenant_clock_address, covenant_deposit_address],
      rust_enum ''QueryMsg'' [unit_variant ''ContractState'' (Some ''ContractState''),
        unit_variant ''HolderAddress'' (Some ''Addr''),
        unit_variant ''LiquidityProvisionConfig'' (Some ''LiquidityProvisionConfig''),
        unit_variant ''IbcConfig'' (Some ''IbcConfig''),
        unit_variant ''ProxyAddress'' (Some ''Option<String>''),
        unit_variant ''Callbacks'' (Some ''Vec<String>'')])"

definition sw_query_decl :: "'tok attribute_macro list \<times> derive_input" where
  [macro_defs]: "sw_query_decl =
     ([covenant_clock_address, covenant_deposit_address],
      rust_enum ''QueryMsg'' [unit_variant ''NextContract'' (Some ''String''),
        unit_variant ''LockupConfig'' (Some ''Expiration''),
        unit_variant ''CovenantParties'' (Some ''CovenantPartiesConfig''),
        unit_variant ''CovenantTerms'' (Some ''CovenantTerms''),
        unit_variant ''ContractState'' (Some ''ContractState''),
        unit_variant ''RefundConfig'' (Some ''RefundConfig'')])"

definition tp_query_decl :: "'tok attribute_macro list \<times> derive_input" where
  [macro_defs]: "tp_query_decl =
     ([covenant_clock_address, covenant_next_contract, covenant_deposit_address],
      rust_enum ''QueryMsg'' [unit_variant ''ContractState'' (Some ''ContractState''),
        unit_variant ''RagequitConfig'' (Some ''RagequitConfig''),
        unit_variant ''LockupConfig'' (Some ''Expiration''),
        unit_variant ''ConfigPartyA'' (Some ''TwoPartyPolCovenantParty''),
        unit_variant ''ConfigPartyB'' (Some ''TwoPartyPolCovenantParty''),
        unit_variant ''DepositDeadline'' (Some ''Expiration''),
        unit_variant ''Config'' (Some ''TwoPartyPolCovenantConfig''),
        unit_variant ''DenomSplits'' (Some ''DenomSplits''),
        unit_variant ''EmergencyCommittee'' (Some ''Addr'')])"

definition neutron_query_decl :: "'tok attribute_macro list \<times> derive_input" where
  [macro_defs]: "neutron_query_decl =
     ([],
      rust_enum ''QueryMsg'' [unit_variant ''DepositAddress'' (Some ''Option<String>'')])"

text \<open>Which contracts receive ticks, withdrawals, distributions and questions for the deposit address.\<close>

definition ticked_decls :: "('tok attribute_macro list \<times> derive_input) list" where
  [macro_defs]: "ticked_decls = [tester_execute_decl, fw_execute_decl, ir_execute_decl, nr_execute_decl, ns_execute_decl, rcs_execute_decl,
     ls_execute_decl, ap_execute_decl, os_execute_decl, sw_execute_decl, tp_execute_decl]"

definition deposit_decls :: "('tok attribute_macro list \<times> derive_input) list" where
  [macro_defs]: "deposit_decls = [fw_query_decl, ns_query_decl, rcs_query_decl, ls_query_decl, ap_query_decl, os_query_decl, sw_query_decl,
     tp_query_decl]"

text \<open>
  For each message between contracts of the system: the enum its sender serializes it from and
  the enums of its receivers.
\<close>

fun sender_enum :: "wasm_payload \<Rightarrow> ('tok attribute_macro list \<times> derive_input) option" where
  "sender_enum TickMsg = Some clock_execute_decl"
| "sender_enum EnqueueMsg = Some clock_msg_decl"
| "sender_enum DequeueMsg = Some clock_msg_decl"
| "sender_enum (WithdrawMsg _) = Some withdraw_lp_msgs_decl"
| "sender_enum DistributeMsg = Some withdraw_lp_msgs_decl"
| "sender_enum WithdrawFailedMsg = Some withdraw_lp_msgs_decl"
| "sender_enum _ = None"

fun receiver_enums :: "wasm_payload \<Rightarrow> ('tok attribute_macro list \<times> derive_input) list" where
  "receiver_enums TickMsg = ticked_decls"
| "receiver_enums EnqueueMsg = [clock_execute_decl]"
| "receiver_enums DequeueMsg = [clock_execute_decl]"
| "receiver_enums (WithdrawMsg _) = [ap_execute_decl, os_execute_decl]"
| "receiver_enums DistributeMsg = [tp_execute_decl, sp_execute_decl]"
| "receiver_enums WithdrawFailedMsg = [tp_execute_decl, sp_execute_decl]"
| "receiver_enums _ = []"

fun payload_name :: "wasm_payload \<Rightarrow> string" where
  "payload_name TickMsg = ''Tick''"
| "payload_name EnqueueMsg = ''Enqueue''"
| "payload_name DequeueMsg = ''Dequeue''"
| "payload_name (WithdrawMsg _) = ''Withdraw''"
| "payload_name DistributeMsg = ''Distribute''"
| "payload_name WithdrawFailedMsg = ''WithdrawFailed''"
| "payload_name _ = []"

lemma parse_quote [simp]: "syn_spec S \<Longrightarrow> parse_derive_input S (quote_derive_input S i) = Inr i"
  by (simp add: syn_spec_def)

lemmas expansion = expanded_def expand_def macro_defs

text \<open>
  Claim C40: the contracts understand each other's messages. After the macros are expanded, every
  message one contract sends another is a variant of the enum its sender serializes it from and,
  with the same name and fields, of the message enum of every contract it is meant for: ticks, the queue
  messages of the clock, withdrawals, distributions and failed withdrawals. The question for the
  deposit address is a query of every contract funds are forwarded to, with the same type of answer. No enum has two
  variants of the same name, so a message is never read as another one.
\<close>

theorem messages_are_understood:
  assumes "syn_spec S" and "sender_enum m = Some decl"
  shows "(\<exists>v\<in>set (expanded S decl). v_ident v = payload_name m \<and> (\<forall>r\<in>set (receiver_enums m). v \<in> set (expanded S r))) \<and>
    (\<forall>r\<in>set (receiver_enums m). distinct (map v_ident (expanded S r))) \<and>
    (\<forall>q\<in>set deposit_decls. set (expanded S neutron_query_decl) \<subseteq> set (expanded S q) \<and> distinct (map v_ident (expanded S q)))"
proof (intro conjI)
  show "\<exists>v\<in>set (expanded S decl). v_ident v = payload_name m \<and> (\<forall>r\<in>set (receiver_enums m). v \<in> set (expanded S r))"
    using assms(2) by (cases m) (auto simp: expansion assms(1))
  show "\<forall>r\<in>set (receiver_enums m). distinct (map v_ident (expanded S r))"
    using assms(2) by (cases m) (auto simp: expansion assms(1))
  show "\<forall>q\<in>set deposit_decls. set (expanded S neutron_query_decl) \<subseteq> set (expanded S q) \<and> distinct (map v_ident (expanded S q))"
    by (simp add: expansion assms(1))
qed

text \<open>A syntax library whose token streams are the syntax trees themselves.\<close>

datatype tree_tokens = ArgTokens "string list" | ItemTokens derive_input | ErrorTokens string

definition tree_syn :: "tree_tokens syn_api" where
  "tree_syn = \<lparr>parse_attribute_args = (\<lambda>t. case t of ArgTokens as \<Rightarrow> Inr as | _ \<Rightarrow> Inl (ErrorTokens ''expected arguments'')),
     parse_derive_input = (\<lambda>t. case t of ItemTokens i \<Rightarrow> Inr i | _ \<Rightarrow> Inl (ErrorTokens ''expected an item'')),
     quote_derive_input = ItemTokens, to_compile_error = ErrorTokens, no_tokens = ArgTokens []\<rparr>"

lemma tree_syn_spec: "syn_spec tree_syn"
  by (simp add: syn_spec_def tree_syn_def)

theorem messages_are_understood_witness:
  "\<exists>v\<in>set (expanded tree_syn withdraw_lp_msgs_decl). v_ident v = ''Withdraw'' \<and>
     v \<in> set (expanded tree_syn ap_execute_decl) \<and> v \<in> set (expanded tree_syn os_execute_decl)"
  using messages_are_understood [OF tree_syn_spec, of "WithdrawMsg None" withdraw_lp_msgs_decl] by auto

end
