(* ===== verification/Spec2Isabelle.thy ===== *)
theory Spec2Isabelle
  imports Clock Claims Swap_Holder Native_Splitter Native_Router Interchain_Router
    Ibc_Forwarder Remote_Chain_Splitter Stride_Staker Astroport_Pooler Osmo_Correct Osmo_Outpost
    Swap_Covenant Two_Party_Covenant Single_Party_Covenant Swap_System Tick_Delivery Osmo_Claims Macros
begin

text \<open>
  \<^bold>\<open>Covenants.\<close> The program is a family of CosmWasm contracts (Rust, under \<open>src/contracts\<close> and
  \<open>src/packages\<close>) that carry out agreements between parties on different chains: token swaps and
  protocol-owned liquidity. A covenant contract deploys the other contracts and wires them to
  each other by predicted addresses; a clock ticks them in turn; forwarders bring the parties'
  funds in through interchain accounts, splitters divide them, a liquid pooler puts them into a
  pool, a holder keeps the position and decides who may withdraw and when, and routers deliver
  what comes out.

  \<^bold>\<open>Theories and the code they model.\<close>

  \<^item> \<open>Prelude\<close>: the outcome of a Rust call (\<open>Ok\<close>, \<open>Err\<close>, \<open>Panic\<close>), checked and panicking machine
    arithmetic, the \<open>?\<close> operator as \<open>and_then\<close>, loops as \<open>try_fold\<close> and \<open>try_map\<close>.
  \<^item> \<open>Ordered_Map\<close>: \<open>BTreeMap\<close> and storage maps as sorted association lists.
  \<^item> \<open>Cosmwasm\<close>: coins, decimals, messages, responses, and the platform as the record \<open>deps\<close>.
  \<^item> \<open>Transactions\<close>: histories of calls. A call that fails leaves the storage as it was
    (\<open>commit\<close>, \<open>run_calls\<close>); the locales for invariants, phases and locks of a contract.
  \<^item> \<open>Fifo\<close>: \<open>packages/cw-fifo\<close>. \<open>Clock\<close>: \<open>contracts/clock\<close>.
  \<^item> \<open>Covenant_Utils\<close>, \<open>Split\<close>, \<open>Destination\<close>, \<open>Ica\<close>: \<open>packages/covenant-utils\<close>.
  \<^item> \<open>Two_Party_Holder\<close>, \<open>Two_Party_Correct\<close>, \<open>Two_Party_Payouts\<close>: \<open>contracts/two-party-pol-holder\<close>
    (the model, its histories, its payments). \<open>Single_Party_Holder\<close>, \<open>Swap_Holder\<close>: the other holders.
  \<^item> \<open>Native_Splitter\<close>, \<open>Native_Router\<close>, \<open>Interchain_Router\<close>, \<open>Ibc_Forwarder\<close>,
    \<open>Remote_Chain_Splitter\<close>, \<open>Stride_Staker\<close>: the contract of that name under \<open>contracts\<close>.
  \<^item> \<open>Astroport_Pooler\<close>: \<open>contracts/astroport-liquid-pooler\<close>. \<open>Osmo_Pooler\<close> and \<open>Osmo_Correct\<close>:
    \<open>contracts/osmo-liquid-pooler\<close>. \<open>Osmo_Outpost\<close>: \<open>contracts/outpost-osmo-liquid-pooler\<close>, which
    runs on the Osmosis chain.
  \<^item> \<open>Deployment\<close>: the address prediction, party and pooler configurations the covenants share,
    and what a deployment does. \<open>Swap_Covenant\<close>, \<open>Two_Party_Covenant\<close>, \<open>Single_Party_Covenant\<close>: the
    three covenant contracts.
  \<^item> \<open>Macros\<close>: \<open>packages/covenant-macros\<close>, which adds the shared variants to the message enums.
  \<^item> \<open>Claims\<close>: the two liquidity holders run together with the Astroport pooler. \<open>Osmo_Claims\<close>: the
    same with the Osmosis pooler, over several transactions.
  \<^item> \<open>Tick_Delivery\<close>: the clock run together with the contracts it ticks, among them
    \<open>contracts/clock-tester\<close>. \<open>Swap_System\<close>: a deployed swap covenant, its holder, splitter and routers
    under arbitrary transactions and deposits.
  \<^item> This theory: what holds of several contracts on different chains together.

  \<^bold>\<open>How the code is modelled.\<close> The storage of a contract is a record of optional items, one per
  \<open>Item\<close> or \<open>Map\<close> of its \<open>state.rs\<close>; messages, queries and errors are datatypes with the constructors
  of \<open>msg.rs\<close> and \<open>error.rs\<close>; each entry point and each function it calls is one definition that
  passes the storage through and returns the response (its messages, with reply id and gas limit)
  and the new storage, or the error. The prefixes are \<open>tp\<close> (two-party holder), \<open>sp\<close>, \<open>sw\<close> (single-party
  and swap holder), \<open>ns\<close>, \<open>nr\<close>, \<open>ir\<close>, \<open>fw\<close>, \<open>rcs\<close>, \<open>ls\<close>, \<open>ap\<close>, \<open>os\<close>, \<open>op\<close> (native splitter, native and
  interchain router, forwarder, remote-chain splitter, staker, Astroport pooler, Osmosis pooler,
  outpost) and \<open>sc\<close>, \<open>tc\<close>, \<open>pc\<close> (swap, two-party and single-party covenant). Integers are words of
  their Rust width; an operator that panics on overflow yields \<open>Panic\<close>, a checked one an error. All
  loops run over finite collections and are structural recursions, so no fuel is needed anywhere
  and every definition is total.

  Code outside the repository is a parameter: \<open>deps\<close> (the address API, the bank and contract
  queries, the ratio arithmetic of \<open>cosmwasm_std\<close>, expirations, the parsing of JSON and protobuf
  texts, the address hash), \<open>astroport\<close> and \<open>osmosis\<close> (queries of the exchanges). What the theorems
  need of them are named predicates that state documented behaviour (\<open>addr_validate_spec\<close>,
  \<open>multiply_ratio_spec\<close>, \<open>query_balance_spec\<close>, \<open>mul_uint128_spec\<close>, \<open>asset_to_coin_spec\<close>,
  \<open>unique_addresses\<close>); the reference platforms \<open>ref_deps\<close>, \<open>ref_astroport\<close>, \<open>ref_osmosis\<close> and \<open>ref_chain\<close>
  satisfy them and run the witnesses.

  \<^bold>\<open>Interfaces.\<close> \<open>ordered_map\<close> (sorted maps), \<open>fifo_queue\<close> (the queue against a plain list),
  \<open>contract_machine\<close>, \<open>contract_phases\<close> and \<open>withdraw_lock\<close> (contracts as state machines),
  \<open>liquidity_holder\<close> (what a holder promises to a withdrawal through its pooler),
  \<open>ica_controller\<close> (what a contract with an interchain account promises to the shared callbacks),
  \<open>tick_receivers\<close> (what a ticked contract may do to the clock) and
  \<open>covenant_registry\<close> (what a deployed covenant keeps) are locales, each interpreted on the model of
  every contract that provides it.

  \<^bold>\<open>What is shown.\<close>

  \<^item> Queue and clock: the queue refines a list, its pages are the whole listing, the clock's
    invariant holds in every history, and ticks go round robin.
  \<^item> Splits and transfers: splitting conserves amounts up to less than one unit per receiver,
    IBC transfers keep the fees they need.
  \<^item> Holders: invariants of every history, who may claim or ragequit and when, that nobody is
    served twice, what every distribution pays and to whom, how a penalty moves shares, that a
    swap is atomic and its outcome final.
  \<^item> Interchain accounts: a forwarder or splitter that believes its account is open knows it, a
    timeout is recovered from, funds go to the next contract, splits are exact.
  \<^item> Poolers: provisions stay within balances, limits, slippage and the accepted price; the
    outpost returns everything it holds; withdrawn coins are brought home and handed to the holder.
  \<^item> Deployment: which covenants come up, with every contract queued once and wired to the right
    neighbours; later migrations reach only the covenant's own contracts.
  \<^item> Messages: what one contract sends is a variant of the message enum of every receiver.
  \<^item> Across contracts (\<open>Claims\<close>, \<open>Osmo_Claims\<close>, \<open>Tick_Delivery\<close>, \<open>Swap_System\<close> and below): what a claim
    through holder and pooler pays, at once on Astroport and over later transactions on Osmosis;
    one round of the clock ticks every contract once, whatever the contracts answer; a running swap
    pays both sides or neither, and goes through when both deposits are there in time;
    payments of a splitter to forwarder accounts; the report of a withdrawal from the outpost to the pooler.

  Some theorems record behaviour that defeats the purpose of the code: an Osmosis pooler makes
  the deployment of a liquidity covenant fail, a pending Osmosis withdrawal is requested at every
  tick, a failed one is retried although the holder was told it failed, a one-sided position cannot be claimed, funds that never entered the pool all go to the
  party that claims first, a queued contract can be whitelisted and is then
  queued twice, a fallback split can block a ragequit.

  \<^bold>\<open>Not modelled.\<close> Log attributes (except the refund attribute of the outpost, which the pooler
  reads), the \<open>cw2\<close> version record, error texts, and the JSON and protobuf encodings: messages and
  callbacks carry the values they encode. Gas is a number in a message. The chains themselves
  (relaying, bank module, interchain-account and Polytone modules) appear only through their
  queries and the callbacks they send, in any order; in \<open>Swap_System\<close> the bank also settles the
  transfers of a transaction. The Rust syntax library is a parameter of \<open>Macros\<close>. Left out as parts
  without contract logic: the schema binaries, the unit and interchain tests, and scripts.
  Helper methods of \<open>single-party-pol-covenant/src/msg.rs\<close> that no contract calls are not repeated.
\<close>

section \<open>Contracts that query each other\<close>

text \<open>
  A forwarder or splitter learns where to send funds by querying the next contract for its
  deposit address. \<open>fw_deposit_reply\<close> is the answer of a forwarder at address \<open>self\<close>, and
  \<open>forwarders_answer\<close> says that the platform routes deposit queries to the forwarders \<open>F\<close>.
\<close>

definition fw_deposit_reply :: "deps \<Rightarrow> block_info \<Rightarrow> addr \<Rightarrow> fw_state \<Rightarrow> (addr option, std_error) result" where
  "fw_deposit_reply d b self st =
     and_then (fw_query d \<lparr>env_block = b, contract_address = self\<rparr> FwQDepositAddress st) (\<lambda>reply.
       case reply of FwRMaybeAddr a \<Rightarrow> Ok a | _ \<Rightarrow> Err (OtherStdErr ''ParseErr''))"

definition forwarders_answer :: "deps \<Rightarrow> block_info \<Rightarrow> (addr \<Rightarrow> fw_state) \<Rightarrow> bool" where
  "forwarders_answer d b F \<longleftrightarrow> (\<forall>x. query_deposit_address d x = fw_deposit_reply d b x (F x))"

lemma fw_deposit_open:
  "fw_deposit_reply d b self st = Ok (Some a) \<longleftrightarrow>
     fw_query d \<lparr>env_block = b, contract_address = self\<rparr> FwQIcaAddress st = Ok (FwRAddr a)"
  by (auto simp: fw_deposit_reply_def fw_query_def get_ica_def fw_ica_helper_def store_defs result_simps split: option.splits)

text \<open>
  Claim C31: a remote-chain splitter whose receivers are forwarders pays their interchain
  accounts. Whenever a tick of the splitter with an open account succeeds, every receiver of the
  split has an open account itself, and the outputs of the multi-send go to exactly these
  accounts, in the order of the split; if one of the forwarders is not ready, nothing is sent.
\<close>

theorem splitter_pays_forwarder_accounts:
  assumes "rcs_inv d (contract_address env) st" and "ica_phase st = Some IcaCreated"
    and "forwarders_answer d (env_block env) F"
  shows "(\<forall>r st'. rcs_execute d env info RcsTick st = Ok (r, st') \<longrightarrow>
      (\<exists>rci sc conn inputs outs t fee. rcs_remote_chain st = Some rci \<and> om_get (rcs_splits st) (rci_denom rci) = Some sc \<and>
        messages r = [SubmitTx conn interchain_account_id [MsgMultiSend inputs outs] [] t fee] \<and>
        list_all2 (\<lambda>p out. fw_query d \<lparr>env_block = env_block env, contract_address = fst p\<rparr> FwQIcaAddress (F (fst p))
          = Ok (FwRAddr (fst out))) (receivers sc) outs)) \<and>
    (\<forall>rci sc p. rcs_remote_chain st = Some rci \<longrightarrow> om_get (rcs_splits st) (rci_denom rci) = Some sc \<longrightarrow>
      p \<in> set (receivers sc) \<longrightarrow> fw_deposit_reply d (env_block env) (fst p) (F (fst p)) = Ok None \<longrightarrow>
      \<not> is_ok (rcs_execute d env info RcsTick st))"
proof -
  have q: "query_deposit_address d x = fw_deposit_reply d (env_block env) x (F x)" for x
    using assms(3) by (simp add: forwarders_answer_def)
  note pays = rcs_tick_addresses [OF assms(1,2), of info, unfolded q]
  have "\<not> is_ok (rcs_execute d env info RcsTick st)"
    if "rcs_remote_chain st = Some rci" "om_get (rcs_splits st) (rci_denom rci) = Some sc" "p \<in> set (receivers sc)"
      "fw_deposit_reply d (env_block env) (fst p) (F (fst p)) = Ok None" for rci sc p
  proof
    assume "is_ok (rcs_execute d env info RcsTick st)"
    then obtain r st' where "rcs_execute d env info RcsTick st = Ok (r, st')" by (auto simp: is_ok_iff)
    from pays [OF this] that show False by (fastforce simp: list_all2_conv_all_nth in_set_conv_nth)
  qed
  with pays show ?thesis unfolding fw_deposit_open by blast
qed

definition ex_forwarder :: "addr \<Rightarrow> fw_state" where
  "ex_forwarder x = ex_fw_state\<lparr>ica_accounts := [(''icacontroller-'' @ x @ ''.valence-ica'', Some (''ica-'' @ x, ''connection-0''))]\<rparr>"

definition ex_network :: deps where
  "ex_network = (ref_deps (\<lambda>_ _. 0))\<lparr>query_deposit_address :=
     (\<lambda>x. fw_deposit_reply (ref_deps (\<lambda>_ _. 0)) (env_block ex_rcs_env) x (ex_forwarder x))\<rparr>"

lemma ex_network_answers: "forwarders_answer ex_network (env_block ex_rcs_env) ex_forwarder"
  by (simp add: forwarders_answer_def ex_network_def fw_deposit_reply_def fw_query_def)

lemma ex_forwarder_deposit:
  "query_deposit_address ex_network x = Ok (Some (''ica-'' @ x))"
  by (simp add: ex_network_def fw_deposit_reply_def fw_query_def ex_forwarder_def om_get_def interchain_account_id_def)

lemma ex_network_ratio: "multiply_ratio_spec ex_network"
  using ref_multiply_ratio_ok [of "\<lambda>_ _. 0"] by (simp add: multiply_ratio_spec_def ex_network_def)

lemma ex_network_tick: "is_ok (rcs_execute ex_network ex_rcs_env ex_rcs_info RcsTick ex_rcs_state)"
proof -
  from split_outputs_exact [OF ex_network_ratio validated_wf [OF thirds_valid(2,1)], of 100 "''uatom''"]
  obtain os tot out outs where "try_fold (split_output ex_network 100 ''uatom'') ([], 0) (receivers thirds) = Ok (os, tot)"
    "add_leftover 100 tot os = Ok (out # outs)" by (auto simp: ex_forwarder_deposit)
  then show ?thesis
    by (simp add: rcs_execute_def rcs_try_tick_def rcs_try_split_funds_def rcs_callback ex_rcs_state_def ex_rcs_env_def
        ex_network_def om_get_def om_entries_def interchain_account_id_def Let_def)
qed

theorem splitter_pays_forwarder_accounts_witness:
  "\<exists>r st' conn inputs outs t fee. rcs_execute ex_network ex_rcs_env ex_rcs_info RcsTick ex_rcs_state = Ok (r, st') \<and>
     messages r = [SubmitTx conn interchain_account_id [MsgMultiSend inputs outs] [] t fee] \<and> length outs = 3"
proof -
  have "rcs_inv ex_network (contract_address ex_rcs_env) ex_rcs_state"
    by (simp add: rcs_inv_def store_known_def own_port_def ex_rcs_state_def ex_rcs_env_def ex_network_def split_map_wf_def
        interchain_account_id_def om_get_def om_wf_def validated_wf [OF thirds_valid(2,1)])
  moreover have "ica_phase ex_rcs_state = Some IcaCreated" by (simp add: ex_rcs_state_def)
  ultimately show ?thesis
    using ex_network_tick splitter_pays_forwarder_accounts [of ex_network ex_rcs_env ex_rcs_state ex_forwarder ex_rcs_info] ex_network_answers
    by (fastforce simp: is_ok_iff ex_rcs_state_def om_get_def thirds_def dest: list_all2_lengthD)
qed

section \<open>A withdrawal across two chains\<close>


definition ex_refund :: "coin list" where
  "ex_refund = [\<lparr>coin_denom = ''osmo-a'', coin_amount = 7\<rparr>]"

definition ex_json_deps :: deps where
  "ex_json_deps = (ref_deps (\<lambda>_ _. 0))\<lparr>parse_coins := (\<lambda>s. if s = ''json'' then Some ex_refund else None)\<rparr>"


end
